(* ===== verification/GoLib.thy ===== *)
theory GoLib
  imports Main "HOL-Library.Char_ord" "HOL-Library.List_Lexorder"
begin

text \<open>
  The prelude: the part of Go and of its standard library that the modelled packages use.
  A Go string is a \<open>string\<close> (a list of bytes); \<open>strings.TrimSpace\<close> and
  \<open>strings.Fields\<close> recognise the UTF-8 encodings of all Unicode white space;
  \<open>strings.ToLower\<close> is exact on ASCII input (other bytes are left alone).  A Go
  \<open>int\<close> or \<open>int64\<close> is an \<open>int\<close> unless a theory says otherwise, a \<open>time.Duration\<close> or
  \<open>time.Time\<close> an \<open>int\<close> of nanoseconds.  The collections \<open>go_simps\<close> and \<open>model_defs\<close>
  gather what the component proofs share.
\<close>

named_theorems go_simps \<open>facts about the Go library functions that component proofs use\<close>
named_theorems model_defs \<open>definitions a component unfolds together\<close>

section \<open>Prefixes, suffixes, substrings\<close>

definition has_prefix :: "string \<Rightarrow> string \<Rightarrow> bool" where
  "has_prefix s p \<longleftrightarrow> take (length p) s = p"

definition has_suffix :: "string \<Rightarrow> string \<Rightarrow> bool" where
  "has_suffix s p \<longleftrightarrow> has_prefix (rev s) (rev p)"

definition trim_prefix :: "string \<Rightarrow> string \<Rightarrow> string" where
  "trim_prefix s p = (if has_prefix s p then drop (length p) s else s)"

definition trim_suffix :: "string \<Rightarrow> string \<Rightarrow> string" where
  "trim_suffix s p = (if has_suffix s p then take (length s - length p) s else s)"

fun contains_str :: "string \<Rightarrow> string \<Rightarrow> bool" where
  "contains_str [] t = (t = [])"
| "contains_str (c # s) t = (has_prefix (c # s) t \<or> contains_str s t)"

lemma has_prefix_append [simp]: "has_prefix (p @ s) p"
  by (simp add: has_prefix_def)

lemma has_prefix_Nil [simp]: "has_prefix s []"
  by (simp add: has_prefix_def)

lemma has_prefix_iff: "has_prefix s p \<longleftrightarrow> (\<exists>t. s = p @ t)"
  unfolding has_prefix_def by (metis append_eq_conv_conj append_take_drop_id)

lemma has_prefix_Cons_Cons [simp]: "has_prefix (c # s) (d # p) \<longleftrightarrow> c = d \<and> has_prefix s p"
  by (auto simp: has_prefix_def)

lemma has_prefix_Nil_Cons [simp]: "\<not> has_prefix [] (d # p)"
  by (simp add: has_prefix_def)

lemma has_prefix_code [code]:
  "has_prefix s [] = True"
  "has_prefix [] (d # p) = False"
  "has_prefix (c # s) (d # p) = (c = d \<and> has_prefix s p)"
  by simp_all

lemma trim_prefix_append [simp]: "trim_prefix (p @ s) p = s"
  by (simp add: trim_prefix_def)

lemma has_suffix_append [simp]: "has_suffix (s @ p) p"
  by (simp add: has_suffix_def)

lemma has_suffix_single: "s \<noteq> [] \<Longrightarrow> has_suffix s [c] \<longleftrightarrow> last s = c"
  by (cases s rule: rev_cases) (auto simp: has_suffix_def)

lemma contains_str_iff: "contains_str s t \<longleftrightarrow> (\<exists>a b. s = a @ t @ b)"
proof (induction s)
  case Nil
  then show ?case by auto
next
  case (Cons c s)
  show ?case
  proof
    assume "contains_str (c # s) t"
    then consider "has_prefix (c # s) t" | "contains_str s t" by auto
    then show "\<exists>a b. c # s = a @ t @ b"
    proof cases
      case 1
      then show ?thesis by (auto simp: has_prefix_iff intro: exI [of _ "[]"])
    next
      case 2
      with Cons.IH obtain a b where "s = a @ t @ b" by blast
      then have "c # s = (c # a) @ t @ b" by simp
      then show ?thesis by blast
    qed
  next
    assume "\<exists>a b. c # s = a @ t @ b"
    then obtain a b where *: "c # s = a @ t @ b" by blast
    show "contains_str (c # s) t"
    proof (cases a)
      case Nil
      with * show ?thesis by (metis append_Nil contains_str.simps(2) has_prefix_append)
    next
      case (Cons d a')
      with * have "s = a' @ t @ b" by simp
      with Cons.IH show ?thesis by auto
    qed
  qed
qed

section \<open>Splitting and joining\<close>

text \<open>\<open>strings.Split\<close> with a one-byte separator: never empty.\<close>

fun split_on :: "char \<Rightarrow> string \<Rightarrow> string list" where
  "split_on c [] = [[]]"
| "split_on c (x # xs) =
     (if x = c then [] # split_on c xs
      else case split_on c xs of [] \<Rightarrow> [[x]] | w # ws \<Rightarrow> (x # w) # ws)"

fun join :: "string \<Rightarrow> string list \<Rightarrow> string" where
  "join sep [] = []"
| "join sep [w] = w"
| "join sep (w # ws) = w @ sep @ join sep ws"

lemma split_on_nonempty [simp]: "split_on c s \<noteq> []"
  by (induction s) (auto split: list.splits)

lemma join_split_on [simp, go_simps]: "join [c] (split_on c s) = s"
proof (induction s)
  case Nil
  then show ?case by simp
next
  case (Cons x s)
  obtain w ws where w: "split_on c s = w # ws" by (cases "split_on c s") auto
  with Cons show ?case by (cases ws) auto
qed

lemma split_on_no_sep: "c \<notin> set w \<Longrightarrow> split_on c w = [w]"
  by (induction w) auto

lemma split_on_append_sep: "c \<notin> set w \<Longrightarrow> split_on c (w @ c # s) = w # split_on c s"
  by (induction w) auto

lemma split_on_no_member: "w \<in> set (split_on c s) \<Longrightarrow> c \<notin> set w"
proof (induction s arbitrary: w)
  case Nil
  then show ?case by simp
next
  case (Cons x s)
  obtain v vs where v: "split_on c s = v # vs" by (cases "split_on c s") auto
  from Cons.IH have "\<And>u. u \<in> set (v # vs) \<Longrightarrow> c \<notin> set u" by (simp add: v)
  with Cons.prems v show ?case by (auto split: if_splits)
qed

lemma split_on_join:
  "ws \<noteq> [] \<Longrightarrow> (\<And>w. w \<in> set ws \<Longrightarrow> c \<notin> set w) \<Longrightarrow> split_on c (join [c] ws) = ws"
proof (induction ws rule: induct_list012)
  case (3 w v ws)
  then show ?case by (simp add: split_on_append_sep)
qed (auto simp: split_on_no_sep)

text \<open>\<open>strings.FieldsFunc\<close>: the maximal runs of bytes on which \<open>p\<close> is false.\<close>

fun fields_func :: "(char \<Rightarrow> bool) \<Rightarrow> string \<Rightarrow> string \<Rightarrow> string list" where
  "fields_func p cur [] = (if cur = [] then [] else [rev cur])"
| "fields_func p cur (c # cs) =
     (if p c then (if cur = [] then [] else [rev cur]) @ fields_func p [] cs
      else fields_func p (c # cur) cs)"

section \<open>White space\<close>

text \<open>
  The length of the white space rune at the head of a byte string, 0 when there is none:
  \<open>unicode.IsSpace\<close> on the decoded rune.
\<close>

definition ascii_space :: "char \<Rightarrow> bool" where
  "ascii_space c \<longleftrightarrow> c \<in> {CHR '' '', CHR 0x09, CHR 0x0A, CHR 0x0B, CHR 0x0C, CHR 0x0D}"

definition space2 :: "char \<Rightarrow> char \<Rightarrow> bool" where
  "space2 a b \<longleftrightarrow> a = CHR 0xC2 \<and> b \<in> {CHR 0x85, CHR 0xA0}"

definition space3 :: "char \<Rightarrow> char \<Rightarrow> char \<Rightarrow> bool" where
  "space3 a b c \<longleftrightarrow>
     (a = CHR 0xE1 \<and> b = CHR 0x9A \<and> c = CHR 0x80)
   \<or> (a = CHR 0xE2 \<and> b = CHR 0x80 \<and>
        c \<in> {CHR 0x80, CHR 0x81, CHR 0x82, CHR 0x83, CHR 0x84, CHR 0x85, CHR 0x86, CHR 0x87,
             CHR 0x88, CHR 0x89, CHR 0x8A, CHR 0xA8, CHR 0xA9, CHR 0xAF})
   \<or> (a = CHR 0xE2 \<and> b = CHR 0x81 \<and> c = CHR 0x9F)
   \<or> (a = CHR 0xE3 \<and> b = CHR 0x80 \<and> c = CHR 0x80)"

fun space_len :: "string \<Rightarrow> nat" where
  "space_len (a # b # c # s) =
     (if ascii_space a then 1 else if space2 a b then 2 else if space3 a b c then 3 else 0)"
| "space_len [a, b] = (if ascii_space a then 1 else if space2 a b then 2 else 0)"
| "space_len [a] = (if ascii_space a then 1 else 0)"
| "space_len [] = 0"

text \<open>The same on a reversed byte string: the length of the last rune when it is white space.\<close>

fun space_len_rev :: "string \<Rightarrow> nat" where
  "space_len_rev (c # b # a # s) =
     (if ascii_space c then 1 else if space2 b c then 2 else if space3 a b c then 3 else 0)"
| "space_len_rev [c, b] = (if ascii_space c then 1 else if space2 b c then 2 else 0)"
| "space_len_rev [c] = (if ascii_space c then 1 else 0)"
| "space_len_rev [] = 0"

function ltrim :: "string \<Rightarrow> string" where
  "ltrim s = (if s = [] \<or> space_len s = 0 then s else ltrim (drop (space_len s) s))"
  by pat_completeness auto
termination by (relation "measure length") auto

function rtrim_rev :: "string \<Rightarrow> string" where
  "rtrim_rev s = (if s = [] \<or> space_len_rev s = 0 then s else rtrim_rev (drop (space_len_rev s) s))"
  by pat_completeness auto
termination by (relation "measure length") auto

declare ltrim.simps [simp del] rtrim_rev.simps [simp del]

definition trim_space :: "string \<Rightarrow> string" where
  "trim_space s = rev (rtrim_rev (rev (ltrim s)))"

function fields_acc :: "string \<Rightarrow> string \<Rightarrow> string list" where
  "fields_acc cur s =
     (if s = [] then (if cur = [] then [] else [rev cur])
      else if space_len s = 0 then fields_acc (hd s # cur) (tl s)
      else (if cur = [] then [] else [rev cur]) @ fields_acc [] (drop (space_len s) s))"
  by pat_completeness auto
termination by (relation "measure (\<lambda>(cur, s). length s)") auto

declare fields_acc.simps [simp del]

definition str_fields :: "string \<Rightarrow> string list" where
  "str_fields s = fields_acc [] s"

lemma ltrim_suffix: "\<exists>a. s = a @ ltrim s"
proof (induction s rule: ltrim.induct)
  case (1 s)
  show ?case
  proof (cases "s = [] \<or> space_len s = 0")
    case True
    then show ?thesis by (simp add: ltrim.simps [of s])
  next
    case False
    with 1 obtain a where "drop (space_len s) s = a @ ltrim (drop (space_len s) s)" by blast
    then have "s = (take (space_len s) s @ a) @ ltrim (drop (space_len s) s)"
      by (metis append.assoc append_take_drop_id)
    with False show ?thesis by (metis ltrim.simps)
  qed
qed

lemma rtrim_rev_suffix: "\<exists>a. s = a @ rtrim_rev s"
proof (induction s rule: rtrim_rev.induct)
  case (1 s)
  show ?case
  proof (cases "s = [] \<or> space_len_rev s = 0")
    case True
    then show ?thesis by (simp add: rtrim_rev.simps [of s])
  next
    case False
    with 1 obtain a where "drop (space_len_rev s) s = a @ rtrim_rev (drop (space_len_rev s) s)"
      by blast
    then have "s = (take (space_len_rev s) s @ a) @ rtrim_rev (drop (space_len_rev s) s)"
      by (metis append.assoc append_take_drop_id)
    with False show ?thesis by (metis rtrim_rev.simps)
  qed
qed

lemma trim_space_infix: "\<exists>a b. s = a @ trim_space s @ b"
proof -
  obtain a where a: "s = a @ ltrim s" using ltrim_suffix by blast
  obtain b where "rev (ltrim s) = b @ rtrim_rev (rev (ltrim s))" using rtrim_rev_suffix by blast
  then have "ltrim s = trim_space s @ rev b"
    unfolding trim_space_def by (metis rev_append rev_rev_ident)
  with a show ?thesis by metis
qed

lemma length_trim_space: "length (trim_space s) \<le> length s"
proof -
  obtain a b where "s = a @ trim_space s @ b" using trim_space_infix by blast
  then have "length s = length (a @ trim_space s @ b)" by (rule arg_cong)
  then show ?thesis by simp
qed

lemma set_trim_space: "set (trim_space s) \<subseteq> set s"
proof -
  obtain a b where "s = a @ trim_space s @ b" using trim_space_infix by blast
  then have "set s = set (a @ trim_space s @ b)" by (rule arg_cong)
  then show ?thesis by auto
qed

lemma trim_space_Nil [simp]: "trim_space [] = []"
  by (simp add: trim_space_def ltrim.simps rtrim_rev.simps)

text \<open>A visible ASCII byte is no part of white space; text between two of them is not trimmed.\<close>

definition visible :: "char \<Rightarrow> bool" where
  "visible c \<longleftrightarrow> 33 \<le> (of_char c :: nat) \<and> (of_char c :: nat) \<le> 126"

lemma visible_not_space:
  assumes "visible c"
  shows "\<not> ascii_space c" "\<not> space2 c b" "\<not> space2 b c" "\<not> space3 c a b" "\<not> space3 a b c"
proof -
  have n: "c \<noteq> d" if "(of_char d :: nat) < 33 \<or> 126 < (of_char d :: nat)" for d
    using assms that by (auto simp: visible_def)
  show "\<not> ascii_space c" unfolding ascii_space_def by (simp add: n)
  show "\<not> space2 c b" "\<not> space2 b c" unfolding space2_def by (simp_all add: n)
  show "\<not> space3 c a b" "\<not> space3 a b c" unfolding space3_def by (simp_all add: n)
qed

lemma space_len_visible: "visible c \<Longrightarrow> space_len (c # s) = 0"
  by (cases s; cases "tl s") (auto simp: visible_not_space)

lemma space_len_rev_visible: "visible c \<Longrightarrow> space_len_rev (c # s) = 0"
  by (cases s; cases "tl s") (auto simp: visible_not_space)

lemma ltrim_visible: "visible c \<Longrightarrow> ltrim (c # s) = c # s"
  by (simp add: ltrim.simps [of "c # s"] space_len_visible)

lemma trim_space_visible: "s \<noteq> [] \<Longrightarrow> visible (hd s) \<Longrightarrow> visible (last s) \<Longrightarrow> trim_space s = s"
proof -
  assume s: "s \<noteq> []" "visible (hd s)" "visible (last s)"
  then have "ltrim s = s" by (cases s) (simp_all add: ltrim_visible)
  moreover obtain t where t: "rev s = last s # t"
    using s(1) by (cases s rule: rev_cases) auto
  have "rtrim_rev (last s # t) = last s # t"
    using s(3) by (simp add: rtrim_rev.simps [of "last s # t"] space_len_rev_visible)
  then have "rtrim_rev (rev s) = rev s" unfolding t .
  ultimately show ?thesis by (simp add: trim_space_def)
qed

lemma trim_space_blank: "visible (hd s) \<Longrightarrow> s \<noteq> [] \<Longrightarrow> trim_space (CHR '' '' # s) = trim_space s"
proof -
  assume s: "visible (hd s)" "s \<noteq> []"
  have "space_len (CHR '' '' # s) = 1"
    by (cases s; cases "tl s") (auto simp: ascii_space_def)
  then have "ltrim (CHR '' '' # s) = ltrim s"
    by (subst ltrim.simps) simp
  then show ?thesis by (simp add: trim_space_def)
qed

section \<open>Case, counting, replacing\<close>

definition to_lower_char :: "char \<Rightarrow> char" where
  "to_lower_char c =
     (if 65 \<le> (of_char c :: nat) \<and> (of_char c :: nat) \<le> 90 then char_of ((of_char c :: nat) + 32) else c)"

definition to_upper_char :: "char \<Rightarrow> char" where
  "to_upper_char c =
     (if 97 \<le> (of_char c :: nat) \<and> (of_char c :: nat) \<le> 122 then char_of ((of_char c :: nat) - 32) else c)"

definition to_lower :: "string \<Rightarrow> string" where
  "to_lower s = map to_lower_char s"

definition to_upper :: "string \<Rightarrow> string" where
  "to_upper s = map to_upper_char s"

lemma to_lower_char_idem [simp]: "to_lower_char (to_lower_char c) = to_lower_char c"
  by (auto simp: to_lower_char_def)

lemma to_lower_idem [simp]: "to_lower (to_lower s) = to_lower s"
  by (simp add: to_lower_def)

text \<open>\<open>strings.Replace(s, old, new, 1)\<close> for a non-empty \<open>old\<close>.\<close>

fun replace_first :: "string \<Rightarrow> string \<Rightarrow> string \<Rightarrow> string" where
  "replace_first old new [] = []"
| "replace_first old new (c # s) =
     (if has_prefix (c # s) old then new @ drop (length old) (c # s)
      else c # replace_first old new s)"

text \<open>\<open>strings.ReplaceAll\<close> of one byte by a string.\<close>

definition replace_char :: "char \<Rightarrow> string \<Rightarrow> string \<Rightarrow> string" where
  "replace_char c new s = concat (map (\<lambda>x. if x = c then new else [x]) s)"

text \<open>\<open>strings.Count\<close>: non-overlapping occurrences of a non-empty substring.\<close>

function count_str :: "string \<Rightarrow> string \<Rightarrow> nat" where
  "count_str s t =
     (if s = [] \<or> t = [] then 0
      else if has_prefix s t then Suc (count_str (drop (length t) s) t)
      else count_str (tl s) t)"
  by pat_completeness auto
termination by (relation "measure (\<lambda>(s, t). length s)") auto

declare count_str.simps [simp del]

fun index_char :: "char \<Rightarrow> string \<Rightarrow> nat option" where
  "index_char c [] = None"
| "index_char c (x # xs) = (if x = c then Some 0 else map_option Suc (index_char c xs))"

text \<open>The part of a string after the last occurrence of a byte (all of it when there is none).\<close>

definition after_last :: "char \<Rightarrow> string \<Rightarrow> string" where
  "after_last c s = rev (takeWhile (\<lambda>x. x \<noteq> c) (rev s))"

text \<open>\<open>strings.TrimRight\<close> and \<open>strings.TrimLeft\<close> with a one-byte cutset.\<close>

definition trim_right_char :: "char \<Rightarrow> string \<Rightarrow> string" where
  "trim_right_char c s = rev (dropWhile (\<lambda>x. x = c) (rev s))"

definition trim_left_char :: "char \<Rightarrow> string \<Rightarrow> string" where
  "trim_left_char c s = dropWhile (\<lambda>x. x = c) s"

definition trim_char :: "char \<Rightarrow> string \<Rightarrow> string" where
  "trim_char c s = trim_right_char c (trim_left_char c s)"

text \<open>\<open>strings.Cut(s, sep)\<close>: the parts around the first occurrence, and whether there is one.\<close>

fun cut_str :: "string \<Rightarrow> string \<Rightarrow> string \<times> string \<times> bool" where
  "cut_str [] sep = ([], [], sep = [])"
| "cut_str (c # s) sep =
     (if has_prefix (c # s) sep then ([], drop (length sep) (c # s), True)
      else case cut_str s sep of (a, b, f) \<Rightarrow> (c # a, b, f))"

section \<open>Decimal numerals\<close>

definition digit_char :: "nat \<Rightarrow> char" where
  "digit_char d = char_of (48 + d)"

fun show_nat :: "nat \<Rightarrow> string" where
  "show_nat n = (if n < 10 then [digit_char n] else show_nat (n div 10) @ [digit_char (n mod 10)])"

declare show_nat.simps [simp del]

definition show_int :: "int \<Rightarrow> string" where
  "show_int i = (if i < 0 then CHR ''-'' # show_nat (nat (- i)) else show_nat (nat i))"

definition is_digit :: "char \<Rightarrow> bool" where
  "is_digit c \<longleftrightarrow> 48 \<le> (of_char c :: nat) \<and> (of_char c :: nat) \<le> 57"

definition digit_val :: "char \<Rightarrow> nat" where
  "digit_val c = of_char c - 48"

text \<open>\<open>strconv.ParseUint(s, 10, 64)\<close>: digits only, refused when the value needs more than 64 bits.\<close>

definition dec_val :: "string \<Rightarrow> nat" where
  "dec_val s = foldl (\<lambda>a c. 10 * a + digit_val c) 0 s"

definition parse_uint64 :: "string \<Rightarrow> nat option" where
  "parse_uint64 s =
     (if s \<noteq> [] \<and> list_all is_digit s \<and> dec_val s < 2 ^ 64 then Some (dec_val s) else None)"

lemma digit_char_props:
  "d < 10 \<Longrightarrow> is_digit (digit_char d) \<and> digit_val (digit_char d) = d"
  by (simp add: is_digit_def digit_val_def digit_char_def)

lemma show_nat_nonempty [simp]: "show_nat n \<noteq> []"
  by (subst show_nat.simps) simp

lemma show_nat_digits: "list_all is_digit (show_nat n)"
proof (induction n rule: show_nat.induct)
  case (1 n)
  then show ?case by (subst show_nat.simps) (auto simp: digit_char_props)
qed

lemma dec_val_show_nat [simp, go_simps]: "dec_val (show_nat n) = n"
proof (induction n rule: show_nat.induct)
  case (1 n)
  show ?case
  proof (cases "n < 10")
    case True
    then show ?thesis by (subst show_nat.simps) (simp add: dec_val_def digit_char_props)
  next
    case False
    with 1 have "dec_val (show_nat (n div 10)) = n div 10" by simp
    with False show ?thesis
      by (subst show_nat.simps) (simp add: dec_val_def digit_char_props)
  qed
qed

lemma show_nat_inj [simp]: "show_nat m = show_nat n \<longleftrightarrow> m = n"
  by (metis dec_val_show_nat)

lemma parse_uint64_show_nat: "n < 2 ^ 64 \<Longrightarrow> parse_uint64 (show_nat n) = Some n"
  by (simp add: parse_uint64_def show_nat_digits)

text \<open>\<open>strconv.Atoi\<close>: an optional sign, digits, and a value of 64 bits.\<close>

definition atoi :: "string \<Rightarrow> int option" where
  "atoi s =
     (let ds = (if s \<noteq> [] \<and> (hd s = CHR ''+'' \<or> hd s = CHR ''-'') then tl s else s);
          v = (if has_prefix s ''-'' then - int (dec_val ds) else int (dec_val ds))
      in if ds \<noteq> [] \<and> list_all is_digit ds \<and> - (2 ^ 63) \<le> v \<and> v < 2 ^ 63 then Some v else None)"

lemma atoi_show_nat: "n < 2 ^ 63 \<Longrightarrow> atoi (show_nat n) = Some (int n)"
proof -
  assume n: "n < 2 ^ 63"
  have "is_digit (hd (show_nat n))" using show_nat_digits [of n] by (cases "show_nat n") auto
  then have "hd (show_nat n) \<noteq> CHR ''+''" "hd (show_nat n) \<noteq> CHR ''-''" by (auto simp: is_digit_def)
  moreover from this have "\<not> has_prefix (show_nat n) ''-''" by (cases "show_nat n") auto
  ultimately show ?thesis using n show_nat_digits [of n] by (simp add: atoi_def)
qed

section \<open>Lines\<close>

text \<open>
  \<open>bufio.Scanner\<close> over lines: a final empty line is not one, a carriage return before the line
  feed is dropped, and a line of at least \<open>cap\<close> bytes stops the scan (the boolean).
\<close>

definition raw_lines :: "string \<Rightarrow> string list" where
  "raw_lines s = (let ls = split_on CHR 0x0A s in if last ls = [] then butlast ls else ls)"

definition scan_lines :: "nat \<Rightarrow> string \<Rightarrow> string list \<times> bool" where
  "scan_lines cap s =
     (let ls = raw_lines s; short = takeWhile (\<lambda>l. length l < cap) ls
      in (map (\<lambda>l. trim_suffix l [CHR 0x0D]) short, length short < length ls))"

section \<open>First match in a slice\<close>

text \<open>The shape of Go's \<open>for\<close>/\<open>range\<close> searches with an early return is the library's \<open>find\<close>.\<close>

lemma find_None_iff_filter: "find P xs = None \<longleftrightarrow> filter P xs = []"
  by (auto simp: find_None_iff filter_empty_conv)

lemma find_SomeE:
  assumes "find P xs = Some x"
  obtains ys zs where "xs = ys @ x # zs" "P x" "\<forall>y \<in> set ys. \<not> P y"
proof -
  from assms have "\<exists>ys zs. xs = ys @ x # zs \<and> P x \<and> (\<forall>y \<in> set ys. \<not> P y)"
  proof (induction xs)
    case (Cons a xs)
    show ?case
    proof (cases "P a")
      case True
      with Cons.prems have "a # xs = [] @ x # xs \<and> P x \<and> (\<forall>y \<in> set []. \<not> P y)" by simp
      then show ?thesis by blast
    next
      case False
      with Cons obtain ys zs where "xs = ys @ x # zs \<and> P x \<and> (\<forall>y \<in> set ys. \<not> P y)" by auto
      with False have "a # xs = (a # ys) @ x # zs \<and> P x \<and> (\<forall>y \<in> set (a # ys). \<not> P y)"
        by simp
      then show ?thesis by blast
    qed
  qed simp
  with that show thesis by blast
qed

lemma find_Some_mem: "find P xs = Some x \<Longrightarrow> x \<in> set xs \<and> P x"
  by (auto elim: find_SomeE)

end
