(* ===== verification/Memory.thy ===== *)
theory Memory
  imports GoLib
begin

text \<open>
  The working-memory store, \<open>internal/memory/store.go\<close>: machine-written facts and snippets,
  deduplicated by kind and key, bounded per kind with the oldest entries evicted first, and
  saved to a JSON file after every change.  The file is modelled by the entries that
  \<open>json.Unmarshal\<close> leaves in the slice when the file is read.  \<open>sort.Slice\<close> on sequence
  numbers is a stable sort here; the two agree as long as the numbers are distinct, which the
  store keeps.
\<close>

section \<open>The store\<close>

type_synonym kind = string

abbreviation Fact :: kind where "Fact \<equiv> ''fact''"
abbreviation Snippet :: kind where "Snippet \<equiv> ''snippet''"

definition default_max_facts :: int where "default_max_facts = 50"
definition default_max_snippets :: int where "default_max_snippets = 35"

record mentry =
  me_kind :: kind
  me_key :: string
  me_text :: string
  me_seq :: int

record mstore =
  ms_path :: string
  ms_max_fact :: int
  ms_max_snip :: int
  ms_seq :: int
  ms_entries :: "mentry list"

text \<open>The files a store is kept in, by path; \<open>md_can_write\<close> tells where the host lets it write.\<close>

record mdisk =
  md_docs :: "string \<rightharpoonup> mentry list"
  md_can_write :: "string \<Rightarrow> bool"

definition max_seq :: "mentry list \<Rightarrow> int" where
  "max_seq es = fold (\<lambda>e m. if me_seq e > m then me_seq e else m) es 0"

definition mem_open :: "mdisk \<Rightarrow> string \<Rightarrow> int \<Rightarrow> int \<Rightarrow> mstore" where
  "mem_open d path max_fact max_snip =
     (let mf = (if max_fact \<le> 0 then default_max_facts else max_fact);
          mn = (if max_snip \<le> 0 then default_max_snippets else max_snip);
          es = (case md_docs d path of Some es \<Rightarrow> es | None \<Rightarrow> [])
      in \<lparr>ms_path = path, ms_max_fact = mf, ms_max_snip = mn, ms_seq = max_seq es, ms_entries = es\<rparr>)"

definition cap_for :: "mstore \<Rightarrow> kind \<Rightarrow> int" where
  "cap_for s k = (if k = Snippet then ms_max_snip s else ms_max_fact s)"

text \<open>The positions of the entries of a kind, and the positions eviction drops.\<close>

definition kind_idx :: "kind \<Rightarrow> mentry list \<Rightarrow> nat list" where
  "kind_idx k es = filter (\<lambda>i. me_kind (es ! i) = k) [0..<length es]"

definition gc :: "mstore \<Rightarrow> kind \<Rightarrow> mstore" where
  "gc s k =
     (let es = ms_entries s; idx = kind_idx k es; over = int (length idx) - cap_for s k
      in if over > 0 then
           let drop_idx = take (nat over) (sort_key (\<lambda>i. me_seq (es ! i)) idx);
               kept = map (\<lambda>i. es ! i) (filter (\<lambda>i. i \<notin> set drop_idx) [0..<length es])
           in s\<lparr>ms_entries := kept\<rparr>
         else s)"

definition save :: "mdisk \<Rightarrow> mstore \<Rightarrow> bool \<times> mdisk" where
  "save d s =
     (if md_can_write d (ms_path s)
      then (True, d\<lparr>md_docs := (md_docs d)(ms_path s \<mapsto> ms_entries s)\<rparr>)
      else (False, d))"

definition gc_and_save :: "mdisk \<Rightarrow> mstore \<Rightarrow> kind \<Rightarrow> bool \<times> mstore \<times> mdisk" where
  "gc_and_save d s k =
     (let s' = gc s k in case save d s' of (ok, d') \<Rightarrow> (ok, s', d'))"

text \<open>The in-place update of \<open>Emit\<close>: the first entry of the kind and key takes the new text.\<close>

fun upsert :: "kind \<Rightarrow> string \<Rightarrow> string \<Rightarrow> int \<Rightarrow> mentry list \<Rightarrow> mentry list" where
  "upsert k key txt n [] = [\<lparr>me_kind = k, me_key = key, me_text = txt, me_seq = n\<rparr>]"
| "upsert k key txt n (e # es) =
     (if me_kind e = k \<and> me_key e = key then e\<lparr>me_text := txt, me_seq := n\<rparr> # es
      else e # upsert k key txt n es)"

definition put :: "mstore \<Rightarrow> kind \<Rightarrow> string \<Rightarrow> string \<Rightarrow> mstore" where
  "put s k key txt =
     s\<lparr>ms_seq := ms_seq s + 1, ms_entries := upsert k key txt (ms_seq s + 1) (ms_entries s)\<rparr>"

definition emit :: "mdisk \<Rightarrow> mstore \<Rightarrow> kind \<Rightarrow> string \<Rightarrow> string \<Rightarrow> bool \<times> mstore \<times> mdisk" where
  "emit d s k key txt = gc_and_save d (put s k key txt) k"

definition mem_query :: "mstore \<Rightarrow> string \<Rightarrow> mentry list" where
  "mem_query s sub =
     (let q = to_lower sub
      in filter (\<lambda>e. contains_str (to_lower (me_key e)) q \<or> contains_str (to_lower (me_text e)) q)
           (ms_entries s))"

definition mem_all :: "mstore \<Rightarrow> mentry list" where
  "mem_all s = ms_entries s"

definition mem_line :: "mentry \<Rightarrow> string" where
  "mem_line e = ''- ['' @ me_kind e @ ''] '' @ me_key e @ '': '' @ me_text e @ ''\<newline>''"

definition mem_render :: "mstore \<Rightarrow> string" where
  "mem_render s =
     (if ms_entries s = [] then []
      else ''# Working memory (machine-written; facts + snippets)\<newline>\<newline>''
           @ concat (map mem_line (ms_entries s)))"

section \<open>The invariant\<close>

definition of_kind :: "kind \<Rightarrow> mentry list \<Rightarrow> mentry list" where
  "of_kind k es = filter (\<lambda>e. me_kind e = k) es"

definition mem_wf :: "mstore \<Rightarrow> bool" where
  "mem_wf s \<longleftrightarrow>
     distinct (map (\<lambda>e. (me_kind e, me_key e)) (ms_entries s)) \<and>
     distinct (map me_seq (ms_entries s)) \<and>
     (\<forall>e \<in> set (ms_entries s). me_seq e \<le> ms_seq s) \<and>
     0 < ms_max_fact s \<and> 0 < ms_max_snip s"

definition mem_capped :: "mstore \<Rightarrow> bool" where
  "mem_capped s \<longleftrightarrow> (\<forall>k. int (length (of_kind k (ms_entries s))) \<le> cap_for s k)"

section \<open>Eviction\<close>

lemma upt_filter_nths: "map (\<lambda>i. es ! i) (filter (\<lambda>i. i \<in> A) [0..<length es]) = nths es A"
proof (induction es rule: rev_induct)
  case Nil
  then show ?case by simp
next
  case (snoc e es)
  have "map (\<lambda>i. (es @ [e]) ! i) (filter (\<lambda>i. i \<in> A) [0..<length es])
      = map (\<lambda>i. es ! i) (filter (\<lambda>i. i \<in> A) [0..<length es])"
    by (rule map_cong) (auto simp: nth_append)
  with snoc show ?case by (simp add: nths_append nths_singleton)
qed

lemma of_kind_idx: "of_kind k es = map (\<lambda>i. es ! i) (kind_idx k es)"
proof -
  have "of_kind k es = filter (\<lambda>e. me_kind e = k) (map (\<lambda>i. es ! i) [0..<length es])"
    by (simp add: of_kind_def map_nth)
  also have "\<dots> = map (\<lambda>i. es ! i) (kind_idx k es)"
    by (simp add: filter_map kind_idx_def comp_def)
  finally show ?thesis .
qed

lemma length_kind_idx: "length (kind_idx k es) = length (of_kind k es)"
  by (simp add: of_kind_idx)

lemma distinct_kind_idx [simp]: "distinct (kind_idx k es)"
  by (simp add: kind_idx_def)

lemma set_kind_idx: "set (kind_idx k es) = {i. i < length es \<and> me_kind (es ! i) = k}"
  by (auto simp: kind_idx_def)

text \<open>The positions dropped for a kind, and the store after eviction, in closed form.\<close>

definition dropped :: "mstore \<Rightarrow> kind \<Rightarrow> nat list" where
  "dropped s k =
     take (nat (int (length (kind_idx k (ms_entries s))) - cap_for s k))
       (sort_key (\<lambda>i. me_seq (ms_entries s ! i)) (kind_idx k (ms_entries s)))"

lemma set_dropped: "set (dropped s k) \<subseteq> set (kind_idx k (ms_entries s))"
  unfolding dropped_def by (metis set_sort set_take_subset)

lemma gc_entries: "gc s k = s\<lparr>ms_entries := nths (ms_entries s) (- set (dropped s k))\<rparr>"
proof (cases "int (length (kind_idx k (ms_entries s))) - cap_for s k > 0")
  case True
  then show ?thesis
    using upt_filter_nths [of "ms_entries s" "- set (dropped s k)"]
    by (simp add: gc_def Let_def dropped_def)
next
  case False
  then have "dropped s k = []" by (simp add: dropped_def)
  moreover have "nths (ms_entries s) UNIV = ms_entries s" by (simp add: nths_all)
  ultimately show ?thesis using False by (simp add: gc_def Let_def)
qed

lemma gc_fields [simp]:
  "ms_path (gc s k) = ms_path s" "ms_max_fact (gc s k) = ms_max_fact s"
  "ms_max_snip (gc s k) = ms_max_snip s" "ms_seq (gc s k) = ms_seq s"
  "cap_for (gc s k) k' = cap_for s k'"
  by (simp_all add: gc_entries cap_for_def)

lemma gc_subset: "set (ms_entries (gc s k)) \<subseteq> set (ms_entries s)"
  by (simp add: gc_entries set_nths_subset)

lemma of_kind_nths:
  "of_kind k (nths es (- D)) = map (\<lambda>i. es ! i) (filter (\<lambda>i. i \<notin> D) (kind_idx k es))"
proof -
  have "of_kind k (nths es (- D))
      = map (\<lambda>i. es ! i) (filter (\<lambda>i. me_kind (es ! i) = k) (filter (\<lambda>i. i \<in> - D) [0..<length es]))"
    unfolding upt_filter_nths [symmetric] of_kind_def by (simp add: filter_map comp_def)
  also have "\<dots> = map (\<lambda>i. es ! i) (filter (\<lambda>i. i \<notin> D) (kind_idx k es))"
    by (simp add: kind_idx_def conj_commute)
  finally show ?thesis .
qed

lemma gc_other_kind:
  assumes "k' \<noteq> k"
  shows "of_kind k' (ms_entries (gc s k)) = of_kind k' (ms_entries s)"
proof -
  have "filter (\<lambda>i. i \<notin> set (dropped s k)) (kind_idx k' (ms_entries s)) = kind_idx k' (ms_entries s)"
    using set_dropped [of s k] assms by (auto simp: filter_id_conv set_kind_idx)
  then show ?thesis by (simp add: gc_entries of_kind_nths) (simp add: of_kind_idx)
qed

lemma length_filter_not_mem:
  assumes "distinct xs" and "distinct D" and "set D \<subseteq> set xs"
  shows "length (filter (\<lambda>i. i \<notin> set D) xs) = length xs - length D"
proof -
  have "length (filter (\<lambda>i. i \<notin> set D) xs) = card (set xs - set D)"
    using assms(1) distinct_card [of "filter (\<lambda>i. i \<notin> set D) xs"]
    by (simp add: set_diff_eq)
  then show ?thesis using assms by (simp add: card_Diff_subset distinct_card)
qed

lemma length_gc_kind:
  assumes "0 \<le> cap_for s k"
  shows "int (length (of_kind k (ms_entries (gc s k))))
    = min (int (length (of_kind k (ms_entries s)))) (cap_for s k)"
proof -
  let ?L = "length (kind_idx k (ms_entries s))"
  have "length (of_kind k (ms_entries (gc s k)))
      = length (filter (\<lambda>i. i \<notin> set (dropped s k)) (kind_idx k (ms_entries s)))"
    by (simp add: gc_entries of_kind_nths)
  also have "\<dots> = ?L - length (dropped s k)"
    by (rule length_filter_not_mem) (simp_all add: dropped_def set_dropped [unfolded dropped_def])
  also have "length (dropped s k) = min ?L (nat (int ?L - cap_for s k))"
    by (simp add: dropped_def)
  finally have "length (of_kind k (ms_entries (gc s k))) = ?L - min ?L (nat (int ?L - cap_for s k))" .
  moreover have "length (of_kind k (ms_entries s)) = ?L" by (simp add: length_kind_idx)
  ultimately show ?thesis using assms by (simp only:)
qed

text \<open>What is evicted is older than what stays.\<close>

lemma gc_oldest_first:
  assumes "i \<in> set (dropped s k)" and "j \<in> set (kind_idx k (ms_entries s)) - set (dropped s k)"
  shows "me_seq (ms_entries s ! i) \<le> me_seq (ms_entries s ! j)"
proof -
  let ?f = "\<lambda>i. me_seq (ms_entries s ! i)" and ?idx = "kind_idx k (ms_entries s)"
  let ?srt = "sort_key ?f ?idx" and ?n = "nat (int (length ?idx) - cap_for s k)"
  have "sorted (map ?f (take ?n ?srt) @ map ?f (drop ?n ?srt))"
    unfolding map_append [symmetric] append_take_drop_id by simp
  moreover have "set ?idx = set (take ?n ?srt) \<union> set (drop ?n ?srt)"
    unfolding set_append [symmetric] append_take_drop_id by simp
  then have "j \<in> set (drop ?n ?srt)" using assms(2) unfolding dropped_def by blast
  ultimately show ?thesis using assms(1) by (auto simp: sorted_append dropped_def)
qed

section \<open>Emit\<close>

lemma upsert_kind_key:
  "(map (\<lambda>e. (me_kind e, me_key e)) (upsert k key txt n es))
   = (let ks = map (\<lambda>e. (me_kind e, me_key e)) es in if (k, key) \<in> set ks then ks else ks @ [(k, key)])"
  by (induction es) (auto simp: Let_def)

lemma set_upsert:
  "e \<in> set (upsert k key txt n es) \<Longrightarrow>
     e \<in> set es \<or> e = \<lparr>me_kind = k, me_key = key, me_text = txt, me_seq = n\<rparr>"
  by (induction es) (auto split: if_splits)

lemma upsert_mem: "\<lparr>me_kind = k, me_key = key, me_text = txt, me_seq = n\<rparr> \<in> set (upsert k key txt n es)"
proof (induction es)
  case (Cons e es)
  have "e\<lparr>me_text := txt, me_seq := n\<rparr> = \<lparr>me_kind = k, me_key = key, me_text = txt, me_seq = n\<rparr>"
    if "me_kind e = k" "me_key e = key" using that by simp
  with Cons show ?case by auto
qed simp

lemma upsert_seqs:
  assumes "distinct (map me_seq es)" and "n \<notin> me_seq ` set es"
  shows "distinct (map me_seq (upsert k key txt n es))"
proof -
  have img: "me_seq ` set (upsert k key txt n xs) \<subseteq> insert n (me_seq ` set xs)" for xs
    by (induction xs) auto
  show ?thesis using assms
  proof (induction es)
    case (Cons e es)
    have "me_seq e \<notin> me_seq ` set (upsert k key txt n es)"
      using img [of es] Cons.prems by auto
    with Cons show ?case by auto
  qed simp
qed

lemma of_kind_upsert_other:
  "k' \<noteq> k \<Longrightarrow> of_kind k' (upsert k key txt n es) = of_kind k' es"
  by (induction es) (auto simp: of_kind_def)

lemma emit_simps:
  "ms_entries (fst (snd (emit d s k key txt))) = ms_entries (gc (put s k key txt) k)"
  "fst (snd (emit d s k key txt)) = gc (put s k key txt) k"
  by (simp_all add: emit_def gc_and_save_def Let_def split: prod.splits)

lemma put_fields [simp]:
  "ms_seq (put s k key txt) = ms_seq s + 1" "cap_for (put s k key txt) k' = cap_for s k'"
  "ms_path (put s k key txt) = ms_path s" "ms_max_fact (put s k key txt) = ms_max_fact s"
  "ms_max_snip (put s k key txt) = ms_max_snip s"
  "ms_entries (put s k key txt) = upsert k key txt (ms_seq s + 1) (ms_entries s)"
  by (simp_all add: put_def cap_for_def)

lemma cap_for_pos: "mem_wf s \<Longrightarrow> 0 < cap_for s k"
  by (simp add: mem_wf_def cap_for_def)

lemma put_wf:
  assumes "mem_wf s"
  shows "mem_wf (put s k key txt)"
proof -
  from assms have wf: "distinct (map (\<lambda>e. (me_kind e, me_key e)) (ms_entries s))"
    "distinct (map me_seq (ms_entries s))" "\<forall>e \<in> set (ms_entries s). me_seq e \<le> ms_seq s"
    by (simp_all add: mem_wf_def)
  have "ms_seq s + 1 \<notin> me_seq ` set (ms_entries s)" using wf(3) by force
  from upsert_seqs [OF wf(2) this]
  have "distinct (map me_seq (upsert k key txt (ms_seq s + 1) (ms_entries s)))" .
  moreover have "distinct (map (\<lambda>e. (me_kind e, me_key e)) (upsert k key txt (ms_seq s + 1) (ms_entries s)))"
    using wf(1) by (simp add: upsert_kind_key Let_def)
  moreover have "me_seq e \<le> ms_seq s + 1" if "e \<in> set (upsert k key txt (ms_seq s + 1) (ms_entries s))" for e
    using set_upsert [OF that] wf(3) by force
  ultimately show ?thesis using assms by (simp add: mem_wf_def)
qed

lemma distinct_map_nths: "distinct (map f xs) \<Longrightarrow> distinct (map f (nths xs A))"
  using distinct_nthsI [of "map f xs" A] by (simp add: nths_map)

lemma gc_wf:
  assumes "mem_wf s"
  shows "mem_wf (gc s k)"
  using assms gc_subset [of s k]
  by (auto simp: mem_wf_def gc_entries intro: distinct_map_nths)

lemma gc_capped:
  assumes "mem_wf s" and "\<And>k'. k' \<noteq> k \<Longrightarrow> int (length (of_kind k' (ms_entries s))) \<le> cap_for s k'"
  shows "mem_capped (gc s k)"
  unfolding mem_capped_def
proof
  fix k'
  show "int (length (of_kind k' (ms_entries (gc s k)))) \<le> cap_for (gc s k) k'"
  proof (cases "k' = k")
    case True
    then show ?thesis using length_gc_kind [of s k] cap_for_pos [OF assms(1), of k] by simp
  next
    case False
    then show ?thesis using assms(2) by (simp add: gc_other_kind)
  qed
qed

lemma emit_keeps_wf: "mem_wf s \<Longrightarrow> mem_wf (fst (snd (emit d s k key txt)))"
  by (simp add: emit_simps(2) gc_wf put_wf)

lemma emit_keeps_capped:
  assumes "mem_wf s" and "mem_capped s"
  shows "mem_capped (fst (snd (emit d s k key txt)))"
proof -
  have "int (length (of_kind k' (ms_entries (put s k key txt)))) \<le> cap_for (put s k key txt) k'"
    if "k' \<noteq> k" for k'
    using that assms(2) by (simp add: of_kind_upsert_other mem_capped_def)
  with gc_capped [OF put_wf [OF assms(1)]] show ?thesis by (simp add: emit_simps(2))
qed

text \<open>The entry with the largest number of its kind is never evicted.\<close>

lemma gc_keeps_newest:
  assumes "mem_wf s" and "e \<in> set (ms_entries s)" and "me_kind e = k" and "me_seq e = ms_seq s"
  shows "e \<in> set (ms_entries (gc s k))"
proof -
  from assms(2) obtain i where i: "i < length (ms_entries s)" "ms_entries s ! i = e"
    by (metis in_set_conv_nth)
  have i_idx: "i \<in> set (kind_idx k (ms_entries s))" using i assms(3) by (simp add: set_kind_idx)
  have "i \<notin> set (dropped s k)"
  proof
    assume dr: "i \<in> set (dropped s k)"
    have "\<exists>j \<in> set (kind_idx k (ms_entries s)). j \<notin> set (dropped s k)"
    proof (rule ccontr)
      assume "\<not> ?thesis"
      then have "of_kind k (ms_entries (gc s k)) = []"
        by (auto simp: gc_entries of_kind_nths filter_empty_conv)
      moreover have "of_kind k (ms_entries s) \<noteq> []"
        using assms(2,3) by (auto simp: of_kind_def filter_empty_conv)
      ultimately show False
        using length_gc_kind [of s k] cap_for_pos [OF assms(1), of k] by (simp add: min_def split: if_splits)
    qed
    then obtain j where j: "j \<in> set (kind_idx k (ms_entries s))" "j \<notin> set (dropped s k)" by blast
    have le: "me_seq (ms_entries s ! i) \<le> me_seq (ms_entries s ! j)"
      using gc_oldest_first [OF dr] j by blast
    have jl: "j < length (ms_entries s)" using j(1) by (simp add: set_kind_idx)
    then have "me_seq (ms_entries s ! j) \<le> ms_seq s" using assms(1) by (simp add: mem_wf_def)
    with le i assms(4) have "me_seq (ms_entries s ! j) = me_seq (ms_entries s ! i)" by simp
    then have "map me_seq (ms_entries s) ! j = map me_seq (ms_entries s) ! i" using jl i by simp
    moreover have "distinct (map me_seq (ms_entries s))" using assms(1) by (simp add: mem_wf_def)
    ultimately have "j = i" using jl i nth_eq_iff_index_eq [of "map me_seq (ms_entries s)" j i] by simp
    with dr j show False by simp
  qed
  then have "e \<in> set (nths (ms_entries s) (- set (dropped s k)))"
    using i by (auto simp: set_nths)
  then show ?thesis by (simp add: gc_entries)
qed

lemma emit_retrievable:
  assumes "mem_wf s"
  shows "\<lparr>me_kind = k, me_key = key, me_text = txt, me_seq = ms_seq s + 1\<rparr>
         \<in> set (ms_entries (fst (snd (emit d s k key txt))))"
proof -
  let ?e = "\<lparr>me_kind = k, me_key = key, me_text = txt, me_seq = ms_seq s + 1\<rparr>"
  have 1: "?e \<in> set (ms_entries (put s k key txt))" by (simp only: put_fields upsert_mem)
  have 2: "me_kind ?e = k" by simp
  have 3: "me_seq ?e = ms_seq (put s k key txt)" by (simp only: put_fields mentry.simps)
  from gc_keeps_newest [OF put_wf [OF assms] 1 2 3] show ?thesis by (simp only: emit_simps(2))
qed

end
