(* ===== verification/GoPath.thy ===== *)
theory GoPath
  imports GoLib
begin

text \<open>
  \<open>path/filepath\<close> on Unix, by path elements: \<open>Clean\<close>, \<open>Join\<close>, \<open>Base\<close>, \<open>Dir\<close>, \<open>Ext\<close>,
  \<open>IsAbs\<close> and \<open>Rel\<close>, and the lemma the workspace sandbox rests on: \<open>Rel\<close> of a path that
  does not start with \<open>..\<close> shows the path to lie below its base.
\<close>

definition is_abs :: "string \<Rightarrow> bool" where
  "is_abs p \<longleftrightarrow> has_prefix p ''/''"

text \<open>The elements of a path after \<open>Clean\<close>, innermost last; a stack, kept reversed.\<close>

fun clean_elems :: "bool \<Rightarrow> string list \<Rightarrow> string list \<Rightarrow> string list" where
  "clean_elems rooted st [] = rev st"
| "clean_elems rooted st (w # ws) =
     (if w = [] \<or> w = ''.'' then clean_elems rooted st ws
      else if w = ''..'' then
        (case st of
           [] \<Rightarrow> clean_elems rooted (if rooted then [] else [w]) ws
         | t # st' \<Rightarrow> if t = ''..'' then clean_elems rooted (w # st) ws
                     else clean_elems rooted st' ws)
      else clean_elems rooted (w # st) ws)"

definition path_elems :: "string \<Rightarrow> string list" where
  "path_elems p = clean_elems (is_abs p) [] (split_on CHR ''/'' p)"

definition path_of_elems :: "bool \<Rightarrow> string list \<Rightarrow> string" where
  "path_of_elems rooted ws =
     (if rooted then ''/'' @ join ''/'' ws else if ws = [] then ''.'' else join ''/'' ws)"

definition path_clean :: "string \<Rightarrow> string" where
  "path_clean p = path_of_elems (is_abs p) (path_elems p)"

definition path_join :: "string list \<Rightarrow> string" where
  "path_join ps =
     (let qs = filter (\<lambda>p. p \<noteq> []) ps in if qs = [] then [] else path_clean (join ''/'' qs))"

definition path_base :: "string \<Rightarrow> string" where
  "path_base p =
     (if p = [] then ''.''
      else let q = trim_right_char CHR ''/'' p
           in if q = [] then ''/'' else after_last CHR ''/'' q)"

definition path_dir :: "string \<Rightarrow> string" where
  "path_dir p = path_clean (take (length p - length (after_last CHR ''/'' p)) p)"

text \<open>\<open>Ext\<close>: from the last dot of the last element, empty when it has none.\<close>

definition path_ext :: "string \<Rightarrow> string" where
  "path_ext p =
     (let e = after_last CHR ''/'' p
      in if CHR ''.'' \<in> set e then CHR ''.'' # after_last CHR ''.'' e else [])"

text \<open>
  \<open>Rel\<close> on the elements of the cleaned paths.  The cleaned base \<open>.\<close> counts as empty; the
  cleaned target \<open>.\<close> is one element, as in the library's byte loop.
\<close>

fun strip_common :: "string list \<Rightarrow> string list \<Rightarrow> string list \<times> string list" where
  "strip_common (b # bs) (t # ts) = (if b = t then strip_common bs ts else (b # bs, t # ts))"
| "strip_common bs ts = (bs, ts)"

definition path_rel :: "string \<Rightarrow> string \<Rightarrow> string option" where
  "path_rel base targ =
     (if path_clean base = path_clean targ then Some ''.''
      else if is_abs base \<noteq> is_abs targ then None
      else let te = (if \<not> is_abs targ \<and> path_elems targ = [] then [''.''] else path_elems targ)
           in case strip_common (path_elems base) te of
                ([], ts) \<Rightarrow> Some (join ''/'' ts)
              | (b # bs, ts) \<Rightarrow>
                  if b = ''..'' then None
                  else Some (join ''/'' (replicate (Suc (length bs)) ''..'' @ ts)))"

section \<open>Facts about elements\<close>

lemma strip_common_spec:
  "strip_common bs ts = (bs', ts') \<Longrightarrow>
     \<exists>cs. bs = cs @ bs' \<and> ts = cs @ ts' \<and> (bs' = [] \<or> ts' = [] \<or> hd bs' \<noteq> hd ts')"
proof (induction bs ts rule: strip_common.induct)
  case (1 b bs t ts)
  show ?case
  proof (cases "b = t")
    case True
    with 1 obtain cs where "bs = cs @ bs' \<and> ts = cs @ ts' \<and> (bs' = [] \<or> ts' = [] \<or> hd bs' \<noteq> hd ts')"
      by auto
    with True show ?thesis by (intro exI [of _ "b # cs"]) simp
  qed (use 1 in auto)
qed auto

lemma strip_common_append [simp]: "strip_common cs (cs @ ts) = ([], ts)"
  by (induction cs) simp_all

text \<open>What cleaning produces: no empty or \<open>.\<close> element, and \<open>..\<close> only as a leading run.\<close>

fun clean_ok :: "bool \<Rightarrow> string list \<Rightarrow> bool" where
  "clean_ok rooted [] \<longleftrightarrow> True"
| "clean_ok rooted (w # ws) \<longleftrightarrow>
     w \<noteq> [] \<and> w \<noteq> ''.'' \<and>
     (if w = ''..'' then \<not> rooted \<and> (\<forall>v \<in> set ws. v = ''..'') else clean_ok rooted ws)"

lemma clean_ok_tl: "clean_ok r (w # ws) \<Longrightarrow> clean_ok r ws"
proof -
  have dots: "\<forall>v \<in> set us. v = ''..'' \<Longrightarrow> clean_ok False us" for us
    by (induction us) auto
  assume "clean_ok r (w # ws)"
  then show ?thesis by (auto split: if_splits intro: dots)
qed

lemma clean_elems_rev_ok:
  "clean_ok rooted st \<Longrightarrow> clean_ok rooted (rev (clean_elems rooted st ws))"
proof (induction rooted st ws rule: clean_elems.induct)
  case (2 rooted st w ws)
  show ?case
  proof (cases "w = [] \<or> w = ''.''")
    case True
    with 2 show ?thesis by auto
  next
    case False
    show ?thesis
    proof (cases "w = ''..''")
      case dots: True
      show ?thesis
      proof (cases st)
        case Nil
        with 2 dots show ?thesis by (cases rooted) auto
      next
        case (Cons t st')
        show ?thesis
        proof (cases "t = ''..''")
          case True
          with 2 dots Cons show ?thesis by auto
        next
          case False
          with 2 dots Cons show ?thesis by (auto dest: clean_ok_tl)
        qed
      qed
    next
      case False
      with 2 \<open>\<not> (w = [] \<or> w = ''.'')\<close> show ?thesis by auto
    qed
  qed
qed simp

lemma path_elems_ok: "clean_ok (is_abs p) (rev (path_elems p))"
  unfolding path_elems_def by (rule clean_elems_rev_ok) simp

text \<open>
  A stack of proper names below \<open>..\<close> elements: every \<open>..\<close> of a cleaned path precedes every
  proper name.
\<close>

lemma clean_ok_dots_suffix:
  "clean_ok r (us @ v # vs) \<Longrightarrow> v = ''..'' \<Longrightarrow> \<not> r \<and> (\<forall>x \<in> set vs. x = ''..'')"
proof (induction us)
  case Nil
  then show ?case by simp
next
  case (Cons u us)
  show ?case
  proof (cases "u = ''..''")
    case True
    with Cons.prems show ?thesis by simp
  next
    case False
    with Cons show ?thesis by simp
  qed
qed

lemma path_elems_dots_first:
  assumes "path_elems p = xs @ ''..'' # ys" and "x \<in> set xs"
  shows "x = ''..''"
proof -
  have "clean_ok (is_abs p) (rev ys @ ''..'' # rev xs)"
    using path_elems_ok [of p] assms(1) by simp
  from clean_ok_dots_suffix [OF this refl] have "\<forall>y \<in> set (rev xs). y = ''..''" by blast
  with assms(2) show ?thesis by simp
qed

lemma set_clean_elems: "set (clean_elems rooted st ws) \<subseteq> set st \<union> set ws"
proof (induction ws arbitrary: st)
  case Nil
  show ?case by simp
next
  case (Cons v ws)
  have step: "clean_elems rooted st (v # ws) = clean_elems rooted st' ws \<Longrightarrow>
      set st' \<subseteq> insert v (set st) \<Longrightarrow> ?case" for st'
    using Cons [of st'] by (simp del: clean_elems.simps) blast
  show ?case
  proof (cases st)
    case Nil
    show ?thesis
      by (rule step [of "if v = [] \<or> v = ''.'' then st
            else if v = ''..'' then (if rooted then [] else [v]) else v # st"])
        (simp_all add: Nil)
  next
    case (Cons t us)
    show ?thesis
      by (rule step [of "if v = [] \<or> v = ''.'' then st
            else if v = ''..'' then (if t = ''..'' then v # st else us) else v # st"])
        (simp_all add: Cons subset_insertI subset_insertI2)
  qed
qed

lemma path_elems_no_slash: "w \<in> set (path_elems p) \<Longrightarrow> CHR ''/'' \<notin> set w"
  unfolding path_elems_def using set_clean_elems split_on_no_member by fastforce

lemma path_elems_nonempty_elem: "w \<in> set (path_elems p) \<Longrightarrow> w \<noteq> [] \<and> w \<noteq> ''.''"
proof -
  have "clean_ok r us \<Longrightarrow> w \<in> set us \<Longrightarrow> w \<noteq> [] \<and> w \<noteq> ''.''" for r us w
    by (induction us) (auto split: if_splits)
  with path_elems_ok [of p] show "w \<in> set (path_elems p) \<Longrightarrow> w \<noteq> [] \<and> w \<noteq> ''.''"
    by (metis set_rev)
qed

text \<open>
  The sandbox fact: when \<open>Rel base targ\<close> succeeds with a result that is neither \<open>..\<close> nor
  starts with \<open>../\<close>, the elements of the base are a prefix of those of the target, and what
  follows does not climb.
\<close>

lemma join_cons: "join ''/'' (w # ws) = w @ (if ws = [] then [] else ''/'' @ join ''/'' ws)"
  by (cases ws) auto

lemma split_path_of_elems:
  assumes "\<And>w. w \<in> set ws \<Longrightarrow> CHR ''/'' \<notin> set w"
  shows "split_on CHR ''/'' (join ''/'' ws) = (if ws = [] then [[]] else ws)"
  using split_on_join [of ws "CHR ''/''"] assms by auto

lemma path_clean_eq_elems:
  assumes "path_clean a = path_clean b" and "is_abs a = is_abs b"
  shows "path_elems a = path_elems b"
proof -
  have sp: "split_on CHR ''/'' (join ''/'' (path_elems p)) =
      (if path_elems p = [] then [[]] else path_elems p)" for p
    by (intro split_path_of_elems path_elems_no_slash)
  have ne: "path_elems p \<noteq> [[]]" "path_elems p \<noteq> [''.'']" for p
    using path_elems_nonempty_elem [of _ p] by fastforce+
  show ?thesis
  proof (cases "is_abs a")
    case True
    with assms have "join ''/'' (path_elems a) = join ''/'' (path_elems b)"
      by (simp add: path_clean_def path_of_elems_def)
    with sp [of a] sp [of b] ne [of a] ne [of b] show ?thesis by (metis (full_types))
  next
    case False
    have dot: "split_on CHR ''/'' ''.'' = [''.'']" by (simp add: split_on_no_sep)
    have sp2: "split_on CHR ''/'' (path_of_elems False (path_elems p)) =
        (if path_elems p = [] then [''.''] else path_elems p)" for p
      using sp [of p] dot by (simp add: path_of_elems_def)
    from False assms have "path_of_elems False (path_elems a) = path_of_elems False (path_elems b)"
      by (simp add: path_clean_def)
    with sp2 [of a] sp2 [of b] ne [of a] ne [of b] show ?thesis by (metis (full_types))
  qed
qed

lemma path_rel_inside:
  assumes rel: "path_rel base targ = Some r"
    and no_up: "r \<noteq> ''..''" "\<not> has_prefix r ''../''"
    and abs: "is_abs base = is_abs targ"
  shows "\<exists>rest. path_elems targ = path_elems base @ rest \<and> (rest = [] \<or> hd rest \<noteq> ''..'')"
proof (cases "path_clean base = path_clean targ")
  case True
  then have "path_elems base = path_elems targ" using abs by (rule path_clean_eq_elems)
  then show ?thesis by (intro exI [of _ "[]"]) simp
next
  case False
  let ?te = "if \<not> is_abs targ \<and> path_elems targ = [] then [''.''] else path_elems targ"
  obtain bs ts where sc: "strip_common (path_elems base) ?te = (bs, ts)"
    by (cases "strip_common (path_elems base) ?te")
  then obtain cs where cs: "path_elems base = cs @ bs" "?te = cs @ ts"
    using strip_common_spec by blast
  have "bs = []"
  proof (rule ccontr)
    assume "bs \<noteq> []"
    then obtain b bs' where b: "bs = b # bs'" by (cases bs) auto
    with rel False abs sc have "r = join ''/'' (''..'' # replicate (length bs') ''..'' @ ts)"
      by (auto simp: path_rel_def Let_def split: if_splits)
    with no_up show False by (auto simp: join_cons has_prefix_def split: if_splits)
  qed
  show ?thesis
  proof (cases "\<not> is_abs targ \<and> path_elems targ = []")
    case True
    have "path_elems base \<noteq> [''.'']" using path_elems_nonempty_elem [of "''.''" base] by fastforce
    with True cs \<open>bs = []\<close> have "path_elems base = []" by (cases "path_elems base") auto
    with True show ?thesis by simp
  next
    case inner: False
    have r: "r = join ''/'' ts"
      using rel False abs sc \<open>bs = []\<close> by (simp add: path_rel_def Let_def split: if_splits)
    have "ts = [] \<or> hd ts \<noteq> ''..''"
    proof (rule ccontr)
      assume "\<not> (ts = [] \<or> hd ts \<noteq> ''..'')"
      then obtain ts' where "ts = ''..'' # ts'" by (cases ts) auto
      with r no_up show False by (auto simp: join_cons has_prefix_def split: if_splits)
    qed
    moreover have "path_elems targ = path_elems base @ ts" using inner cs \<open>bs = []\<close> by (auto split: if_splits)
    ultimately show ?thesis by blast
  qed
qed

end
