(* ===== verification/Rtmx.thy ===== *)
theory Rtmx
  imports GoPath
begin

text \<open>
  The requirements engine client, \<open>internal/rtmx\<close>: the requirement record and its life cycle
  (\<open>rtmx.go\<close>), the CSV store with its claim files (\<open>store.go\<close>), the CSV-backed client
  (\<open>client.go\<close>) and the in-memory client (\<open>fake.go\<close>).  The CSV file is the list of records
  that \<open>encoding/csv\<close> reads and writes; a reader with the default settings rejects records of
  different lengths, so a file that parses is rectangular.
\<close>

section \<open>Requirements\<close>

datatype status = StatusOpen | StatusClaimed | StatusClosed | StatusBlocked | StatusProposed

record requirement =
  rq_id :: string
  rq_prefix :: string
  rq_title :: string
  rq_status :: status
  rq_tests :: "string list"
  rq_deps :: "string list"
  rq_spec_file :: string
  rq_notes :: string

datatype store_err =
    OpenFailed string
  | ParseFailed string
  | EmptyDatabase string
  | MissingColumn string
  | UnknownRequirement string
  | AlreadyClaimed string
  | MkdirFailed
  | WriteFailed
  | RemoveFailed

section \<open>The CSV store\<close>

datatype csv_file = CsvUnreadable | CsvMalformed | CsvRecords "string list list"

text \<open>
  The store and the disk it works on: the database file, the directories that exist, the claim
  files (path to requirement and agent), and which system calls the host permits.
\<close>

record store =
  st_db_path :: string
  st_claims_dir :: string
  st_db :: csv_file
  st_dirs :: "string set"
  st_claims :: "string \<rightharpoonup> string \<times> string"
  st_can_mkdir :: bool
  st_can_create :: bool
  st_can_remove :: bool
  st_can_replace :: bool

definition claims_dir_of :: "string \<Rightarrow> string" where
  "claims_dir_of db_path = path_join [path_dir db_path, ''claims'']"

definition status_from_csv :: "string \<Rightarrow> status" where
  "status_from_csv s =
     (let t = to_upper (trim_space s)
      in if t = ''COMPLETE'' then StatusClosed
         else if t = ''BLOCKED'' then StatusBlocked
         else if t = ''PROPOSED'' then StatusProposed
         else StatusOpen)"

fun status_to_csv :: "status \<Rightarrow> string" where
  "status_to_csv StatusClosed = ''COMPLETE''"
| "status_to_csv StatusBlocked = ''BLOCKED''"
| "status_to_csv StatusProposed = ''PROPOSED''"
| "status_to_csv _ = ''OPEN''"

record raw_db =
  db_header :: "string list"
  db_rows :: "string list list"
  db_col :: "string \<rightharpoonup> nat"

fun build_col :: "nat \<Rightarrow> string list \<Rightarrow> (string \<rightharpoonup> nat) \<Rightarrow> (string \<rightharpoonup> nat)" where
  "build_col i [] col = col"
| "build_col i (h # hs) col = build_col (Suc i) hs (col(h \<mapsto> i))"

definition needed_columns :: "string list" where
  "needed_columns = [''req_id'', ''requirement_text'', ''status'', ''dependencies'']"

definition store_read :: "store \<Rightarrow> store_err + raw_db" where
  "store_read s =
     (case st_db s of
        CsvUnreadable \<Rightarrow> Inl (OpenFailed (st_db_path s))
      | CsvMalformed \<Rightarrow> Inl (ParseFailed (st_db_path s))
      | CsvRecords [] \<Rightarrow> Inl (EmptyDatabase (st_db_path s))
      | CsvRecords (h # rows) \<Rightarrow>
          let col = build_col 0 h Map.empty
          in (case find (\<lambda>need. col need = None) needed_columns of
                Some need \<Rightarrow> Inl (MissingColumn need)
              | None \<Rightarrow> Inr \<lparr>db_header = h, db_rows = rows, db_col = col\<rparr>))"

definition db_get :: "raw_db \<Rightarrow> string list \<Rightarrow> string \<Rightarrow> string" where
  "db_get db row name =
     (case db_col db name of
        Some i \<Rightarrow> if i < length row then row ! i else []
      | None \<Rightarrow> [])"

definition to_requirement :: "raw_db \<Rightarrow> string list \<Rightarrow> requirement" where
  "to_requirement db row =
     (let i = db_get db row ''req_id'';
          cat = db_get db row ''category'';
          prefix = (if cat = [] then
                      (let parts = split_on CHR ''-'' i
                       in if length parts \<ge> 2 then parts ! 1 else cat)
                    else cat);
          tm = db_get db row ''test_module'';
          tf = db_get db row ''test_function'';
          tests = (if tf \<noteq> [] then [tm @ ''::'' @ tf] else []);
          deps = filter (\<lambda>d. d \<noteq> [])
                   (map trim_space (split_on CHR ''|'' (db_get db row ''dependencies'')))
      in \<lparr>rq_id = i, rq_prefix = prefix, rq_title = db_get db row ''requirement_text'',
          rq_status = status_from_csv (db_get db row ''status''),
          rq_tests = tests, rq_deps = deps,
          rq_spec_file = db_get db row ''requirement_file'', rq_notes = db_get db row ''notes''\<rparr>)"

definition store_requirements :: "store \<Rightarrow> store_err + requirement list" where
  "store_requirements s =
     (case store_read s of Inl e \<Rightarrow> Inl e | Inr db \<Rightarrow> Inr (map (to_requirement db) (db_rows db)))"

definition store_by_id :: "store \<Rightarrow> string \<Rightarrow> store_err + requirement" where
  "store_by_id s i =
     (case store_requirements s of
        Inl e \<Rightarrow> Inl e
      | Inr reqs \<Rightarrow>
          (case find (\<lambda>r. rq_id r = i) reqs of
             Some r \<Rightarrow> Inr r
           | None \<Rightarrow> Inl (UnknownRequirement i)))"

definition claim_path :: "store \<Rightarrow> string \<Rightarrow> string" where
  "claim_path s i = path_join [st_claims_dir s, i @ ''.json'']"

definition is_claimed :: "store \<Rightarrow> string \<Rightarrow> bool" where
  "is_claimed s i \<longleftrightarrow> st_claims s (claim_path s i) \<noteq> None"

text \<open>The \<open>status\<close> map of \<open>Next\<close>: the last row of an id wins.\<close>

fun status_map :: "requirement list \<Rightarrow> (string \<rightharpoonup> status) \<Rightarrow> (string \<rightharpoonup> status)" where
  "status_map [] m = m"
| "status_map (r # rs) m = status_map rs (m(rq_id r \<mapsto> rq_status r))"

definition deps_closed :: "(string \<rightharpoonup> status) \<Rightarrow> requirement \<Rightarrow> bool" where
  "deps_closed m r \<longleftrightarrow> list_all (\<lambda>d. m d = Some StatusClosed) (rq_deps r)"

definition claimable :: "store \<Rightarrow> (string \<rightharpoonup> status) \<Rightarrow> requirement \<Rightarrow> bool" where
  "claimable s m r \<longleftrightarrow> rq_status r = StatusOpen \<and> \<not> is_claimed s (rq_id r) \<and> deps_closed m r"

definition store_next :: "store \<Rightarrow> store_err + requirement option" where
  "store_next s =
     (case store_requirements s of
        Inl e \<Rightarrow> Inl e
      | Inr reqs \<Rightarrow> Inr (find (claimable s (status_map reqs Map.empty)) reqs))"

text \<open>The row loop of \<open>SetStatus\<close>: the first row of the id decides, then the loop breaks.\<close>

fun set_status_rows ::
  "raw_db \<Rightarrow> nat \<Rightarrow> string \<Rightarrow> string \<Rightarrow> string list list \<Rightarrow> string list list \<times> bool" where
  "set_status_rows db si i v [] = ([], False)"
| "set_status_rows db si i v (row # rows) =
     (if db_get db row ''req_id'' = i then
        (if si < length row then (row[si := v] # rows, True) else (row # rows, False))
      else (case set_status_rows db si i v rows of (rows', found) \<Rightarrow> (row # rows', found)))"

definition store_write :: "store \<Rightarrow> raw_db \<Rightarrow> store_err option \<times> store" where
  "store_write s db =
     (if st_can_replace s then (None, s\<lparr>st_db := CsvRecords (db_header db # db_rows db)\<rparr>)
      else (Some WriteFailed, s))"

definition store_set_status :: "store \<Rightarrow> string \<Rightarrow> status \<Rightarrow> store_err option \<times> store" where
  "store_set_status s i st =
     (case store_read s of
        Inl e \<Rightarrow> (Some e, s)
      | Inr db \<Rightarrow>
          let si = (case db_col db ''status'' of Some k \<Rightarrow> k | None \<Rightarrow> 0)
          in (case set_status_rows db si i (status_to_csv st) (db_rows db) of
                (rows, found) \<Rightarrow>
                  if \<not> found then (Some (UnknownRequirement i), s)
                  else store_write s (db\<lparr>db_rows := rows\<rparr>)))"

definition store_claim :: "store \<Rightarrow> string \<Rightarrow> string \<Rightarrow> store_err option \<times> store" where
  "store_claim s i agent =
     (if st_claims_dir s \<notin> st_dirs s \<and> \<not> st_can_mkdir s then (Some MkdirFailed, s)
      else
        let s1 = s\<lparr>st_dirs := insert (st_claims_dir s) (st_dirs s)\<rparr>; p = claim_path s i
        in if path_dir p \<notin> st_dirs s1 \<or> \<not> st_can_create s1 \<or> st_claims s1 p \<noteq> None
           then (Some (AlreadyClaimed i), s1)
           else (None, s1\<lparr>st_claims := (st_claims s1)(p \<mapsto> (i, agent))\<rparr>))"

definition store_release :: "store \<Rightarrow> string \<Rightarrow> store_err option \<times> store" where
  "store_release s i =
     (if st_claims s (claim_path s i) = None then (None, s)
      else if st_can_remove s then (None, s\<lparr>st_claims := (st_claims s)(claim_path s i := None)\<rparr>)
      else (Some RemoveFailed, s))"

section \<open>The in-memory client\<close>

record fake =
  fk_reqs :: "requirement list"
  fk_verify_result :: "string \<rightharpoonup> bool"
  fk_verify_output :: "string \<rightharpoonup> string"
  fk_verify_err :: "string \<rightharpoonup> string"
  fk_unhealthy :: bool
  fk_claimed :: "string set"

datatype fake_err = FakeAlreadyClaimed string | FakeVerify string | FakeUnknown string | FakeUnhealthy

definition new_fake :: "requirement list \<Rightarrow> fake" where
  "new_fake reqs = \<lparr>fk_reqs = reqs, fk_verify_result = Map.empty, fk_verify_output = Map.empty,
     fk_verify_err = Map.empty, fk_unhealthy = False, fk_claimed = {}\<rparr>"

definition fake_next :: "fake \<Rightarrow> requirement option" where
  "fake_next f =
     find (\<lambda>r. rq_status r \<notin> {StatusClosed, StatusProposed, StatusBlocked} \<and> rq_id r \<notin> fk_claimed f)
       (fk_reqs f)"

definition fake_claim :: "fake \<Rightarrow> string \<Rightarrow> fake_err option \<times> fake" where
  "fake_claim f i =
     (if i \<in> fk_claimed f then (Some (FakeAlreadyClaimed i), f)
      else (None, f\<lparr>fk_claimed := insert i (fk_claimed f)\<rparr>))"

definition fake_release :: "fake \<Rightarrow> string \<Rightarrow> fake_err option \<times> fake" where
  "fake_release f i = (None, f\<lparr>fk_claimed := fk_claimed f - {i}\<rparr>)"

definition fake_verify :: "fake \<Rightarrow> string \<Rightarrow> bool \<times> string \<times> fake_err option" where
  "fake_verify f i =
     (case fk_verify_err f i of
        Some e \<Rightarrow> (False, [], Some (FakeVerify e))
      | None \<Rightarrow> (fk_verify_result f i = Some True,
                (case fk_verify_output f i of Some t \<Rightarrow> t | None \<Rightarrow> []), None))"

text \<open>A write of one requirement's status: the first requirement of the id.\<close>

fun update_status :: "string \<Rightarrow> status \<Rightarrow> requirement list \<Rightarrow> requirement list" where
  "update_status i st [] = []"
| "update_status i st (r # rs) =
     (if rq_id r = i then r\<lparr>rq_status := st\<rparr> # rs else r # update_status i st rs)"

definition fake_write_status :: "fake \<Rightarrow> string \<Rightarrow> status \<Rightarrow> fake_err option \<times> fake" where
  "fake_write_status f i st =
     (if i \<in> rq_id ` set (fk_reqs f) then (None, f\<lparr>fk_reqs := update_status i st (fk_reqs f)\<rparr>)
      else (Some (FakeUnknown i), f))"

definition fake_health :: "fake \<Rightarrow> fake_err option" where
  "fake_health f = (if fk_unhealthy f then Some FakeUnhealthy else None)"

section \<open>Facts about the store\<close>

text \<open>What a status reads back as after a write: \<open>claimed\<close> has no CSV form and reads as open.\<close>

definition csv_round :: "status \<Rightarrow> status" where
  "csv_round st = (if st = StatusClaimed then StatusOpen else st)"

lemma status_from_to_csv [simp]: "status_from_csv (status_to_csv st) = csv_round st"
proof -
  have "status_from_csv ''COMPLETE'' = StatusClosed" "status_from_csv ''BLOCKED'' = StatusBlocked"
    "status_from_csv ''PROPOSED'' = StatusProposed" "status_from_csv ''OPEN'' = StatusOpen"
    by code_simp+
  then show ?thesis by (cases st) (simp_all add: csv_round_def)
qed

lemma build_col_Some:
  "build_col i hs col n = Some k \<Longrightarrow>
     (i \<le> k \<and> k < i + length hs \<and> hs ! (k - i) = n) \<or> (n \<notin> set hs \<and> col n = Some k)"
proof (induction hs arbitrary: i col)
  case Nil
  then show ?case by simp
next
  case (Cons h hs)
  from Cons.prems have "build_col (Suc i) hs (col(h \<mapsto> i)) n = Some k" by simp
  from Cons.IH [OF this] consider
      (tl) "Suc i \<le> k" "k < Suc i + length hs" "hs ! (k - Suc i) = n"
    | (hd) "n \<notin> set hs" "(col(h \<mapsto> i)) n = Some k" by blast
  then show ?case
  proof cases
    case tl
    then have "k - i = Suc (k - Suc i)" by simp
    with tl show ?thesis by simp
  next
    case hd
    then show ?thesis by (auto split: if_splits)
  qed
qed

lemma store_read_Inr:
  assumes "store_read s = Inr db"
  shows "st_db s = CsvRecords (db_header db # db_rows db)"
    and "db_col db = build_col 0 (db_header db) Map.empty"
    and "\<forall>n \<in> set needed_columns. db_col db n \<noteq> None"
  using assms
  by (auto simp: store_read_def Let_def find_None_iff split: csv_file.splits list.splits option.splits)

lemma store_read_CsvRecords:
  assumes "store_read s = Inr db" and "st_db s' = CsvRecords (db_header db # rows)"
  shows "store_read s' = Inr (db\<lparr>db_rows := rows\<rparr>)"
  using assms
  by (auto simp: store_read_def Let_def split: csv_file.splits list.splits option.splits)

text \<open>Overwriting the status cell changes the status field of the requirement and nothing else.\<close>

lemma db_get_other_column:
  assumes "store_read s = Inr db" and "db_col db ''status'' = Some si" and "n \<noteq> ''status''"
  shows "db_get db (row[si := v]) n = db_get db row n"
proof -
  have "k \<noteq> si" if "db_col db n = Some k" for k
    using build_col_Some [of 0 "db_header db" Map.empty n k]
      build_col_Some [of 0 "db_header db" Map.empty "''status''" si] assms that
    by (auto simp: store_read_Inr(2))
  then show ?thesis by (auto simp: db_get_def split: option.splits)
qed

lemma to_requirement_status_cell:
  assumes "store_read s = Inr db" and "db_col db ''status'' = Some si" and "si < length row"
  shows "to_requirement db (row[si := v]) = (to_requirement db row)\<lparr>rq_status := status_from_csv v\<rparr>"
proof -
  have "db_get db (row[si := v]) ''status'' = v"
    using assms by (simp add: db_get_def)
  then show ?thesis
    by (simp add: to_requirement_def Let_def db_get_other_column [OF assms(1,2)])
qed

lemma rq_id_to_requirement [simp]: "rq_id (to_requirement db row) = db_get db row ''req_id''"
  by (simp add: to_requirement_def Let_def)

lemma set_status_rows_requirements:
  assumes "store_read s = Inr db" and "db_col db ''status'' = Some si"
  shows "set_status_rows db si i (status_to_csv st) rows = (rows', True) \<Longrightarrow>
     i \<in> rq_id ` set (map (to_requirement db) rows) \<and>
     map (to_requirement db) rows' = update_status i (csv_round st) (map (to_requirement db) rows)"
proof (induction rows arbitrary: rows')
  case (Cons row rows)
  then show ?case
    using to_requirement_status_cell [OF assms]
    by (auto split: if_splits prod.splits)
qed simp

text \<open>Only the status cell of one row of the file changes.\<close>

lemma set_status_rows_frame:
  "set_status_rows db si i v rows = (rows', True) \<Longrightarrow>
     \<exists>k < length rows. db_get db (rows ! k) ''req_id'' = i \<and> si < length (rows ! k) \<and>
       (\<forall>j < k. db_get db (rows ! j) ''req_id'' \<noteq> i) \<and> rows' = rows[k := (rows ! k)[si := v]]"
proof (induction rows arbitrary: rows')
  case (Cons row rows)
  show ?case
  proof (cases "db_get db row ''req_id'' = i")
    case True
    with Cons.prems show ?thesis by (intro exI [of _ 0]) (auto split: if_splits)
  next
    case False
    with Cons.prems obtain rs where rs: "set_status_rows db si i v rows = (rs, True)" "rows' = row # rs"
      by (auto split: prod.splits)
    from Cons.IH [OF rs(1)] obtain k where k: "k < length rows" "db_get db (rows ! k) ''req_id'' = i"
      "si < length (rows ! k)" "\<forall>j < k. db_get db (rows ! j) ''req_id'' \<noteq> i"
      "rs = rows[k := (rows ! k)[si := v]]" by blast
    have "\<forall>j < Suc k. db_get db ((row # rows) ! j) ''req_id'' \<noteq> i"
      using k(4) False by (auto simp: less_Suc_eq_0_disj)
    with k rs show ?thesis by (intro exI [of _ "Suc k"]) auto
  qed
qed simp

lemma store_set_status_ok:
  assumes "store_set_status s i st = (None, s')" and "store_requirements s = Inr rs"
  shows "store_requirements s' = Inr (update_status i (csv_round st) rs)"
    and "i \<in> rq_id ` set rs"
    and "\<exists>f. s' = s\<lparr>st_db := f\<rparr>"
proof -
  obtain db where db: "store_read s = Inr db"
    using assms(2) by (auto simp: store_requirements_def split: sum.splits)
  then obtain si where si: "db_col db ''status'' = Some si"
    using store_read_Inr(3) [OF db] by (auto simp: needed_columns_def)
  obtain rows where rows: "set_status_rows db si i (status_to_csv st) (db_rows db) = (rows, True)"
    and s': "st_can_replace s" "s' = s\<lparr>st_db := CsvRecords (db_header db # rows)\<rparr>"
    using assms(1) db si
    by (auto simp: store_set_status_def store_write_def Let_def split: prod.splits if_splits)
  have rd: "store_read s' = Inr (db\<lparr>db_rows := rows\<rparr>)"
    using db by (rule store_read_CsvRecords) (simp add: s')
  have tr: "to_requirement (db\<lparr>db_rows := rows\<rparr>) = to_requirement db"
    by (simp add: fun_eq_iff to_requirement_def db_get_def)
  have rs: "rs = map (to_requirement db) (db_rows db)"
    using assms(2) db by (simp add: store_requirements_def)
  from set_status_rows_requirements [OF db si rows] rd
  show "store_requirements s' = Inr (update_status i (csv_round st) rs)"
    and "i \<in> rq_id ` set rs"
    by (auto simp: store_requirements_def tr rs)
  show "\<exists>f. s' = s\<lparr>st_db := f\<rparr>" using s' by blast
qed

section \<open>Open requirements\<close>

text \<open>The ids of the requirements whose status satisfies a predicate.\<close>

definition ids_with :: "(status \<Rightarrow> bool) \<Rightarrow> requirement list \<Rightarrow> string set" where
  "ids_with P rs = rq_id ` set (filter (\<lambda>r. P (rq_status r)) rs)"

abbreviation open_ids :: "requirement list \<Rightarrow> string set" where
  "open_ids \<equiv> ids_with (\<lambda>st. st = StatusOpen)"

lemma ids_with_simps [simp]:
  "ids_with P [] = {}"
  "ids_with P (r # rs) = (if P (rq_status r) then insert (rq_id r) (ids_with P rs) else ids_with P rs)"
  by (simp_all add: ids_with_def)

lemma finite_ids_with [simp]: "finite (ids_with P rs)"
  by (simp add: ids_with_def)

lemma ids_withI: "r \<in> set rs \<Longrightarrow> P (rq_status r) \<Longrightarrow> rq_id r \<in> ids_with P rs"
  by (simp add: ids_with_def)

lemma ids_with_subset: "ids_with P rs \<subseteq> rq_id ` set rs"
  by (auto simp: ids_with_def)

lemma map_rq_id_update_status [simp]: "map rq_id (update_status i st rs) = map rq_id rs"
  by (induction rs) auto

lemma ids_with_update_status:
  assumes "distinct (map rq_id rs)" and "\<not> P st"
  shows "ids_with P (update_status i st rs) = ids_with P rs - {i}"
  using assms
proof (induction rs)
  case (Cons r rs)
  then have "rq_id r \<notin> rq_id ` set rs" by simp
  then have "rq_id r \<notin> ids_with P rs" by (rule contra_subsetD [OF ids_with_subset])
  with Cons show ?case by (cases "rq_id r = i") (simp_all add: insert_Diff_if Diff_triv)
qed simp

lemma status_map_notin: "d \<notin> rq_id ` set rs \<Longrightarrow> status_map rs m d = m d"
  by (induction rs arbitrary: m) auto

lemma status_map_distinct:
  "distinct (map rq_id rs) \<Longrightarrow> r \<in> set rs \<Longrightarrow> status_map rs m (rq_id r) = Some (rq_status r)"
proof (induction rs arbitrary: m)
  case (Cons a rs)
  show ?case
  proof (cases "r = a")
    case True
    with Cons.prems(1) show ?thesis by (simp add: status_map_notin)
  next
    case False
    with Cons.prems have "r \<in> set rs" by simp
    with Cons.prems(1) show ?thesis by (simp add: Cons.IH)
  qed
qed simp

end
