(* ===== verification/Adapter.thy ===== *)
theory Adapter
  imports Rtmx
begin

text \<open>
  The coding-agent adapter interface, \<open>internal/harness/harness.go\<close>, with the contract the
  control loop relies on as a locale, the in-memory adapter (\<open>fake.go\<close>) and the Goose and OpenCode
  stubs (\<open>goose/goose.go\<close>, \<open>opencode/opencode.go\<close>).  An adapter's \<open>Drive\<close> returns its diff, whether it failed, and the state
  it leaves.
\<close>

section \<open>The interface\<close>

record event =
  ev_tool :: string
  ev_args :: string
  ev_obs :: string
  ev_err :: bool
  ev_kind :: string

record diff =
  df_req :: string
  df_patch :: string
  df_turns :: int
  df_tool_calls :: int
  df_valid_calls :: int
  df_tokens :: int
  df_trace :: "event list"

text \<open>The zero \<open>Diff\<close> that names only its requirement.\<close>

definition empty_diff :: "string \<Rightarrow> diff" where
  "empty_diff i = \<lparr>df_req = i, df_patch = [], df_turns = 0, df_tool_calls = 0, df_valid_calls = 0,
     df_tokens = 0, df_trace = []\<rparr>"

definition diff_ok :: "diff \<Rightarrow> bool" where
  "diff_ok d \<longleftrightarrow> 0 \<le> df_turns d \<and> 0 \<le> df_valid_calls d \<and> df_valid_calls d \<le> df_tool_calls d \<and> 0 \<le> df_tokens d"

lemma diff_ok_empty [simp]: "diff_ok (empty_diff i)"
  by (simp add: diff_ok_def empty_diff_def)

locale adapter =
  fixes drive :: "requirement \<Rightarrow> string \<Rightarrow> 's \<Rightarrow> (diff \<times> bool) \<times> 's"
    and ainv :: "'s \<Rightarrow> bool"
  assumes drive_inv: "ainv s \<Longrightarrow> drive r fb s = ((d, failed), s') \<Longrightarrow> ainv s'"
    and drive_names_req: "ainv s \<Longrightarrow> drive r fb s = ((d, failed), s') \<Longrightarrow> df_req d = rq_id r"
    and drive_counts: "ainv s \<Longrightarrow> drive r fb s = ((d, failed), s') \<Longrightarrow> diff_ok d"

section \<open>The in-memory adapter\<close>

record fake_adapter =
  fa_name :: string
  fa_drive_err :: bool
  fa_unhealthy :: bool
  fa_malformed :: bool
  fa_calls :: int
  fa_trace :: "event list"
  fa_last_feedback :: string

definition new_fake_adapter :: fake_adapter where
  "new_fake_adapter = \<lparr>fa_name = ''fake'', fa_drive_err = False, fa_unhealthy = False,
     fa_malformed = False, fa_calls = 0, fa_trace = [], fa_last_feedback = []\<rparr>"

definition fake_name :: "fake_adapter \<Rightarrow> string" where
  "fake_name f = (if fa_name f = [] then ''fake'' else fa_name f)"

definition fake_drive :: "requirement \<Rightarrow> string \<Rightarrow> fake_adapter \<Rightarrow> (diff \<times> bool) \<times> fake_adapter" where
  "fake_drive r fb f =
     (let f1 = f\<lparr>fa_calls := fa_calls f + 1, fa_last_feedback := fb\<rparr>
      in if fa_drive_err f1 then ((empty_diff (rq_id r), True), f1)
         else
           let d = \<lparr>df_req = rq_id r,
                    df_patch = ''--- a/'' @ rq_id r @ ''\<newline>+++ b/'' @ rq_id r @ ''\<newline>'',
                    df_turns = 1, df_tool_calls = 1, df_valid_calls = 1, df_tokens = 100, df_trace = []\<rparr>;
               d1 = (if fa_malformed f1 then d\<lparr>df_tool_calls := 2, df_valid_calls := 1, df_turns := 2\<rparr> else d)
           in ((d1\<lparr>df_trace := fa_trace f1\<rparr>, False), f1))"

definition fake_adapter_health :: "fake_adapter \<Rightarrow> bool" where
  "fake_adapter_health f = (\<not> fa_unhealthy f)"

interpretation fake_ad: adapter fake_drive "\<lambda>_. True"
  by unfold_locales (auto simp: fake_drive_def Let_def empty_diff_def diff_ok_def split: if_splits)

section \<open>The Goose stub\<close>

definition goose_drive :: "requirement \<Rightarrow> string \<Rightarrow> 's \<Rightarrow> (diff \<times> bool) \<times> 's" where
  "goose_drive r fb s = ((empty_diff (rq_id r), True), s)"

definition goose_health :: bool where "goose_health = False"

interpretation goose_ad: adapter goose_drive "\<lambda>_. True"
  by unfold_locales (auto simp: goose_drive_def empty_diff_def diff_ok_def)

definition opencode_drive :: "requirement \<Rightarrow> string \<Rightarrow> 's \<Rightarrow> (diff \<times> bool) \<times> 's" where
  "opencode_drive r fb s = ((empty_diff (rq_id r), True), s)"

definition opencode_health :: bool where "opencode_health = False"

interpretation opencode_ad: adapter opencode_drive "\<lambda>_. True"
  by unfold_locales (auto simp: opencode_drive_def empty_diff_def diff_ok_def)

end
