(* ===== verification/Stuck.thy ===== *)
theory Stuck
  imports Adapter
begin

text \<open>
  The stuck detector, \<open>internal/loop/stuck.go\<close>: patterns in the tail of an agent trajectory
  (runaway condensation, repeated errors, repeated action-observation pairs, ping-pong and
  monologue).  \<open>detect_stuck\<close> follows \<open>DetectStuck\<close>; \<open>stuck_pattern\<close> states each pattern without
  the scans, and the lemmas show the detector reports the first pattern that is present.
\<close>

section \<open>The detector\<close>

record step =
  sp_tool :: string
  sp_args :: string
  sp_obs :: string
  sp_err :: bool
  sp_kind :: string

definition steps_from_trace :: "event list \<Rightarrow> step list" where
  "steps_from_trace evs =
     map (\<lambda>e. \<lparr>sp_tool = ev_tool e, sp_args = ev_args e, sp_obs = ev_obs e,
               sp_err = ev_err e, sp_kind = ev_kind e\<rparr>) evs"

datatype stuck_reason =
  NotStuck | StuckRepeatedAction | StuckRepeatedError | StuckMonologue | StuckPingPong | StuckCondensing

record thresholds =
  th_repeated_action :: int
  th_repeated_error :: int
  th_monologue :: int
  th_ping_pong :: int
  th_condensations :: int

definition default_thresholds :: thresholds where
  "default_thresholds = \<lparr>th_repeated_action = 4, th_repeated_error = 3, th_monologue = 3,
     th_ping_pong = 3, th_condensations = 10\<rparr>"

definition act_key :: "step \<Rightarrow> string" where
  "act_key s = sp_tool s @ CHR 0x00 # sp_args s"

definition step_key :: "step \<Rightarrow> string" where
  "step_key s = sp_tool s @ CHR 0x00 # sp_args s @ CHR 0x00 # sp_obs s"

text \<open>\<open>steps[len(steps)-n:]\<close>, and the guard \<open>n > 0 && len(steps) >= n\<close> under which it is taken.\<close>

definition last_n :: "int \<Rightarrow> step list \<Rightarrow> step list" where
  "last_n n steps = drop (length steps - nat n) steps"

definition has_last :: "int \<Rightarrow> step list \<Rightarrow> bool" where
  "has_last n steps \<longleftrightarrow> n > 0 \<and> int (length steps) \<ge> n"

definition is_condensing :: "step list \<Rightarrow> int \<Rightarrow> bool" where
  "is_condensing steps n \<longleftrightarrow> n > 0 \<and> int (length (filter (\<lambda>s. sp_kind s = ''condense'') steps)) \<ge> n"

definition is_repeated_error :: "step list \<Rightarrow> int \<Rightarrow> bool" where
  "is_repeated_error steps n \<longleftrightarrow> has_last n steps \<and>
     (let w = last_n n steps; k0 = act_key (hd w) in list_all (\<lambda>s. sp_err s \<and> act_key s = k0) w)"

definition is_repeated_action :: "step list \<Rightarrow> int \<Rightarrow> bool" where
  "is_repeated_action steps n \<longleftrightarrow> has_last n steps \<and>
     (let w = last_n n steps; k0 = step_key (hd w)
      in sp_kind (hd w) \<noteq> ''condense'' \<and> list_all (\<lambda>s. step_key s = k0) (tl w))"

fun alternates :: "string \<Rightarrow> string \<Rightarrow> step list \<Rightarrow> bool" where
  "alternates ka kb [] = True"
| "alternates ka kb (s # ss) = (step_key s = ka \<and> alternates kb ka ss)"

definition is_ping_pong :: "step list \<Rightarrow> int \<Rightarrow> bool" where
  "is_ping_pong steps c \<longleftrightarrow> c \<ge> 2 \<and> int (length steps) \<ge> 2 * c \<and>
     (let w = last_n (2 * c) steps; ka = step_key (w ! 0); kb = step_key (w ! 1)
      in ka \<noteq> kb \<and> alternates ka kb w)"

definition is_monologue :: "step list \<Rightarrow> int \<Rightarrow> bool" where
  "is_monologue steps n \<longleftrightarrow> has_last n steps \<and> list_all (\<lambda>s. sp_tool s = []) (last_n n steps)"

definition detect_stuck :: "step list \<Rightarrow> thresholds \<Rightarrow> stuck_reason" where
  "detect_stuck steps t =
     (if is_condensing steps (th_condensations t) then StuckCondensing
      else if is_repeated_error steps (th_repeated_error t) then StuckRepeatedError
      else if is_repeated_action steps (th_repeated_action t) then StuckRepeatedAction
      else if is_ping_pong steps (th_ping_pong t) then StuckPingPong
      else if is_monologue steps (th_monologue t) then StuckMonologue
      else NotStuck)"

section \<open>What each pattern means\<close>

text \<open>
  The trajectory ends in a block of \<open>n\<close> steps with property \<open>P\<close>; keys without NUL bytes
  identify a step by its tool, arguments and observation.
\<close>

definition ends_with :: "int \<Rightarrow> (step list \<Rightarrow> bool) \<Rightarrow> step list \<Rightarrow> bool" where
  "ends_with n P steps \<longleftrightarrow> (\<exists>pre w. steps = pre @ w \<and> int (length w) = n \<and> P w)"

definition plain :: "step \<Rightarrow> bool" where
  "plain s \<longleftrightarrow> CHR 0x00 \<notin> set (sp_tool s) \<and> CHR 0x00 \<notin> set (sp_args s)"

lemma append_sep_inj:
  assumes "a @ c # b = a' @ c # b'" and "c \<notin> set a" and "c \<notin> set a'"
  shows "a = a' \<and> b = b'"
  using assms by (induction a arbitrary: a') (auto simp: Cons_eq_append_conv)

lemma append_sep_eq:
  "c \<notin> set a \<Longrightarrow> c \<notin> set a' \<Longrightarrow> a @ c # b = a' @ c # b' \<longleftrightarrow> a = a' \<and> b = b'"
  using append_sep_inj [of a c b a' b'] by (rule iffI) simp_all

lemma step_key_inj:
  assumes "plain s" and "plain s'"
  shows "step_key s = step_key s' \<longleftrightarrow> sp_tool s = sp_tool s' \<and> sp_args s = sp_args s' \<and> sp_obs s = sp_obs s'"
  using assms by (simp add: step_key_def plain_def append_sep_eq)

lemma act_key_inj:
  assumes "plain s" and "plain s'"
  shows "act_key s = act_key s' \<longleftrightarrow> sp_tool s = sp_tool s' \<and> sp_args s = sp_args s'"
  using assms by (simp add: act_key_def plain_def append_sep_eq)

lemma ends_with_last_n:
  assumes "n > 0"
  shows "ends_with n P steps \<longleftrightarrow> int (length steps) \<ge> n \<and> P (last_n n steps)"
proof
  assume "ends_with n P steps"
  then obtain pre w where "steps = pre @ w" "int (length w) = n" "P w" by (auto simp: ends_with_def)
  moreover from this have "last_n n steps = w" by (auto simp: last_n_def)
  ultimately show "int (length steps) \<ge> n \<and> P (last_n n steps)" by simp
next
  assume *: "int (length steps) \<ge> n \<and> P (last_n n steps)"
  have "steps = take (length steps - nat n) steps @ last_n n steps" by (simp add: last_n_def)
  moreover have "int (length (last_n n steps)) = n"
  proof -
    have "nat n \<le> length steps" using * by linarith
    then show ?thesis using assms by (simp add: last_n_def)
  qed
  ultimately show "ends_with n P steps" using * unfolding ends_with_def by blast
qed

text \<open>
  The patterns, declaratively: the same erroring action \<open>n\<close> times, the same step \<open>n\<close> times, two
  different steps taking turns, \<open>n\<close> messages without a tool call, \<open>n\<close> condensations in all.
\<close>

fun stuck_pattern :: "thresholds \<Rightarrow> stuck_reason \<Rightarrow> step list \<Rightarrow> bool" where
  "stuck_pattern t StuckCondensing steps =
     (th_condensations t > 0 \<and>
      int (count_list (map sp_kind steps) ''condense'') \<ge> th_condensations t)"
| "stuck_pattern t StuckRepeatedError steps =
     (th_repeated_error t > 0 \<and>
      ends_with (th_repeated_error t) (\<lambda>w. \<forall>s \<in> set w. \<forall>s' \<in> set w. sp_err s \<and> act_key s = act_key s') steps)"
| "stuck_pattern t StuckRepeatedAction steps =
     (th_repeated_action t > 0 \<and>
      ends_with (th_repeated_action t)
        (\<lambda>w. sp_kind (hd w) \<noteq> ''condense'' \<and> (\<forall>s \<in> set w. \<forall>s' \<in> set w. step_key s = step_key s')) steps)"
| "stuck_pattern t StuckPingPong steps =
     (th_ping_pong t \<ge> 2 \<and>
      ends_with (2 * th_ping_pong t)
        (\<lambda>w. step_key (w ! 0) \<noteq> step_key (w ! 1) \<and>
             (\<forall>i < length w. step_key (w ! i) = step_key (w ! (i mod 2)))) steps)"
| "stuck_pattern t StuckMonologue steps =
     (th_monologue t > 0 \<and> ends_with (th_monologue t) (\<lambda>w. \<forall>s \<in> set w. sp_tool s = []) steps)"
| "stuck_pattern t NotStuck steps = True"

lemma alternates_iff:
  "alternates ka kb w \<longleftrightarrow> (\<forall>i < length w. step_key (w ! i) = (if even i then ka else kb))"
proof (induction w arbitrary: ka kb)
  case Nil
  then show ?case by simp
next
  case (Cons s w)
  then show ?case by (auto simp: All_less_Suc2)
qed

lemma length_last_n: "has_last n steps \<Longrightarrow> length (last_n n steps) = nat n"
  by (auto simp: has_last_def last_n_def)

lemma is_condensing_iff: "is_condensing steps (th_condensations t) \<longleftrightarrow> stuck_pattern t StuckCondensing steps"
  by (simp add: is_condensing_def count_list_eq_length_filter filter_map comp_def eq_commute)

lemma is_repeated_error_iff:
  "is_repeated_error steps (th_repeated_error t) \<longleftrightarrow> stuck_pattern t StuckRepeatedError steps"
proof (cases "has_last (th_repeated_error t) steps")
  case True
  then have "last_n (th_repeated_error t) steps \<noteq> []"
    using length_last_n [OF True] by (auto simp: has_last_def)
  then obtain x w where w: "last_n (th_repeated_error t) steps = x # w" by (cases "last_n (th_repeated_error t) steps") auto
  from True w show ?thesis
    by (auto simp: is_repeated_error_def ends_with_last_n has_last_def Let_def list_all_iff)
next
  case False
  then show ?thesis by (auto simp: is_repeated_error_def has_last_def ends_with_last_n)
qed

lemma is_repeated_action_iff:
  "is_repeated_action steps (th_repeated_action t) \<longleftrightarrow> stuck_pattern t StuckRepeatedAction steps"
proof (cases "has_last (th_repeated_action t) steps")
  case True
  then have "last_n (th_repeated_action t) steps \<noteq> []"
    using length_last_n [OF True] by (auto simp: has_last_def)
  then obtain x w where w: "last_n (th_repeated_action t) steps = x # w" by (cases "last_n (th_repeated_action t) steps") auto
  from True w show ?thesis
    by (auto simp: is_repeated_action_def ends_with_last_n has_last_def Let_def list_all_iff)
next
  case False
  then show ?thesis by (auto simp: is_repeated_action_def has_last_def ends_with_last_n)
qed

lemma is_ping_pong_iff:
  "is_ping_pong steps (th_ping_pong t) \<longleftrightarrow> stuck_pattern t StuckPingPong steps"
proof (cases "th_ping_pong t \<ge> 2")
  case True
  then have pos: "2 * th_ping_pong t > 0" by simp
  have "alternates (step_key (w ! 0)) (step_key (w ! 1)) w
      \<longleftrightarrow> (\<forall>i < length w. step_key (w ! i) = step_key (w ! (i mod 2)))" for w
    by (auto simp: alternates_iff mod2_eq_if)
  then show ?thesis using True by (simp add: is_ping_pong_def ends_with_last_n [OF pos] Let_def)
qed (simp add: is_ping_pong_def)

lemma is_monologue_iff:
  "is_monologue steps (th_monologue t) \<longleftrightarrow> stuck_pattern t StuckMonologue steps"
  by (cases "th_monologue t > 0")
    (auto simp: is_monologue_def has_last_def ends_with_last_n list_all_iff)

lemmas pattern_iffs =
  is_condensing_iff is_repeated_error_iff is_repeated_action_iff is_ping_pong_iff is_monologue_iff

end
