(* ===== verification/FileSys.thy ===== *)
theory FileSys
  imports GoPath
begin

text \<open>
  The part of \<open>os\<close> the modelled packages use on text files: a flat map from paths to contents,
  the directories that exist, and the paths on which the host refuses a call.  A call that
  fails leaves the state as it was.
\<close>

record fs =
  fs_files :: "string \<rightharpoonup> string"
  fs_dirs :: "string set"
  fs_deny_read :: "string set"
  fs_deny_write :: "string set"
  fs_deny_mkdir :: "string set"

definition fs_exists :: "string \<Rightarrow> fs \<Rightarrow> bool" where
  "fs_exists p f \<longleftrightarrow> fs_files f p \<noteq> None \<or> p \<in> fs_dirs f"

definition fs_read :: "string \<Rightarrow> fs \<Rightarrow> string option" where
  "fs_read p f = (if p \<in> fs_deny_read f then None else fs_files f p)"

definition fs_can_write :: "string \<Rightarrow> fs \<Rightarrow> bool" where
  "fs_can_write p f \<longleftrightarrow> p \<notin> fs_deny_write f \<and> p \<notin> fs_dirs f \<and> path_dir p \<in> fs_dirs f"

text \<open>\<open>os.WriteFile\<close>: create or truncate, then write; the boolean is \<open>err == nil\<close>.\<close>

definition fs_write :: "string \<Rightarrow> string \<Rightarrow> fs \<Rightarrow> bool \<times> fs" where
  "fs_write p b f =
     (if fs_can_write p f then (True, f\<lparr>fs_files := (fs_files f)(p \<mapsto> b)\<rparr>) else (False, f))"

text \<open>An append to a file opened with \<open>O_APPEND\<close>, with or without \<open>O_CREATE\<close>.\<close>

definition fs_append :: "bool \<Rightarrow> string \<Rightarrow> string \<Rightarrow> fs \<Rightarrow> bool \<times> fs" where
  "fs_append create p b f =
     (case fs_files f p of
        Some old \<Rightarrow> if fs_can_write p f then (True, f\<lparr>fs_files := (fs_files f)(p \<mapsto> old @ b)\<rparr>)
                    else (False, f)
      | None \<Rightarrow> if create then fs_write p b f else (False, f))"

definition fs_remove :: "string \<Rightarrow> fs \<Rightarrow> bool \<times> fs" where
  "fs_remove p f =
     (if fs_files f p = None \<or> p \<in> fs_deny_write f then (False, f)
      else (True, f\<lparr>fs_files := (fs_files f)(p := None)\<rparr>))"

definition ancestors :: "string \<Rightarrow> string list" where
  "ancestors p =
     map (\<lambda>k. path_of_elems (is_abs p) (take k (path_elems p))) [0..<Suc (length (path_elems p))]"

definition fs_mkdir_all :: "string \<Rightarrow> fs \<Rightarrow> bool \<times> fs" where
  "fs_mkdir_all p f =
     (if path_clean p \<in> fs_dirs f then (True, f)
      else if p \<in> fs_deny_mkdir f \<or> list_ex (\<lambda>q. fs_files f q \<noteq> None) (ancestors p) then (False, f)
      else (True, f\<lparr>fs_dirs := fs_dirs f \<union> set (ancestors p)\<rparr>))"

lemma fs_write_ok: "fs_write p b f = (True, f') \<Longrightarrow> f' = f\<lparr>fs_files := (fs_files f)(p \<mapsto> b)\<rparr>"
  by (auto simp: fs_write_def split: if_splits)

lemma fs_write_fail: "fs_write p b f = (False, f') \<Longrightarrow> f' = f"
  by (auto simp: fs_write_def split: if_splits)

lemma fs_write_other: "fs_write p b f = (r, f') \<Longrightarrow> q \<noteq> p \<Longrightarrow> fs_files f' q = fs_files f q"
  by (auto simp: fs_write_def split: if_splits)

lemma fs_read_write:
  "fs_write p b f = (True, f') \<Longrightarrow> p \<notin> fs_deny_read f \<Longrightarrow> fs_read p f' = Some b"
  by (auto simp: fs_write_def fs_read_def split: if_splits)

lemma fs_append_other: "fs_append c p b f = (r, f') \<Longrightarrow> q \<noteq> p \<Longrightarrow> fs_files f' q = fs_files f q"
  by (auto simp: fs_append_def fs_write_def split: if_splits option.splits)

lemma fs_append_ok:
  "fs_append c p b f = (True, f') \<Longrightarrow>
     fs_files f' p = Some ((case fs_files f p of Some old \<Rightarrow> old | None \<Rightarrow> []) @ b)"
  by (auto simp: fs_append_def fs_write_def split: if_splits option.splits)

lemma fs_mkdir_all_files [simp]: "fs_files (snd (fs_mkdir_all p f)) = fs_files f"
  by (simp add: fs_mkdir_all_def)

lemma fs_mkdir_all_deny [simp]:
  "fs_deny_read (snd (fs_mkdir_all p f)) = fs_deny_read f"
  "fs_deny_write (snd (fs_mkdir_all p f)) = fs_deny_write f"
  by (simp_all add: fs_mkdir_all_def)

lemma fs_write_deny [simp]:
  "fs_deny_read (snd (fs_write p b f)) = fs_deny_read f"
  "fs_deny_write (snd (fs_write p b f)) = fs_deny_write f"
  "fs_dirs (snd (fs_write p b f)) = fs_dirs f"
  by (simp_all add: fs_write_def)

text \<open>
  No path is both a file and a directory, and the files and directories \<open>f\<close> has are still there
  to be written in \<open>g\<close>, under the same refusals.
\<close>

definition fs_ok :: "fs \<Rightarrow> bool" where
  "fs_ok f \<longleftrightarrow> (\<forall>p. fs_files f p \<noteq> None \<longrightarrow> p \<notin> fs_dirs f)"

definition fs_grown :: "fs \<Rightarrow> fs \<Rightarrow> bool" where
  "fs_grown f g \<longleftrightarrow> fs_dirs f \<subseteq> fs_dirs g \<and> fs_deny_read g = fs_deny_read f \<and>
     fs_deny_write g = fs_deny_write f \<and> fs_deny_mkdir g = fs_deny_mkdir f"

lemma fs_grown_refl [simp]: "fs_grown f f"
  by (simp add: fs_grown_def)

lemma fs_grown_trans: "fs_grown f g \<Longrightarrow> fs_grown g h \<Longrightarrow> fs_grown f h"
  by (auto simp: fs_grown_def)

lemma fs_mkdir_all_props:
  "fs_mkdir_all p f = (b, f') \<Longrightarrow> fs_files f' = fs_files f \<and> fs_grown f f' \<and> (fs_ok f \<longrightarrow> fs_ok f')"
  by (auto simp: fs_mkdir_all_def fs_grown_def fs_ok_def list_ex_iff split: if_splits)

lemma fs_write_props: "fs_write p c f = (b, f') \<Longrightarrow> fs_grown f f' \<and> (fs_ok f \<longrightarrow> fs_ok f')"
  by (auto simp: fs_write_def fs_can_write_def fs_grown_def fs_ok_def split: if_splits)

lemma fs_remove_props: "fs_remove p f = (b, f') \<Longrightarrow> fs_grown f f' \<and> (fs_ok f \<longrightarrow> fs_ok f')"
  by (auto simp: fs_remove_def fs_grown_def fs_ok_def split: if_splits)

section \<open>Directory trees\<close>

text \<open>
  A tree as \<open>filepath.WalkDir\<close> visits it: entries in lexical order, a directory before its
  contents.  A file that cannot be read has no content.
\<close>

datatype node = File string "string option" | Dir string "node list"

end
