(* ===== verification/Policies.thy ===== *)
theory Policies
  imports Complex_Main Memory Stuck FileSys Rtmx
begin

text \<open>
  The loop's policies, the small files of \<open>internal/loop\<close>: best-of-N selection, the fallback
  trigger, lead/worker routing, the handoff record, the self-test check on a patch, the research
  pre-stage over the source tree and the shadow-git checkpoint.  The research walk runs over a
  directory tree in the order of \<open>filepath.WalkDir\<close>; git is an argument of the checkpoint.
\<close>

section \<open>Best of N\<close>

definition max_best_of_n :: int where "max_best_of_n = 2"

record candidate =
  cd_id :: string
  cd_passed :: bool
  cd_patch :: string

definition select_best_of_n :: "candidate list \<Rightarrow> candidate option" where
  "select_best_of_n cands = find cd_passed cands"

definition best_of_n_gate :: "bool \<Rightarrow> int" where
  "best_of_n_gate hard = (if hard then max_best_of_n else 1)"

lemma select_best_of_n_first:
  "select_best_of_n cands = Some c \<longleftrightarrow>
     (\<exists>pre post. cands = pre @ c # post \<and> cd_passed c \<and> (\<forall>x \<in> set pre. \<not> cd_passed x))"
proof
  assume "select_best_of_n cands = Some c"
  then show "\<exists>pre post. cands = pre @ c # post \<and> cd_passed c \<and> (\<forall>x \<in> set pre. \<not> cd_passed x)"
    unfolding select_best_of_n_def by (rule find_SomeE) blast
next
  assume "\<exists>pre post. cands = pre @ c # post \<and> cd_passed c \<and> (\<forall>x \<in> set pre. \<not> cd_passed x)"
  then obtain pre post where "cands = pre @ c # post" "cd_passed c" "\<forall>x \<in> set pre. \<not> cd_passed x" by blast
  then show "select_best_of_n cands = Some c"
    unfolding select_best_of_n_def by (induction pre arbitrary: cands) auto
qed

section \<open>Fallback and routing\<close>

definition em_dash :: string where "em_dash = [CHR 0xE2, CHR 0x80, CHR 0x94]"

definition fallback_directive :: string where
  "fallback_directive =
     ''The previous approach failed repeatedly with the same result. Try a materially different approach ''
     @ em_dash @ '' do not repeat the failed edits.''"

record fallback_policy =
  fp_after_failures :: int
  fp_temperature :: real

definition fallback :: "fallback_policy \<Rightarrow> int \<Rightarrow> bool \<times> real" where
  "fallback p consecutive_identical =
     (if fp_after_failures p > 0 \<and> consecutive_identical \<ge> fp_after_failures p
      then (True, fp_temperature p) else (False, 0))"

datatype role = Lead | Worker

record lead_worker_policy =
  lw_enabled :: bool
  lw_lead_model :: string
  lw_worker_model :: string

definition role_for :: "bool \<Rightarrow> role" where
  "role_for planning = (if planning then Lead else Worker)"

definition route :: "lead_worker_policy \<Rightarrow> role \<Rightarrow> string" where
  "route p r =
     (if lw_enabled p \<and> r = Worker \<and> lw_worker_model p \<noteq> [] then lw_worker_model p
      else lw_lead_model p)"

section \<open>Handoff\<close>

record handoff =
  ho_requirement_id :: string
  ho_title :: string
  ho_files_touched :: "string list"
  ho_decisions :: "string list"
  ho_next_step :: string

definition edit_tools :: "string list" where
  "edit_tools = [''edit'', ''write'', ''create'', ''patch'', ''str_replace'']"

fun files_from_trace :: "string list \<Rightarrow> step list \<Rightarrow> string list" where
  "files_from_trace seen [] = []"
| "files_from_trace seen (s # ss) =
     (if to_lower (sp_tool s) \<notin> set edit_tools then files_from_trace seen ss
      else (let f = trim_space (sp_args s)
            in if f \<noteq> [] \<and> f \<notin> set seen then f # files_from_trace (f # seen) ss
               else files_from_trace seen ss))"

definition build_handoff ::
  "requirement option \<Rightarrow> step list \<Rightarrow> string list \<Rightarrow> string \<Rightarrow> handoff" where
  "build_handoff req trace decisions nxt =
     \<lparr>ho_requirement_id = (case req of Some r \<Rightarrow> rq_id r | None \<Rightarrow> []),
      ho_title = (case req of Some r \<Rightarrow> rq_title r | None \<Rightarrow> []),
      ho_files_touched = files_from_trace [] trace, ho_decisions = decisions, ho_next_step = nxt\<rparr>"

definition handoff_render :: "handoff \<Rightarrow> string" where
  "handoff_render h =
     ''# Handoff (continuity across compaction)\<newline>\<newline>''
     @ ''Requirement: '' @ ho_requirement_id h
     @ (if ho_title h \<noteq> [] then '' '' @ em_dash @ '' '' @ ho_title h else [])
     @ ''\<newline>''
     @ (if ho_files_touched h \<noteq> [] then ''Files touched: '' @ join '', '' (ho_files_touched h) @ ''\<newline>'' else [])
     @ concat (map (\<lambda>d. ''Decision: '' @ d @ ''\<newline>'') (ho_decisions h))
     @ (if ho_next_step h \<noteq> [] then ''Next step: '' @ ho_next_step h @ ''\<newline>'' else [])"

lemma files_from_trace_seen: "set (files_from_trace seen ss) \<inter> set seen = {}"
  by (induction seen ss rule: files_from_trace.induct) (auto simp: Let_def)

lemma files_from_trace_distinct: "distinct (files_from_trace seen ss)"
proof (induction seen ss rule: files_from_trace.induct)
  case (2 seen s ss)
  then show ?case using files_from_trace_seen [of "trim_space (sp_args s) # seen" ss] by (auto simp: Let_def)
qed simp

lemma set_files_from_trace:
  "set (files_from_trace seen ss) =
     {f. \<exists>s \<in> set ss. to_lower (sp_tool s) \<in> set edit_tools \<and> f = trim_space (sp_args s)} - insert [] (set seen)"
proof (induction seen ss rule: files_from_trace.induct)
  case (2 seen s ss)
  show ?case
  proof (cases "to_lower (sp_tool s) \<in> set edit_tools")
    case False
    with 2(1) show ?thesis by auto
  next
    case True
    show ?thesis
    proof (cases "trim_space (sp_args s) \<noteq> [] \<and> trim_space (sp_args s) \<notin> set seen")
      case new: True
      with True 2(2) [OF _ refl new] show ?thesis by (auto simp: Let_def)
    next
      case old: False
      with True 2(3) [OF _ refl old] show ?thesis by (auto simp: Let_def)
    qed
  qed
qed simp

section \<open>Self-check\<close>

definition self_check_directive :: string where
  "self_check_directive =
     ''Self-check: before marking progress, write or extend a test that captures this requirement, then make it pass. Prove it with a test ''
     @ em_dash @ '' do not claim done on an opinion.''"

definition test_base :: "string \<Rightarrow> bool" where
  "test_base base \<longleftrightarrow> contains_str base ''_test.'' \<or> contains_str base ''.test.''
     \<or> contains_str base ''.spec.'' \<or> has_prefix base ''test_''"

definition patch_line_base :: "string \<Rightarrow> string option" where
  "patch_line_base line =
     (let path0 = (if has_prefix line ''+++ '' then Some (trim_prefix line ''+++ '')
                   else if has_prefix line ''--- '' then Some (trim_prefix line ''--- '') else None)
      in (case path0 of
            None \<Rightarrow> None
          | Some p \<Rightarrow>
              let p1 = (case str_fields (trim_space p) of [] \<Rightarrow> p | f # _ \<Rightarrow> f);
                  p2 = trim_prefix p1 ''a/''; p3 = trim_prefix p2 ''b/''
              in Some (after_last CHR ''/'' p3)))"

definition self_test_in_patch :: "string \<Rightarrow> bool" where
  "self_test_in_patch patch \<longleftrightarrow>
     list_ex (\<lambda>line. case patch_line_base line of None \<Rightarrow> False | Some b \<Rightarrow> test_base b)
       (split_on CHR ''\<newline>'' patch)"

section \<open>Research\<close>

definition source_exts :: "string list" where
  "source_exts = [''.go'', ''.py'', ''.js'', ''.ts'', ''.tsx'', ''.jsx'', ''.java'', ''.c'', ''.cc'',
     ''.cpp'', ''.h'', ''.hpp'', ''.rs'', ''.rb'', ''.php'', ''.cs'', ''.md'', ''.txt'', ''.yaml'',
     ''.yml'', ''.toml'', ''.json'']"

definition is_source_file :: "string \<Rightarrow> bool" where
  "is_source_file path \<longleftrightarrow> to_lower (path_ext path) \<in> set source_exts"

definition ident_char :: "char \<Rightarrow> bool" where
  "ident_char c \<longleftrightarrow> (CHR ''a'' \<le> c \<and> c \<le> CHR ''z'') \<or> (CHR ''A'' \<le> c \<and> c \<le> CHR ''Z'')
     \<or> (CHR ''0'' \<le> c \<and> c \<le> CHR ''9'') \<or> c = CHR ''_''"

fun title_terms :: "string list \<Rightarrow> string list \<Rightarrow> string list" where
  "title_terms seen [] = []"
| "title_terms seen (w # ws) =
     (if length w \<ge> 4 \<and> CHR ''A'' \<le> hd w \<and> hd w \<le> CHR ''Z'' \<and> w \<notin> set seen
      then w # title_terms (w # seen) ws else title_terms seen ws)"

definition terms_from_requirement :: "requirement \<Rightarrow> string list" where
  "terms_from_requirement r = title_terms [] (fields_func (\<lambda>c. \<not> ident_char c) [] (rq_title r))"

text \<open>Hits so far, the store they are emitted into and the disk it is saved on.\<close>

record research =
  rs_hits :: int
  rs_store :: mstore
  rs_disk :: mdisk

definition line_matches :: "string list \<Rightarrow> string \<Rightarrow> bool" where
  "line_matches terms line \<longleftrightarrow> list_ex (\<lambda>t. t \<noteq> [] \<and> contains_str line t) terms"

fun research_lines ::
  "string \<Rightarrow> string list \<Rightarrow> int \<Rightarrow> nat \<Rightarrow> string list \<Rightarrow> research \<Rightarrow> research" where
  "research_lines rel terms maxh n [] r = r"
| "research_lines rel terms maxh n (line # lines) r =
     (if rs_hits r \<ge> maxh then r
      else research_lines rel terms maxh (Suc n) lines
             (if line_matches terms line then
                (case emit (rs_disk r) (rs_store r) Snippet (rel @ '':'' @ show_nat n) (trim_space line) of
                   (ok, st, d) \<Rightarrow> \<lparr>rs_hits = rs_hits r + 1, rs_store = st, rs_disk = d\<rparr>)
              else r))"

definition skip_research_dir :: "string \<Rightarrow> bool" where
  "skip_research_dir b \<longleftrightarrow> b \<in> set [''vendor'', ''.git'', ''node_modules'', ''testdata'']
     \<or> (has_prefix b ''.'' \<and> b \<noteq> ''.'')"

fun node_name :: "node \<Rightarrow> string" where
  "node_name (File b c) = b"
| "node_name (Dir b ns) = b"

text \<open>
  The walk: once the cap is reached every further visit returns \<open>SkipAll\<close>, so nothing changes.
\<close>

fun research_node :: "string \<Rightarrow> string list \<Rightarrow> int \<Rightarrow> string \<Rightarrow> node \<Rightarrow> research \<Rightarrow> research"
and research_nodes :: "string \<Rightarrow> string list \<Rightarrow> int \<Rightarrow> string \<Rightarrow> node list \<Rightarrow> research \<Rightarrow> research" where
  "research_node rt terms maxh path (File b c) r =
     (if rs_hits r \<ge> maxh then r
      else if \<not> is_source_file path then r
      else (case c of
              None \<Rightarrow> r
            | Some data \<Rightarrow>
                research_lines (case path_rel rt path of Some rel \<Rightarrow> rel | None \<Rightarrow> []) terms maxh 1
                  (split_on CHR ''\<newline>'' data) r))"
| "research_node rt terms maxh path (Dir b ns) r =
     (if rs_hits r \<ge> maxh then r
      else if skip_research_dir b then r
      else research_nodes rt terms maxh path ns r)"
| "research_nodes rt terms maxh path [] r = r"
| "research_nodes rt terms maxh path (n # ns) r =
     research_nodes rt terms maxh path ns
       (research_node rt terms maxh (path_join [path, node_name n]) n r)"

definition research_pre_stage ::
  "mstore option \<Rightarrow> mdisk \<Rightarrow> string \<Rightarrow> node \<Rightarrow> string list \<Rightarrow> int \<Rightarrow> int \<times> mstore option \<times> mdisk" where
  "research_pre_stage store d rt tree terms max_hits =
     (case store of
        None \<Rightarrow> (0, None, d)
      | Some st \<Rightarrow>
          if terms = [] then (0, Some st, d)
          else
            let maxh = (if max_hits \<le> 0 then 20 else max_hits);
                r = research_node rt terms maxh rt tree \<lparr>rs_hits = 0, rs_store = st, rs_disk = d\<rparr>
            in (rs_hits r, Some (rs_store r), rs_disk r))"

section \<open>Checkpoint\<close>

definition git_shadow :: "string \<Rightarrow> string \<Rightarrow> string list \<Rightarrow> string list" where
  "git_shadow workspace git_dir args =
     [''--git-dir='' @ git_dir, ''--work-tree='' @ workspace, ''-c'', ''user.email=aegis@local'',
      ''-c'', ''user.name=aegis'', ''-c'', ''commit.gpgsign=false''] @ args"

text \<open>A run of commands that stops at the first failure; git takes arguments and a repository.\<close>

fun run_all :: "(string list \<Rightarrow> 'g \<Rightarrow> (bool \<times> string) \<times> 'g) \<Rightarrow> string list list \<Rightarrow> 'g \<Rightarrow> bool \<times> 'g" where
  "run_all git [] g = (True, g)"
| "run_all git (c # cs) g =
     (case git c g of ((ok, out), g') \<Rightarrow> if ok then run_all git cs g' else (False, g'))"

definition checkpoint ::
  "(string list \<Rightarrow> 'g \<Rightarrow> (bool \<times> string) \<times> 'g) \<Rightarrow> string \<Rightarrow> string \<Rightarrow> 'g \<Rightarrow> (string \<times> bool) \<times> 'g" where
  "checkpoint git workspace git_dir g =
     (let sh = git_shadow workspace git_dir
      in case run_all git [sh [''init'', ''-q''], sh [''add'', ''-A''],
                sh [''commit'', ''-q'', ''--allow-empty'', ''-m'', ''aegis checkpoint'']] g of
           (ok, g1) \<Rightarrow>
             if \<not> ok then (([], False), g1)
             else (case git (sh [''rev-parse'', ''HEAD'']) g1 of
                     ((ok', out), g2) \<Rightarrow> ((trim_space out, ok'), g2)))"

definition rollback ::
  "(string list \<Rightarrow> 'g \<Rightarrow> (bool \<times> string) \<times> 'g) \<Rightarrow> string \<Rightarrow> string \<Rightarrow> string \<Rightarrow> 'g \<Rightarrow> bool \<times> 'g" where
  "rollback git workspace git_dir sha g =
     run_all git [git_shadow workspace git_dir [''reset'', ''-q'', ''--hard'', sha],
                  git_shadow workspace git_dir [''clean'', ''-fdq'']] g"

section \<open>Research keeps the store\<close>

definition research_ok :: "int \<Rightarrow> research \<Rightarrow> bool" where
  "research_ok maxh r \<longleftrightarrow> 0 \<le> rs_hits r \<and> rs_hits r \<le> maxh \<and> mem_wf (rs_store r) \<and> mem_capped (rs_store r)"

lemma research_lines_ok:
  "research_ok maxh r \<Longrightarrow> research_ok maxh (research_lines rel terms maxh n lines r)"
proof (induction rel terms maxh n lines r rule: research_lines.induct)
  case (2 rel terms maxh n line lines r)
  show ?case
  proof (cases "rs_hits r \<ge> maxh")
    case True
    with 2 show ?thesis by simp
  next
    case False
    obtain ok st d where e: "emit (rs_disk r) (rs_store r) Snippet (rel @ '':'' @ show_nat n) (trim_space line) = (ok, st, d)"
      by (metis prod_cases3)
    have "mem_wf st" "mem_capped st"
      using emit_keeps_wf [of "rs_store r" "rs_disk r" Snippet "rel @ '':'' @ show_nat n" "trim_space line"]
        emit_keeps_capped [of "rs_store r" "rs_disk r" Snippet "rel @ '':'' @ show_nat n" "trim_space line"]
        2(2) e by (simp_all add: research_ok_def)
    then have "research_ok maxh (if line_matches terms line then
                (case emit (rs_disk r) (rs_store r) Snippet (rel @ '':'' @ show_nat n) (trim_space line) of
                   (ok, st, d) \<Rightarrow> \<lparr>rs_hits = rs_hits r + 1, rs_store = st, rs_disk = d\<rparr>) else r)"
      using 2(2) False unfolding e by (simp add: research_ok_def)
    from 2(1) [OF False this] show ?thesis
      using False by (simp only: research_lines.simps if_False)
  qed
qed simp

lemma research_node_ok:
  "research_ok maxh r \<Longrightarrow> research_ok maxh (research_node rt terms maxh path nd r)"
  "research_ok maxh r \<Longrightarrow> research_ok maxh (research_nodes rt terms maxh path nds r)"
  by (induction rt terms maxh path nd r and rt terms maxh path nds r
        rule: research_node_research_nodes.induct)
    (auto simp: research_lines_ok split: option.splits)

end
