(* ===== verification/Ledger.thy ===== *)
theory Ledger
  imports FileSys
begin

text \<open>
  The sub-task ledger, \<open>internal/loop/ledger.go\<close>: one markdown checklist per requirement, kept on
  disk.  \<open>check_lines\<close> is the line loop of \<open>Check\<close>, \<open>items_of\<close> the parse of \<open>Items\<close>.
\<close>

section \<open>The ledger file\<close>

record ledger = lg_dir :: string

record item =
  it_done :: bool
  it_text :: string

abbreviation open_mark :: string where "open_mark \<equiv> ''- [ ] ''"
abbreviation done_mark :: string where "done_mark \<equiv> ''- [x] ''"

definition ledger_path :: "ledger \<Rightarrow> string \<Rightarrow> string" where
  "ledger_path l i = path_join [lg_dir l, replace_char CHR ''/'' ''_'' i @ ''.md'']"

definition seed_header :: "string \<Rightarrow> string \<Rightarrow> string" where
  "seed_header i title =
     ''# '' @ title @ '' ('' @ i @ '')\<newline>\<newline>''
     @ ''- [ ] Understand the requirement and its linked test\<newline>''
     @ ''- [ ] Implement the change\<newline>''
     @ ''- [ ] Make the linked test pass\<newline>''"

definition ledger_seed :: "ledger \<Rightarrow> string \<Rightarrow> string \<Rightarrow> fs \<Rightarrow> bool \<times> fs" where
  "ledger_seed l i title f =
     (let p = ledger_path l i
      in if fs_exists p f then (True, f)
         else (case fs_mkdir_all (lg_dir l) f of
                 (ok, f1) \<Rightarrow> if \<not> ok then (False, f1) else fs_write p (seed_header i title) f1))"

definition parse_item :: "string \<Rightarrow> item option" where
  "parse_item line =
     (let t = trim_space line
      in if has_prefix t open_mark then Some \<lparr>it_done = False, it_text = trim_prefix t open_mark\<rparr>
         else if has_prefix t done_mark then Some \<lparr>it_done = True, it_text = trim_prefix t done_mark\<rparr>
         else None)"

definition items_of :: "string list \<Rightarrow> item list" where
  "items_of lines = List.map_filter parse_item lines"

definition ledger_items :: "ledger \<Rightarrow> string \<Rightarrow> fs \<Rightarrow> item list option" where
  "ledger_items l i f =
     (case fs_read (ledger_path l i) f of
        None \<Rightarrow> None
      | Some b \<Rightarrow> Some (items_of (split_on CHR ''\<newline>'' b)))"

definition ledger_add :: "ledger \<Rightarrow> string \<Rightarrow> string \<Rightarrow> fs \<Rightarrow> bool \<times> fs" where
  "ledger_add l i txt f = fs_append False (ledger_path l i) (open_mark @ txt @ ''\<newline>'') f"

fun check_lines :: "int \<Rightarrow> int \<Rightarrow> string list \<Rightarrow> string list" where
  "check_lines seen idx [] = []"
| "check_lines seen idx (line # lines) =
     (let t = trim_space line
      in if has_prefix t open_mark \<or> has_prefix t done_mark then
           (if seen + 1 = idx then replace_first open_mark done_mark line # lines
            else line # check_lines (seen + 1) idx lines)
         else line # check_lines seen idx lines)"

definition ledger_check :: "ledger \<Rightarrow> string \<Rightarrow> int \<Rightarrow> fs \<Rightarrow> bool \<times> fs" where
  "ledger_check l i idx f =
     (case fs_read (ledger_path l i) f of
        None \<Rightarrow> (False, f)
      | Some b \<Rightarrow>
          fs_write (ledger_path l i)
            (join [CHR ''\<newline>''] (check_lines (-1) idx (split_on CHR ''\<newline>'' b))) f)"

definition ledger_render :: "ledger \<Rightarrow> string \<Rightarrow> fs \<Rightarrow> string" where
  "ledger_render l i f = (case fs_read (ledger_path l i) f of None \<Rightarrow> [] | Some b \<Rightarrow> b)"

section \<open>Trimming around a mark\<close>

lemma space_len_1: "ascii_space a \<Longrightarrow> space_len (a # r) = 1"
  by (cases "a # r" rule: space_len.cases) auto

lemma space_len_2: "\<not> ascii_space a \<Longrightarrow> space2 a b \<Longrightarrow> space_len (a # b # r) = 2"
  by (cases r) auto

lemma space_len_take:
  assumes "0 < space_len s"
  shows "space_len (take (space_len s) s @ r) = space_len s"
proof -
  consider (sp1) a s' where "s = a # s'" "ascii_space a"
    | (sp2) a b s' where "s = a # b # s'" "\<not> ascii_space a" "space2 a b"
    | (sp3) a b c s' where "s = a # b # c # s'" "\<not> ascii_space a" "\<not> space2 a b" "space3 a b c"
    using assms by (cases s rule: space_len.cases) (auto split: if_splits)
  then show ?thesis
  proof cases
    case sp1
    then show ?thesis by (simp add: space_len_1)
  next
    case sp2
    then show ?thesis by (simp add: space_len_2)
  next
    case sp3
    then have "space_len s = 3" by simp
    with sp3 show ?thesis by simp
  qed
qed

lemma space_len_dash [simp]: "space_len (CHR ''-'' # s) = 0"
proof -
  consider b c s' where "s = b # c # s'" | b where "s = [b]" | "s = []" by (metis neq_Nil_conv)
  then show ?thesis by cases (simp_all add: ascii_space_def space2_def space3_def)
qed

lemma dash_not_space:
  "CHR ''-'' \<notin> set (take (space_len s) s)"
proof -
  consider a b c s' where "s = a # b # c # s'" | a b where "s = [a, b]" | a where "s = [a]" | "s = []"
    by (metis neq_Nil_conv)
  then show ?thesis
    by cases (auto simp: ascii_space_def space2_def space3_def numeral_2_eq_2 numeral_3_eq_3)
qed

lemma ltrim_dash_prefix:
  "ltrim s = CHR ''-'' # x \<Longrightarrow>
     \<exists>a. s = a @ CHR ''-'' # x \<and> CHR ''-'' \<notin> set a \<and> (\<forall>y. ltrim (a @ CHR ''-'' # y) = CHR ''-'' # y)"
proof (induction s rule: ltrim.induct)
  case (1 s)
  show ?case
  proof (cases "s = [] \<or> space_len s = 0")
    case True
    then have "s = CHR ''-'' # x" using "1.prems" by (simp add: ltrim.simps [of s])
    moreover have "ltrim (CHR ''-'' # y) = CHR ''-'' # y" for y by (simp add: ltrim.simps [of "CHR ''-'' # y"])
    ultimately show ?thesis by (intro exI [of _ "[]"]) simp
  next
    case False
    let ?n = "space_len s"
    from False "1.prems" have "ltrim (drop ?n s) = CHR ''-'' # x" by (simp add: ltrim.simps [of s])
    with "1.IH" [OF False] obtain a where a: "drop ?n s = a @ CHR ''-'' # x" "CHR ''-'' \<notin> set a"
      "\<forall>y. ltrim (a @ CHR ''-'' # y) = CHR ''-'' # y" by blast
    have s: "s = (take ?n s @ a) @ CHR ''-'' # x" using a(1) by (metis append.assoc append_take_drop_id)
    have "?n \<le> length s"
      using False by (cases s rule: space_len.cases) (auto split: if_splits)
    then have len: "length (take ?n s) = ?n" by simp
    have "ltrim ((take ?n s @ a) @ CHR ''-'' # y) = CHR ''-'' # y" for y
    proof -
      have "space_len (take ?n s @ a @ CHR ''-'' # y) = ?n"
        using False by (intro space_len_take) simp
      moreover from this have "drop ?n (take ?n s @ a @ CHR ''-'' # y) = a @ CHR ''-'' # y"
        using len by simp
      ultimately show ?thesis using False a(3) len by (simp add: ltrim.simps [of "take ?n s @ a @ CHR ''-'' # y"])
    qed
    with s a(2) dash_not_space [of s] show ?thesis
      by (intro exI [of _ "take ?n s @ a"]) auto
  qed
qed

lemma space_len_rev_cong: "3 \<le> length xs \<Longrightarrow> space_len_rev (xs @ u) = space_len_rev (xs @ u')"
  by (cases xs rule: space_len_rev.cases) auto

lemma space_len_rev_rtrim: "space_len_rev (rtrim_rev s) = 0"
proof (induction s rule: rtrim_rev.induct)
  case (1 s)
  then show ?case by (cases "s = [] \<or> space_len_rev s = 0") (auto simp: rtrim_rev.simps [of s])
qed

lemma length_rtrim_rev: "length (rtrim_rev s) \<le> length s"
proof -
  obtain a where "s = a @ rtrim_rev s" using rtrim_rev_suffix by blast
  then have "length s = length (a @ rtrim_rev s)" by (rule arg_cong)
  then show ?thesis by simp
qed

lemma rtrim_core:
  "rtrim_rev (rb @ core @ u) = core @ u \<Longrightarrow> 3 \<le> length core \<Longrightarrow> rtrim_rev (rb @ core @ u') = core @ u'"
proof (induction "length rb" arbitrary: rb rule: less_induct)
  case less
  let ?n = "space_len_rev (rb @ core @ u)"
  have n': "space_len_rev (rb @ core @ u') = ?n"
    using space_len_rev_cong [of "rb @ core" u' u] less.prems(2) by simp
  show ?case
  proof (cases "?n = 0")
    case True
    then have "rb @ core @ u = core @ u" using less.prems(1) by (simp add: rtrim_rev.simps [of "rb @ core @ u"])
    then have "length (rb @ core @ u) = length (core @ u)" by (rule arg_cong)
    then have "rb = []" by simp
    with True n' show ?thesis by (simp add: rtrim_rev.simps [of "core @ u'"])
  next
    case False
    have ne: "core \<noteq> []" using less.prems(2) by auto
    have eq: "rtrim_rev (drop ?n (rb @ core @ u)) = core @ u"
      using False ne less.prems(1) by (simp add: rtrim_rev.simps [of "rb @ core @ u"])
    then have "length (core @ u) \<le> length (drop ?n (rb @ core @ u))"
      using length_rtrim_rev [of "drop ?n (rb @ core @ u)"] by simp
    moreover have "0 < length core" using ne by simp
    ultimately have nle: "?n \<le> length rb" by (simp only: length_append length_drop)
    then have d: "drop ?n (rb @ core @ v) = drop ?n rb @ core @ v" for v by simp
    have "rtrim_rev (drop ?n rb @ core @ u') = core @ u'"
    proof (rule less.hyps)
      show "length (drop ?n rb) < length rb" using False nle by simp
      show "rtrim_rev (drop ?n rb @ core @ u) = core @ u" using eq d by simp
    qed (rule less.prems(2))
    then show ?thesis using False ne n' d by (simp add: rtrim_rev.simps [of "rb @ core @ u'"])
  qed
qed

section \<open>The line loop\<close>

lemma replace_first_skip:
  "CHR ''-'' \<notin> set a \<Longrightarrow> replace_first open_mark new (a @ open_mark @ r) = a @ new @ r"
  by (induction a) auto

lemma set_replace_first: "set (replace_first old new s) \<subseteq> set new \<union> set s"
  by (induction old new s rule: replace_first.induct) (auto dest: in_set_dropD)

lemma trim_space_retag:
  assumes "trim_space line = open_mark @ w"
  shows "trim_space (replace_first open_mark done_mark line) = done_mark @ w"
proof -
  let ?L = "ltrim line"
  have r: "rtrim_rev (rev ?L) = rev (open_mark @ w)"
    using assms unfolding trim_space_def by (metis rev_rev_ident)
  obtain b where "rev ?L = b @ rev (open_mark @ w)" using rtrim_rev_suffix [of "rev ?L"] r by auto
  then have "rev (rev ?L) = rev (b @ rev (open_mark @ w))" by (rule arg_cong)
  then have L: "?L = open_mark @ w @ rev b" by simp
  then have "?L = CHR ''-'' # '' [ ] '' @ w @ rev b" by simp
  from ltrim_dash_prefix [OF this] obtain a where a: "line = a @ CHR ''-'' # '' [ ] '' @ w @ rev b"
    "CHR ''-'' \<notin> set a" "\<And>y. ltrim (a @ CHR ''-'' # y) = CHR ''-'' # y" by blast
  have wne: "w \<noteq> []"
  proof
    assume "w = []"
    then have "space_len_rev (rtrim_rev (rev ?L)) = 1" using r by (simp add: ascii_space_def)
    then show False by (simp add: space_len_rev_rtrim)
  qed
  have "replace_first open_mark done_mark line = a @ done_mark @ w @ rev b"
    using replace_first_skip [OF a(2), of done_mark "w @ rev b"] a(1) by simp
  then have l': "ltrim (replace_first open_mark done_mark line) = done_mark @ w @ rev b"
    using a(3) [of "'' [x] '' @ w @ rev b"] by simp
  have "rtrim_rev (b @ (rev w @ '' ]'') @ '' [ -'') = (rev w @ '' ]'') @ '' [ -''"
    using r L by simp
  moreover have "3 \<le> length (rev w @ '' ]'')" using wne by (cases w) auto
  ultimately have "rtrim_rev (b @ (rev w @ '' ]'') @ ''x[ -'') = (rev w @ '' ]'') @ ''x[ -''"
    by (rule rtrim_core)
  then have "rtrim_rev (rev (done_mark @ w @ rev b)) = rev (done_mark @ w)" by simp
  then show ?thesis unfolding trim_space_def l' by simp
qed

lemma parse_item_retag:
  assumes "parse_item line = Some it" and "\<not> it_done it"
  shows "parse_item (replace_first open_mark done_mark line) = Some (it\<lparr>it_done := True\<rparr>)"
proof -
  let ?t = "trim_space line"
  have p: "has_prefix ?t open_mark" using assms by (auto simp: parse_item_def Let_def split: if_splits)
  then obtain w where w: "?t = open_mark @ w" unfolding has_prefix_iff by blast
  have "it = \<lparr>it_done = False, it_text = w\<rparr>"
    using assms(1) w by (simp add: parse_item_def trim_prefix_def)
  moreover have "parse_item (replace_first open_mark done_mark line) = Some \<lparr>it_done = True, it_text = w\<rparr>"
    unfolding parse_item_def trim_space_retag [OF w] by (simp add: trim_prefix_def)
  ultimately show ?thesis by simp
qed

lemma items_of_Cons:
  "items_of (line # lines) = (case parse_item line of Some it \<Rightarrow> it # items_of lines | None \<Rightarrow> items_of lines)"
  by (simp add: items_of_def List.map_filter_def split: option.splits)

lemma items_of_Nil [simp]: "items_of [] = []"
  by (simp add: items_of_def List.map_filter_def)

lemma parse_item_None_iff:
  "parse_item line = None \<longleftrightarrow>
     \<not> (has_prefix (trim_space line) open_mark \<or> has_prefix (trim_space line) done_mark)"
  by (simp add: parse_item_def Let_def)

text \<open>
  \<open>check_lines\<close> on the parsed items: the item at the index becomes done, provided it is open; an
  index that names no item changes nothing.
\<close>

lemma items_of_check_lines:
  assumes "seen < idx" and "nat (idx - seen - 1) < length (items_of lines)"
    and "\<not> it_done (items_of lines ! nat (idx - seen - 1))"
  shows "items_of (check_lines seen idx lines)
       = (items_of lines)[nat (idx - seen - 1) := (items_of lines ! nat (idx - seen - 1))\<lparr>it_done := True\<rparr>]"
  using assms
proof (induction lines arbitrary: seen)
  case Nil
  then show ?case by simp
next
  case (Cons line lines)
  show ?case
  proof (cases "parse_item line")
    case None
    then have "check_lines seen idx (line # lines) = line # check_lines seen idx lines"
      by (simp add: parse_item_None_iff del: has_prefix_Cons_Cons)
    with Cons None show ?thesis by (simp add: items_of_Cons)
  next
    case (Some it)
    then have m: "has_prefix (trim_space line) open_mark \<or> has_prefix (trim_space line) done_mark"
      using parse_item_None_iff [of line] by (metis option.distinct(1))
    show ?thesis
    proof (cases "seen + 1 = idx")
      case True
      then have z: "nat (idx - seen - 1) = 0" by simp
      have c: "check_lines seen idx (line # lines) = replace_first open_mark done_mark line # lines"
        using m True by (simp only: check_lines.simps Let_def if_True refl)
      have "\<not> it_done it" using Cons.prems(3) z Some by (simp add: items_of_Cons)
      from parse_item_retag [OF Some this] show ?thesis
        unfolding c z by (simp add: items_of_Cons Some)
    next
      case False
      then have c: "check_lines seen idx (line # lines) = line # check_lines (seen + 1) idx lines"
        using m by (simp only: check_lines.simps Let_def if_True if_False)
      have n: "nat (idx - seen - 1) = Suc (nat (idx - (seen + 1) - 1))" using False Cons.prems(1) by linarith
      have "items_of (check_lines (seen + 1) idx lines)
          = (items_of lines)[nat (idx - (seen + 1) - 1) :=
               (items_of lines ! nat (idx - (seen + 1) - 1))\<lparr>it_done := True\<rparr>]"
      proof (rule Cons.IH)
        show "seen + 1 < idx" using False Cons.prems(1) by simp
        show "nat (idx - (seen + 1) - 1) < length (items_of lines)"
          using Cons.prems(2) unfolding n by (simp add: items_of_Cons Some)
        show "\<not> it_done (items_of lines ! nat (idx - (seen + 1) - 1))"
          using Cons.prems(3) unfolding n by (simp add: items_of_Cons Some)
      qed
      then show ?thesis unfolding c n by (simp only: items_of_Cons Some option.case list_update_code nth_Cons_Suc)
    qed
  qed
qed

lemma check_lines_out_of_range:
  assumes "idx \<le> seen \<or> length (items_of lines) \<le> nat (idx - seen - 1)"
  shows "check_lines seen idx lines = lines"
  using assms
proof (induction lines arbitrary: seen)
  case Nil
  then show ?case by simp
next
  case (Cons line lines)
  show ?case
  proof (cases "parse_item line")
    case None
    then have "check_lines seen idx (line # lines) = line # check_lines seen idx lines"
      by (simp add: parse_item_None_iff del: has_prefix_Cons_Cons)
    with Cons None show ?thesis by (simp add: items_of_Cons)
  next
    case (Some it)
    then have m: "has_prefix (trim_space line) open_mark \<or> has_prefix (trim_space line) done_mark"
      using parse_item_None_iff [of line] by (metis option.distinct(1))
    have "Suc (length (items_of lines)) \<le> nat (idx - seen - 1) \<or> idx \<le> seen"
      using Cons.prems Some by (auto simp: items_of_Cons)
    then have ne: "seen + 1 \<noteq> idx" and
      "idx \<le> seen + 1 \<or> length (items_of lines) \<le> nat (idx - (seen + 1) - 1)" by auto
    from Cons.IH [OF this(2)] show ?thesis
      using m ne by (simp only: check_lines.simps Let_def if_True if_False)
  qed
qed

lemma check_lines_no_newline:
  "(\<And>w. w \<in> set lines \<Longrightarrow> CHR ''\<newline>'' \<notin> set w) \<Longrightarrow> w \<in> set (check_lines seen idx lines) \<Longrightarrow>
     CHR ''\<newline>'' \<notin> set w"
proof (induction lines arbitrary: seen)
  case Nil
  then show ?case by simp
next
  case (Cons line lines)
  have "CHR ''\<newline>'' \<notin> set line" using Cons.prems(1) by simp
  then have "CHR ''\<newline>'' \<notin> set (replace_first open_mark done_mark line)"
    using set_replace_first [of open_mark done_mark line] by auto
  with Cons show ?case by (auto simp: Let_def split: if_splits)
qed

lemma check_lines_nonempty [simp]: "check_lines seen idx lines = [] \<longleftrightarrow> lines = []"
  by (cases lines) (auto simp: Let_def)

section \<open>The operations on disk\<close>

lemma items_of_append: "items_of (xs @ ys) = items_of xs @ items_of ys"
  by (induction xs) (simp_all add: items_of_Cons split: option.splits)

lemma split_on_append_nl:
  "CHR ''\<newline>'' \<notin> set x \<Longrightarrow>
     split_on CHR ''\<newline>'' (b @ CHR ''\<newline>'' # x) = split_on CHR ''\<newline>'' b @ [x]"
  by (induction b) (auto simp: split_on_no_sep split: list.splits)

lemma items_of_blank [simp]: "items_of [[]] = []"
  by (simp add: items_of_Cons parse_item_def Let_def)

lemma ledger_items_write:
  assumes "fs_write (ledger_path l i) b f = (True, f')" and "ledger_path l i \<notin> fs_deny_read f"
  shows "ledger_items l i f' = Some (items_of (split_on CHR ''\<newline>'' b))"
  using fs_read_write [OF assms] by (simp add: ledger_items_def)

lemma ledger_check_items:
  assumes "ledger_items l i f = Some its" and "ledger_check l i (int n) f = (True, f')"
    and "n < length its" and "\<not> it_done (its ! n)"
  shows "ledger_items l i f' = Some (its[n := (its ! n)\<lparr>it_done := True\<rparr>])"
proof -
  let ?nl = "CHR ''\<newline>''"
  from assms(1) obtain b where b: "fs_read (ledger_path l i) f = Some b"
    and its: "its = items_of (split_on ?nl b)"
    by (auto simp: ledger_items_def split: option.splits)
  let ?ls = "check_lines (-1) (int n) (split_on ?nl b)"
  from assms(2) b have "fs_write (ledger_path l i) (join [?nl] ?ls) f = (True, f')"
    by (simp add: ledger_check_def)
  moreover from b have "ledger_path l i \<notin> fs_deny_read f" by (auto simp: fs_read_def split: if_splits)
  ultimately have "ledger_items l i f' = Some (items_of (split_on ?nl (join [?nl] ?ls)))"
    by (rule ledger_items_write)
  also have "split_on ?nl (join [?nl] ?ls) = ?ls"
    by (rule split_on_join) (simp, rule check_lines_no_newline [OF split_on_no_member])
  also have "items_of ?ls = its[n := (its ! n)\<lparr>it_done := True\<rparr>]"
    using items_of_check_lines [of "-1" "int n" "split_on ?nl b"] assms(3,4) its by simp
  finally show ?thesis .
qed

lemma ledger_check_out_of_range:
  assumes "ledger_items l i f = Some its" and "idx < 0 \<or> int (length its) \<le> idx"
    and "ledger_check l i idx f = (True, f')"
  shows "fs_files f' = fs_files f"
proof -
  let ?nl = "CHR ''\<newline>''"
  from assms(1) obtain b where b: "fs_read (ledger_path l i) f = Some b"
    and its: "its = items_of (split_on ?nl b)"
    by (auto simp: ledger_items_def split: option.splits)
  have "idx \<le> -1 \<or> length (items_of (split_on ?nl b)) \<le> nat (idx - (-1) - 1)"
    using assms(2) its by auto
  from check_lines_out_of_range [OF this] assms(3) b
  have "fs_write (ledger_path l i) b f = (True, f')"
    by (simp add: ledger_check_def)
  with b show ?thesis by (auto simp: fs_write_def fs_read_def split: if_splits)
qed

lemma ledger_add_items:
  assumes "ledger_items l i f = Some its" and "fs_files f (ledger_path l i) = Some (b @ ''\<newline>'')"
    and "ledger_add l i txt f = (True, f')"
    and "CHR ''\<newline>'' \<notin> set txt" and "trim_space (open_mark @ txt) = open_mark @ txt"
  shows "ledger_items l i f' = Some (its @ [\<lparr>it_done = False, it_text = txt\<rparr>])"
proof -
  let ?nl = "CHR ''\<newline>''" and ?p = "ledger_path l i"
  have nd: "?p \<notin> fs_deny_read f"
    using assms(1) by (auto simp: ledger_items_def fs_read_def split: option.splits if_splits)
  have its: "its = items_of (split_on ?nl b)"
    using assms(1,2) nd split_on_append_nl [of "[]" b]
    by (simp add: ledger_items_def fs_read_def items_of_append)
  have f': "fs_files f' ?p = Some ((b @ ?nl # (open_mark @ txt)) @ ?nl # [])"
    using fs_append_ok assms(2,3) unfolding ledger_add_def by fastforce
  have "fs_deny_read f' = fs_deny_read f"
    using assms(2,3) by (auto simp: ledger_add_def fs_append_def split: if_splits)
  with f' nd have "fs_read ?p f' = Some ((b @ ?nl # (open_mark @ txt)) @ ?nl # [])"
    by (simp add: fs_read_def)
  then have "ledger_items l i f'
      = Some (items_of (split_on ?nl ((b @ ?nl # (open_mark @ txt)) @ ?nl # [])))"
    by (simp add: ledger_items_def)
  also have "split_on ?nl ((b @ ?nl # (open_mark @ txt)) @ ?nl # [])
      = split_on ?nl b @ [open_mark @ txt] @ [[]]"
    using split_on_append_nl [of "[]" "b @ ?nl # (open_mark @ txt)"]
      split_on_append_nl [of "open_mark @ txt" b] assms(4) by simp
  also have "items_of \<dots> = its @ [\<lparr>it_done = False, it_text = txt\<rparr>]"
    using assms(5) by (simp add: items_of_append its items_of_Cons parse_item_def Let_def trim_prefix_def)
  finally show ?thesis .
qed

lemma ledger_seed_exists:
  assumes "ledger_seed l i title f = (True, f')"
  shows "fs_exists (ledger_path l i) f'"
  using assms
  by (auto simp: ledger_seed_def Let_def fs_exists_def fs_write_def split: if_splits prod.splits)

end
