(* ===== verification/AuditLog.thy ===== *)
theory AuditLog
  imports GoLib
begin

text \<open>
  The audit log, \<open>internal/audit/audit.go\<close>.  The log is the list of records written so far;
  \<open>au_clock\<close> and \<open>au_fails\<close> give, for the n-th call of \<open>Record\<close>, what \<open>time.Now\<close> reads and whether
  the write fails.  Encoding an entry as JSON cannot fail (it has only strings, a time and a
  boolean), so the marshal error has no branch.
\<close>

datatype action = ActionClaim | ActionRelease | ActionVerify | ActionEscalate | ActionPark | ActionPropose

text \<open>A zero time is Go's zero \<open>time.Time\<close>.\<close>

record audit_entry =
  en_time :: int
  en_actor :: string
  en_action :: action
  en_req :: string
  en_result :: string
  en_machine :: bool
  en_detail :: string

record audit_log =
  au_lines :: "audit_entry list"
  au_actor :: string
  au_calls :: nat
  au_clock :: "nat \<Rightarrow> int"
  au_fails :: "nat \<Rightarrow> bool"

definition audit_new :: "string \<Rightarrow> (nat \<Rightarrow> int) \<Rightarrow> (nat \<Rightarrow> bool) \<Rightarrow> audit_log" where
  "audit_new actor clk fails =
     \<lparr>au_lines = [], au_actor = actor, au_calls = 0, au_clock = clk, au_fails = fails\<rparr>"

definition audit_stamp :: "audit_log \<Rightarrow> audit_entry \<Rightarrow> audit_entry" where
  "audit_stamp l e =
     (let e1 = (if en_time e = 0 then e\<lparr>en_time := au_clock l (au_calls l)\<rparr> else e)
      in if en_actor e1 = [] then e1\<lparr>en_actor := au_actor l\<rparr> else e1)"

text \<open>\<open>Record\<close>: the boolean is \<open>err == nil\<close>.\<close>

definition audit_record :: "audit_entry \<Rightarrow> audit_log \<Rightarrow> bool \<times> audit_log" where
  "audit_record e l =
     (let l1 = l\<lparr>au_calls := Suc (au_calls l)\<rparr>
      in if au_fails l (au_calls l) then (False, l1)
         else (True, l1\<lparr>au_lines := au_lines l @ [audit_stamp l e]\<rparr>))"

lemma audit_stamp_fields [simp]:
  "en_action (audit_stamp l e) = en_action e" "en_req (audit_stamp l e) = en_req e"
  "en_result (audit_stamp l e) = en_result e" "en_machine (audit_stamp l e) = en_machine e"
  "en_detail (audit_stamp l e) = en_detail e"
  by (simp_all add: audit_stamp_def Let_def)

lemma audit_stamp_actor: "au_actor l \<noteq> [] \<Longrightarrow> en_actor (audit_stamp l e) \<noteq> []"
  by (simp add: audit_stamp_def Let_def)

text \<open>The log only grows: what was written stays, in order.\<close>

lemma audit_record_append:
  "audit_record e l = (ok, l') \<Longrightarrow>
     au_lines l' = au_lines l @ (if ok then [audit_stamp l e] else []) \<and> au_actor l' = au_actor l \<and>
     au_fails l' = au_fails l \<and> au_clock l' = au_clock l"
  by (auto simp: audit_record_def Let_def split: if_splits)

lemma audit_record_reliable [simp]:
  "au_fails l = (\<lambda>_. False) \<Longrightarrow>
     audit_record e l = (True, l\<lparr>au_calls := Suc (au_calls l), au_lines := au_lines l @ [audit_stamp l e]\<rparr>)"
  by (simp add: audit_record_def Let_def)

end
