(* ===== verification/Metrics.thy ===== *)
theory Metrics
  imports Complex_Main GoLib
begin

text \<open>
  The run metrics, \<open>internal/metrics/metrics.go\<close>.  Counters and durations are integers (no run
  comes near 64 bits), the \<open>float64\<close> rates are real numbers.
\<close>

record stages =
  sg_prefill :: int
  sg_decode :: int
  sg_verify :: int
  sg_overhead :: int

record attempt =
  at_req :: string
  at_closed :: bool
  at_escalated :: bool
  at_first_pass :: bool
  at_turns :: int
  at_tool_calls :: int
  at_valid_calls :: int
  at_tokens :: int
  at_wall :: int
  at_stages :: stages

record report =
  rp_attempted :: nat
  rp_closed :: nat
  rp_escalated :: nat
  rp_acr :: real
  rp_tcvr :: real
  rp_fpvr :: real
  rp_mtc :: real
  rp_wcr :: int
  rp_tcr :: real
  rp_esc :: real
  rp_stages :: stages

definition zero_stages :: stages where
  "zero_stages = \<lparr>sg_prefill = 0, sg_decode = 0, sg_verify = 0, sg_overhead = 0\<rparr>"

definition new_attempt :: "string \<Rightarrow> attempt" where
  "new_attempt i = \<lparr>at_req = i, at_closed = False, at_escalated = False, at_first_pass = False,
     at_turns = 0, at_tool_calls = 0, at_valid_calls = 0, at_tokens = 0, at_wall = 0,
     at_stages = zero_stages\<rparr>"

definition zero_report :: report where
  "zero_report = \<lparr>rp_attempted = 0, rp_closed = 0, rp_escalated = 0, rp_acr = 0, rp_tcvr = 0,
     rp_fpvr = 0, rp_mtc = 0, rp_wcr = 0, rp_tcr = 0, rp_esc = 0, rp_stages = zero_stages\<rparr>"

type_synonym collector = "attempt list"

definition new_collector :: collector where
  "new_collector = []"

definition metrics_record :: "attempt \<Rightarrow> collector \<Rightarrow> collector" where
  "metrics_record a c = c @ [a]"

text \<open>The accumulators of the report loop.\<close>

record totals =
  tt_closed :: nat
  tt_escalated :: nat
  tt_first :: nat
  tt_closed_turns :: int
  tt_calls :: int
  tt_valid :: int
  tt_tokens :: int
  tt_wall :: int
  tt_stages :: stages

definition zero_totals :: totals where
  "zero_totals = \<lparr>tt_closed = 0, tt_escalated = 0, tt_first = 0, tt_closed_turns = 0, tt_calls = 0,
     tt_valid = 0, tt_tokens = 0, tt_wall = 0, tt_stages = zero_stages\<rparr>"

definition add_stages :: "stages \<Rightarrow> stages \<Rightarrow> stages" where
  "add_stages s t = \<lparr>sg_prefill = sg_prefill s + sg_prefill t, sg_decode = sg_decode s + sg_decode t,
     sg_verify = sg_verify s + sg_verify t, sg_overhead = sg_overhead s + sg_overhead t\<rparr>"

definition add_attempt :: "attempt \<Rightarrow> totals \<Rightarrow> totals" where
  "add_attempt a t =
     t\<lparr>tt_closed := tt_closed t + (if at_closed a then 1 else 0),
       tt_closed_turns := tt_closed_turns t + (if at_closed a then at_turns a else 0),
       tt_first := tt_first t + (if at_closed a \<and> at_first_pass a then 1 else 0),
       tt_escalated := tt_escalated t + (if at_escalated a then 1 else 0),
       tt_calls := tt_calls t + at_tool_calls a,
       tt_valid := tt_valid t + at_valid_calls a,
       tt_tokens := tt_tokens t + at_tokens a,
       tt_wall := tt_wall t + at_wall a,
       tt_stages := add_stages (tt_stages t) (at_stages a)\<rparr>"

definition totals_of :: "collector \<Rightarrow> totals" where
  "totals_of c = fold add_attempt c zero_totals"

text \<open>Go's integer division truncates toward zero.\<close>

definition trunc_div :: "int \<Rightarrow> int \<Rightarrow> int" where
  "trunc_div a b = sgn a * sgn b * (\<bar>a\<bar> div \<bar>b\<bar>)"

definition metrics_report :: "collector \<Rightarrow> report" where
  "metrics_report c =
     (if c = [] then zero_report
      else let t = totals_of c; n = real (length c)
           in \<lparr>rp_attempted = length c, rp_closed = tt_closed t, rp_escalated = tt_escalated t,
               rp_acr = real (tt_closed t) / n,
               rp_tcvr = (if tt_calls t > 0 then of_int (tt_valid t) / of_int (tt_calls t) else 0),
               rp_fpvr = (if tt_closed t > 0 then real (tt_first t) / real (tt_closed t) else 0),
               rp_mtc = (if tt_closed t > 0 then of_int (tt_closed_turns t) / real (tt_closed t) else 0),
               rp_wcr = trunc_div (tt_wall t) (int (length c)),
               rp_tcr = of_int (tt_tokens t) / n,
               rp_esc = real (tt_escalated t) / n,
               rp_stages = tt_stages t\<rparr>)"

text \<open>The loop's accumulators are sums over the attempts.\<close>

lemma fold_add_attempt:
  "tt_closed (fold add_attempt c t) = tt_closed t + length (filter at_closed c)"
  "tt_escalated (fold add_attempt c t) = tt_escalated t + length (filter at_escalated c)"
  "tt_first (fold add_attempt c t) = tt_first t + length (filter (\<lambda>a. at_closed a \<and> at_first_pass a) c)"
  "tt_calls (fold add_attempt c t) = tt_calls t + sum_list (map at_tool_calls c)"
  "tt_valid (fold add_attempt c t) = tt_valid t + sum_list (map at_valid_calls c)"
  "tt_tokens (fold add_attempt c t) = tt_tokens t + sum_list (map at_tokens c)"
  "tt_wall (fold add_attempt c t) = tt_wall t + sum_list (map at_wall c)"
  "tt_closed_turns (fold add_attempt c t) =
     tt_closed_turns t + sum_list (map at_turns (filter at_closed c))"
  by (induction c arbitrary: t) (auto simp: add_attempt_def)

lemma totals_of_simps [simp]:
  "tt_closed (totals_of c) = length (filter at_closed c)"
  "tt_escalated (totals_of c) = length (filter at_escalated c)"
  "tt_first (totals_of c) = length (filter (\<lambda>a. at_closed a \<and> at_first_pass a) c)"
  "tt_calls (totals_of c) = sum_list (map at_tool_calls c)"
  "tt_valid (totals_of c) = sum_list (map at_valid_calls c)"
  "tt_tokens (totals_of c) = sum_list (map at_tokens c)"
  "tt_wall (totals_of c) = sum_list (map at_wall c)"
  "tt_closed_turns (totals_of c) = sum_list (map at_turns (filter at_closed c))"
  by (simp_all add: totals_of_def fold_add_attempt zero_totals_def)

lemma length_filter_disjoint:
  "(\<And>x. x \<in> set xs \<Longrightarrow> \<not> (P x \<and> Q x)) \<Longrightarrow>
     length (filter P xs) + length (filter Q xs) \<le> length xs"
  by (induction xs) fastforce+

text \<open>An attempt as the loop records it: closed or escalated, not both, and its counters make sense.\<close>

definition attempt_ok :: "attempt \<Rightarrow> bool" where
  "attempt_ok a \<longleftrightarrow> at_closed a \<noteq> at_escalated a \<and> 0 \<le> at_valid_calls a \<and>
     at_valid_calls a \<le> at_tool_calls a"

lemma sum_valid_calls:
  assumes "\<forall>a \<in> set c. attempt_ok a"
  shows "0 \<le> sum_list (map at_valid_calls c)"
    and "sum_list (map at_valid_calls c) \<le> sum_list (map at_tool_calls c)"
proof -
  show "0 \<le> sum_list (map at_valid_calls c)"
    using assms by (induction c) (auto simp: attempt_ok_def)
  show "sum_list (map at_valid_calls c) \<le> sum_list (map at_tool_calls c)"
    by (rule sum_list_mono) (use assms in \<open>auto simp: attempt_ok_def\<close>)
qed

lemma length_filter_closed_escalated:
  "\<forall>a \<in> set c. attempt_ok a \<Longrightarrow>
     length (filter at_closed c) + length (filter at_escalated c) = length c"
  by (induction c) (auto simp: attempt_ok_def)

end
