(* ===== verification/GoNet.thy ===== *)
theory GoNet
  imports GoLib
begin

text \<open>
  The part of \<open>net/url\<close> and \<open>net\<close> behind the loopback guards: the parse of a URL into scheme, host
  and path with the checks that can reject it, \<open>Hostname\<close>, \<open>ParseIP\<close> and \<open>IsLoopback\<close>.  An address
  is its sixteen bytes, an IPv4 address in the mapped form.
\<close>

section \<open>Addresses\<close>

definition is_hex :: "char \<Rightarrow> bool" where
  "is_hex c \<longleftrightarrow> is_digit c \<or> (CHR ''a'' \<le> c \<and> c \<le> CHR ''f'') \<or> (CHR ''A'' \<le> c \<and> c \<le> CHR ''F'')"

definition hex_digit :: "char \<Rightarrow> nat" where
  "hex_digit c =
     (if is_digit c then digit_val c
      else if CHR ''a'' \<le> c then (of_char c :: nat) - 87 else (of_char c :: nat) - 55)"

definition hex_val :: "string \<Rightarrow> nat" where
  "hex_val s = foldl (\<lambda>n c. 16 * n + hex_digit c) 0 s"

text \<open>A field of a dotted address: decimal, no leading zero, at most 255.\<close>

definition v4_field :: "string \<Rightarrow> nat option" where
  "v4_field s =
     (if s = [] \<or> \<not> list_all is_digit s then None
      else if hd s = CHR ''0'' \<and> length s > 1 then None
      else if dec_val s > 255 then None else Some (dec_val s))"

definition parse_v4 :: "string \<Rightarrow> nat list option" where
  "parse_v4 s =
     (case map v4_field (split_on CHR ''.'' s) of
        [Some a, Some b, Some c, Some d] \<Rightarrow> Some [a, b, c, d]
      | _ \<Rightarrow> None)"

text \<open>The field loop of the IPv6 parser: bytes so far, where the ellipsis was, what is left.\<close>

function v6_loop :: "string \<Rightarrow> nat list \<Rightarrow> nat option \<Rightarrow> (nat list \<times> nat option \<times> string) option" where
  "v6_loop s bs ell =
     (if length bs \<ge> 16 then Some (bs, ell, s)
      else
        let hex = takeWhile is_hex s; rest = drop (length hex) s
        in if hex = [] \<or> length hex > 4 then None
           else if rest \<noteq> [] \<and> hd rest = CHR ''.'' then
             (if ell = None \<and> length bs \<noteq> 12 then None
              else if length bs + 4 > 16 then None
              else map_option (\<lambda>q. (bs @ q, ell, [])) (parse_v4 s))
           else
             let bs' = bs @ [hex_val hex div 256, hex_val hex mod 256]
             in (case rest of
                   [] \<Rightarrow> Some (bs', ell, [])
                 | c # r \<Rightarrow>
                     if c \<noteq> CHR '':'' \<or> r = [] then None
                     else if hd r = CHR '':'' then
                       (if ell \<noteq> None then None
                        else if tl r = [] then Some (bs', Some (length bs'), [])
                        else v6_loop (tl r) bs' (Some (length bs')))
                     else v6_loop r bs' ell))"
  by pat_completeness auto
termination
proof (relation "measure (\<lambda>(s, bs, ell). length s)", goal_cases)
  case (2 s bs ell hex rest bs' c r)
  then have "length (c # r) \<le> length s" by (metis diff_le_self length_drop)
  with 2 show ?case by (cases r) auto
next
  case (3 s bs ell hex rest bs' c r)
  then have "length (c # r) \<le> length s" by (metis diff_le_self length_drop)
  with 3 show ?case by simp
qed simp

declare v6_loop.simps [simp del]

definition parse_v6 :: "string \<Rightarrow> nat list option" where
  "parse_v6 s =
     (let lead = has_prefix s ''::''; s1 = (if lead then drop 2 s else s)
      in if lead \<and> s1 = [] then Some (replicate 16 0)
         else (case v6_loop s1 [] (if lead then Some 0 else None) of
                 None \<Rightarrow> None
               | Some (bs, ell, rest) \<Rightarrow>
                   if rest \<noteq> [] then None
                   else if length bs < 16 then
                     (case ell of None \<Rightarrow> None
                      | Some e \<Rightarrow> Some (take e bs @ replicate (16 - length bs) 0 @ drop e bs))
                   else if ell \<noteq> None then None else Some bs))"

text \<open>\<open>net.ParseIP\<close>: the first of the separators decides the family; a zone is not accepted.\<close>

definition mapped :: "nat list \<Rightarrow> nat list" where
  "mapped q = replicate 10 0 @ [255, 255] @ q"

definition parse_ip :: "string \<Rightarrow> nat list option" where
  "parse_ip s =
     (case find (\<lambda>c. c \<in> set ''.:%'') s of
        None \<Rightarrow> None
      | Some c \<Rightarrow>
          if c = CHR ''.'' then map_option mapped (parse_v4 s)
          else if c = CHR '':'' then (if CHR ''%'' \<in> set s then None else parse_v6 s)
          else None)"

definition is_loopback_ip :: "nat list \<Rightarrow> bool" where
  "is_loopback_ip ip =
     (if take 12 ip = replicate 10 0 @ [255, 255] then ip ! 12 = 127
      else ip = replicate 15 0 @ [1])"

section \<open>URLs\<close>

record url =
  url_scheme :: string
  url_host :: string
  url_path :: string
  url_opaque :: string

definition is_ctl :: "char \<Rightarrow> bool" where
  "is_ctl c \<longleftrightarrow> (of_char c :: nat) < 32 \<or> (of_char c :: nat) = 127"

definition is_alpha :: "char \<Rightarrow> bool" where
  "is_alpha c \<longleftrightarrow> (CHR ''a'' \<le> c \<and> c \<le> CHR ''z'') \<or> (CHR ''A'' \<le> c \<and> c \<le> CHR ''Z'')"

text \<open>\<open>getScheme\<close>: \<open>None\<close> is the error, the scheme is empty when there is none.\<close>

fun get_scheme :: "string \<Rightarrow> string \<Rightarrow> string \<Rightarrow> (string \<times> string) option" where
  "get_scheme raw acc [] = Some ([], raw)"
| "get_scheme raw acc (c # cs) =
     (if is_alpha c then get_scheme raw (c # acc) cs
      else if is_digit c \<or> c \<in> set ''+-.'' then
        (if acc = [] then Some ([], raw) else get_scheme raw (c # acc) cs)
      else if c = CHR '':'' then (if acc = [] then None else Some (rev acc, cs))
      else Some ([], raw))"

definition valid_optional_port :: "string \<Rightarrow> bool" where
  "valid_optional_port p \<longleftrightarrow> p = [] \<or> (hd p = CHR '':'' \<and> list_all is_digit (tl p))"

text \<open>
  Percent decoding, by the part of the URL: a host may not have some ASCII bytes nor ASCII escapes
  other than \<open>%25\<close>, a zone may escape what a host may have and the space.
\<close>

datatype url_part = UrlPath | UrlUser | UrlHost | UrlZone

definition host_byte :: "char \<Rightarrow> bool" where
  "host_byte c \<longleftrightarrow> is_alpha c \<or> is_digit c \<or> c \<in> set ''-_.~!$&()*+,;=:[]<>'' \<or> c = CHR 0x27 \<or> c = CHR 0x22"

fun unescape :: "url_part \<Rightarrow> string \<Rightarrow> string option" where
  "unescape m [] = Some []"
| "unescape m (c # cs) =
     (if c = CHR ''%'' then
        (case cs of
           a # b # r \<Rightarrow>
             let v = char_of (16 * hex_digit a + hex_digit b); pc = (a = CHR ''2'' \<and> b = CHR ''5'')
             in if \<not> (is_hex a \<and> is_hex b) then None
                else if m = UrlHost \<and> hex_digit a < 8 \<and> \<not> pc then None
                else if m = UrlZone \<and> \<not> pc \<and> v \<noteq> CHR '' '' \<and> \<not> host_byte v then None
                else map_option (\<lambda>t. v # t) (unescape m r)
         | _ \<Rightarrow> None)
      else if (m = UrlHost \<or> m = UrlZone) \<and> (of_char c :: nat) < 128 \<and> \<not> host_byte c then None
      else map_option (\<lambda>t. c # t) (unescape m cs))"

text \<open>The part of a string from the last occurrence of a byte on, and the part before it.\<close>

definition last_from :: "char \<Rightarrow> string \<Rightarrow> string" where
  "last_from c s = (if c \<in> set s then c # after_last c s else [])"

definition before_last :: "char \<Rightarrow> string \<Rightarrow> string" where
  "before_last c s = take (length s - length (last_from c s)) s"

text \<open>\<open>parseHost\<close>: a bracketed host is an IPv6 literal, possibly with a zone after \<open>%25\<close>.\<close>

definition parse_host :: "string \<Rightarrow> string option" where
  "parse_host h =
     (if CHR ''['' \<in> set h then
        (if CHR '']'' \<notin> set h then None
         else
           let port = after_last CHR '']'' h;
               name = after_last CHR ''['' (before_last CHR '']'' h);
               (addr, zone, zoned) = cut_str name ''%25''
           in if \<not> valid_optional_port port then None
              else if parse_v6 addr = None \<or> zoned \<and> zone = [] then None
              else (case (unescape UrlHost addr, unescape UrlZone (if zoned then ''%25'' @ zone else [])) of
                      (Some a, Some z) \<Rightarrow> Some (''['' @ a @ z @ '']'' @ port)
                    | _ \<Rightarrow> None))
      else if \<not> valid_optional_port (last_from CHR '':'' h) then None
      else unescape UrlHost h)"

definition user_byte :: "char \<Rightarrow> bool" where
  "user_byte c \<longleftrightarrow> is_alpha c \<or> is_digit c \<or> c \<in> set ''-._:~!$&()*+,;=%@'' \<or> c = CHR 0x27"

definition parse_authority :: "string \<Rightarrow> string option" where
  "parse_authority a =
     (if CHR ''@'' \<in> set a then
        (case parse_host (after_last CHR ''@'' a) of
           None \<Rightarrow> None
         | Some h \<Rightarrow>
             let ui = before_last CHR ''@'' a
             in if list_all user_byte ui \<and> unescape UrlUser ui \<noteq> None then Some h else None)
      else parse_host a)"

definition url_parse :: "string \<Rightarrow> url option" where
  "url_parse raw =
     (let (u, frag, _) = cut_str raw ''#''
      in if list_ex is_ctl u then None
         else if unescape UrlPath frag = None then None
         else if u = ''*'' then Some \<lparr>url_scheme = [], url_host = [], url_path = u, url_opaque = []\<rparr>
         else
           (case get_scheme u [] u of
              None \<Rightarrow> None
            | Some (sch, rest0) \<Rightarrow>
                let scheme = to_lower sch; rest = fst (cut_str rest0 ''?'')
                in if \<not> has_prefix rest ''/'' \<and> scheme \<noteq> [] then
                     Some \<lparr>url_scheme = scheme, url_host = [], url_path = [], url_opaque = rest\<rparr>
                   else if \<not> has_prefix rest ''/'' \<and> CHR '':'' \<in> set (fst (cut_str rest ''/'')) then None
                   else if (scheme \<noteq> [] \<or> \<not> has_prefix rest ''///'') \<and> has_prefix rest ''//'' then
                     let r = drop 2 rest; auth = takeWhile (\<lambda>c. c \<noteq> CHR ''/'') r;
                         path = dropWhile (\<lambda>c. c \<noteq> CHR ''/'') r
                     in (case (parse_authority auth, unescape UrlPath path) of
                           (Some h, Some p) \<Rightarrow>
                             Some \<lparr>url_scheme = scheme, url_host = h, url_path = p, url_opaque = []\<rparr>
                         | _ \<Rightarrow> None)
                   else (case unescape UrlPath rest of
                           None \<Rightarrow> None
                         | Some p \<Rightarrow> Some \<lparr>url_scheme = scheme, url_host = [], url_path = p, url_opaque = []\<rparr>)))"

definition url_hostname :: "url \<Rightarrow> string" where
  "url_hostname u =
     (let hp = url_host u; lf = last_from CHR '':'' hp;
          h = (if lf \<noteq> [] \<and> valid_optional_port lf then before_last CHR '':'' hp else hp)
      in if has_prefix h ''['' \<and> has_suffix h '']'' then butlast (tl h) else h)"

text \<open>\<open>isLoopbackHost\<close>, in \<open>config\<close> and in \<open>serving\<close>.\<close>

definition is_loopback_host :: "string \<Rightarrow> bool" where
  "is_loopback_host h \<longleftrightarrow>
     h = ''localhost'' \<or> (case parse_ip h of Some ip \<Rightarrow> is_loopback_ip ip | None \<Rightarrow> False)"

section \<open>Dotted addresses and plain endpoints\<close>

lemma show_nat_no: "\<not> is_digit c \<Longrightarrow> c \<notin> set (show_nat n)"
  using show_nat_digits [of n] by (auto simp: list_all_iff)

lemma hd_show_nat: "hd (show_nat n) = CHR ''0'' \<Longrightarrow> n = 0"
proof (induction n rule: show_nat.induct)
  case (1 n)
  show ?case
  proof (cases "n < 10")
    case True
    have "digit_char 0 = CHR ''0''" by code_simp
    then have "digit_char n = digit_char 0"
      using 1(2) True by (simp add: show_nat.simps [of n])
    then show ?thesis using True digit_char_props [of n] digit_char_props [of 0] by simp
  next
    case False
    then have "hd (show_nat (n div 10)) = CHR ''0''" using 1(2) by (simp add: show_nat.simps [of n])
    with 1(1) False have "n div 10 = 0" by simp
    with False show ?thesis by simp
  qed
qed

lemma v4_field_show: "n \<le> 255 \<Longrightarrow> v4_field (show_nat n) = Some n"
proof -
  assume n: "n \<le> 255"
  have "length (show_nat n) = 1" if "hd (show_nat n) = CHR ''0''"
  proof -
    have "n = 0" by (rule hd_show_nat [OF that])
    then show ?thesis by (simp add: show_nat.simps)
  qed
  then show ?thesis using n show_nat_digits [of n] by (auto simp: v4_field_def)
qed

definition quad :: "nat \<Rightarrow> nat \<Rightarrow> nat \<Rightarrow> nat \<Rightarrow> string" where
  "quad a b c d = show_nat a @ ''.'' @ show_nat b @ ''.'' @ show_nat c @ ''.'' @ show_nat d"

lemma dot_not_digit [simp]: "\<not> is_digit CHR ''.''" "\<not> is_digit CHR '':''" "\<not> is_digit CHR ''/''"
  "\<not> is_digit CHR ''@''" "\<not> is_digit CHR ''['' " "\<not> is_digit CHR ''#''" "\<not> is_digit CHR ''?''" "\<not> is_digit CHR ''%''"
  by (simp_all add: is_digit_def)

lemma parse_v4_quad:
  assumes "a \<le> 255" "b \<le> 255" "c \<le> 255" "d \<le> 255"
  shows "parse_v4 (quad a b c d) = Some [a, b, c, d]"
proof -
  have "split_on CHR ''.'' (quad a b c d) = [show_nat a, show_nat b, show_nat c, show_nat d]"
    by (simp add: quad_def split_on_append_sep split_on_no_sep show_nat_no)
  then show ?thesis using assms by (simp add: parse_v4_def v4_field_show)
qed

lemma find_skip: "list_all (\<lambda>x. \<not> P x) xs \<Longrightarrow> find P (xs @ ys) = find P ys"
  by (induction xs) auto

lemma parse_ip_quad:
  assumes "a \<le> 255" "b \<le> 255" "c \<le> 255" "d \<le> 255"
  shows "parse_ip (quad a b c d) = Some (mapped [a, b, c, d])"
proof -
  have "list_all (\<lambda>x. \<not> x \<in> set ''.:%'') (show_nat a)"
    using show_nat_digits [of a] by (auto simp: list_all_iff)
  then have "find (\<lambda>x. x \<in> set ''.:%'') (quad a b c d) = Some CHR ''.''"
    unfolding quad_def by (subst find_skip) simp_all
  then show ?thesis by (simp add: parse_ip_def parse_v4_quad [OF assms])
qed

lemma loopback_quad:
  assumes "a \<le> 255" "b \<le> 255" "c \<le> 255" "d \<le> 255"
  shows "is_loopback_host (quad a b c d) \<longleftrightarrow> a = 127"
proof -
  have "CHR ''.'' \<in> set (quad a b c d)" by (simp add: quad_def)
  then have "quad a b c d \<noteq> ''localhost''" by auto
  then show ?thesis using parse_ip_quad [OF assms] by (simp add: is_loopback_host_def mapped_def is_loopback_ip_def nth_append)
qed

text \<open>A host of letters, digits, dots and dashes passes through the parse unchanged.\<close>

definition plain_byte :: "char \<Rightarrow> bool" where
  "plain_byte c \<longleftrightarrow> is_alpha c \<or> is_digit c \<or> c \<in> set ''.-''"

lemma not_plain [simp]:
  "\<not> plain_byte CHR ''#''" "\<not> plain_byte CHR ''?''" "\<not> plain_byte CHR ''/''" "\<not> plain_byte CHR '':''"
  "\<not> plain_byte CHR ''@''" "\<not> plain_byte CHR ''[''" "\<not> plain_byte CHR '']''" "\<not> plain_byte CHR ''%''"
  by (simp_all add: plain_byte_def is_alpha_def is_digit_def)

lemma plain_host_byte: "plain_byte c \<Longrightarrow> host_byte c"
  by (auto simp: plain_byte_def host_byte_def)

lemma plain_not_ctl: "plain_byte c \<Longrightarrow> \<not> is_ctl c"
  by (auto simp: plain_byte_def is_alpha_def is_digit_def less_eq_char_def is_ctl_def)

lemma digits_plain: "c \<in> set (show_nat p) \<Longrightarrow> plain_byte c"
  using show_nat_digits [of p] by (simp add: list_all_iff plain_byte_def)

lemma unescape_Cons:
  "c \<noteq> CHR ''%'' \<Longrightarrow> host_byte c \<Longrightarrow> unescape UrlHost (c # s) = map_option (\<lambda>t. c # t) (unescape UrlHost s)"
  by simp

lemma unescape_plain: "(\<And>c. c \<in> set s \<Longrightarrow> host_byte c \<and> c \<noteq> CHR ''%'') \<Longrightarrow> unescape UrlHost s = Some s"
proof (induction s)
  case (Cons c s)
  have "unescape UrlHost s = Some s" by (rule Cons.IH) (rule Cons.prems, simp)
  moreover have "host_byte c" "c \<noteq> CHR ''%''" using Cons.prems [of c] by simp_all
  ultimately show ?case by (simp add: unescape_Cons del: unescape.simps)
qed simp

lemma cut_none: "x \<notin> set s \<Longrightarrow> cut_str s [x] = (s, [], False)"
  by (induction s) auto

lemma after_last_append: "x \<notin> set t \<Longrightarrow> after_last x (s @ x # t) = t"
  by (simp add: after_last_def takeWhile_append1 [of _ "rev t"])
    (simp add: takeWhile_append takeWhile_eq_all_conv [THEN iffD2])

lemma last_from_append: "x \<notin> set t \<Longrightarrow> last_from x (s @ x # t) = x # t"
  by (simp add: last_from_def after_last_append)

lemma before_last_append: "x \<notin> set t \<Longrightarrow> before_last x (s @ x # t) = s"
  by (simp add: before_last_def last_from_append)

lemma url_parse_plain:
  assumes h: "list_all plain_byte h"
  shows "url_parse (''http://'' @ h @ '':'' @ show_nat p) =
    Some \<lparr>url_scheme = ''http'', url_host = h @ '':'' @ show_nat p, url_path = [], url_opaque = []\<rparr>"
proof -
  let ?a = "h @ '':'' @ show_nat p" and ?u = "''http://'' @ h @ '':'' @ show_nat p"
  have chars: "plain_byte c \<or> c = CHR '':''" if "c \<in> set ?a" for c
    using that h digits_plain [of c p] by (auto simp: list_all_iff)
  have no: "x \<notin> set ?a" if "\<not> plain_byte x" "x \<noteq> CHR '':''" for x
    using that chars by blast
  have "\<not> is_ctl CHR '':''" "\<not> is_ctl CHR ''h''" "\<not> is_ctl CHR ''t''" "\<not> is_ctl CHR ''p''" "\<not> is_ctl CHR ''/''"
    by (simp_all add: is_ctl_def)
  moreover have "\<not> is_ctl c" if "c \<in> set ?a" for c
    using chars [OF that] plain_not_ctl [of c] \<open>\<not> is_ctl CHR '':''\<close> by blast
  ultimately have noctl: "\<not> list_ex is_ctl ?u" by (simp add: list_ex_iff)
  have c1: "cut_str ?u ''#'' = (?u, [], False)" using no [of "CHR ''#''"] by (intro cut_none) simp
  have c2: "cut_str (''//'' @ ?a) ''?'' = (''//'' @ ?a, [], False)" using no [of "CHR ''?''"] by (intro cut_none) simp
  have gs: "get_scheme u [] ''http:'' = Some (''http'', [])" for u by code_simp
  have gs: "get_scheme u [] (''http:'' @ t) = Some (''http'', t)" for u t
    by (simp add: is_alpha_def is_digit_def)
  have gs: "get_scheme ?u [] ?u = Some (''http'', ''//'' @ ?a)" using gs [of ?u "''//'' @ ?a"] by simp
  have tl: "to_lower ''http'' = ''http''" by code_simp
  have tw: "takeWhile (\<lambda>c. c \<noteq> CHR ''/'') ?a = ?a"
    using no [of "CHR ''/''"] by (intro takeWhile_eq_all_conv [THEN iffD2]) auto
  have dw: "dropWhile (\<lambda>c. c \<noteq> CHR ''/'') ?a = []"
    using no [of "CHR ''/''"] by (intro dropWhile_eq_Nil_conv [THEN iffD2]) auto
  have nd: "CHR '':'' \<notin> set (show_nat p)" by (rule show_nat_no) simp
  have lf: "last_from CHR '':'' ?a = '':'' @ show_nat p" using last_from_append [OF nd, of h] by simp
  have ue: "unescape UrlHost ?a = Some ?a"
  proof (rule unescape_plain)
    fix c assume "c \<in> set ?a"
    from chars [OF this] show "host_byte c \<and> c \<noteq> CHR ''%''"
    proof
      assume "plain_byte c"
      then show ?thesis using plain_host_byte [of c] not_plain(8) by metis
    next
      assume "c = CHR '':''"
      then show ?thesis by (simp add: host_byte_def)
    qed
  qed
  have "valid_optional_port ('':'' @ show_nat p)" using show_nat_digits [of p] by (simp add: valid_optional_port_def)
  then have "parse_host ?a = Some ?a"
    unfolding parse_host_def lf ue using no [of "CHR ''[''"] by simp
  then have pa: "parse_authority ?a = Some ?a"
    unfolding parse_authority_def using no [of "CHR ''@''"] by simp
  have star: "?u \<noteq> ''*''" by simp
  have pr: "has_prefix (''//'' @ ?a) ''/''" "has_prefix (''//'' @ ?a) ''//''" by simp_all
  have d2: "drop 2 (''//'' @ ?a) = ?a" by simp
  show ?thesis unfolding url_parse_def c1 Let_def prod.case
    by (simp only: noctl gs tl c2 pa tw dw star pr d2 if_False if_True prod.case option.case unescape.simps
        fst_conv simp_thms list.distinct option.distinct)
qed

lemma hostname_plain:
  assumes "list_all plain_byte h"
  shows "url_hostname \<lparr>url_scheme = s, url_host = h @ '':'' @ show_nat p, url_path = q, url_opaque = o'\<rparr> = h"
proof -
  have nd: "CHR '':'' \<notin> set (show_nat p)" by (rule show_nat_no) simp
  have "\<not> has_prefix h ''[''"
    using assms by (cases h) (auto simp: list_all_iff)
  then show ?thesis
    using last_from_append [OF nd, of h] before_last_append [OF nd, of h] show_nat_digits [of p]
    by (simp add: url_hostname_def valid_optional_port_def Let_def)
qed

lemma quad_plain: "list_all plain_byte (quad a b c d)"
  by (auto simp: quad_def list_all_iff digits_plain) (simp_all add: plain_byte_def)

end
