(* ===== verification/GoJson.thy ===== *)
theory GoJson
  imports Complex_Main GoNet
begin

text \<open>
  The part of \<open>encoding/json\<close> the modelled packages use: the text of a value is parsed into a
  tree, whose numbers keep their literal and whose objects keep order and duplicates, and a
  tree is decoded into a Go value member by member, with Go's rules for \<open>null\<close>, missing
  members, case-insensitive names and type errors.  A \<open>float64\<close> is a real number; the nesting
  limit of the library (10000) is not bounded here.
\<close>

datatype json =
    JNull
  | JBool bool
  | JNum string
  | JStr string
  | JArr "json list"
  | JObj "(string \<times> json) list"

section \<open>Strings\<close>

definition utf8_enc :: "nat \<Rightarrow> string" where
  "utf8_enc n =
     (if n < 128 then [char_of n]
      else if n < 2048 then [char_of (192 + n div 64), char_of (128 + n mod 64)]
      else if n < 65536 then
        [char_of (224 + n div 4096), char_of (128 + n div 64 mod 64), char_of (128 + n mod 64)]
      else [char_of (240 + n div 262144), char_of (128 + n div 4096 mod 64),
            char_of (128 + n div 64 mod 64), char_of (128 + n mod 64)])"

text \<open>The length of the valid UTF-8 sequence at the head of a byte string, 0 when it is invalid.\<close>

definition byte_in :: "nat \<Rightarrow> nat \<Rightarrow> char \<Rightarrow> bool" where
  "byte_in lo hi c \<longleftrightarrow> lo \<le> (of_char c :: nat) \<and> (of_char c :: nat) \<le> hi"

fun utf8_len :: "string \<Rightarrow> nat" where
  "utf8_len [] = 0"
| "utf8_len (a # s) =
     (if byte_in 0 127 a then 1
      else case s of
        [] \<Rightarrow> 0
      | b # t \<Rightarrow>
          if byte_in 194 223 a then (if byte_in 128 191 b then 2 else 0)
          else case t of
            [] \<Rightarrow> 0
          | c # u \<Rightarrow>
              if (a = CHR 0xE0 \<and> byte_in 160 191 b \<or> a = CHR 0xED \<and> byte_in 128 159 b
                  \<or> (byte_in 225 236 a \<or> byte_in 238 239 a) \<and> byte_in 128 191 b) \<and> byte_in 128 191 c
              then 3
              else case u of
                [] \<Rightarrow> 0
              | d # _ \<Rightarrow>
                  if (a = CHR 0xF0 \<and> byte_in 144 191 b \<or> a = CHR 0xF4 \<and> byte_in 128 143 b
                      \<or> byte_in 241 243 a \<and> byte_in 128 191 b) \<and> byte_in 128 191 c \<and> byte_in 128 191 d
                  then 4 else 0)"

definition replacement :: string where
  "replacement = [CHR 0xEF, CHR 0xBF, CHR 0xBD]"

text \<open>The code unit of a \<open>\u\<close> escape, from its four hexadecimal digits.\<close>

definition hex4 :: "string \<Rightarrow> nat option" where
  "hex4 s = (if length s \<ge> 4 \<and> list_all is_hex (take 4 s) then Some (hex_val (take 4 s)) else None)"

definition surrogate :: "nat \<Rightarrow> bool" where
  "surrogate n \<longleftrightarrow> 0xD800 \<le> n \<and> n < 0xE000"

definition simple_escape :: "char \<Rightarrow> char option" where
  "simple_escape c =
     (if c = CHR 0x22 \<or> c = CHR 0x5C \<or> c = CHR ''/'' then Some c
      else if c = CHR ''b'' then Some (CHR 0x08) else if c = CHR ''f'' then Some (CHR 0x0C)
      else if c = CHR ''n'' then Some (CHR 0x0A) else if c = CHR ''r'' then Some (CHR 0x0D)
      else if c = CHR ''t'' then Some (CHR 0x09) else None)"

text \<open>The second half of a surrogate pair right after the first.\<close>

definition low_half :: "nat \<Rightarrow> string \<Rightarrow> nat option" where
  "low_half hi s =
     (if has_prefix s [CHR 0x5C, CHR ''u''] then
        (case hex4 (drop 2 s) of
           Some lo \<Rightarrow> if hi < 0xDC00 \<and> 0xDC00 \<le> lo \<and> lo < 0xE000
                     then Some (0x10000 + (hi - 0xD800) * 1024 + (lo - 0xDC00)) else None
         | None \<Rightarrow> None)
      else None)"

text \<open>One unit of a string body: the bytes it stands for and how many bytes it takes.\<close>

definition string_unit :: "string \<Rightarrow> (string \<times> nat) option" where
  "string_unit s =
     (let c = hd s; r = tl s
      in if c = CHR 0x5C then
           (case r of
              [] \<Rightarrow> None
            | e # t \<Rightarrow>
                if e = CHR ''u'' then
                  (case hex4 t of
                     None \<Rightarrow> None
                   | Some n \<Rightarrow>
                       if \<not> surrogate n then Some (utf8_enc n, 6)
                       else (case low_half n (drop 4 t) of
                               Some m \<Rightarrow> Some (utf8_enc m, 12)
                             | None \<Rightarrow> Some (replacement, 6)))
                else map_option (\<lambda>x. ([x], 2)) (simple_escape e))
         else if (of_char c :: nat) < 32 then None
         else if utf8_len s = 0 then Some (replacement, 1)
         else Some (take (utf8_len s) s, utf8_len s))"

text \<open>The rest of a string after its opening quote.\<close>

fun scan_string :: "nat \<Rightarrow> string \<Rightarrow> (string \<times> string) option" where
  "scan_string 0 s = None"
| "scan_string (Suc n) s =
     (if s = [] then None
      else if hd s = CHR 0x22 then Some ([], tl s)
      else case string_unit s of
        None \<Rightarrow> None
      | Some (out, k) \<Rightarrow>
          map_option (\<lambda>(t, r). (out @ t, r)) (scan_string n (drop k s)))"

definition json_string :: "string \<Rightarrow> (string \<times> string) option" where
  "json_string s = scan_string (Suc (length s)) s"

section \<open>Numbers\<close>

definition digits_of :: "string \<Rightarrow> string" where
  "digits_of s = takeWhile is_digit s"

definition scan_frac :: "string \<Rightarrow> string option" where
  "scan_frac s =
     (if has_prefix s ''.'' then (if digits_of (tl s) = [] then None else Some (CHR ''.'' # digits_of (tl s)))
      else Some [])"

definition scan_exp :: "string \<Rightarrow> string option" where
  "scan_exp s =
     (if s \<noteq> [] \<and> (hd s = CHR ''e'' \<or> hd s = CHR ''E'') then
        (let r = tl s; sg = (if has_prefix r ''+'' \<or> has_prefix r ''-'' then take 1 r else []);
             ds = digits_of (drop (length sg) r)
         in if ds = [] then None else Some (hd s # sg @ ds))
      else Some [])"

definition scan_number :: "string \<Rightarrow> (string \<times> string) option" where
  "scan_number s =
     (let sg = (if has_prefix s ''-'' then ''-'' else []);
          r = drop (length sg) s;
          ds = (if has_prefix r ''0'' then ''0'' else digits_of r)
      in if ds = [] then None
         else case scan_frac (drop (length ds) r) of
           None \<Rightarrow> None
         | Some fr \<Rightarrow>
             (case scan_exp (drop (length ds + length fr) r) of
                None \<Rightarrow> None
              | Some ex \<Rightarrow>
                  let lit = sg @ ds @ fr @ ex in Some (lit, drop (length lit) s)))"

text \<open>The value of a literal, and the integer it denotes when it has neither fraction nor exponent.\<close>

definition signed :: "string \<Rightarrow> (nat \<Rightarrow> int)" where
  "signed s n = (if has_prefix s ''-'' then - int n else int n)"

definition num_int :: "string \<Rightarrow> int option" where
  "num_int lit =
     (let ds = trim_prefix lit ''-''; v = signed lit (dec_val ds)
      in if ds \<noteq> [] \<and> list_all is_digit ds \<and> - (2 ^ 63) \<le> v \<and> v < 2 ^ 63 then Some v else None)"

definition num_uint :: "string \<Rightarrow> nat option" where
  "num_uint lit = parse_uint64 lit"

definition num_real :: "string \<Rightarrow> real" where
  "num_real lit =
     (let s = trim_prefix lit ''-'';
          ip = digits_of s;
          r = drop (length ip) s;
          fr = (if has_prefix r ''.'' then digits_of (tl r) else []);
          e = (if has_prefix r ''.'' then drop (Suc (length fr)) r else r);
          ed = (if e = [] then [] else trim_prefix (trim_prefix (tl e) ''+'') ''-'');
          m = (real (dec_val (ip @ fr)) / 10 ^ length fr);
          v = (if e \<noteq> [] \<and> has_prefix (tl e) ''-'' then m / 10 ^ dec_val ed else m * 10 ^ dec_val ed)
      in if has_prefix lit ''-'' then - v else v)"

section \<open>Values\<close>

definition skip_ws :: "string \<Rightarrow> string" where
  "skip_ws s = dropWhile (\<lambda>c. c = CHR '' '' \<or> c = CHR 0x09 \<or> c = CHR 0x0A \<or> c = CHR 0x0D) s"

fun jvalue :: "nat \<Rightarrow> string \<Rightarrow> (json \<times> string) option"
  and jmembers :: "nat \<Rightarrow> string \<Rightarrow> ((string \<times> json) list \<times> string) option"
  and jelems :: "nat \<Rightarrow> string \<Rightarrow> (json list \<times> string) option"
where
  "jvalue 0 s = None"
| "jvalue (Suc n) s =
     (let t = skip_ws s; r = tl t
      in if t = [] then None
         else if hd t = CHR ''{'' then
           (if has_prefix (skip_ws r) ''}'' then Some (JObj [], tl (skip_ws r))
            else map_option (\<lambda>(ms, u). (JObj ms, u)) (jmembers n r))
         else if hd t = CHR ''['' then
           (if has_prefix (skip_ws r) '']'' then Some (JArr [], tl (skip_ws r))
            else map_option (\<lambda>(vs, u). (JArr vs, u)) (jelems n r))
         else if hd t = CHR 0x22 then map_option (\<lambda>(x, u). (JStr x, u)) (json_string r)
         else if has_prefix t ''null'' then Some (JNull, drop 4 t)
         else if has_prefix t ''true'' then Some (JBool True, drop 4 t)
         else if has_prefix t ''false'' then Some (JBool False, drop 5 t)
         else map_option (\<lambda>(x, u). (JNum x, u)) (scan_number t))"
| "jmembers 0 s = None"
| "jmembers (Suc n) s =
     (if \<not> has_prefix (skip_ws s) [CHR 0x22] then None
      else case json_string (tl (skip_ws s)) of
        None \<Rightarrow> None
      | Some (k, r1) \<Rightarrow>
          if \<not> has_prefix (skip_ws r1) '':'' then None
          else case jvalue n (tl (skip_ws r1)) of
            None \<Rightarrow> None
          | Some (v, r2) \<Rightarrow>
              if has_prefix (skip_ws r2) ''}'' then Some ([(k, v)], tl (skip_ws r2))
              else if has_prefix (skip_ws r2) '','' then
                map_option (\<lambda>(ms, u). ((k, v) # ms, u)) (jmembers n (tl (skip_ws r2)))
              else None)"
| "jelems 0 s = None"
| "jelems (Suc n) s =
     (case jvalue n s of
        None \<Rightarrow> None
      | Some (v, r) \<Rightarrow>
          if has_prefix (skip_ws r) '']'' then Some ([v], tl (skip_ws r))
          else if has_prefix (skip_ws r) '','' then
            map_option (\<lambda>(vs, u). (v # vs, u)) (jelems n (tl (skip_ws r)))
          else None)"

text \<open>
  \<open>json.Unmarshal\<close>'s syntax stage on a whole text, and the first value a \<open>json.Decoder\<close> reads.
  Every nested call consumes at least one byte within two steps, so the fuel is enough.
\<close>

definition json_first :: "string \<Rightarrow> json option" where
  "json_first s = map_option fst (jvalue (2 * length s + 2) s)"

definition json_parse :: "string \<Rightarrow> json option" where
  "json_parse s =
     (case jvalue (2 * length s + 2) s of
        Some (v, r) \<Rightarrow> if skip_ws r = [] then Some v else None
      | None \<Rightarrow> None)"

section \<open>Decoding into Go values\<close>

text \<open>A decoder takes the value so far; \<open>None\<close> is an error.  \<open>null\<close> leaves a non-pointer alone.\<close>

definition dec_string :: "string \<Rightarrow> json \<Rightarrow> string option" where
  "dec_string old j = (case j of JNull \<Rightarrow> Some old | JStr s \<Rightarrow> Some s | _ \<Rightarrow> None)"

definition dec_bool :: "bool \<Rightarrow> json \<Rightarrow> bool option" where
  "dec_bool old j = (case j of JNull \<Rightarrow> Some old | JBool b \<Rightarrow> Some b | _ \<Rightarrow> None)"

definition dec_int :: "int \<Rightarrow> json \<Rightarrow> int option" where
  "dec_int old j = (case j of JNull \<Rightarrow> Some old | JNum l \<Rightarrow> num_int l | _ \<Rightarrow> None)"

definition dec_uint :: "nat \<Rightarrow> json \<Rightarrow> nat option" where
  "dec_uint old j = (case j of JNull \<Rightarrow> Some old | JNum l \<Rightarrow> num_uint l | _ \<Rightarrow> None)"

definition dec_real :: "real \<Rightarrow> json \<Rightarrow> real option" where
  "dec_real old j = (case j of JNull \<Rightarrow> Some old | JNum l \<Rightarrow> Some (num_real l) | _ \<Rightarrow> None)"

definition dec_ptr :: "'a \<Rightarrow> ('a \<Rightarrow> json \<Rightarrow> 'a option) \<Rightarrow> 'a option \<Rightarrow> json \<Rightarrow> 'a option option" where
  "dec_ptr zero dec old j =
     (if j = JNull then Some None
      else map_option Some (dec (case old of Some x \<Rightarrow> x | None \<Rightarrow> zero) j))"

text \<open>A slice: element \<open>i\<close> is decoded into the old element \<open>i\<close> when there is one.\<close>

fun dec_elems :: "'a \<Rightarrow> ('a \<Rightarrow> json \<Rightarrow> 'a option) \<Rightarrow> 'a list \<Rightarrow> json list \<Rightarrow> 'a list option" where
  "dec_elems zero dec old [] = Some []"
| "dec_elems zero dec old (j # js) =
     (case dec (case old of [] \<Rightarrow> zero | x # _ \<Rightarrow> x) j of
        None \<Rightarrow> None
      | Some y \<Rightarrow> map_option (\<lambda>ys. y # ys) (dec_elems zero dec (tl old) js))"

definition dec_list :: "'a \<Rightarrow> ('a \<Rightarrow> json \<Rightarrow> 'a option) \<Rightarrow> 'a list \<Rightarrow> json \<Rightarrow> 'a list option" where
  "dec_list zero dec old j =
     (case j of JNull \<Rightarrow> Some [] | JArr js \<Rightarrow> dec_elems zero dec old js | _ \<Rightarrow> None)"

text \<open>A map from strings to strings, as an association list that keeps one entry per key.\<close>

fun put_entry :: "string \<Rightarrow> 'v \<Rightarrow> (string \<times> 'v) list \<Rightarrow> (string \<times> 'v) list" where
  "put_entry k v [] = [(k, v)]"
| "put_entry k v ((k', v') # es) = (if k = k' then (k, v) # es else (k', v') # put_entry k v es)"

fun dec_entries :: "(string \<times> string) list \<Rightarrow> (string \<times> json) list \<Rightarrow> (string \<times> string) list option" where
  "dec_entries m [] = Some m"
| "dec_entries m ((k, j) # es) =
     (case dec_string [] j of None \<Rightarrow> None | Some v \<Rightarrow> dec_entries (put_entry k v m) es)"

definition dec_string_map :: "(string \<times> string) list \<Rightarrow> json \<Rightarrow> (string \<times> string) list option" where
  "dec_string_map old j =
     (case j of JNull \<Rightarrow> Some [] | JObj es \<Rightarrow> dec_entries old es | _ \<Rightarrow> None)"

lemma map_of_put_entry [simp]: "map_of (put_entry k v es) = (map_of es)(k \<mapsto> v)"
  by (induction es) (auto simp: fun_eq_iff)

text \<open>
  A struct is its list of fields: each name with the decoding of its member into the struct.
  A member goes to the field of its name, else to the one that equals it up to case, else nowhere.
\<close>

type_synonym 'r json_field = "string \<times> ('r \<Rightarrow> json \<Rightarrow> 'r option)"

definition fld :: "('a \<Rightarrow> json \<Rightarrow> 'a option) \<Rightarrow> ('r \<Rightarrow> 'a) \<Rightarrow> (('a \<Rightarrow> 'a) \<Rightarrow> 'r \<Rightarrow> 'r) \<Rightarrow> 'r \<Rightarrow> json \<Rightarrow> 'r option" where
  "fld dec get upd r j = map_option (\<lambda>x. upd (\<lambda>_. x) r) (dec (get r) j)"

definition field_named :: "'r json_field list \<Rightarrow> string \<Rightarrow> 'r json_field option" where
  "field_named fs k =
     (case find (\<lambda>f. fst f = k) fs of
        Some f \<Rightarrow> Some f
      | None \<Rightarrow> find (\<lambda>f. to_lower (fst f) = to_lower k) fs)"

fun dec_members :: "'r json_field list \<Rightarrow> 'r \<Rightarrow> (string \<times> json) list \<Rightarrow> 'r option" where
  "dec_members fs r [] = Some r"
| "dec_members fs r ((k, j) # es) =
     (case field_named fs k of
        None \<Rightarrow> dec_members fs r es
      | Some f \<Rightarrow> (case snd f r j of None \<Rightarrow> None | Some r' \<Rightarrow> dec_members fs r' es))"

definition dec_struct :: "'r json_field list \<Rightarrow> 'r \<Rightarrow> json \<Rightarrow> 'r option" where
  "dec_struct fs old j = (case j of JNull \<Rightarrow> Some old | JObj es \<Rightarrow> dec_members fs old es | _ \<Rightarrow> None)"

text \<open>\<open>json.Unmarshal(text, &v)\<close>, and a decode of the first value of a body.\<close>

definition unmarshal :: "('r \<Rightarrow> json \<Rightarrow> 'r option) \<Rightarrow> 'r \<Rightarrow> string \<Rightarrow> 'r option" where
  "unmarshal dec zero s = (case json_parse s of None \<Rightarrow> None | Some j \<Rightarrow> dec zero j)"

definition decode_first :: "('r \<Rightarrow> json \<Rightarrow> 'r option) \<Rightarrow> 'r \<Rightarrow> string \<Rightarrow> 'r option" where
  "decode_first dec zero s = (case json_first s of None \<Rightarrow> None | Some j \<Rightarrow> dec zero j)"

lemma json_example: "json_parse (''[1, 2.5e1, true, null, {}]'') =
  Some (JArr [JNum ''1'', JNum ''2.5e1'', JBool True, JNull, JObj []])"
  by code_simp

end
