(* ===== verification/Config.thy ===== *)
theory Config
  imports GoJson FileSys
begin

text \<open>
  The configuration, \<open>internal/config/config.go\<close>: its records with their JSON members, the
  offline-safe defaults, the lookup of per-model tuning in a model catalog, and the two gates
  \<open>Load\<close> and \<open>Validate\<close>.  The configuration that \<open>Load\<close> returns beside an error is not modelled.
\<close>

section \<open>Records and defaults\<close>

record budget =
  bg_max_requirements :: int
  bg_wall_clock :: int
  bg_per_task_tokens :: int
  bg_per_task_wall :: int

record tuning =
  tu_temperature :: "real option"
  tu_top_p :: "real option"
  tu_top_k :: "int option"
  tu_min_p :: "real option"
  tu_repeat_penalty :: "real option"
  tu_num_ctx :: "int option"
  tu_think :: "bool option"

record config =
  cf_endpoint :: string
  cf_harness :: string
  cf_target :: string
  cf_retries :: int
  cf_break_after :: int
  cf_budget :: budget
  cf_audit_path :: string
  cf_calibration_path :: string
  cf_model_id :: string
  cf_model_digest :: string
  cf_allow_egress :: bool
  cf_tuning :: "tuning option"
  cf_max_steps :: int
  cf_max_output_tokens :: int
  cf_interactive :: bool
  cf_ctx_size :: int

definition harness_builtin :: string where "harness_builtin = ''builtin''"
definition harness_opencode :: string where "harness_opencode = ''opencode''"
definition harness_goose :: string where "harness_goose = ''goose''"

definition target_linux_cpu :: string where "target_linux_cpu = ''linux-cpu''"
definition target_darwin_metal :: string where "target_darwin_metal = ''darwin-metal''"

definition default_max_steps :: int where "default_max_steps = 40"
definition default_max_output_tokens :: int where "default_max_output_tokens = 8192"

lemmas config_consts = harness_builtin_def harness_opencode_def harness_goose_def
  target_linux_cpu_def target_darwin_metal_def

definition default_model_linux_cpu :: string where "default_model_linux_cpu = ''gemma4-qat:32k''"
definition default_model_darwin_metal :: string where "default_model_darwin_metal = ''gemma4-qat:32k''"

definition default_model_for_target :: "string \<Rightarrow> string" where
  "default_model_for_target t =
     (if t = target_darwin_metal then default_model_darwin_metal else default_model_linux_cpu)"

definition hour :: int where "hour = 3600 * 1000000000"

definition default_config :: config where
  "default_config =
     \<lparr>cf_endpoint = ''http://127.0.0.1:8080'', cf_harness = harness_opencode,
      cf_target = target_linux_cpu, cf_retries = 2, cf_break_after = 3,
      cf_budget = \<lparr>bg_max_requirements = 40, bg_wall_clock = 8 * hour,
                   bg_per_task_tokens = 0, bg_per_task_wall = 0\<rparr>,
      cf_audit_path = ''aegis-audit.log'',
      cf_calibration_path = ''deploy/llama-server/calibration.json'',
      cf_model_id = [], cf_model_digest = [], cf_allow_egress = False, cf_tuning = None,
      cf_max_steps = 0, cf_max_output_tokens = 0, cf_interactive = False, cf_ctx_size = 0\<rparr>"

section \<open>JSON members\<close>

definition zero_tuning :: tuning where
  "zero_tuning = \<lparr>tu_temperature = None, tu_top_p = None, tu_top_k = None, tu_min_p = None,
     tu_repeat_penalty = None, tu_num_ctx = None, tu_think = None\<rparr>"

definition tuning_fields :: "tuning json_field list" where
  "tuning_fields =
     [(''temperature'', fld (dec_ptr 0 dec_real) tu_temperature tu_temperature_update),
      (''top_p'', fld (dec_ptr 0 dec_real) tu_top_p tu_top_p_update),
      (''top_k'', fld (dec_ptr 0 dec_int) tu_top_k tu_top_k_update),
      (''min_p'', fld (dec_ptr 0 dec_real) tu_min_p tu_min_p_update),
      (''repeat_penalty'', fld (dec_ptr 0 dec_real) tu_repeat_penalty tu_repeat_penalty_update),
      (''num_ctx'', fld (dec_ptr 0 dec_int) tu_num_ctx tu_num_ctx_update),
      (''think'', fld (dec_ptr False dec_bool) tu_think tu_think_update)]"

definition budget_fields :: "budget json_field list" where
  "budget_fields =
     [(''max_requirements'', fld dec_int bg_max_requirements bg_max_requirements_update),
      (''wall_clock'', fld dec_int bg_wall_clock bg_wall_clock_update),
      (''per_task_tokens'', fld dec_int bg_per_task_tokens bg_per_task_tokens_update),
      (''per_task_wall_clock'', fld dec_int bg_per_task_wall bg_per_task_wall_update)]"

definition config_fields :: "config json_field list" where
  "config_fields =
     [(''endpoint'', fld dec_string cf_endpoint cf_endpoint_update),
      (''harness'', fld dec_string cf_harness cf_harness_update),
      (''target'', fld dec_string cf_target cf_target_update),
      (''retries'', fld dec_int cf_retries cf_retries_update),
      (''break_after'', fld dec_int cf_break_after cf_break_after_update),
      (''budget'', fld (dec_struct budget_fields) cf_budget cf_budget_update),
      (''audit_path'', fld dec_string cf_audit_path cf_audit_path_update),
      (''calibration_path'', fld dec_string cf_calibration_path cf_calibration_path_update),
      (''model_id'', fld dec_string cf_model_id cf_model_id_update),
      (''model_digest'', fld dec_string cf_model_digest cf_model_digest_update),
      (''allow_egress'', fld dec_bool cf_allow_egress cf_allow_egress_update),
      (''tuning'', fld (dec_ptr zero_tuning (dec_struct tuning_fields)) cf_tuning cf_tuning_update),
      (''max_steps'', fld dec_int cf_max_steps cf_max_steps_update),
      (''max_output_tokens'', fld dec_int cf_max_output_tokens cf_max_output_tokens_update)]"

section \<open>Tuning from the model catalog\<close>

text \<open>
  The anonymous catalog struct the two lookups decode: a list of entries with a key (\<open>ollama\<close> or
  \<open>file\<close>) and a tuning.
\<close>

record tuning_entry =
  te_key :: string
  te_tuning :: "tuning option"

definition zero_entry :: tuning_entry where
  "zero_entry = \<lparr>te_key = [], te_tuning = None\<rparr>"

definition entry_fields :: "string \<Rightarrow> tuning_entry json_field list" where
  "entry_fields key =
     [(key, fld dec_string te_key te_key_update),
      (''tuning'', fld (dec_ptr zero_tuning (dec_struct tuning_fields)) te_tuning te_tuning_update)]"

definition catalog_entries :: "string \<Rightarrow> string \<Rightarrow> tuning_entry list option" where
  "catalog_entries key text =
     unmarshal
       (dec_struct [(''models'',
          \<lambda>old j. dec_list zero_entry (dec_struct (entry_fields key)) old j)]) [] text"

definition tuning_for_model :: "string \<Rightarrow> string \<Rightarrow> tuning option" where
  "tuning_for_model model_id catalog =
     (if model_id = [] then None
      else case catalog_entries ''ollama'' catalog of
        None \<Rightarrow> None
      | Some es \<Rightarrow>
          (case find (\<lambda>e. te_tuning e \<noteq> None \<and> te_key e \<noteq> [] \<and>
                          (te_key e = model_id \<or> has_prefix model_id (te_key e))) es of
             Some e \<Rightarrow> te_tuning e
           | None \<Rightarrow> None))"

definition tuning_for_gguf :: "string \<Rightarrow> string \<Rightarrow> tuning option" where
  "tuning_for_gguf path catalog =
     (if path = [] then None
      else case catalog_entries ''file'' catalog of
        None \<Rightarrow> None
      | Some es \<Rightarrow>
          (case find (\<lambda>e. te_tuning e \<noteq> None \<and> te_key e \<noteq> [] \<and> te_key e = path_base path) es of
             Some e \<Rightarrow> te_tuning e
           | None \<Rightarrow> None))"

section \<open>Validation and loading\<close>

datatype config_err =
    InvalidEndpoint string
  | SchemeNotHttp string
  | EndpointNotLoopback string
  | UnknownHarness string
  | UnknownTarget string
  | NegativeRetries int
  | BreakAfterTooLow int
  | NegativeMaxRequirements int
  | NegativeWallClock int
  | NoAuditPath
  | ConfigReadFailed string
  | ConfigParseFailed string

definition validate :: "config \<Rightarrow> config_err option" where
  "validate c =
     (case url_parse (cf_endpoint c) of
        None \<Rightarrow> Some (InvalidEndpoint (cf_endpoint c))
      | Some u \<Rightarrow>
          if url_scheme u \<noteq> ''http'' \<and> url_scheme u \<noteq> ''https'' then Some (SchemeNotHttp (cf_endpoint c))
          else if \<not> cf_allow_egress c \<and> \<not> is_loopback_host (url_hostname u) then
            Some (EndpointNotLoopback (cf_endpoint c))
          else if cf_harness c \<noteq> harness_builtin \<and> cf_harness c \<noteq> harness_opencode
                  \<and> cf_harness c \<noteq> harness_goose then Some (UnknownHarness (cf_harness c))
          else if cf_target c \<noteq> target_linux_cpu \<and> cf_target c \<noteq> target_darwin_metal then
            Some (UnknownTarget (cf_target c))
          else if cf_retries c < 0 then Some (NegativeRetries (cf_retries c))
          else if cf_break_after c < 1 then Some (BreakAfterTooLow (cf_break_after c))
          else if bg_max_requirements (cf_budget c) < 0 then
            Some (NegativeMaxRequirements (bg_max_requirements (cf_budget c)))
          else if bg_wall_clock (cf_budget c) < 0 then
            Some (NegativeWallClock (bg_wall_clock (cf_budget c)))
          else if cf_audit_path c = [] then Some NoAuditPath
          else None)"

definition validated :: "config \<Rightarrow> config_err + config" where
  "validated c = (case validate c of None \<Rightarrow> Inr c | Some e \<Rightarrow> Inl e)"

definition load_config :: "string \<Rightarrow> fs \<Rightarrow> config_err + config" where
  "load_config path f =
     (if path = [] then validated default_config
      else case fs_read path f of
        None \<Rightarrow> if fs_exists path f then Inl (ConfigReadFailed path) else validated default_config
      | Some text \<Rightarrow>
          (case unmarshal (dec_struct config_fields) default_config text of
             None \<Rightarrow> Inl (ConfigParseFailed path)
           | Some c \<Rightarrow> validated c))"

section \<open>Facts\<close>

lemma default_config_valid: "validate default_config = None"
  by code_simp

text \<open>What a valid configuration promises, independent of the order of the checks.\<close>

definition config_ok :: "config \<Rightarrow> bool" where
  "config_ok c \<longleftrightarrow>
     (\<exists>u. url_parse (cf_endpoint c) = Some u \<and> (url_scheme u = ''http'' \<or> url_scheme u = ''https'') \<and>
          (cf_allow_egress c \<or> is_loopback_host (url_hostname u))) \<and>
     cf_harness c \<in> {harness_builtin, harness_opencode, harness_goose} \<and>
     cf_target c \<in> {target_linux_cpu, target_darwin_metal} \<and>
     0 \<le> cf_retries c \<and> 1 \<le> cf_break_after c \<and>
     0 \<le> bg_max_requirements (cf_budget c) \<and> 0 \<le> bg_wall_clock (cf_budget c) \<and>
     cf_audit_path c \<noteq> []"

lemma validate_iff_ok: "validate c = None \<longleftrightarrow> config_ok c"
proof (cases "url_parse (cf_endpoint c)")
  case None
  then show ?thesis by (simp add: validate_def config_ok_def)
next
  case (Some u)
  then show ?thesis unfolding validate_def config_ok_def
    by (simp add: not_less not_le)
qed

lemma validated_Inr: "validated c = Inr c' \<longleftrightarrow> c' = c \<and> config_ok c"
  by (auto simp: validated_def validate_iff_ok [symmetric] split: option.splits)

lemma load_config_ok: "load_config path f = Inr c \<Longrightarrow> config_ok c"
  by (auto simp: load_config_def validated_Inr split: if_splits option.splits)

text \<open>C13: every configuration \<open>Load\<close> returns without an error, from any file or from none, has a
  parsed http(s) endpoint that is loopback unless egress was allowed, a known harness and target,
  and bounds in range.\<close>

theorem load_config_safe: "load_config path f = Inr c \<Longrightarrow> config_ok c"
  by (rule load_config_ok)

definition sample_config_fs :: fs where
  \<open>sample_config_fs = \<lparr>fs_files = [''aegis.json'' \<mapsto>
     ''{"endpoint": "http://127.0.0.1:9000", "Retries": 1, "budget": {"max_requirements": 7}}''],
     fs_dirs = {''.''}, fs_deny_read = {}, fs_deny_write = {}, fs_deny_mkdir = {}\<rparr>\<close>

theorem load_config_safe_witness:
  "config_ok (default_config\<lparr>cf_endpoint := ''http://127.0.0.1:9000'', cf_retries := 1,
     cf_budget := (cf_budget default_config)\<lparr>bg_max_requirements := 7\<rparr>\<rparr>)"
proof (rule load_config_safe)
  show "load_config ''aegis.json'' sample_config_fs =
    Inr (default_config\<lparr>cf_endpoint := ''http://127.0.0.1:9000'', cf_retries := 1,
      cf_budget := (cf_budget default_config)\<lparr>bg_max_requirements := 7\<rparr>\<rparr>)"
    by code_simp
qed

text \<open>C10: with egress off, an \<open>http\<close> endpoint at a dotted address passes the guard exactly when the
  address is in 127/8; every other address is refused as not loopback.\<close>

theorem validate_dotted_endpoint:
  assumes "config_ok c" "\<not> cf_allow_egress c" "i \<le> 255" "j \<le> 255" "k \<le> 255" "l \<le> 255"
  shows "validate (c\<lparr>cf_endpoint := ''http://'' @ quad i j k l @ '':'' @ show_nat p\<rparr>) =
    (if i = 127 then None
     else Some (EndpointNotLoopback (''http://'' @ quad i j k l @ '':'' @ show_nat p)))"
  (is "validate (c\<lparr>cf_endpoint := ?e\<rparr>) = _")
proof -
  have u: "url_parse ?e = Some \<lparr>url_scheme = ''http'', url_host = quad i j k l @ '':'' @ show_nat p,
      url_path = [], url_opaque = []\<rparr>"
    by (rule url_parse_plain [OF quad_plain])
  have h: "is_loopback_host (url_hostname \<lparr>url_scheme = ''http'',
      url_host = quad i j k l @ '':'' @ show_nat p, url_path = [], url_opaque = []\<rparr>) \<longleftrightarrow> i = 127"
    unfolding hostname_plain [OF quad_plain] by (rule loopback_quad) fact+
  show ?thesis
  proof (cases "i = 127")
    case True
    then have "config_ok (c\<lparr>cf_endpoint := ?e\<rparr>)" using assms(1) u h by (simp add: config_ok_def del: append.simps)
    then show ?thesis using True by (simp add: validate_iff_ok del: append.simps)
  next
    case False
    then show ?thesis using assms(2) u h by (simp add: validate_def del: append.simps)
  qed
qed

theorem validate_dotted_endpoint_witness:
  "validate (default_config\<lparr>cf_endpoint := ''http://'' @ quad 10 0 0 1 @ '':'' @ show_nat 80\<rparr>) =
     Some (EndpointNotLoopback (''http://'' @ quad 10 0 0 1 @ '':'' @ show_nat 80))"
proof -
  have "config_ok default_config" using default_config_valid by (simp only: validate_iff_ok)
  moreover have "\<not> cf_allow_egress default_config" by (simp add: default_config_def)
  ultimately show ?thesis using validate_dotted_endpoint [of default_config 10 0 0 1 80] by (simp del: append.simps)
qed

text \<open>The tuning of a model is that of the first catalog entry that carries one and whose tag is
  a prefix of the model id; an exact match further down is not preferred.\<close>

theorem tuning_first_prefix:
  assumes "catalog_entries ''ollama'' cat = Some (xs @ e # ys)"
    and "te_tuning e = Some t" "te_key e \<noteq> []" "has_prefix m (te_key e)"
    and "\<forall>x \<in> set xs. te_tuning x = None \<or> te_key x = [] \<or> \<not> has_prefix m (te_key x)"
  shows "tuning_for_model m cat = Some t"
proof -
  have "m \<noteq> []" using assms(3,4) by (cases m; cases "te_key e") auto
  moreover have "find (\<lambda>e. te_tuning e \<noteq> None \<and> te_key e \<noteq> [] \<and>
      (te_key e = m \<or> has_prefix m (te_key e))) (xs @ e # ys) = Some e"
  proof -
    have "has_prefix m m" using has_prefix_append [of m "[]"] by simp
    then have "\<forall>x \<in> set xs. \<not> (te_tuning x \<noteq> None \<and> te_key x \<noteq> [] \<and> (te_key x = m \<or> has_prefix m (te_key x)))"
      using assms(5) by metis
    then show ?thesis using assms(2-4)
      by (subst find_skip) (auto simp: list_all_iff)
  qed
  ultimately show ?thesis using assms(1,2) by (simp add: tuning_for_model_def)
qed

definition sample_catalog :: string where
  \<open>sample_catalog = ''{"models": [{"ollama": "qwen3", "tuning": {"top_k": 20}},
     {"ollama": "qwen3-coder:30b", "tuning": {"top_k": 40}}]}''\<close>

theorem tuning_first_prefix_witness:
  "tuning_for_model ''qwen3-coder:30b'' sample_catalog = Some (zero_tuning\<lparr>tu_top_k := Some 20\<rparr>)"
proof (rule tuning_first_prefix [where xs = "[]"])
  show "catalog_entries ''ollama'' sample_catalog = Some
    ([] @ \<lparr>te_key = ''qwen3'', te_tuning = Some (zero_tuning\<lparr>tu_top_k := Some 20\<rparr>)\<rparr> #
      [\<lparr>te_key = ''qwen3-coder:30b'', te_tuning = Some (zero_tuning\<lparr>tu_top_k := Some 40\<rparr>)\<rparr>])"
    by code_simp
qed simp_all

end
