(* ===== verification/ReqClient.thy ===== *)
theory ReqClient
  imports Rtmx
begin

text \<open>
  The contract of \<open>rtmx.Client\<close> as the control loop uses it, as a locale, and its
  interpretation on the two clients whose source is in the repository: the CSV store behind
  \<open>CLIClient\<close> and the in-memory \<open>Fake\<close>.  \<open>backlog\<close> is the set of ids the loop could still be
  given, \<open>held\<close> the ids under a claim.
\<close>

locale req_client =
  fixes cnext :: "'c \<Rightarrow> ('e + requirement option) \<times> 'c"
    and cclaim :: "string \<Rightarrow> 'c \<Rightarrow> 'e option \<times> 'c"
    and crelease :: "string \<Rightarrow> 'c \<Rightarrow> 'e option \<times> 'c"
    and cwrite :: "string \<Rightarrow> status \<Rightarrow> 'c \<Rightarrow> 'e option \<times> 'c"
    and inv :: "'c \<Rightarrow> bool"
    and backlog :: "'c \<Rightarrow> string set"
    and held :: "'c \<Rightarrow> string \<Rightarrow> bool"
  assumes finite_backlog: "inv c \<Longrightarrow> finite (backlog c)"
    and next_inv: "inv c \<Longrightarrow> cnext c = (n, c') \<Longrightarrow>
          inv c' \<and> backlog c' = backlog c \<and> held c' = held c"
    and next_in_backlog: "inv c \<Longrightarrow> cnext c = (Inr (Some r), c') \<Longrightarrow> rq_id r \<in> backlog c"
    and next_not_held: "inv c \<Longrightarrow> cnext c = (Inr (Some r), c') \<Longrightarrow> \<not> held c (rq_id r)"
    and claim_inv: "inv c \<Longrightarrow> cclaim i c = (x, c') \<Longrightarrow> inv c' \<and> backlog c' = backlog c"
    and claim_exclusive: "inv c \<Longrightarrow> held c i \<Longrightarrow> fst (cclaim i c) \<noteq> None"
    and claim_held: "inv c \<Longrightarrow> cclaim i c = (None, c') \<Longrightarrow> held c' i"
    and release_inv: "inv c \<Longrightarrow> crelease i c = (x, c') \<Longrightarrow> inv c' \<and> backlog c' = backlog c"
    and release_free: "inv c \<Longrightarrow> crelease i c = (None, c') \<Longrightarrow> \<not> held c' i"
    and write_inv: "inv c \<Longrightarrow> cwrite i st c = (x, c') \<Longrightarrow> inv c' \<and> held c' = held c"
    and write_terminal: "inv c \<Longrightarrow> cwrite i st c = (None, c') \<Longrightarrow>
          st = StatusClosed \<or> st = StatusBlocked \<Longrightarrow> backlog c' = backlog c - {i}"
    and write_error: "inv c \<Longrightarrow> cwrite i st c = (Some e, c') \<Longrightarrow> backlog c' = backlog c"
begin

text \<open>A second claim without a release in between is refused, and a release makes room again.\<close>

lemma double_claim_refused:
  assumes "inv c" and "cclaim i c = (None, c1)"
  shows "fst (cclaim i c1) \<noteq> None"
  using assms claim_inv claim_exclusive claim_held by blast

text \<open>A requirement written closed or blocked is never handed out again.\<close>

lemma next_after_terminal:
  assumes "inv c" and "cwrite i st c = (None, c1)" and "st = StatusClosed \<or> st = StatusBlocked"
    and "cnext c1 = (Inr (Some r), c2)"
  shows "rq_id r \<noteq> i"
proof -
  from assms have "inv c1" "backlog c1 = backlog c - {i}"
    using write_inv write_terminal by blast+
  with assms(4) show ?thesis using next_in_backlog by blast
qed

lemma backlog_shrinks:
  assumes "inv c" and "i \<in> backlog c" and "cwrite i st c = (None, c')"
    and "st = StatusClosed \<or> st = StatusBlocked"
  shows "card (backlog c') < card (backlog c)"
proof -
  have "backlog c' = backlog c - {i}" using assms write_terminal by blast
  with assms(1,2) show ?thesis
    by (metis card_Diff1_less finite_backlog)
qed

end

section \<open>The CSV-backed client\<close>

text \<open>\<open>CLIClient\<close>: every call goes to the store (\<open>client.go\<close>), under the agent id of the client.\<close>

record cli_client =
  cli_store :: store
  cli_agent :: string

definition cli_next :: "cli_client \<Rightarrow> (store_err + requirement option) \<times> cli_client" where
  "cli_next c = (store_next (cli_store c), c)"

definition cli_claim :: "string \<Rightarrow> cli_client \<Rightarrow> store_err option \<times> cli_client" where
  "cli_claim i c =
     (case store_claim (cli_store c) i (cli_agent c) of (e, s) \<Rightarrow> (e, c\<lparr>cli_store := s\<rparr>))"

definition cli_release :: "string \<Rightarrow> cli_client \<Rightarrow> store_err option \<times> cli_client" where
  "cli_release i c = (case store_release (cli_store c) i of (e, s) \<Rightarrow> (e, c\<lparr>cli_store := s\<rparr>))"

definition cli_write_status :: "string \<Rightarrow> status \<Rightarrow> cli_client \<Rightarrow> store_err option \<times> cli_client" where
  "cli_write_status i st c =
     (case store_set_status (cli_store c) i st of (e, s) \<Rightarrow> (e, c\<lparr>cli_store := s\<rparr>))"

text \<open>A database the loop can drain: it parses and its ids are unique.\<close>

definition store_ok :: "store \<Rightarrow> bool" where
  "store_ok s \<longleftrightarrow>
     (case store_requirements s of Inl _ \<Rightarrow> False | Inr rs \<Rightarrow> distinct (map rq_id rs))"

definition store_backlog :: "store \<Rightarrow> string set" where
  "store_backlog s = (case store_requirements s of Inl _ \<Rightarrow> {} | Inr rs \<Rightarrow> open_ids rs)"

lemma store_okE:
  assumes "store_ok s"
  obtains rs where "store_requirements s = Inr rs" "distinct (map rq_id rs)"
  using assms by (auto simp: store_ok_def split: sum.splits)

lemma store_requirements_cong:
  "st_db s' = st_db s \<Longrightarrow> st_db_path s' = st_db_path s \<Longrightarrow> store_requirements s' = store_requirements s"
  by (cases "st_db s") (simp_all add: store_requirements_def store_read_def split: list.split)

lemma store_claim_frame:
  assumes "store_claim s i a = (e, s')"
  shows "st_db s' = st_db s \<and> st_db_path s' = st_db_path s \<and> st_claims_dir s' = st_claims_dir s"
  using assms by (auto simp: store_claim_def Let_def split: if_splits)

lemma store_release_frame:
  assumes "store_release s i = (e, s')"
  shows "st_db s' = st_db s \<and> st_db_path s' = st_db_path s \<and> st_claims_dir s' = st_claims_dir s"
  using assms by (auto simp: store_release_def split: if_splits)

lemma claim_path_cong: "st_claims_dir s' = st_claims_dir s \<Longrightarrow> claim_path s' i = claim_path s i"
  by (simp add: claim_path_def)

lemma store_set_status_fail: "store_set_status s i st = (Some e, s') \<Longrightarrow> s' = s"
  by (auto simp: store_set_status_def store_write_def Let_def split: sum.splits prod.splits if_splits)

lemma store_set_status_inv:
  assumes "store_ok s" and "store_set_status s i st = (x, s')"
  shows "store_ok s' \<and> is_claimed s' = is_claimed s"
proof (cases x)
  case None
  from assms(1) obtain rs where rs: "store_requirements s = Inr rs" "distinct (map rq_id rs)"
    by (rule store_okE)
  from store_set_status_ok [OF assms(2) [unfolded None] rs(1)] rs(2)
  show ?thesis by (auto simp: store_ok_def is_claimed_def claim_path_def fun_eq_iff)
next
  case (Some e)
  with assms show ?thesis by (auto dest: store_set_status_fail)
qed

lemma store_set_status_backlog:
  assumes "store_ok s" and "store_set_status s i st = (None, s')"
    and "st = StatusClosed \<or> st = StatusBlocked"
  shows "store_backlog s' = store_backlog s - {i}"
proof -
  from assms(1) obtain rs where rs: "store_requirements s = Inr rs" "distinct (map rq_id rs)"
    by (rule store_okE)
  from store_set_status_ok(1) [OF assms(2) rs(1)] rs assms(3)
  show ?thesis by (auto simp: store_backlog_def csv_round_def ids_with_update_status)
qed

interpretation cli: req_client cli_next cli_claim cli_release cli_write_status
  "\<lambda>c. store_ok (cli_store c)" "\<lambda>c. store_backlog (cli_store c)" "\<lambda>c. is_claimed (cli_store c)"
proof (unfold_locales, goal_cases)
  case (1 c)
  then show ?case by (auto simp: store_backlog_def split: sum.splits)
next
  case (2 c x c')
  then show ?case by (auto simp: cli_next_def)
next
  case (3 c r c')
  then show ?case
    by (auto simp: cli_next_def store_next_def store_backlog_def claimable_def
        split: sum.splits dest!: find_Some_mem intro!: ids_withI)
next
  case (4 c r c')
  then show ?case
    by (auto simp: cli_next_def store_next_def claimable_def split: sum.splits dest!: find_Some_mem)
next
  case (5 c i x c')
  then show ?case
    by (auto simp: cli_claim_def store_ok_def store_backlog_def
        dest!: store_claim_frame intro: store_requirements_cong
        split: prod.splits dest: store_requirements_cong)
next
  case (6 c i)
  then show ?case
    by (auto simp: cli_claim_def store_claim_def Let_def is_claimed_def claim_path_def split: prod.splits)
next
  case (7 c i c')
  then show ?case
    by (auto simp: cli_claim_def store_claim_def Let_def is_claimed_def claim_path_def
        split: prod.splits if_splits)
next
  case (8 c i x c')
  then show ?case
    by (auto simp: cli_release_def store_ok_def store_backlog_def
        dest!: store_release_frame dest: store_requirements_cong split: prod.splits)
next
  case (9 c i c')
  then show ?case
    by (auto simp: cli_release_def store_release_def is_claimed_def claim_path_def
        split: prod.splits if_splits)
next
  case (10 c i st x c')
  then show ?case
    by (auto simp: cli_write_status_def dest: store_set_status_inv split: prod.splits)
next
  case (11 c i st c')
  then show ?case
    by (auto simp: cli_write_status_def store_set_status_backlog split: prod.splits)
next
  case (12 c i st e c')
  then show ?case by (auto simp: cli_write_status_def dest!: store_set_status_fail split: prod.splits)
qed

section \<open>The in-memory client\<close>

definition fake_cnext :: "fake \<Rightarrow> (fake_err + requirement option) \<times> fake" where
  "fake_cnext f = (Inr (fake_next f), f)"

text \<open>\<open>Fake.Next\<close> skips closed, proposed and blocked requirements, so it also hands out claimed ones.\<close>

abbreviation live_ids :: "requirement list \<Rightarrow> string set" where
  "live_ids \<equiv> ids_with (\<lambda>st. st \<notin> {StatusClosed, StatusProposed, StatusBlocked})"

interpretation fk: req_client fake_cnext "\<lambda>i f. fake_claim f i" "\<lambda>i f. fake_release f i"
  "\<lambda>i st f. fake_write_status f i st"
  "\<lambda>f. distinct (map rq_id (fk_reqs f))" "\<lambda>f. live_ids (fk_reqs f)" "\<lambda>f i. i \<in> fk_claimed f"
proof (unfold_locales, goal_cases)
  case (3 c r c')
  then show ?case by (auto simp: fake_cnext_def fake_next_def dest!: find_Some_mem intro!: ids_withI)
next
  case (4 c r c')
  then show ?case by (auto simp: fake_cnext_def fake_next_def dest!: find_Some_mem)
next
  case (11 c i st c')
  then show ?case by (auto simp: fake_write_status_def ids_with_update_status split: if_splits)
qed (auto simp: fake_cnext_def fake_claim_def fake_release_def fake_write_status_def split: if_splits)

end
