(* ===== verification/Loop.thy ===== *)
theory Loop
  imports Policies Ledger AuditLog Metrics Config ReqClient
begin

text \<open>
  The control loop, \<open>internal/loop/loop.go\<close>.  A \<open>world\<close> holds what a run acts on: the
  requirements client, the host (the clock and processes in \<open>hs_ext\<close>, the ledger files, the
  memory files, the source tree), the audit log and the metrics collector.  \<open>deps\<close> are the injected
  collaborators as functions.  \<open>attempt_step\<close> is one turn of the loop in \<open>work\<close>, \<open>work\<close> a whole
  requirement, \<open>run_loop\<close> the drain of \<open>Run\<close>; \<open>run_loop\<close> is partial, so a run that never stops is
  \<open>None\<close>.
\<close>

section \<open>The world and the collaborators\<close>

record 'x host =
  hs_ext :: 'x
  hs_fs :: fs
  hs_disk :: mdisk
  hs_tree :: node

record ('c, 'x) world =
  wd_client :: 'c
  wd_host :: "'x host"
  wd_audit :: "audit_log option"
  wd_metrics :: "collector option"

record ('c, 'e, 'x) deps =
  dp_next :: "'c \<Rightarrow> ('e + requirement option) \<times> 'c"
  dp_claim :: "string \<Rightarrow> 'c \<Rightarrow> 'e option \<times> 'c"
  dp_release :: "string \<Rightarrow> 'c \<Rightarrow> 'e option \<times> 'c"
  dp_write :: "string \<Rightarrow> status \<Rightarrow> 'c \<Rightarrow> 'e option \<times> 'c"
  dp_verify :: "string \<Rightarrow> 'c \<times> 'x host \<Rightarrow> (bool \<times> string \<times> 'e option) \<times> 'c \<times> 'x host"
  dp_drive :: "requirement \<Rightarrow> string \<Rightarrow> 'c \<times> 'x host \<Rightarrow> (diff \<times> bool) \<times> 'c \<times> 'x host"
  dp_now :: "'x host \<Rightarrow> int \<times> 'x host"
  dp_cancelled :: "'x host \<Rightarrow> bool"
  dp_ledger_dir :: string
  dp_require_self_test :: bool
  dp_memory_dir :: string
  dp_fallback :: fallback_policy

datatype new_err = NoClient | NoHarness

text \<open>\<open>New\<close>: both collaborators are required, a missing clock is the system's.\<close>

definition loop_new ::
  "bool \<Rightarrow> bool \<Rightarrow> ('x host \<Rightarrow> int \<times> 'x host) option \<Rightarrow> ('x host \<Rightarrow> int \<times> 'x host) \<Rightarrow>
     ('c, 'e, 'x) deps \<Rightarrow> new_err + ('c, 'e, 'x) deps" where
  "loop_new has_client has_harness now time_now d =
     (if \<not> has_client then Inl NoClient
      else if \<not> has_harness then Inl NoHarness
      else Inr (d\<lparr>dp_now := (case now of Some f \<Rightarrow> f | None \<Rightarrow> time_now)\<rparr>))"

datatype outcome = OutcomeClosed | OutcomeParked | OutcomeError

datatype 'e loop_err =
    LoopCancelled
  | LoopNext 'e
  | LoopClaim string 'e
  | LoopWriteClosed string 'e
  | LoopWriteBlocked string 'e

record result =
  re_attempted :: nat
  re_closed :: nat
  re_parked :: nat
  re_breaker :: bool
  re_budget :: bool
  re_stuck :: nat

definition zero_result :: result where
  "zero_result = \<lparr>re_attempted = 0, re_closed = 0, re_parked = 0, re_breaker = False,
     re_budget = False, re_stuck = 0\<rparr>"

section \<open>Recording\<close>

definition entry :: "action \<Rightarrow> string \<Rightarrow> string \<Rightarrow> string \<Rightarrow> audit_entry" where
  "entry a i res detail = \<lparr>en_time = 0, en_actor = [], en_action = a, en_req = i, en_result = res,
     en_machine = True, en_detail = detail\<rparr>"

definition record_entry :: "audit_entry \<Rightarrow> ('c, 'x) world \<Rightarrow> ('c, 'x) world" where
  "record_entry e w =
     (case wd_audit w of None \<Rightarrow> w | Some l \<Rightarrow> w\<lparr>wd_audit := Some (snd (audit_record e l))\<rparr>)"

definition collect :: "attempt \<Rightarrow> ('c, 'x) world \<Rightarrow> ('c, 'x) world" where
  "collect a w =
     (case wd_metrics w of None \<Rightarrow> w | Some c \<Rightarrow> w\<lparr>wd_metrics := Some (metrics_record a c)\<rparr>)"

definition verify_result :: "bool \<Rightarrow> 'e option \<Rightarrow> string" where
  "verify_result ok e = (if e \<noteq> None then ''error'' else if ok then ''pass'' else ''fail'')"

text \<open>A read of the clock, and a call that sees the client and the host.\<close>

definition read_now :: "('c, 'e, 'x) deps \<Rightarrow> ('c, 'x) world \<Rightarrow> int \<times> ('c, 'x) world" where
  "read_now d w = (case dp_now d (wd_host w) of (t, h) \<Rightarrow> (t, w\<lparr>wd_host := h\<rparr>))"

definition on_both ::
  "('c \<times> 'x host \<Rightarrow> 'r \<times> 'c \<times> 'x host) \<Rightarrow> ('c, 'x) world \<Rightarrow> 'r \<times> ('c, 'x) world" where
  "on_both f w =
     (case f (wd_client w, wd_host w) of (r, c, h) \<Rightarrow> (r, w\<lparr>wd_client := c, wd_host := h\<rparr>))"

definition on_client :: "('c \<Rightarrow> 'r \<times> 'c) \<Rightarrow> ('c, 'x) world \<Rightarrow> 'r \<times> ('c, 'x) world" where
  "on_client f w = (case f (wd_client w) of (r, c) \<Rightarrow> (r, w\<lparr>wd_client := c\<rparr>))"

section \<open>Working one requirement\<close>

record attempts =
  as_att :: attempt
  as_trace :: "step list"
  as_stuck :: stuck_reason
  as_over :: bool
  as_closed :: bool
  as_had_test :: bool
  as_identical :: int
  as_last_out :: string
  as_feedback :: string

definition start_attempts :: "string \<Rightarrow> attempts" where
  "start_attempts i = \<lparr>as_att = new_attempt i, as_trace = [], as_stuck = NotStuck, as_over = False,
     as_closed = False, as_had_test = False, as_identical = 0, as_last_out = [], as_feedback = []\<rparr>"

definition before_ctx :: "string \<Rightarrow> string \<Rightarrow> string" where
  "before_ctx pre ctx = (if ctx \<noteq> [] then pre @ ''\<newline>\<newline>'' @ ctx else pre)"

definition drive_ctx ::
  "('c, 'e, 'x) deps \<Rightarrow> string \<Rightarrow> ledger option \<Rightarrow> mstore option \<Rightarrow> attempts \<Rightarrow> fs \<Rightarrow> string" where
  "drive_ctx d i lg mem st f =
     (let c0 = as_feedback st;
          led = (case lg of None \<Rightarrow> [] | Some l \<Rightarrow> ledger_render l i f);
          c1 = (if led \<noteq> [] then before_ctx led c0 else c0);
          m = (case mem of None \<Rightarrow> [] | Some s \<Rightarrow> mem_render s);
          c2 = (if m \<noteq> [] then before_ctx m c1 else c1)
      in if dp_require_self_test d \<and> \<not> as_had_test st then before_ctx self_check_directive c2 else c2)"

definition add_diff :: "diff \<Rightarrow> attempts \<Rightarrow> attempts" where
  "add_diff df st =
     (let a = as_att st;
          a' = a\<lparr>at_turns := at_turns a + df_turns df, at_tool_calls := at_tool_calls a + df_tool_calls df,
                 at_valid_calls := at_valid_calls a + df_valid_calls df,
                 at_tokens := at_tokens a + df_tokens df\<rparr>;
          tr = as_trace st @ steps_from_trace (df_trace df)
      in st\<lparr>as_att := a', as_had_test := self_test_in_patch (df_patch df), as_trace := tr,
            as_stuck := detect_stuck tr default_thresholds\<rparr>)"

definition over_per_task ::
  "('c, 'e, 'x) deps \<Rightarrow> budget \<Rightarrow> attempt \<Rightarrow> int \<Rightarrow> ('c, 'x) world \<Rightarrow> bool \<times> ('c, 'x) world" where
  "over_per_task d b a start w =
     (if bg_per_task_tokens b > 0 \<and> at_tokens a \<ge> bg_per_task_tokens b then (True, w)
      else if bg_per_task_wall b > 0 then
        (case read_now d w of (t, w') \<Rightarrow> (t - start \<ge> bg_per_task_wall b, w'))
      else (False, w))"

definition after_failure :: "fallback_policy \<Rightarrow> string \<Rightarrow> attempts \<Rightarrow> attempts" where
  "after_failure p out st =
     (let n = (if out \<noteq> [] \<and> out = as_last_out st then as_identical st + 1 else 1);
          fb = (if fst (fallback p n) then fallback_directive @ ''\<newline>\<newline>'' @ out else out)
      in st\<lparr>as_identical := n, as_last_out := out, as_feedback := fb\<rparr>)"

text \<open>One turn: the boolean says whether the loop breaks.\<close>

definition attempt_step ::
  "('c, 'e, 'x) deps \<Rightarrow> config \<Rightarrow> requirement \<Rightarrow> ledger option \<Rightarrow> mstore option \<Rightarrow> int \<Rightarrow> nat \<Rightarrow>
     attempts \<times> ('c, 'x) world \<Rightarrow> bool \<times> attempts \<times> ('c, 'x) world" where
  "attempt_step d cfg req lg mem start i sw =
     (case sw of (st, w) \<Rightarrow>
       (case on_both (dp_drive d req (drive_ctx d (rq_id req) lg mem st (hs_fs (wd_host w)))) w of
          ((df, derr), w1) \<Rightarrow>
            let st1 = add_diff df st
            in if as_stuck st1 \<noteq> NotStuck then (True, st1, w1)
               else if derr then (False, st1, w1)
               else
                 (case on_both (dp_verify d (rq_id req)) w1 of
                    ((ok, out, verr), w2) \<Rightarrow>
                      let w3 = record_entry (entry ActionVerify (rq_id req) (verify_result ok verr) []) w2
                      in if verr = None \<and> ok then
                           (True, st1\<lparr>as_closed := True, as_att := (as_att st1)\<lparr>at_first_pass := i = 0\<rparr>\<rparr>, w3)
                         else
                           let st2 = (if verr = None then after_failure (dp_fallback d) out st1 else st1)
                           in (case over_per_task d (cf_budget cfg) (as_att st2) start w3 of
                                 (over, w4) \<Rightarrow> (over, st2\<lparr>as_over := over\<rparr>, w4)))))"

fun attempt_loop ::
  "('c, 'e, 'x) deps \<Rightarrow> config \<Rightarrow> requirement \<Rightarrow> ledger option \<Rightarrow> mstore option \<Rightarrow> int \<Rightarrow> nat \<Rightarrow> nat \<Rightarrow>
     attempts \<times> ('c, 'x) world \<Rightarrow> attempts \<times> ('c, 'x) world" where
  "attempt_loop d cfg req lg mem start i 0 sw = sw"
| "attempt_loop d cfg req lg mem start i (Suc n) sw =
     (case attempt_step d cfg req lg mem start i sw of
        (brk, sw') \<Rightarrow> if brk then sw' else attempt_loop d cfg req lg mem start (Suc i) n sw')"

definition safe_name :: "string \<Rightarrow> string" where
  "safe_name i = replace_char CHR ''/'' ''_'' i"

text \<open>After the claim: seed the ledger, open the memory and run the discovery pass.\<close>

definition prepare_ledger ::
  "('c, 'e, 'x) deps \<Rightarrow> requirement \<Rightarrow> ('c, 'x) world \<Rightarrow> ledger option \<times> ('c, 'x) world" where
  "prepare_ledger d req w =
     (if dp_ledger_dir d = [] then (None, w)
      else let l = \<lparr>lg_dir = dp_ledger_dir d\<rparr>; h = wd_host w
           in (Some l, w\<lparr>wd_host := h\<lparr>hs_fs := snd (ledger_seed l (rq_id req) (rq_title req) (hs_fs h))\<rparr>\<rparr>))"

definition prepare_memory ::
  "('c, 'e, 'x) deps \<Rightarrow> requirement \<Rightarrow> ('c, 'x) world \<Rightarrow> mstore option \<times> ('c, 'x) world" where
  "prepare_memory d req w =
     (if dp_memory_dir d = [] then (None, w)
      else let h = wd_host w;
               s = mem_open (hs_disk h) (path_join [dp_memory_dir d, safe_name (rq_id req) @ ''.json'']) 0 0
           in (case research_pre_stage (Some s) (hs_disk h) ''.'' (hs_tree h)
                      (terms_from_requirement req) 20 of
                 (n, mem, dk) \<Rightarrow> (mem, w\<lparr>wd_host := h\<lparr>hs_disk := dk\<rparr>\<rparr>)))"

fun stuck_name :: "stuck_reason \<Rightarrow> string" where
  "stuck_name NotStuck = []"
| "stuck_name StuckRepeatedAction = ''repeated-action''"
| "stuck_name StuckRepeatedError = ''repeated-error''"
| "stuck_name StuckMonologue = ''monologue''"
| "stuck_name StuckPingPong = ''ping-pong''"
| "stuck_name StuckCondensing = ''repeated-condensation''"

definition park_detail :: "attempts \<Rightarrow> string" where
  "park_detail st =
     (if as_stuck st \<noteq> NotStuck then ''stuck ('' @ stuck_name (as_stuck st) @ ''); parked unattended''
      else if as_over st then ''per-task budget exhausted; parked unattended''
      else ''retries exhausted; parked unattended'')"

type_synonym 'e work_result = "outcome \<times> stuck_reason \<times> 'e loop_err option"

definition close_requirement ::
  "('c, 'e, 'x) deps \<Rightarrow> string \<Rightarrow> attempt \<Rightarrow> ('c, 'x) world \<Rightarrow> 'e work_result \<times> ('c, 'x) world" where
  "close_requirement d i att w =
     (case on_client (dp_write d i StatusClosed) w of
        (Some e, w1) \<Rightarrow> ((OutcomeError, NotStuck, Some (LoopWriteClosed i e)), w1)
      | (None, w1) \<Rightarrow>
          let w2 = snd (on_client (dp_release d i) w1);
              w3 = record_entry (entry ActionRelease i ''closed'' []) w2
          in ((OutcomeClosed, NotStuck, None), collect (att\<lparr>at_closed := True\<rparr>) w3))"

definition park_requirement ::
  "('c, 'e, 'x) deps \<Rightarrow> string \<Rightarrow> attempts \<Rightarrow> attempt \<Rightarrow> ('c, 'x) world \<Rightarrow> 'e work_result \<times> ('c, 'x) world" where
  "park_requirement d i st att w =
     (case on_client (dp_write d i StatusBlocked) w of
        (Some e, w1) \<Rightarrow> ((OutcomeError, NotStuck, Some (LoopWriteBlocked i e)), w1)
      | (None, w1) \<Rightarrow>
          let w2 = record_entry (entry ActionEscalate i ''blocked'' (park_detail st)) w1;
              w3 = snd (on_client (dp_release d i) w2);
              w4 = record_entry (entry ActionPark i ''blocked'' []) w3
          in ((OutcomeParked, as_stuck st, None), collect (att\<lparr>at_escalated := True\<rparr>) w4))"

definition work ::
  "('c, 'e, 'x) deps \<Rightarrow> config \<Rightarrow> requirement \<Rightarrow> ('c, 'x) world \<Rightarrow> 'e work_result \<times> ('c, 'x) world" where
  "work d cfg req w =
     (case on_client (dp_claim d (rq_id req)) w of
        (Some e, w1) \<Rightarrow> ((OutcomeError, NotStuck, Some (LoopClaim (rq_id req) e)), w1)
      | (None, w1) \<Rightarrow>
          let w2 = record_entry (entry ActionClaim (rq_id req) [] []) w1
          in (case prepare_ledger d req w2 of (lg, w3) \<Rightarrow>
             (case prepare_memory d req w3 of (mem, w4) \<Rightarrow>
             (case read_now d w4 of (start, w5) \<Rightarrow>
             (case attempt_loop d cfg req lg mem start 0 (nat (cf_retries cfg + 1))
                     (start_attempts (rq_id req), w5) of (st, w6) \<Rightarrow>
             (case read_now d w6 of (t, w7) \<Rightarrow>
                let att = (as_att st)\<lparr>at_wall := t - start\<rparr>
                in if as_closed st then close_requirement d (rq_id req) att w7
                   else park_requirement d (rq_id req) st att w7))))))"

section \<open>Draining the backlog\<close>

text \<open>The budget checks at the head of the loop, and the bookkeeping after one requirement.\<close>

definition budget_hit ::
  "('c, 'e, 'x) deps \<Rightarrow> budget \<Rightarrow> int \<Rightarrow> result \<Rightarrow> ('c, 'x) world \<Rightarrow> bool \<times> ('c, 'x) world" where
  "budget_hit d b start res w =
     (if bg_max_requirements b > 0 \<and> int (re_attempted res) \<ge> bg_max_requirements b then (True, w)
      else if bg_wall_clock b > 0 then
        (case read_now d w of (t, w') \<Rightarrow> (t - start \<ge> bg_wall_clock b, w'))
      else (False, w))"

definition tally :: "outcome \<Rightarrow> stuck_reason \<Rightarrow> result \<times> int \<Rightarrow> result \<times> int" where
  "tally oc stuck rc =
     (case rc of (res, fails) \<Rightarrow>
        let r1 = res\<lparr>re_attempted := Suc (re_attempted res)\<rparr>
        in (case oc of
              OutcomeClosed \<Rightarrow> (r1\<lparr>re_closed := Suc (re_closed r1)\<rparr>, 0)
            | OutcomeParked \<Rightarrow>
                (r1\<lparr>re_parked := Suc (re_parked r1),
                    re_stuck := (if stuck \<noteq> NotStuck then Suc (re_stuck r1) else re_stuck r1)\<rparr>, fails + 1)
            | OutcomeError \<Rightarrow> (r1, fails + 1)))"

type_synonym ('c, 'e, 'x) run_out = "(result \<times> 'e loop_err option) \<times> ('c, 'x) world"

text \<open>One iteration: either the run returns, or it goes on with new counters.\<close>

definition run_step ::
  "('c, 'e, 'x) deps \<Rightarrow> config \<Rightarrow> bool \<Rightarrow> int \<Rightarrow> result \<Rightarrow> int \<Rightarrow> ('c, 'x) world \<Rightarrow>
     ('c, 'e, 'x) run_out + (result \<times> int \<times> ('c, 'x) world)" where
  "run_step d cfg once start res fails w =
     (case budget_hit d (cf_budget cfg) start res w of (hit, w1) \<Rightarrow>
        if hit then Inl ((res\<lparr>re_budget := True\<rparr>, None), w1)
        else if dp_cancelled d (wd_host w1) then Inl ((res, Some LoopCancelled), w1)
        else (case on_client (dp_next d) w1 of
            (Inl e, w2) \<Rightarrow> Inl ((res, Some (LoopNext e)), w2)
          | (Inr None, w2) \<Rightarrow> Inl ((res, None), w2)
          | (Inr (Some req), w2) \<Rightarrow>
              (case work d cfg req w2 of
                 ((oc, stuck, Some e), w3) \<Rightarrow> Inl ((res, Some e), w3)
               | ((oc, stuck, None), w3) \<Rightarrow>
                   (case tally oc stuck (res, fails) of (res', fails') \<Rightarrow>
                      if fails' \<ge> cf_break_after cfg then Inl ((res'\<lparr>re_breaker := True\<rparr>, None), w3)
                      else if once then Inl ((res', None), w3)
                      else Inr (res', fails', w3)))))"

partial_function (option) run_loop ::
  "('c, 'e, 'x) deps \<Rightarrow> config \<Rightarrow> bool \<Rightarrow> int \<Rightarrow> result \<Rightarrow> int \<Rightarrow> ('c, 'x) world \<Rightarrow>
     ('c, 'e, 'x) run_out option" where
  "run_loop d cfg once start res fails w =
     (case run_step d cfg once start res fails w of
        Inl out \<Rightarrow> Some out
      | Inr (res', fails', w') \<Rightarrow> run_loop d cfg once start res' fails' w')"

definition run ::
  "('c, 'e, 'x) deps \<Rightarrow> config \<Rightarrow> bool \<Rightarrow> ('c, 'x) world \<Rightarrow> ('c, 'e, 'x) run_out option" where
  "run d cfg once w =
     (case read_now d w of (start, w1) \<Rightarrow> run_loop d cfg once start zero_result 0 w1)"

section \<open>Frames\<close>

lemma record_entry_frame [simp]:
  "wd_client (record_entry e w) = wd_client w" "wd_host (record_entry e w) = wd_host w"
  "wd_metrics (record_entry e w) = wd_metrics w"
  by (simp_all add: record_entry_def split: option.split)

lemma collect_frame [simp]:
  "wd_client (collect a w) = wd_client w" "wd_host (collect a w) = wd_host w"
  "wd_audit (collect a w) = wd_audit w"
  by (simp_all add: collect_def split: option.split)

lemma read_now_frame:
  assumes "read_now d w = (t, w')"
  shows "wd_client w' = wd_client w" "wd_audit w' = wd_audit w" "wd_metrics w' = wd_metrics w"
  using assms by (auto simp: read_now_def split: prod.splits)

lemma on_both_frame:
  assumes "on_both f w = (r, w')"
  shows "wd_audit w' = wd_audit w" "wd_metrics w' = wd_metrics w"
    "f (wd_client w, wd_host w) = (r, wd_client w', wd_host w')"
  using assms by (auto simp: on_both_def split: prod.splits)

lemma on_client_frame:
  assumes "on_client f w = (r, w')"
  shows "wd_host w' = wd_host w" "wd_audit w' = wd_audit w" "wd_metrics w' = wd_metrics w"
    "f (wd_client w) = (r, wd_client w')"
  using assms by (auto simp: on_client_def split: prod.splits)

lemma over_per_task_frame:
  assumes "over_per_task d b a start w = (o', w')"
  shows "wd_client w' = wd_client w" "wd_audit w' = wd_audit w" "wd_metrics w' = wd_metrics w"
  using assms by (auto simp: over_per_task_def split: if_splits prod.splits dest: read_now_frame)

lemma budget_hit_frame:
  assumes "budget_hit d b start res w = (hit, w')"
  shows "wd_client w' = wd_client w" "wd_audit w' = wd_audit w" "wd_metrics w' = wd_metrics w"
  using assms by (auto simp: budget_hit_def split: if_splits prod.splits dest: read_now_frame)

lemma prepare_frame:
  "prepare_ledger d req w = (lg, w') \<Longrightarrow>
     wd_client w' = wd_client w \<and> wd_audit w' = wd_audit w \<and> wd_metrics w' = wd_metrics w"
  "prepare_memory d req w = (mem, w') \<Longrightarrow>
     wd_client w' = wd_client w \<and> wd_audit w' = wd_audit w \<and> wd_metrics w' = wd_metrics w"
  by (auto simp: prepare_ledger_def prepare_memory_def Let_def split: if_splits prod.splits)

lemmas frame_dests =
  read_now_frame on_both_frame on_client_frame over_per_task_frame budget_hit_frame prepare_frame

section \<open>One attempt\<close>

text \<open>
  What a turn can be: the five ways through the loop body.
\<close>

lemma attempt_step_cases [consumes 1, case_names stuck derr pass failed]:
  assumes "attempt_step d cfg req lg mem start i (st, w) = (brk, st', w')"
  obtains
    (stuck) df derr where
      "on_both (dp_drive d req (drive_ctx d (rq_id req) lg mem st (hs_fs (wd_host w)))) w = ((df, derr), w')"
      "brk" "st' = add_diff df st" "as_stuck st' \<noteq> NotStuck"
  | (derr) df where
      "on_both (dp_drive d req (drive_ctx d (rq_id req) lg mem st (hs_fs (wd_host w)))) w = ((df, True), w')"
      "\<not> brk" "st' = add_diff df st" "as_stuck st' = NotStuck"
  | (pass) df w1 out w2 where
      "on_both (dp_drive d req (drive_ctx d (rq_id req) lg mem st (hs_fs (wd_host w)))) w = ((df, False), w1)"
      "on_both (dp_verify d (rq_id req)) w1 = ((True, out, None), w2)"
      "brk" "st' = (add_diff df st)\<lparr>as_closed := True, as_att := (as_att (add_diff df st))\<lparr>at_first_pass := i = 0\<rparr>\<rparr>"
      "w' = record_entry (entry ActionVerify (rq_id req) ''pass'' []) w2" "as_stuck st' = NotStuck"
  | (failed) df w1 ok out verr w2 st2 over where
      "on_both (dp_drive d req (drive_ctx d (rq_id req) lg mem st (hs_fs (wd_host w)))) w = ((df, False), w1)"
      "on_both (dp_verify d (rq_id req)) w1 = ((ok, out, verr), w2)" "\<not> (verr = None \<and> ok)"
      "st2 = (if verr = None then after_failure (dp_fallback d) out (add_diff df st) else add_diff df st)"
      "over_per_task d (cf_budget cfg) (as_att st2) start
         (record_entry (entry ActionVerify (rq_id req) (verify_result ok verr) []) w2) = (over, w')"
      "brk = over" "st' = st2\<lparr>as_over := over\<rparr>" "as_stuck st' = NotStuck"
proof -
  obtain df derr w1 where dr:
    "on_both (dp_drive d req (drive_ctx d (rq_id req) lg mem st (hs_fs (wd_host w)))) w = ((df, derr), w1)"
    by (metis prod.exhaust)
  show thesis
  proof (cases "as_stuck (add_diff df st) = NotStuck")
    case False
    with assms dr show thesis
      by (intro stuck [of df derr]) (auto simp: attempt_step_def Let_def split: if_splits)
  next
    case ns: True
    show thesis
    proof (cases derr)
      case True
      with assms dr ns show thesis
        by (intro derr [of df]) (auto simp: attempt_step_def Let_def split: if_splits)
    next
      case False
      obtain ok out verr w2 where ve: "on_both (dp_verify d (rq_id req)) w1 = ((ok, out, verr), w2)"
        by (metis prod.exhaust)
      show thesis
      proof (cases "verr = None \<and> ok")
        case True
        with assms dr ns False ve show thesis
          by (intro pass [of df w1 out w2]) (auto simp: attempt_step_def Let_def verify_result_def)
      next
        case nok: False
        let ?st2 = "if verr = None then after_failure (dp_fallback d) out (add_diff df st) else add_diff df st"
        let ?w3 = "record_entry (entry ActionVerify (rq_id req) (verify_result ok verr) []) w2"
        obtain over w4 where ov:
          "over_per_task d (cf_budget cfg) (as_att ?st2) start ?w3 = (over, w4)"
          by (metis prod.exhaust)
        have eq: "(brk, st', w') = (over, ?st2\<lparr>as_over := over\<rparr>, w4)"
          unfolding assms [symmetric]
          by (simp only: attempt_step_def prod.case dr ve Let_def ns False nok if_False if_True
              ov not_True_eq_False not_False_eq_True simp_thms)
        have "as_stuck ?st2 = NotStuck" using ns by (simp add: after_failure_def Let_def)
        with dr ve nok eq ov False show thesis
          by (intro failed [of df w1 ok out verr w2 ?st2 over]) auto
      qed
    qed
  qed
qed

end
