(* ===== verification/LoopSpec.thy ===== *)
theory LoopSpec
  imports Loop
begin

text \<open>
  What the control loop promises: the audit trail of one requirement, the metrics it leaves, and
  under the contract of the requirements client that a run stops, works each requirement at most
  once and accounts for every one of them.
\<close>

section \<open>The audit trail\<close>

text \<open>
  The trail of a log is its actions with their requirement and result; \<open>audited\<close> is a log whose
  writes succeed.
\<close>

type_synonym mark = "action \<times> string \<times> string"

definition trail :: "('c, 'x) world \<Rightarrow> mark list" where
  "trail w = (case wd_audit w of None \<Rightarrow> []
     | Some l \<Rightarrow> map (\<lambda>e. (en_action e, en_req e, en_result e)) (au_lines l))"

definition audited :: "('c, 'x) world \<Rightarrow> bool" where
  "audited w \<longleftrightarrow> (case wd_audit w of None \<Rightarrow> False | Some l \<Rightarrow> au_fails l = (\<lambda>_. False))"

lemma trail_cong: "wd_audit w' = wd_audit w \<Longrightarrow> trail w' = trail w \<and> audited w' = audited w"
  by (simp add: trail_def audited_def)

lemma record_entry_trail:
  "audited w \<Longrightarrow> audited (record_entry e w) \<and> trail (record_entry e w) = trail w @ [(en_action e, en_req e, en_result e)]"
  by (auto simp: audited_def trail_def record_entry_def split: option.splits)

lemma entry_fields [simp]:
  "en_action (entry a i r t) = a" "en_req (entry a i r t) = i" "en_result (entry a i r t) = r"
  by (simp_all add: entry_def)

abbreviation pass :: string where "pass \<equiv> ''pass''"

text \<open>The verify results of a requirement: it is closed exactly when the last one, and only that one, is a pass.\<close>

definition verify_seq :: "bool \<Rightarrow> string list \<Rightarrow> bool" where
  "verify_seq ok vs \<longleftrightarrow>
     (if ok then vs \<noteq> [] \<and> last vs = pass \<and> pass \<notin> set (butlast vs) else pass \<notin> set vs)"

definition verify_marks :: "string \<Rightarrow> string list \<Rightarrow> mark list" where
  "verify_marks i vs = map (\<lambda>r. (ActionVerify, i, r)) vs"

lemma verify_marks_simps [simp]:
  "verify_marks i [] = []" "verify_marks i (r # vs) = (ActionVerify, i, r) # verify_marks i vs"
  by (simp_all add: verify_marks_def)

lemma as_closed_add_diff [simp]: "as_closed (add_diff df st) = as_closed st"
  by (simp add: add_diff_def Let_def)

lemma as_closed_after_failure [simp]: "as_closed (after_failure p out st) = as_closed st"
  by (simp add: after_failure_def Let_def)

lemma verify_result_pass: "verify_result ok verr = pass \<longleftrightarrow> verr = None \<and> ok"
  by (simp add: verify_result_def)

lemma attempt_step_trail:
  assumes "attempt_step d cfg req lg mem start i (st, w) = (brk, st', w')" and "audited w"
    and "\<not> as_closed st"
  shows "audited w' \<and> wd_metrics w' = wd_metrics w \<and> (as_closed st' \<longrightarrow> brk) \<and>
     (\<exists>vs. length vs \<le> 1 \<and> verify_seq (as_closed st') vs \<and> trail w' = trail w @ verify_marks (rq_id req) vs)"
  using assms(1)
proof (cases rule: attempt_step_cases)
  case (stuck df derr)
  from on_both_frame [OF stuck(1)] assms(2,3) stuck(3) show ?thesis
    by (intro conjI exI [of _ "[]"]) (simp_all add: trail_cong [of w' w] verify_seq_def)
next
  case (derr df)
  from on_both_frame [OF derr(1)] assms(2,3) derr(3) show ?thesis
    by (intro conjI exI [of _ "[]"]) (simp_all add: trail_cong [of w' w] verify_seq_def)
next
  case (pass df w1 out w2)
  from on_both_frame [OF pass(1)] on_both_frame [OF pass(2)] assms(2)
  have "audited w2 \<and> trail w2 = trail w \<and> wd_metrics w2 = wd_metrics w" by (simp add: trail_cong [of w2 w])
  then show ?thesis unfolding pass(4,5) using pass(3)
    by (intro conjI exI [of _ "[pass]"]) (simp_all add: record_entry_trail verify_seq_def)
next
  case (failed df w1 ok out verr w2 st2 over)
  from on_both_frame [OF failed(1)] on_both_frame [OF failed(2)] assms(2)
  have w2: "audited w2 \<and> trail w2 = trail w \<and> wd_metrics w2 = wd_metrics w" by (simp add: trail_cong [of w2 w])
  have nc: "\<not> as_closed st'" using failed(4,7) assms(3) by simp
  have "verify_result ok verr \<noteq> pass" using failed(3) by (simp only: verify_result_pass not_False_eq_True)
  then have "verify_seq (as_closed st') [verify_result ok verr]" using nc by (auto simp: verify_seq_def)
  moreover have "trail w' = trail w @ verify_marks (rq_id req) [verify_result ok verr]"
    using w2 over_per_task_frame [OF failed(5)] by (simp add: trail_cong [of w'] record_entry_trail)
  moreover have "audited w' \<and> wd_metrics w' = wd_metrics w"
    using w2 over_per_task_frame [OF failed(5)] by (simp add: trail_cong [of w'] record_entry_trail)
  ultimately show ?thesis using nc by (intro conjI exI [of _ "[verify_result ok verr]"]) simp_all
qed

lemma attempt_loop_trail:
  assumes "attempt_loop d cfg req lg mem start i n (st, w) = (st', w')" and "audited w"
    and "\<not> as_closed st"
  shows "audited w' \<and> wd_metrics w' = wd_metrics w \<and>
     (\<exists>vs. length vs \<le> n \<and> verify_seq (as_closed st') vs \<and> trail w' = trail w @ verify_marks (rq_id req) vs)"
  using assms
proof (induction n arbitrary: i st w)
  case 0
  then show ?case by (simp add: verify_seq_def)
next
  case (Suc n)
  obtain brk st1 w1 where s: "attempt_step d cfg req lg mem start i (st, w) = (brk, st1, w1)"
    by (metis prod_cases3)
  from attempt_step_trail [OF s Suc.prems(2,3)] obtain vs where t: "audited w1" "wd_metrics w1 = wd_metrics w"
    "as_closed st1 \<longrightarrow> brk" "length vs \<le> 1" "verify_seq (as_closed st1) vs"
    "trail w1 = trail w @ verify_marks (rq_id req) vs" by blast
  show ?case
  proof (cases brk)
    case True
    with Suc.prems(1) s have "w' = w1" "st' = st1" by simp_all
    moreover have "length vs \<le> Suc n" using t(4) by simp
    ultimately show ?thesis using t by blast
  next
    case False
    with Suc.prems(1) s have "attempt_loop d cfg req lg mem start (Suc i) n (st1, w1) = (st', w')" by simp
    from Suc.IH [OF this t(1)] t(3) False obtain vs' where v: "length vs' \<le> n" "verify_seq (as_closed st') vs'"
      "trail w' = trail w1 @ verify_marks (rq_id req) vs'" "audited w'" "wd_metrics w' = wd_metrics w1" by auto
    have "pass \<notin> set vs" using t(3,5) False by (simp add: verify_seq_def)
    then have "verify_seq (as_closed st') (vs @ vs')" using v(2) by (auto simp: verify_seq_def butlast_append)
    moreover have "length (vs @ vs') \<le> Suc n" using t(4) v(1) by simp
    moreover have "trail w' = trail w @ verify_marks (rq_id req) (vs @ vs')"
      using v(3) t(6) by (simp add: verify_marks_def)
    moreover have "audited w' \<and> wd_metrics w' = wd_metrics w" using v(4,5) t(2) by simp
    ultimately show ?thesis by blast
  qed
qed

text \<open>The trail a requirement leaves, by its verify results and outcome.\<close>

definition outcome_trail :: "string \<Rightarrow> string list \<Rightarrow> outcome \<Rightarrow> mark list" where
  "outcome_trail i vs oc =
     (ActionClaim, i, []) # verify_marks i vs @
     (case oc of OutcomeClosed \<Rightarrow> [(ActionRelease, i, ''closed'')]
      | OutcomeParked \<Rightarrow> [(ActionEscalate, i, ''blocked''), (ActionPark, i, ''blocked'')]
      | OutcomeError \<Rightarrow> [])"

text \<open>The steps of \<open>work\<close> up to the last clock read, as one fact.\<close>

lemma work_decomp [consumes 1, case_names claim_failed claimed]:
  assumes "work d cfg req w = (out, w')"
  obtains
    (claim_failed) e w1 where "on_client (dp_claim d (rq_id req)) w = (Some e, w1)"
      "out = (OutcomeError, NotStuck, Some (LoopClaim (rq_id req) e))" "w' = w1"
  | (claimed) w1 lg w3 mem w4 start w5 st w6 t w7 where
      "on_client (dp_claim d (rq_id req)) w = (None, w1)"
      "prepare_ledger d req (record_entry (entry ActionClaim (rq_id req) [] []) w1) = (lg, w3)"
      "prepare_memory d req w3 = (mem, w4)" "read_now d w4 = (start, w5)"
      "attempt_loop d cfg req lg mem start 0 (nat (cf_retries cfg + 1)) (start_attempts (rq_id req), w5) = (st, w6)"
      "read_now d w6 = (t, w7)"
      "(out, w') = (if as_closed st then close_requirement d (rq_id req) ((as_att st)\<lparr>at_wall := t - start\<rparr>) w7
                   else park_requirement d (rq_id req) st ((as_att st)\<lparr>at_wall := t - start\<rparr>) w7)"
proof -
  obtain ce w1 where c: "on_client (dp_claim d (rq_id req)) w = (ce, w1)" by (metis prod.exhaust)
  show thesis
  proof (cases ce)
    case (Some e)
    with assms c show thesis by (intro claim_failed [of e w1]) (simp_all add: work_def)
  next
    case None
    obtain lg w3 where l: "prepare_ledger d req (record_entry (entry ActionClaim (rq_id req) [] []) w1) = (lg, w3)"
      by (metis prod.exhaust)
    obtain mem w4 where m: "prepare_memory d req w3 = (mem, w4)" by (metis prod.exhaust)
    obtain start w5 where s: "read_now d w4 = (start, w5)" by (metis prod.exhaust)
    obtain st w6 where a: "attempt_loop d cfg req lg mem start 0 (nat (cf_retries cfg + 1))
        (start_attempts (rq_id req), w5) = (st, w6)" by (metis prod.exhaust)
    obtain t w7 where t: "read_now d w6 = (t, w7)" by (metis prod.exhaust)
    show thesis
      by (rule claimed [OF c [unfolded None] l m s a t])
        (use assms in \<open>simp add: work_def c None l m s a t Let_def\<close>)
  qed
qed

lemma close_requirement_cases [consumes 1, case_names write_failed closed]:
  assumes "close_requirement d i att w = (out, w')"
  obtains
    (write_failed) e where "on_client (dp_write d i StatusClosed) w = (Some e, w')"
      "out = (OutcomeError, NotStuck, Some (LoopWriteClosed i e))"
  | (closed) w1 re w2 where "on_client (dp_write d i StatusClosed) w = (None, w1)"
      "on_client (dp_release d i) w1 = (re, w2)" "out = (OutcomeClosed, NotStuck, None)"
      "w' = collect (att\<lparr>at_closed := True\<rparr>) (record_entry (entry ActionRelease i ''closed'' []) w2)"
proof -
  obtain we w1 where c: "on_client (dp_write d i StatusClosed) w = (we, w1)" by (metis prod.exhaust)
  obtain re w2 where r: "on_client (dp_release d i) w1 = (re, w2)" by (metis prod.exhaust)
  show thesis
  proof (cases we)
    case (Some e)
    with assms c show thesis by (intro write_failed [of e]) (simp_all add: close_requirement_def)
  next
    case None
    show thesis
      by (rule closed [OF c [unfolded None] r])
        (use assms in \<open>simp_all add: close_requirement_def c None r Let_def\<close>)
  qed
qed

lemma park_requirement_cases [consumes 1, case_names write_failed parked]:
  assumes "park_requirement d i st att w = (out, w')"
  obtains
    (write_failed) e where "on_client (dp_write d i StatusBlocked) w = (Some e, w')"
      "out = (OutcomeError, NotStuck, Some (LoopWriteBlocked i e))"
  | (parked) w1 re w3 where "on_client (dp_write d i StatusBlocked) w = (None, w1)"
      "on_client (dp_release d i) (record_entry (entry ActionEscalate i ''blocked'' (park_detail st)) w1) = (re, w3)"
      "out = (OutcomeParked, as_stuck st, None)"
      "w' = collect (att\<lparr>at_escalated := True\<rparr>) (record_entry (entry ActionPark i ''blocked'' []) w3)"
proof -
  obtain we w1 where c: "on_client (dp_write d i StatusBlocked) w = (we, w1)" by (metis prod.exhaust)
  obtain re w3 where r:
    "on_client (dp_release d i) (record_entry (entry ActionEscalate i ''blocked'' (park_detail st)) w1) = (re, w3)"
    by (metis prod.exhaust)
  show thesis
  proof (cases we)
    case (Some e)
    with assms c show thesis by (intro write_failed [of e]) (simp_all add: park_requirement_def)
  next
    case None
    show thesis
      by (rule parked [OF c [unfolded None] r])
        (use assms in \<open>simp_all add: park_requirement_def c None r Let_def\<close>)
  qed
qed

text \<open>A worked requirement, in the audit log and the metrics.\<close>

definition attempt_of :: "string \<Rightarrow> outcome \<Rightarrow> attempt \<Rightarrow> bool" where
  "attempt_of i oc a \<longleftrightarrow>
     at_req a = i \<and> at_closed a = (oc = OutcomeClosed) \<and> at_escalated a = (oc = OutcomeParked)"

lemma add_diff_att [simp]:
  "at_req (as_att (add_diff df st)) = at_req (as_att st)"
  "at_closed (as_att (add_diff df st)) = at_closed (as_att st)"
  "at_escalated (as_att (add_diff df st)) = at_escalated (as_att st)"
  "as_closed (add_diff df st) = as_closed st"
  by (simp_all add: add_diff_def Let_def)

lemma after_failure_att [simp]:
  "as_att (after_failure p out st) = as_att st" "as_closed (after_failure p out st) = as_closed st"
  "as_stuck (after_failure p out st) = as_stuck st"
  by (simp_all add: after_failure_def Let_def)

lemma attempt_step_att:
  assumes "attempt_step d cfg req lg mem start i (st, w) = (brk, st', w')"
  shows "at_req (as_att st') = at_req (as_att st) \<and> at_closed (as_att st') = at_closed (as_att st) \<and>
     at_escalated (as_att st') = at_escalated (as_att st)"
  using assms by (cases rule: attempt_step_cases) simp_all

lemma attempt_loop_att:
  assumes "attempt_loop d cfg req lg mem start i n (st, w) = (st', w')"
  shows "at_req (as_att st') = at_req (as_att st) \<and> at_closed (as_att st') = at_closed (as_att st) \<and>
     at_escalated (as_att st') = at_escalated (as_att st)"
  using assms
proof (induction n arbitrary: i st w)
  case 0
  then show ?case by simp
next
  case (Suc n)
  obtain brk st1 w1 where s: "attempt_step d cfg req lg mem start i (st, w) = (brk, st1, w1)"
    by (metis prod_cases3)
  with Suc.prems Suc.IH [of "Suc i" st1 w1] attempt_step_att [OF s] show ?case
    by (cases brk) auto
qed

lemma work_facts:
  assumes "work d cfg req w = ((oc, stuck, err), w')" and "audited w"
  shows "audited w'"
    and "err = None \<Longrightarrow> oc = OutcomeClosed \<or> oc = OutcomeParked"
    and "err = None \<Longrightarrow> oc = OutcomeClosed \<Longrightarrow> stuck = NotStuck"
    and "err = None \<Longrightarrow>
      \<exists>vs. length vs \<le> nat (cf_retries cfg + 1) \<and> verify_seq (oc = OutcomeClosed) vs \<and>
        trail w' = trail w @ outcome_trail (rq_id req) vs oc"
    and "err = None \<Longrightarrow> wd_metrics w = Some c \<Longrightarrow>
      \<exists>a. attempt_of (rq_id req) oc a \<and> wd_metrics w' = Some (c @ [a])"
    and "err \<noteq> None \<Longrightarrow> wd_metrics w' = wd_metrics w \<and>
      (trail w' = trail w \<or>
       (\<exists>vs. trail w' = trail w @ (ActionClaim, rq_id req, []) # verify_marks (rq_id req) vs))"
proof -
  have "audited w' \<and>
    (err = None \<longrightarrow> (oc = OutcomeClosed \<or> oc = OutcomeParked) \<and> (oc = OutcomeClosed \<longrightarrow> stuck = NotStuck) \<and>
      (\<exists>vs. length vs \<le> nat (cf_retries cfg + 1) \<and> verify_seq (oc = OutcomeClosed) vs \<and>
        trail w' = trail w @ outcome_trail (rq_id req) vs oc) \<and>
      (\<forall>c. wd_metrics w = Some c \<longrightarrow>
         (\<exists>a. attempt_of (rq_id req) oc a \<and> wd_metrics w' = Some (c @ [a])))) \<and>
    (err \<noteq> None \<longrightarrow> wd_metrics w' = wd_metrics w \<and>
      (trail w' = trail w \<or>
       (\<exists>vs. trail w' = trail w @ (ActionClaim, rq_id req, []) # verify_marks (rq_id req) vs)))"
    using assms(1)
  proof (cases rule: work_decomp)
    case (claim_failed e w1)
    with on_client_frame [OF claim_failed(1)] assms(2) show ?thesis by (simp add: trail_cong [of w1 w])
  next
    case (claimed w1 lg w3 mem w4 start w5 st w6 t w7)
    let ?w2 = "record_entry (entry ActionClaim (rq_id req) [] []) w1"
    have w1: "audited w1" "trail w1 = trail w" "wd_metrics w1 = wd_metrics w"
      using on_client_frame [OF claimed(1)] assms(2) by (simp_all add: trail_cong [of w1 w])
    have w2: "audited ?w2" "trail ?w2 = trail w @ [(ActionClaim, rq_id req, [])]" "wd_metrics ?w2 = wd_metrics w"
      using record_entry_trail [OF w1(1), of "entry ActionClaim (rq_id req) [] []"] w1 by simp_all
    have au: "wd_audit w5 = wd_audit ?w2" and me: "wd_metrics w5 = wd_metrics ?w2"
      using prepare_frame(1) [OF claimed(2)] prepare_frame(2) [OF claimed(3)] read_now_frame [OF claimed(4)]
      by simp_all
    have "audited w5" using w2(1) trail_cong [OF au] by simp
    from attempt_loop_trail [OF claimed(5) this] obtain vs where k: "length vs \<le> nat (cf_retries cfg + 1)"
      "trail w6 = trail w5 @ verify_marks (rq_id req) vs" "audited w6" "wd_metrics w6 = wd_metrics w5"
      "verify_seq (as_closed st) vs"
      by (auto simp: start_attempts_def)
    have w7: "audited w7" "wd_metrics w7 = wd_metrics w"
      "trail w7 = trail w @ (ActionClaim, rq_id req, []) # verify_marks (rq_id req) vs"
      using read_now_frame [OF claimed(6)] k w2 me trail_cong [OF au] trail_cong [of w7 w6] by simp_all
    have att: "at_req (as_att st) = rq_id req" "\<not> at_closed (as_att st)" "\<not> at_escalated (as_att st)"
      using attempt_loop_att [OF claimed(5)] by (simp_all add: start_attempts_def new_attempt_def)
    let ?att = "(as_att st)\<lparr>at_wall := t - start\<rparr>"
    show ?thesis
    proof (cases "as_closed st")
      case True
      with claimed(7) have "close_requirement d (rq_id req) ?att w7 = ((oc, stuck, err), w')" by simp
      then show ?thesis
      proof (cases rule: close_requirement_cases)
        case (write_failed e)
        with on_client_frame [OF write_failed(1)] w7 show ?thesis by (auto simp: trail_cong [of w' w7])
      next
        case (closed w8 re w9)
        have w9: "audited w9" "trail w9 = trail w7" "wd_metrics w9 = wd_metrics w7"
          using on_client_frame [OF closed(1)] on_client_frame [OF closed(2)] w7(1) trail_cong [of w9 w7]
          by simp_all
        have w': "audited w'" "trail w' = trail w9 @ [(ActionRelease, rq_id req, ''closed'')]"
          using record_entry_trail [OF w9(1), of "entry ActionRelease (rq_id req) ''closed'' []"]
          unfolding closed(4) by (simp_all add: trail_cong [of "collect _ _"])
        have "wd_metrics w' = Some (c @ [?att\<lparr>at_closed := True\<rparr>])" if "wd_metrics w = Some c" for c
          using that w9(3) w7(2) unfolding closed(4) by (simp add: collect_def metrics_record_def)
        moreover have "attempt_of (rq_id req) oc (?att\<lparr>at_closed := True\<rparr>)"
          using closed(3) att by (simp add: attempt_of_def)
        moreover have "trail w' = trail w @ outcome_trail (rq_id req) vs oc"
          using w'(2) w9(2) w7(3) closed(3) by (simp add: outcome_trail_def)
        moreover have "verify_seq (oc = OutcomeClosed) vs" using k(5) True closed(3) by simp
        ultimately show ?thesis using w'(1) closed(3) k(1) by blast
      qed
    next
      case False
      with claimed(7) have "park_requirement d (rq_id req) st ?att w7 = ((oc, stuck, err), w')" by simp
      then show ?thesis
      proof (cases rule: park_requirement_cases)
        case (write_failed e)
        with on_client_frame [OF write_failed(1)] w7 show ?thesis by (auto simp: trail_cong [of w' w7])
      next
        case (parked w8 re w9)
        have w8: "audited w8" "trail w8 = trail w7" "wd_metrics w8 = wd_metrics w7"
          using on_client_frame [OF parked(1)] w7(1) trail_cong [of w8 w7] by simp_all
        have w9: "audited w9" "trail w9 = trail w7 @ [(ActionEscalate, rq_id req, ''blocked'')]" "wd_metrics w9 = wd_metrics w7"
          using on_client_frame [OF parked(2)] w8 trail_cong [of w9 "record_entry _ w8"]
            record_entry_trail [OF w8(1), of "entry ActionEscalate (rq_id req) ''blocked'' (park_detail st)"]
          by simp_all
        have w': "audited w'" "trail w' = trail w9 @ [(ActionPark, rq_id req, ''blocked'')]"
          using record_entry_trail [OF w9(1), of "entry ActionPark (rq_id req) ''blocked'' []"]
          unfolding parked(4) by (simp_all add: trail_cong [of "collect _ _"])
        have "wd_metrics w' = Some (c @ [?att\<lparr>at_escalated := True\<rparr>])" if "wd_metrics w = Some c" for c
          using that w9(3) w7(2) unfolding parked(4) by (simp add: collect_def metrics_record_def)
        moreover have "attempt_of (rq_id req) oc (?att\<lparr>at_escalated := True\<rparr>)"
          using parked(3) att by (simp add: attempt_of_def)
        moreover have "trail w' = trail w @ outcome_trail (rq_id req) vs oc"
          using w'(2) w9(2) w7(3) parked(3) by (simp add: outcome_trail_def)
        moreover have "verify_seq (oc = OutcomeClosed) vs" using k(5) False parked(3) by simp
        ultimately show ?thesis using w'(1) parked(3) k(1) by blast
      qed
    qed
  qed
  then show "audited w'" "err = None \<Longrightarrow> oc = OutcomeClosed \<or> oc = OutcomeParked"
    "err = None \<Longrightarrow> oc = OutcomeClosed \<Longrightarrow> stuck = NotStuck"
    "err = None \<Longrightarrow> \<exists>vs. length vs \<le> nat (cf_retries cfg + 1) \<and> verify_seq (oc = OutcomeClosed) vs \<and>
        trail w' = trail w @ outcome_trail (rq_id req) vs oc"
    "err = None \<Longrightarrow> wd_metrics w = Some c \<Longrightarrow>
      \<exists>a. attempt_of (rq_id req) oc a \<and> wd_metrics w' = Some (c @ [a])"
    "err \<noteq> None \<Longrightarrow> wd_metrics w' = wd_metrics w \<and>
      (trail w' = trail w \<or>
       (\<exists>vs. trail w' = trail w @ (ActionClaim, rq_id req, []) # verify_marks (rq_id req) vs))"
    by blast+
qed

section \<open>One iteration of the drain\<close>

lemma run_step_cases [consumes 1, case_names budget cancelled next_failed empty work_failed worked]:
  assumes "run_step d cfg once start res fails w = r"
  obtains
    (budget) w1 where "budget_hit d (cf_budget cfg) start res w = (True, w1)"
      "r = Inl ((res\<lparr>re_budget := True\<rparr>, None), w1)"
  | (cancelled) w1 where "budget_hit d (cf_budget cfg) start res w = (False, w1)"
      "dp_cancelled d (wd_host w1)" "r = Inl ((res, Some LoopCancelled), w1)"
  | (next_failed) w1 e w2 where "budget_hit d (cf_budget cfg) start res w = (False, w1)"
      "on_client (dp_next d) w1 = (Inl e, w2)" "r = Inl ((res, Some (LoopNext e)), w2)"
  | (empty) w1 w2 where "budget_hit d (cf_budget cfg) start res w = (False, w1)"
      "on_client (dp_next d) w1 = (Inr None, w2)" "r = Inl ((res, None), w2)"
  | (work_failed) w1 req w2 oc stuck e w3 where "budget_hit d (cf_budget cfg) start res w = (False, w1)"
      "on_client (dp_next d) w1 = (Inr (Some req), w2)"
      "work d cfg req w2 = ((oc, stuck, Some e), w3)" "r = Inl ((res, Some e), w3)"
  | (worked) w1 req w2 oc stuck w3 res' fails' where
      "budget_hit d (cf_budget cfg) start res w = (False, w1)"
      "on_client (dp_next d) w1 = (Inr (Some req), w2)"
      "work d cfg req w2 = ((oc, stuck, None), w3)" "tally oc stuck (res, fails) = (res', fails')"
      "r = (if fails' \<ge> cf_break_after cfg then Inl ((res'\<lparr>re_breaker := True\<rparr>, None), w3)
            else if once then Inl ((res', None), w3) else Inr (res', fails', w3))"
proof -
  obtain hit w1 where b: "budget_hit d (cf_budget cfg) start res w = (hit, w1)" by (metis prod.exhaust)
  obtain nx w2 where n: "on_client (dp_next d) w1 = (nx, w2)" by (metis prod.exhaust)
  consider "hit" | "\<not> hit" "dp_cancelled d (wd_host w1)"
    | e where "\<not> hit" "\<not> dp_cancelled d (wd_host w1)" "nx = Inl e"
    | "\<not> hit" "\<not> dp_cancelled d (wd_host w1)" "nx = Inr None"
    | req where "\<not> hit" "\<not> dp_cancelled d (wd_host w1)" "nx = Inr (Some req)"
    by (metis option.exhaust sum.exhaust)
  then show thesis
  proof cases
    case 1
    with assms b show thesis by (intro budget [of w1]) (simp_all add: run_step_def)
  next
    case 2
    with assms b show thesis by (intro cancelled [of w1]) (simp_all add: run_step_def)
  next
    case 3
    with assms b n show thesis by (intro next_failed [of w1 e w2]) (simp_all add: run_step_def)
  next
    case 4
    with assms b n show thesis by (intro empty [of w1 w2]) (simp_all add: run_step_def)
  next
    case 5
    obtain oc stuck err w3 where wk: "work d cfg req w2 = ((oc, stuck, err), w3)" by (metis prod.exhaust)
    obtain res' fails' where t: "tally oc stuck (res, fails) = (res', fails')" by (metis prod.exhaust)
    show thesis
    proof (cases err)
      case (Some e)
      with 5 assms b n wk show thesis by (intro work_failed [of w1 req w2 oc stuck e w3]) (simp_all add: run_step_def)
    next
      case None
      with 5 assms b n wk t show thesis
        by (intro worked [of w1 req w2 oc stuck w3 res' fails']) (simp_all add: run_step_def)
    qed
  qed
qed

section \<open>The history of a run\<close>

text \<open>
  A run leaves a history: the requirements it worked, in order, each with the results of its
  verify runs, its outcome and why it was parked.  \<open>fails_after\<close> is the consecutive-failure counter.
\<close>

record worked =
  wk_id :: string
  wk_verifies :: "string list"
  wk_outcome :: outcome
  wk_stuck :: stuck_reason

definition worked_ok :: "config \<Rightarrow> worked \<Rightarrow> bool" where
  "worked_ok cfg h \<longleftrightarrow> length (wk_verifies h) \<le> nat (cf_retries cfg + 1) \<and>
     verify_seq (wk_outcome h = OutcomeClosed) (wk_verifies h) \<and>
     (wk_outcome h = OutcomeClosed \<and> wk_stuck h = NotStuck \<or> wk_outcome h = OutcomeParked)"

definition worked_trail :: "worked list \<Rightarrow> mark list" where
  "worked_trail hist = concat (map (\<lambda>h. outcome_trail (wk_id h) (wk_verifies h) (wk_outcome h)) hist)"

definition fails_after :: "int \<Rightarrow> worked list \<Rightarrow> int" where
  "fails_after n hist = foldl (\<lambda>m h. if wk_outcome h = OutcomeClosed then 0 else m + 1) n hist"

text \<open>What the counters, the log and the collector say about a run with a given history.\<close>

definition accounts :: "config \<Rightarrow> worked list \<Rightarrow> result \<Rightarrow> result \<Rightarrow> bool" where
  "accounts cfg hist res res' \<longleftrightarrow>
     list_all (worked_ok cfg) hist \<and>
     re_attempted res' = re_attempted res + length hist \<and>
     re_closed res' = re_closed res + length (filter (\<lambda>h. wk_outcome h = OutcomeClosed) hist) \<and>
     re_parked res' = re_parked res + length (filter (\<lambda>h. wk_outcome h = OutcomeParked) hist) \<and>
     re_stuck res' = re_stuck res + length (filter (\<lambda>h. wk_stuck h \<noteq> NotStuck) hist)"

definition logged :: "worked list \<Rightarrow> bool \<Rightarrow> ('c, 'x) world \<Rightarrow> ('c, 'x) world \<Rightarrow> bool" where
  "logged hist failed w w' \<longleftrightarrow>
     (\<exists>extra. trail w' = trail w @ worked_trail hist @ extra \<and> (\<not> failed \<longrightarrow> extra = [])) \<and>
     (\<forall>c. wd_metrics w = Some c \<longrightarrow>
        (\<exists>as. wd_metrics w' = Some (c @ as) \<and> list_all2 (\<lambda>h a. attempt_of (wk_id h) (wk_outcome h) a) hist as))"

definition stopped_right ::
  "('c, 'e, 'x) deps \<Rightarrow> config \<Rightarrow> bool \<Rightarrow> int \<Rightarrow> worked list \<Rightarrow> result \<Rightarrow> 'e loop_err option \<Rightarrow> ('c, 'x) world \<Rightarrow> bool" where
  "stopped_right d cfg once fails hist res err w' \<longleftrightarrow>
     (\<forall>n. 0 < n \<and> n < length hist \<longrightarrow> fails_after fails (take n hist) < cf_break_after cfg) \<and>
     (re_breaker res \<longleftrightarrow> hist \<noteq> [] \<and> fails_after fails hist \<ge> cf_break_after cfg) \<and>
     (once \<longrightarrow> length hist \<le> 1) \<and>
     (re_budget res \<longrightarrow> bg_max_requirements (cf_budget cfg) > 0 \<or> bg_wall_clock (cf_budget cfg) > 0) \<and>
     (bg_max_requirements (cf_budget cfg) > 0 \<and> hist \<noteq> [] \<longrightarrow>
        int (re_attempted res) \<le> bg_max_requirements (cf_budget cfg)) \<and>
     (err = None \<and> \<not> re_breaker res \<and> \<not> re_budget res \<and> \<not> once \<longrightarrow>
        (\<exists>c. dp_next d c = (Inr None, wd_client w')))"

lemma worked_trail_Cons: "worked_trail (h # hist) = outcome_trail (wk_id h) (wk_verifies h) (wk_outcome h) @ worked_trail hist"
  by (simp add: worked_trail_def)

lemma fails_after_Cons:
  "fails_after n (h # hist) = fails_after (if wk_outcome h = OutcomeClosed then 0 else n + 1) hist"
  by (simp add: fails_after_def)

lemma fails_after_Nil [simp]: "fails_after n [] = n"
  by (simp add: fails_after_def)

lemma tally_worked:
  assumes "tally oc stuck (res, fails) = (res', fails')" and "worked_ok cfg h"
    and "wk_outcome h = oc" "wk_stuck h = stuck"
  shows "accounts cfg [h] res res' \<and> re_breaker res' = re_breaker res \<and> re_budget res' = re_budget res \<and>
    re_attempted res' = Suc (re_attempted res) \<and> fails' = (if oc = OutcomeClosed then 0 else fails + 1)"
  using assms by (cases oc) (auto simp: tally_def Let_def accounts_def worked_ok_def)

lemma accounts_Cons:
  "accounts cfg [h] res res1 \<Longrightarrow> accounts cfg hist res1 res2 \<Longrightarrow> accounts cfg (h # hist) res res2"
  by (auto simp: accounts_def)

lemma logged_Cons:
  assumes "logged [h] False w w1" and "logged hist failed w1 w2"
  shows "logged (h # hist) failed w w2"
proof -
  from assms(1) have t: "trail w1 = trail w @ worked_trail [h]" by (auto simp: logged_def)
  from assms(2) obtain extra where "trail w2 = trail w1 @ worked_trail hist @ extra" "\<not> failed \<longrightarrow> extra = []"
    by (auto simp: logged_def)
  then have "\<exists>extra. trail w2 = trail w @ worked_trail (h # hist) @ extra \<and> (\<not> failed \<longrightarrow> extra = [])"
    using t by (simp add: worked_trail_Cons) (simp add: worked_trail_def)
  moreover have "\<exists>as. wd_metrics w2 = Some (c @ as) \<and>
      list_all2 (\<lambda>h a. attempt_of (wk_id h) (wk_outcome h) a) (h # hist) as" if "wd_metrics w = Some c" for c
  proof -
    from assms(1) that obtain as1 where 1: "wd_metrics w1 = Some (c @ as1)"
      "list_all2 (\<lambda>h a. attempt_of (wk_id h) (wk_outcome h) a) [h] as1" unfolding logged_def by blast
    from assms(2) 1(1) obtain as2 where 2: "wd_metrics w2 = Some ((c @ as1) @ as2)"
      "list_all2 (\<lambda>h a. attempt_of (wk_id h) (wk_outcome h) a) hist as2" unfolding logged_def by blast
    from list_all2_appendI [OF 1(2) 2(2)] 2(1) show ?thesis by auto
  qed
  ultimately show ?thesis by (simp add: logged_def)
qed

lemma logged_Nil:
  "wd_audit w' = wd_audit w \<Longrightarrow> wd_metrics w' = wd_metrics w \<Longrightarrow> logged [] failed w w'"
  by (simp add: logged_def worked_trail_def trail_cong [of w' w])

lemma logged_cong:
  "wd_audit w1 = wd_audit w \<Longrightarrow> wd_metrics w1 = wd_metrics w \<Longrightarrow> logged hist failed w1 w' = logged hist failed w w'"
  by (simp add: logged_def trail_cong [of w1 w])

lemma stopped_rightD:
  assumes "stopped_right d cfg once fails hist res err w'"
  shows "0 < n \<Longrightarrow> n < length hist \<Longrightarrow> fails_after fails (take n hist) < cf_break_after cfg"
    and "re_breaker res \<longleftrightarrow> hist \<noteq> [] \<and> fails_after fails hist \<ge> cf_break_after cfg"
    and "re_budget res \<Longrightarrow> bg_max_requirements (cf_budget cfg) > 0 \<or> bg_wall_clock (cf_budget cfg) > 0"
    and "bg_max_requirements (cf_budget cfg) > 0 \<Longrightarrow> hist \<noteq> [] \<Longrightarrow>
        int (re_attempted res) \<le> bg_max_requirements (cf_budget cfg)"
    and "err = None \<Longrightarrow> \<not> re_breaker res \<Longrightarrow> \<not> re_budget res \<Longrightarrow> \<not> once \<Longrightarrow>
        \<exists>c. dp_next d c = (Inr None, wd_client w')"
    and "once \<Longrightarrow> length hist \<le> 1"
  using assms unfolding stopped_right_def by (elim conjE; simp)+

lemma stopped_right_Cons:
  assumes st: "stopped_right d cfg False f1 hist res err w'" and lt: "f1 < cf_break_after cfg"
    and f1: "f1 = (if wk_outcome h = OutcomeClosed then 0 else fails + 1)"
    and mx: "bg_max_requirements (cf_budget cfg) > 0 \<Longrightarrow> hist = [] \<Longrightarrow>
      int (re_attempted res) \<le> bg_max_requirements (cf_budget cfg)"
  shows "stopped_right d cfg False fails (h # hist) res err w'"
proof -
  note sd = stopped_rightD [OF st]
  have f: "fails_after fails (h # hist) = fails_after f1 hist" using f1 by (simp add: fails_after_Cons)
  show ?thesis unfolding stopped_right_def
  proof (intro conjI)
    show "\<forall>n. 0 < n \<and> n < length (h # hist) \<longrightarrow> fails_after fails (take n (h # hist)) < cf_break_after cfg"
    proof (intro allI impI)
      fix n assume n: "0 < n \<and> n < length (h # hist)"
      then obtain m where m: "n = Suc m" using not0_implies_Suc by blast
      have "fails_after fails (take n (h # hist)) = fails_after f1 (take m hist)"
        using f1 by (simp add: m fails_after_Cons)
      then show "fails_after fails (take n (h # hist)) < cf_break_after cfg"
        using sd(1) [of m] lt n m by (cases "m = 0") simp_all
    qed
    show "re_breaker res = (h # hist \<noteq> [] \<and> cf_break_after cfg \<le> fails_after fails (h # hist))"
      using sd(2) lt unfolding f by (cases "hist = []") simp_all
    show "0 < bg_max_requirements (cf_budget cfg) \<and> h # hist \<noteq> [] \<longrightarrow>
        int (re_attempted res) \<le> bg_max_requirements (cf_budget cfg)"
      using sd(4) mx by blast
    show "err = None \<and> \<not> re_breaker res \<and> \<not> re_budget res \<and> \<not> False \<longrightarrow>
        (\<exists>c. dp_next d c = (Inr None, wd_client w'))"
      using sd(5) by blast
  qed (use sd(3) in simp_all)
qed

text \<open>
  The whole account of a run: the ids it worked are distinct and have left the backlog, and the
  counters, the log, the collector and the reason it stopped all agree with its history.
\<close>

definition drained ::
  "('c, 'e, 'x) deps \<Rightarrow> ('c \<Rightarrow> bool) \<Rightarrow> ('c \<Rightarrow> string set) \<Rightarrow> config \<Rightarrow> bool \<Rightarrow> result \<Rightarrow> int \<Rightarrow>
     ('c, 'x) world \<Rightarrow> result \<Rightarrow> 'e loop_err option \<Rightarrow> ('c, 'x) world \<Rightarrow> worked list \<Rightarrow> bool" where
  "drained d okc backlog cfg once res fails w res' err w' hist \<longleftrightarrow>
     okc (wd_client w') \<and> backlog (wd_client w') \<subseteq> backlog (wd_client w) \<and>
     distinct (map wk_id hist) \<and> set (map wk_id hist) \<subseteq> backlog (wd_client w) - backlog (wd_client w') \<and>
     accounts cfg hist res res' \<and> logged hist (err \<noteq> None) w w' \<and>
     stopped_right d cfg once fails hist res' err w'"

section \<open>The drain under the client contract\<close>

text \<open>
  The client keeps its contract, and neither the agent nor the test run adds work: what they do
  to the client's state keeps its invariant, its claims, and at most shrinks its backlog.
\<close>

locale drain = req_client "dp_next d" "dp_claim d" "dp_release d" "dp_write d" inv backlog held
  for d :: "('c, 'e, 'x) deps" and inv :: "'c \<Rightarrow> bool" and backlog :: "'c \<Rightarrow> string set"
    and held :: "'c \<Rightarrow> string \<Rightarrow> bool" +
  assumes drive_frame: "inv c \<Longrightarrow> dp_drive d r fb (c, h) = (out, c', h') \<Longrightarrow>
      inv c' \<and> backlog c' \<subseteq> backlog c \<and> held c' = held c"
    and verify_frame: "inv c \<Longrightarrow> dp_verify d i (c, h) = (res, c', h') \<Longrightarrow>
      inv c' \<and> backlog c' \<subseteq> backlog c \<and> held c' = held c"
begin

definition keeps :: "('c, 'x) world \<Rightarrow> ('c, 'x) world \<Rightarrow> bool" where
  "keeps w w' \<longleftrightarrow> inv (wd_client w') \<and> backlog (wd_client w') \<subseteq> backlog (wd_client w)"

definition steady :: "('c, 'x) world \<Rightarrow> ('c, 'x) world \<Rightarrow> bool" where
  "steady w w' \<longleftrightarrow> keeps w w' \<and> held (wd_client w') = held (wd_client w)"

lemma steady_trans: "steady w w1 \<Longrightarrow> steady w1 w2 \<Longrightarrow> steady w w2"
  by (auto simp: steady_def keeps_def)

lemma keeps_trans: "keeps w w1 \<Longrightarrow> keeps w1 w2 \<Longrightarrow> keeps w w2"
  by (auto simp: keeps_def)

lemma keeps_client: "inv (wd_client w) \<Longrightarrow> wd_client w' = wd_client w \<Longrightarrow> keeps w w'"
  by (simp add: keeps_def)

lemma drive_steady: "inv (wd_client w) \<Longrightarrow> on_both (dp_drive d r fb) w = (out, w') \<Longrightarrow> steady w w'"
  using drive_frame [where c = "wd_client w"]
  by (fastforce simp: steady_def keeps_def dest: on_both_frame(3))

lemma verify_steady: "inv (wd_client w) \<Longrightarrow> on_both (dp_verify d i) w = (out, w') \<Longrightarrow> steady w w'"
  using verify_frame [where c = "wd_client w"]
  by (fastforce simp: steady_def keeps_def dest: on_both_frame(3))

lemma steady_inv: "steady w w' \<Longrightarrow> inv (wd_client w')"
  by (simp add: steady_def keeps_def)

lemma steady_client: "steady w w1 \<Longrightarrow> wd_client w' = wd_client w1 \<Longrightarrow> steady w w'"
  by (simp add: steady_def keeps_def)

lemma attempt_step_steady:
  assumes "attempt_step d cfg req lg mem start i (st, w) = (brk, st', w')" and "inv (wd_client w)"
  shows "steady w w'"
  using assms(1)
proof (cases rule: attempt_step_cases)
  case (stuck df derr)
  with assms(2) show ?thesis by (blast intro: drive_steady)
next
  case (derr df)
  with assms(2) show ?thesis by (blast intro: drive_steady)
next
  case (pass df w1 out w2)
  have 1: "steady w w1" using assms(2) pass(1) by (rule drive_steady)
  have "steady w w2" by (rule steady_trans [OF 1 verify_steady [OF steady_inv [OF 1] pass(2)]])
  then show ?thesis by (rule steady_client) (simp add: pass(5))
next
  case (failed df w1 ok out verr w2 st2 over)
  have 1: "steady w w1" using assms(2) failed(1) by (rule drive_steady)
  have "steady w w2" by (rule steady_trans [OF 1 verify_steady [OF steady_inv [OF 1] failed(2)]])
  then show ?thesis by (rule steady_client) (simp add: over_per_task_frame(1) [OF failed(5)])
qed

lemma attempt_loop_steady:
  assumes "attempt_loop d cfg req lg mem start i n (st, w) = (st', w')" and "inv (wd_client w)"
  shows "steady w w'"
  using assms
proof (induction n arbitrary: i st w)
  case 0
  then show ?case by (simp add: steady_def keeps_client)
next
  case (Suc n)
  obtain brk st1 w1 where s: "attempt_step d cfg req lg mem start i (st, w) = (brk, st1, w1)"
    by (metis prod_cases3)
  note k = attempt_step_steady [OF s Suc.prems(2)]
  show ?case
  proof (cases brk)
    case True
    with Suc.prems s k show ?thesis by simp
  next
    case False
    with Suc.prems s have "attempt_loop d cfg req lg mem start (Suc i) n (st1, w1) = (st', w')" by simp
    from Suc.IH [OF this steady_inv [OF k]] show ?thesis by (rule steady_trans [OF k])
  qed
qed

text \<open>A requirement that was worked without an error leaves the backlog for good.\<close>

lemma work_keeps:
  assumes "work d cfg req w = ((oc, stuck, err), w')" and "inv (wd_client w)"
  shows "keeps w w'" and "err = None \<Longrightarrow> rq_id req \<notin> backlog (wd_client w')"
    and "err = None \<Longrightarrow> \<exists>re c. inv c \<and> dp_release d (rq_id req) c = (re, wd_client w')"
    and "err = Some (LoopWriteClosed i e) \<or> err = Some (LoopWriteBlocked i e) \<Longrightarrow> held (wd_client w') (rq_id req)"
proof -
  have "keeps w w' \<and>
    (err = None \<longrightarrow> rq_id req \<notin> backlog (wd_client w') \<and>
       (\<exists>re c. inv c \<and> dp_release d (rq_id req) c = (re, wd_client w'))) \<and>
    (err = Some (LoopWriteClosed i e) \<or> err = Some (LoopWriteBlocked i e) \<longrightarrow> held (wd_client w') (rq_id req))"
    using assms(1)
  proof (cases rule: work_decomp)
    case (claim_failed e w1)
    with claim_inv [OF assms(2) on_client_frame(4) [OF claim_failed(1)]] show ?thesis
      by (simp add: keeps_def)
  next
    case (claimed w1 lg w3 mem w4 start w5 st w6 t w7)
    note c1 = on_client_frame(4) [OF claimed(1)]
    have 1: "keeps w w1" using claim_inv [OF assms(2) c1] by (simp add: keeps_def)
    have c5: "wd_client w5 = wd_client w1"
      using prepare_frame(1) [OF claimed(2)] prepare_frame(2) [OF claimed(3)]
        read_now_frame [OF claimed(4)] by simp
    have 56: "steady w5 w6" by (rule attempt_loop_steady [OF claimed(5)]) (use 1 c5 in \<open>simp add: keeps_def\<close>)
    then have 7: "keeps w w7"
      using 1 c5 read_now_frame [OF claimed(6)] by (auto simp: steady_def keeps_def)
    then have i7: "inv (wd_client w7)" by (simp add: keeps_def)
    have h7: "held (wd_client w7) (rq_id req)"
      using claim_held [OF assms(2) c1] 56 c5 read_now_frame [OF claimed(6)] by (simp add: steady_def)
    have fin: "keeps w w9 \<and> rq_id req \<notin> backlog (wd_client w9) \<and>
        (\<exists>re c. inv c \<and> dp_release d (rq_id req) c = (re, wd_client w9))"
      if wr: "dp_write d (rq_id req) s (wd_client w7) = (None, wd_client w8)"
        and rl: "dp_release d (rq_id req) (wd_client w8) = (re, wd_client w9)"
        and s: "s = StatusClosed \<or> s = StatusBlocked" for s w8 w9 and re
    proof -
      have "inv (wd_client w8)" "backlog (wd_client w8) = backlog (wd_client w7) - {rq_id req}"
        using write_inv [OF i7 wr] write_terminal [OF i7 wr s] by simp_all
      with release_inv [OF this(1) rl] 7 rl show ?thesis by (auto simp: keeps_def)
    qed
    let ?att = "(as_att st)\<lparr>at_wall := t - start\<rparr>"
    show ?thesis
    proof (cases "as_closed st")
      case True
      with claimed(7) have "close_requirement d (rq_id req) ?att w7 = ((oc, stuck, err), w')" by simp
      then show ?thesis
      proof (cases rule: close_requirement_cases)
        case (write_failed e)
        note f = on_client_frame(4) [OF write_failed(1)]
        from write_error [OF i7 f] write_inv [OF i7 f] 7 h7 write_failed(2) show ?thesis
          by (auto simp: keeps_def)
      next
        case (closed w8 re w9)
        from fin [OF on_client_frame(4) [OF closed(1)] on_client_frame(4) [OF closed(2)]] closed(3)
        show ?thesis unfolding closed(4) by (simp add: keeps_def)
      qed
    next
      case False
      with claimed(7) have "park_requirement d (rq_id req) st ?att w7 = ((oc, stuck, err), w')" by simp
      then show ?thesis
      proof (cases rule: park_requirement_cases)
        case (write_failed e)
        note f = on_client_frame(4) [OF write_failed(1)]
        from write_error [OF i7 f] write_inv [OF i7 f] 7 h7 write_failed(2) show ?thesis
          by (auto simp: keeps_def)
      next
        case (parked w8 re w9)
        have "dp_release d (rq_id req) (wd_client w8) = (re, wd_client w9)"
          using on_client_frame(4) [OF parked(2)] by simp
        from fin [OF on_client_frame(4) [OF parked(1)] this] parked(3)
        show ?thesis unfolding parked(4) by (simp add: keeps_def)
      qed
    qed
  qed
  then show "keeps w w'" "err = None \<Longrightarrow> rq_id req \<notin> backlog (wd_client w')"
    "err = None \<Longrightarrow> \<exists>re c. inv c \<and> dp_release d (rq_id req) c = (re, wd_client w')"
    "err = Some (LoopWriteClosed i e) \<or> err = Some (LoopWriteBlocked i e) \<Longrightarrow> held (wd_client w') (rq_id req)"
    by simp_all
qed

lemma drained_Nil:
  assumes "inv (wd_client w')" and "backlog (wd_client w') \<subseteq> backlog (wd_client w)"
    and "wd_audit w' = wd_audit w" and "wd_metrics w' = wd_metrics w"
    and "res' = res \<or> res' = res\<lparr>re_budget := True\<rparr>" and "\<not> re_breaker res"
    and "re_budget res' \<longrightarrow> bg_max_requirements (cf_budget cfg) > 0 \<or> bg_wall_clock (cf_budget cfg) > 0"
    and "err = None \<and> \<not> re_budget res' \<longrightarrow> (\<exists>c. dp_next d c = (Inr None, wd_client w'))"
  shows "drained d inv backlog cfg once res fails w res' err w' []"
  using assms by (auto simp: drained_def accounts_def stopped_right_def logged_Nil)

text \<open>A failed requirement ends the run with an empty history of its own.\<close>

lemma drained_failed:
  assumes "work d cfg req w2 = ((oc, stuck, Some e), w')" and "inv (wd_client w2)" and "audited w2"
    and "wd_client w2 = wd_client w" "wd_audit w2 = wd_audit w" "wd_metrics w2 = wd_metrics w"
    and "\<not> re_breaker res" "\<not> re_budget res"
  shows "drained d inv backlog cfg once res fails w res (Some e) w' []"
proof -
  from work_facts(6) [OF assms(1,3)] have m: "wd_metrics w' = wd_metrics w2"
    and t: "trail w' = trail w2 \<or> (\<exists>vs. trail w' = trail w2 @ (ActionClaim, rq_id req, []) # verify_marks (rq_id req) vs)"
    by auto
  have "trail w2 = trail w" using assms(5) by (simp add: trail_cong [of w2 w])
  with t m assms(6) have "logged [] True w w'" by (auto simp: logged_def worked_trail_def)
  with work_keeps(1) [OF assms(1,2)] assms show ?thesis
    by (simp add: drained_def accounts_def stopped_right_def keeps_def)
qed

text \<open>Every run returns, and what it returns accounts for every requirement it worked.\<close>

lemma run_loop_drained:
  assumes "inv (wd_client w)" and "audited w" and "\<not> re_breaker res" "\<not> re_budget res"
  shows "\<exists>res' err w' hist. run_loop d cfg once start res fails w = Some ((res', err), w') \<and>
     drained d inv backlog cfg once res fails w res' err w' hist"
  using assms
proof (induction "card (backlog (wd_client w))" arbitrary: w res fails rule: less_induct)
  case less
  note prems = less.prems
  obtain r where r: "run_step d cfg once start res fails w = r" by simp
  have unf: "run_loop d cfg once start res fails w =
     (case r of Inl out \<Rightarrow> Some out | Inr (res', fails', w') \<Rightarrow> run_loop d cfg once start res' fails' w')"
    unfolding r [symmetric] by (rule run_loop.simps)
  show ?case using r
  proof (cases rule: run_step_cases)
    case (budget w1)
    have "bg_max_requirements (cf_budget cfg) > 0 \<or> bg_wall_clock (cf_budget cfg) > 0"
      using budget(1) by (auto simp: budget_hit_def split: if_splits)
    then have "drained d inv backlog cfg once res fails w (res\<lparr>re_budget := True\<rparr>) None w1 []"
      using prems budget_hit_frame [OF budget(1)] by (intro drained_Nil) auto
    then show ?thesis unfolding unf budget(2) by auto
  next
    case (cancelled w1)
    have "drained d inv backlog cfg once res fails w res (Some LoopCancelled) w1 []"
      using prems budget_hit_frame [OF cancelled(1)] by (intro drained_Nil) auto
    then show ?thesis unfolding unf cancelled(3) by auto
  next
    case (next_failed w1 e w2)
    note n = on_client_frame [OF next_failed(2)] and b = budget_hit_frame [OF next_failed(1)]
    have "inv (wd_client w2) \<and> backlog (wd_client w2) = backlog (wd_client w)"
      using next_inv [OF _ n(4)] prems(1) b by simp
    then have "drained d inv backlog cfg once res fails w res (Some (LoopNext e)) w2 []"
      using prems n b by (intro drained_Nil) auto
    then show ?thesis unfolding unf next_failed(3) by auto
  next
    case (empty w1 w2)
    note n = on_client_frame [OF empty(2)] and b = budget_hit_frame [OF empty(1)]
    have "inv (wd_client w2) \<and> backlog (wd_client w2) = backlog (wd_client w)"
      using next_inv [OF _ n(4)] prems(1) b by simp
    then have "drained d inv backlog cfg once res fails w res None w2 []"
      using prems n b by (intro drained_Nil) auto
    then show ?thesis unfolding unf empty(3) by auto
  next
    case (work_failed w1 req w2 oc stuck e w3)
    note n = on_client_frame [OF work_failed(2)] and b = budget_hit_frame [OF work_failed(1)]
    have i2: "inv (wd_client w2)" "backlog (wd_client w2) = backlog (wd_client w)"
      using next_inv [OF _ n(4)] prems(1) b by simp_all
    have a2: "audited w2" using prems(2) n b by (simp add: trail_cong [of w2 w])
    have "drained d inv backlog cfg once res fails w2 res (Some e) w3 []"
      by (rule drained_failed [OF work_failed(3) i2(1) a2]) (use prems in simp_all)
    then have "drained d inv backlog cfg once res fails w res (Some e) w3 []"
      using i2 n b by (simp add: drained_def logged_cong [of w2 w])
    then show ?thesis unfolding unf work_failed(4) by auto
  next
    case (worked w1 req w2 oc stuck w3 res' fails')
    note n = on_client_frame [OF worked(2)] and b = budget_hit_frame [OF worked(1)]
    have i2: "inv (wd_client w2)" "backlog (wd_client w2) = backlog (wd_client w)"
      using next_inv [OF _ n(4)] prems(1) b by simp_all
    have a2: "audited w2" using prems(2) n b by (simp add: trail_cong [of w2 w])
    have inb: "rq_id req \<in> backlog (wd_client w)"
      using next_in_backlog [OF _ n(4)] prems(1) b by simp
    note wf = work_facts [OF worked(3) a2] and wk = work_keeps [OF worked(3) i2(1)]
    have i3: "inv (wd_client w3)" and sub: "backlog (wd_client w3) \<subseteq> backlog (wd_client w)"
      and out: "rq_id req \<notin> backlog (wd_client w3)"
      using wk i2 by (simp_all add: keeps_def)
    obtain vs where k: "length vs \<le> nat (cf_retries cfg + 1)" "verify_seq (oc = OutcomeClosed) vs"
      "trail w3 = trail w2 @ outcome_trail (rq_id req) vs oc"
      using wf(4) by auto
    let ?h = "\<lparr>wk_id = rq_id req, wk_verifies = vs, wk_outcome = oc, wk_stuck = stuck\<rparr>"
    have ok: "worked_ok cfg ?h" using k(1,2) wf(2,3) by (auto simp: worked_ok_def)
    note ta = tally_worked [OF worked(4) ok, simplified]
    have lg: "logged [?h] False w w3"
    proof -
      have "\<exists>as. wd_metrics w3 = Some (c @ as) \<and> list_all2 (\<lambda>h a. attempt_of (wk_id h) (wk_outcome h) a) [?h] as"
        if "wd_metrics w2 = Some c" for c
        using wf(5) [OF refl that] by force
      then have "logged [?h] False w2 w3" using k(3) by (simp add: logged_def worked_trail_def)
      then show ?thesis using n b by (simp add: logged_cong [of w2 w])
    qed
    have mx: "int (re_attempted res') \<le> bg_max_requirements (cf_budget cfg)"
      if "bg_max_requirements (cf_budget cfg) > 0"
      using worked(1) that ta by (auto simp: budget_hit_def split: if_splits)
    show ?thesis
    proof (cases "fails' \<ge> cf_break_after cfg \<or> once")
      case True
      let ?res = "if fails' \<ge> cf_break_after cfg then res'\<lparr>re_breaker := True\<rparr> else res'"
      have "stopped_right d cfg once fails [?h] ?res None w3"
        using True ta mx prems(3,4)
        by (cases "oc = OutcomeClosed") (auto simp: stopped_right_def fails_after_Cons)
      moreover have "accounts cfg [?h] res ?res" using ta by (auto simp: accounts_def)
      ultimately have "drained d inv backlog cfg once res fails w ?res None w3 [?h]"
        using i3 sub out inb lg by (simp add: drained_def)
      moreover have "run_loop d cfg once start res fails w = Some ((?res, None), w3)"
        using True unfolding unf worked(5) by auto
      ultimately show ?thesis by blast
    next
      case False
      have "card (backlog (wd_client w3)) < card (backlog (wd_client w))"
        using sub inb out finite_backlog [OF prems(1)] by (intro psubset_card_mono) auto
      from less.hyps [OF this i3 wf(1)] ta prems(3,4) obtain res2 err w4 hist where
        rl: "run_loop d cfg once start res' fails' w3 = Some ((res2, err), w4)"
        and dr: "drained d inv backlog cfg once res' fails' w3 res2 err w4 hist" by metis
      have "re_attempted res2 = re_attempted res'" if "hist = []"
        using dr that by (simp add: drained_def accounts_def)
      then have "stopped_right d cfg once fails (?h # hist) res2 err w4"
        using False ta mx stopped_right_Cons [of d cfg fails' hist res2 err w4 ?h fails] dr
        unfolding drained_def by simp
      moreover have "accounts cfg (?h # hist) res res2"
        using dr ta unfolding drained_def by (blast intro: accounts_Cons)
      moreover have "logged (?h # hist) (err \<noteq> None) w w4"
        using dr lg unfolding drained_def by (blast intro: logged_Cons)
      moreover have "rq_id req \<notin> set (map wk_id hist)" using dr out by (auto simp: drained_def)
      ultimately have "drained d inv backlog cfg once res fails w res2 err w4 (?h # hist)"
        using dr sub out inb unfolding drained_def by auto
      moreover have "run_loop d cfg once start res fails w = Some ((res2, err), w4)"
        using False rl unfolding unf worked(5) by auto
      ultimately show ?thesis by blast
    qed
  qed
qed

end

section \<open>Bounded execution\<close>

text \<open>The drain with a bound on its iterations, to evaluate concrete runs.\<close>

fun run_fuel ::
  "nat \<Rightarrow> ('c, 'e, 'x) deps \<Rightarrow> config \<Rightarrow> bool \<Rightarrow> int \<Rightarrow> result \<Rightarrow> int \<Rightarrow> ('c, 'x) world \<Rightarrow>
     ('c, 'e, 'x) run_out option" where
  "run_fuel 0 d cfg once start res fails w = None"
| "run_fuel (Suc n) d cfg once start res fails w =
     (case run_step d cfg once start res fails w of
        Inl out \<Rightarrow> Some out
      | Inr (res', fails', w') \<Rightarrow> run_fuel n d cfg once start res' fails' w')"

lemma run_fuel_sound:
  "run_fuel n d cfg once start res fails w = Some out \<Longrightarrow> run_loop d cfg once start res fails w = Some out"
proof (induction n arbitrary: res fails w)
  case (Suc n)
  show ?case
  proof (cases "run_step d cfg once start res fails w")
    case (Inl out')
    with Suc.prems show ?thesis by (subst run_loop.simps) simp
  next
    case (Inr y)
    with Suc show ?thesis by (cases y) (subst run_loop.simps, simp)
  qed
qed simp

section \<open>The loop on the repository's clients\<close>

text \<open>
  The collaborators with a client of the repository: the adapter and the test runner work on the
  host, the runner also reads the requirements database.
\<close>

definition cli_deps ::
  "(requirement \<Rightarrow> string \<Rightarrow> 'x host \<Rightarrow> (diff \<times> bool) \<times> 'x host) \<Rightarrow>
   (string \<Rightarrow> store \<Rightarrow> 'x host \<Rightarrow> (bool \<times> string \<times> store_err option) \<times> 'x host) \<Rightarrow>
   ('x host \<Rightarrow> int \<times> 'x host) \<Rightarrow> ('x host \<Rightarrow> bool) \<Rightarrow> string \<Rightarrow> bool \<Rightarrow> string \<Rightarrow> fallback_policy \<Rightarrow>
   (cli_client, store_err, 'x) deps" where
  "cli_deps drv vfy now canc ld rst md fb =
     \<lparr>dp_next = cli_next, dp_claim = cli_claim, dp_release = cli_release, dp_write = cli_write_status,
      dp_verify = (\<lambda>i (c, h). case vfy i (cli_store c) h of (r, h') \<Rightarrow> (r, c, h')),
      dp_drive = (\<lambda>r f (c, h). case drv r f h of (o', h') \<Rightarrow> (o', c, h')),
      dp_now = now, dp_cancelled = canc, dp_ledger_dir = ld, dp_require_self_test = rst,
      dp_memory_dir = md, dp_fallback = fb\<rparr>"

definition fake_deps ::
  "(requirement \<Rightarrow> string \<Rightarrow> 'x host \<Rightarrow> (diff \<times> bool) \<times> 'x host) \<Rightarrow>
   ('x host \<Rightarrow> int \<times> 'x host) \<Rightarrow> ('x host \<Rightarrow> bool) \<Rightarrow> string \<Rightarrow> bool \<Rightarrow> string \<Rightarrow> fallback_policy \<Rightarrow>
   (fake, fake_err, 'x) deps" where
  "fake_deps drv now canc ld rst md fb =
     \<lparr>dp_next = fake_cnext, dp_claim = (\<lambda>i f. fake_claim f i), dp_release = (\<lambda>i f. fake_release f i),
      dp_write = (\<lambda>i st f. fake_write_status f i st),
      dp_verify = (\<lambda>i (c, h). (fake_verify c i, c, h)),
      dp_drive = (\<lambda>r f (c, h). case drv r f h of (o', h') \<Rightarrow> (o', c, h')),
      dp_now = now, dp_cancelled = canc, dp_ledger_dir = ld, dp_require_self_test = rst,
      dp_memory_dir = md, dp_fallback = fb\<rparr>"

interpretation cli_run: drain "cli_deps drv vfy now canc ld rst md fb"
  "\<lambda>c. store_ok (cli_store c)" "\<lambda>c. store_backlog (cli_store c)" "\<lambda>c. is_claimed (cli_store c)"
  for drv vfy now canc ld rst md fb
proof (intro drain.intro drain_axioms.intro)
  show "req_client (dp_next (cli_deps drv vfy now canc ld rst md fb))
     (dp_claim (cli_deps drv vfy now canc ld rst md fb)) (dp_release (cli_deps drv vfy now canc ld rst md fb))
     (dp_write (cli_deps drv vfy now canc ld rst md fb))
     (\<lambda>c. store_ok (cli_store c)) (\<lambda>c. store_backlog (cli_store c)) (\<lambda>c. is_claimed (cli_store c))"
    by (simp add: cli_deps_def cli.req_client_axioms)
qed (auto simp: cli_deps_def split: prod.splits)

interpretation fake_run: drain "fake_deps drv now canc ld rst md fb"
  "\<lambda>f. distinct (map rq_id (fk_reqs f))" "\<lambda>f. live_ids (fk_reqs f)" "\<lambda>f i. i \<in> fk_claimed f"
  for drv now canc ld rst md fb
proof (intro drain.intro drain_axioms.intro)
  show "req_client (dp_next (fake_deps drv now canc ld rst md fb))
     (dp_claim (fake_deps drv now canc ld rst md fb)) (dp_release (fake_deps drv now canc ld rst md fb))
     (dp_write (fake_deps drv now canc ld rst md fb))
     (\<lambda>f. distinct (map rq_id (fk_reqs f))) (\<lambda>f. live_ids (fk_reqs f)) (\<lambda>f i. i \<in> fk_claimed f)"
    using fk.req_client_axioms by (simp add: fake_deps_def)
qed (auto simp: fake_deps_def split: prod.splits)

end
