(* ===== verification/LoopProps.thy ===== *)
theory LoopProps
  imports LoopSpec
begin

text \<open>
  The properties of the control loop on the repository's clients, each with an instance on a
  small database of two requirements, one of them depending on the other.
\<close>

section \<open>A sample run\<close>

definition sample_store :: store where
  "sample_store = \<lparr>st_db_path = ''.rtmx/database.csv'', st_claims_dir = ''.rtmx/claims'',
     st_db = CsvRecords
       [[''req_id'', ''requirement_text'', ''status'', ''dependencies''],
        [''REQ-A-1'', ''Parse the Header'', ''OPEN'', ''''],
        [''REQ-A-2'', ''Print the Header'', ''OPEN'', ''REQ-A-1'']],
     st_dirs = {''.rtmx'', ''.rtmx/claims''}, st_claims = Map.empty, st_can_mkdir = True,
     st_can_create = True, st_can_remove = True, st_can_replace = True\<rparr>"

definition sample_host :: "unit host" where
  "sample_host = \<lparr>hs_ext = (), hs_fs = \<lparr>fs_files = Map.empty, fs_dirs = {''.''}, fs_deny_read = {},
     fs_deny_write = {}, fs_deny_mkdir = {}\<rparr>, hs_disk = \<lparr>md_docs = Map.empty, md_can_write = (\<lambda>_. True)\<rparr>,
     hs_tree = Dir ''.'' []\<rparr>"

definition sample_world :: "(cli_client, unit) world" where
  "sample_world = \<lparr>wd_client = \<lparr>cli_store = sample_store, cli_agent = ''aegis''\<rparr>, wd_host = sample_host,
     wd_audit = Some (audit_new ''aegis'' (\<lambda>n. int n) (\<lambda>_. False)), wd_metrics = Some new_collector\<rparr>"

definition sample_config :: config where
  "sample_config = \<lparr>cf_endpoint = ''http://127.0.0.1:8080'', cf_harness = ''opencode'', cf_target = ''linux-cpu'',
     cf_retries = 2, cf_break_after = 3,
     cf_budget = \<lparr>bg_max_requirements = 40, bg_wall_clock = 0, bg_per_task_tokens = 0, bg_per_task_wall = 0\<rparr>,
     cf_audit_path = ''aegis-audit.log'', cf_calibration_path = [], cf_model_id = [], cf_model_digest = [],
     cf_allow_egress = False, cf_tuning = None, cf_max_steps = 0, cf_max_output_tokens = 0,
     cf_interactive = False, cf_ctx_size = 0\<rparr>"

text \<open>The sample agent does nothing; its test passes for the first requirement only.\<close>

definition sample_deps :: "(cli_client, store_err, unit) deps" where
  "sample_deps = cli_deps (\<lambda>r fb h. ((empty_diff (rq_id r), False), h))
     (\<lambda>i s h. ((i = ''REQ-A-1'', ''boom'', None), h)) (\<lambda>h. (0, h)) (\<lambda>_. False) [] False []
     \<lparr>fp_after_failures = 0, fp_temperature = 0\<rparr>"

lemma sample_client: "cli_store (wd_client sample_world) = sample_store"
  by (simp add: sample_world_def)

lemma sample_store_ok: "store_ok (cli_store (wd_client sample_world))"
  unfolding sample_client by code_simp

lemma sample_audited: "audited sample_world"
  by (simp add: sample_world_def audited_def audit_new_def)

definition sample_req :: requirement where
  "sample_req = \<lparr>rq_id = ''REQ-A-1'', rq_prefix = ''A'', rq_title = ''Parse the Header'',
     rq_status = StatusOpen, rq_tests = [], rq_deps = [], rq_spec_file = [], rq_notes = []\<rparr>"

text \<open>The same sample on a host that cannot replace the database file.\<close>

definition frozen_world :: "(cli_client, unit) world" where
  "frozen_world = sample_world\<lparr>wd_client := \<lparr>cli_store = sample_store\<lparr>st_can_replace := False\<rparr>, cli_agent = ''aegis''\<rparr>\<rparr>"

lemma sample_work: "fst (work sample_deps sample_config sample_req sample_world) = (OutcomeClosed, NotStuck, None)"
  by code_simp

lemma frozen_work:
  "fst (work sample_deps sample_config sample_req frozen_world)
     = (OutcomeError, NotStuck, Some (LoopWriteClosed ''REQ-A-1'' WriteFailed))"
  by code_simp

lemma sample_workE:
  obtains w' where "work sample_deps sample_config sample_req sample_world = ((OutcomeClosed, NotStuck, None), w')"
  using sample_work by (metis prod.collapse)

lemma frozen_store_ok: "store_ok (cli_store (wd_client frozen_world))"
proof -
  have "cli_store (wd_client frozen_world) = sample_store\<lparr>st_can_replace := False\<rparr>"
    by (simp add: frozen_world_def)
  moreover have "store_ok (sample_store\<lparr>st_can_replace := False\<rparr>)" by code_simp
  ultimately show ?thesis by simp
qed

text \<open>One iteration on the sample: the first requirement is claimed, verified and closed.\<close>

lemma sample_step:
  "case run_fuel 1 sample_deps sample_config True 0 zero_result 0 sample_world of
     Some ((r, None), w) \<Rightarrow> re_attempted r = 1 \<and> re_closed r = 1 \<and>
       trail w = outcome_trail ''REQ-A-1'' [pass] OutcomeClosed
   | _ \<Rightarrow> False"
  by code_simp

lemma sample_once:
  "\<exists>r w. run sample_deps sample_config True sample_world = Some ((r, None), w) \<and>
     re_attempted r = 1 \<and> re_closed r = 1 \<and> trail w = outcome_trail ''REQ-A-1'' [pass] OutcomeClosed"
proof -
  obtain r w where f: "run_fuel 1 sample_deps sample_config True 0 zero_result 0 sample_world = Some ((r, None), w)"
    and p: "re_attempted r = 1 \<and> re_closed r = 1 \<and> trail w = outcome_trail ''REQ-A-1'' [pass] OutcomeClosed"
    using sample_step by (auto split: option.splits)
  have "read_now sample_deps sample_world = (0, sample_world)"
    by (simp add: read_now_def sample_deps_def cli_deps_def)
  with run_fuel_sound [OF f] p show ?thesis by (auto simp: run_def)
qed

section \<open>Draining\<close>

lemma run_drained:
  assumes "store_ok (cli_store (wd_client w))" and "audited w"
  shows "\<exists>res err w' hist. run (cli_deps drv vfy now canc ld rst md fb) cfg once w = Some ((res, err), w') \<and>
     drained (cli_deps drv vfy now canc ld rst md fb) (\<lambda>c. store_ok (cli_store c))
       (\<lambda>c. store_backlog (cli_store c)) cfg once zero_result 0 w res err w' hist"
proof -
  let ?d = "cli_deps drv vfy now canc ld rst md fb"
  obtain start w1 where s: "read_now ?d w = (start, w1)" by (metis prod.exhaust)
  note f = read_now_frame [OF s]
  have pre: "store_ok (cli_store (wd_client w1))" "audited w1"
    "\<not> re_breaker zero_result" "\<not> re_budget zero_result"
    using f assms by (simp_all add: trail_cong [of w1 w] zero_result_def)
  have "\<exists>res err w' hist. run_loop ?d cfg once start zero_result 0 w1 = Some ((res, err), w') \<and>
     drained ?d (\<lambda>c. store_ok (cli_store c)) (\<lambda>c. store_backlog (cli_store c)) cfg once
       zero_result 0 w1 res err w' hist"
    by (rule cli_run.run_loop_drained [OF pre])
  then obtain res err w' hist where
    r: "run_loop ?d cfg once start zero_result 0 w1 = Some ((res, err), w')"
    and dr: "drained ?d (\<lambda>c. store_ok (cli_store c)) (\<lambda>c. store_backlog (cli_store c)) cfg once
       zero_result 0 w1 res err w' hist"
    by (elim exE conjE)
  have "drained ?d (\<lambda>c. store_ok (cli_store c)) (\<lambda>c. store_backlog (cli_store c)) cfg once
       zero_result 0 w res err w' hist"
    using dr f by (simp add: drained_def logged_cong [of w1 w])
  with r show ?thesis by (auto simp: run_def s)
qed

lemma accounts_sum:
  assumes "accounts cfg hist zero_result res"
  shows "re_attempted res = length hist \<and> re_attempted res = re_closed res + re_parked res \<and>
    re_stuck res \<le> re_parked res"
proof -
  have "length (filter (\<lambda>h. wk_outcome h = OutcomeClosed) hist) +
      length (filter (\<lambda>h. wk_outcome h = OutcomeParked) hist) = length hist \<and>
      length (filter (\<lambda>h. wk_stuck h \<noteq> NotStuck) hist) \<le> length (filter (\<lambda>h. wk_outcome h = OutcomeParked) hist)"
    if "list_all (worked_ok cfg) hist"
    using that by (induction hist) (auto simp: worked_ok_def)
  with assms show ?thesis by (simp add: accounts_def zero_result_def)
qed

text \<open>
  C1: A run over a well-formed requirements database always returns; it never works a requirement
  twice, every requirement it worked was open and no longer is, and its counters add up:
  attempted is closed plus parked, and stuck is part of parked.
\<close>

theorem run_returns_and_accounts:
  assumes "store_ok (cli_store (wd_client w))" and "audited w"
  shows "\<exists>res err w' ids. run (cli_deps drv vfy now canc ld rst md fb) cfg once w = Some ((res, err), w') \<and>
     distinct ids \<and> set ids \<subseteq> store_backlog (cli_store (wd_client w)) \<and>
     set ids \<inter> store_backlog (cli_store (wd_client w')) = {} \<and>
     re_attempted res = length ids \<and> re_attempted res = re_closed res + re_parked res \<and>
     re_stuck res \<le> re_parked res"
proof -
  from run_drained [OF assms] obtain res err w' hist where
    r: "run (cli_deps drv vfy now canc ld rst md fb) cfg once w = Some ((res, err), w')"
    and d: "drained (cli_deps drv vfy now canc ld rst md fb) (\<lambda>c. store_ok (cli_store c))
       (\<lambda>c. store_backlog (cli_store c)) cfg once zero_result 0 w res err w' hist" by blast
  from d have ids: "distinct (map wk_id hist)"
    "set (map wk_id hist) \<subseteq> store_backlog (cli_store (wd_client w)) - store_backlog (cli_store (wd_client w'))"
    and "accounts cfg hist zero_result res" by (simp_all add: drained_def)
  with accounts_sum [OF this(3)] r show ?thesis
    by (intro exI [of _ res] exI [of _ err] exI [of _ w'] exI [of _ "map wk_id hist"]) auto
qed

lemma run_returns_and_accounts_witness:
  "\<exists>res err w' ids. run sample_deps sample_config False sample_world = Some ((res, err), w') \<and>
     distinct ids \<and> set ids \<subseteq> store_backlog (cli_store (wd_client sample_world)) \<and>
     set ids \<inter> store_backlog (cli_store (wd_client w')) = {} \<and>
     re_attempted res = length ids \<and> re_attempted res = re_closed res + re_parked res \<and>
     re_stuck res \<le> re_parked res"
  unfolding sample_deps_def by (rule run_returns_and_accounts [OF sample_store_ok sample_audited])

text \<open>
  C2: A run that ends without an error leaves exactly its history in the audit log: for each
  requirement worked a claim, its verify results and then a release or an escalation and a park;
  a requirement is closed exactly when its last verify, and no earlier one, passed, and no
  requirement is verified more than retries + 1 times.
\<close>

theorem run_audit_trail:
  assumes "store_ok (cli_store (wd_client w))" and "audited w"
    and "run (cli_deps drv vfy now canc ld rst md fb) cfg once w = Some ((res, None), w')"
  shows "\<exists>hist. trail w' = trail w @ worked_trail hist \<and> length hist = re_attempted res \<and>
     (\<forall>h \<in> set hist. length (wk_verifies h) \<le> nat (cf_retries cfg + 1) \<and>
        verify_seq (wk_outcome h = OutcomeClosed) (wk_verifies h))"
proof -
  from run_drained [OF assms(1,2), of drv vfy now canc ld rst md fb cfg once] assms(3) obtain hist where
    d: "drained (cli_deps drv vfy now canc ld rst md fb) (\<lambda>c. store_ok (cli_store c))
       (\<lambda>c. store_backlog (cli_store c)) cfg once zero_result 0 w res None w' hist" by auto
  then show ?thesis
    by (auto simp: drained_def logged_def accounts_def zero_result_def list_all_iff worked_ok_def)
qed

lemma run_audit_trail_witness:
  "\<exists>res w' hist. run sample_deps sample_config True sample_world = Some ((res, None), w') \<and>
     trail w' = trail sample_world @ worked_trail hist \<and> length hist = re_attempted res \<and> re_attempted res = 1 \<and>
     (\<forall>h \<in> set hist. length (wk_verifies h) \<le> 3 \<and> verify_seq (wk_outcome h = OutcomeClosed) (wk_verifies h))"
proof -
  obtain res w' where r: "run sample_deps sample_config True sample_world = Some ((res, None), w')"
    and a: "re_attempted res = 1" using sample_once by blast
  have "nat (cf_retries sample_config + 1) = 3" by (simp add: sample_config_def)
  with run_audit_trail [OF sample_store_ok sample_audited r [unfolded sample_deps_def]] r a
  show ?thesis by auto
qed

text \<open>The number of requirements parked in a row at the end of a history.\<close>

definition trailing_parks :: "worked list \<Rightarrow> nat" where
  "trailing_parks hist = length (takeWhile (\<lambda>h. wk_outcome h \<noteq> OutcomeClosed) (rev hist))"

lemma fails_after_parks: "fails_after 0 hist = int (trailing_parks hist)"
  by (induction hist rule: rev_induct) (simp_all add: fails_after_def trailing_parks_def)



text \<open>
  The metrics agree with the result: a run that starts with an empty collector ends with a
  report whose attempted, closed and escalated counts are the run's attempted, closed and parked.
\<close>

theorem run_metrics_agree:
  assumes "store_ok (cli_store (wd_client w))" and "audited w" and "wd_metrics w = Some new_collector"
  shows "\<exists>res err w' c. run (cli_deps drv vfy now canc ld rst md fb) cfg once w = Some ((res, err), w') \<and>
     wd_metrics w' = Some c \<and> rp_attempted (metrics_report c) = re_attempted res \<and>
     rp_closed (metrics_report c) = re_closed res \<and> rp_escalated (metrics_report c) = re_parked res"
proof -
  let ?d = "cli_deps drv vfy now canc ld rst md fb"
  from run_drained [OF assms(1,2), of drv vfy now canc ld rst md fb cfg once] obtain res err w' hist where
    r: "run ?d cfg once w = Some ((res, err), w')"
    and d: "drained ?d (\<lambda>c. store_ok (cli_store c)) (\<lambda>c. store_backlog (cli_store c)) cfg once
       zero_result 0 w res err w' hist" by blast
  from d have ac: "accounts cfg hist zero_result res" and lg: "logged hist (err \<noteq> None) w w'"
    by (simp_all add: drained_def)
  from lg assms(3) obtain as where m: "wd_metrics w' = Some as"
    and l: "list_all2 (\<lambda>h a. attempt_of (wk_id h) (wk_outcome h) a) hist as"
    by (auto simp: logged_def new_collector_def)
  from l have "length as = length hist \<and>
     length (filter at_closed as) = length (filter (\<lambda>h. wk_outcome h = OutcomeClosed) hist) \<and>
     length (filter at_escalated as) = length (filter (\<lambda>h. wk_outcome h = OutcomeParked) hist)"
    by (induction rule: list_all2_induct) (auto simp: attempt_of_def)
  with ac have "rp_attempted (metrics_report as) = re_attempted res \<and>
     rp_closed (metrics_report as) = re_closed res \<and> rp_escalated (metrics_report as) = re_parked res"
    by (auto simp: accounts_def zero_result_def metrics_report_def zero_report_def Let_def)
  with r m show ?thesis by blast
qed

lemma run_metrics_agree_witness:
  "\<exists>res err w' c. run sample_deps sample_config False sample_world = Some ((res, err), w') \<and>
     wd_metrics w' = Some c \<and> rp_attempted (metrics_report c) = re_attempted res \<and>
     rp_closed (metrics_report c) = re_closed res \<and> rp_escalated (metrics_report c) = re_parked res"
  unfolding sample_deps_def
  by (rule run_metrics_agree [OF sample_store_ok sample_audited]) (simp add: sample_world_def)

section \<open>One requirement\<close>

text \<open>
  C4: Whatever the collaborators do, a requirement that is worked without an error leaves a claim,
  at most retries + 1 verify results and its outcome in the audit log, in this order; it is
  closed exactly when the last verify passed, and no verify passes before the last.
\<close>

theorem work_audit_trail:
  assumes "work d cfg req w = ((oc, stuck, None), w')" and "audited w"
  shows "\<exists>vs. length vs \<le> nat (cf_retries cfg + 1) \<and>
     (if oc = OutcomeClosed then vs \<noteq> [] \<and> last vs = ''pass'' \<and> ''pass'' \<notin> set (butlast vs)
      else oc = OutcomeParked \<and> ''pass'' \<notin> set vs) \<and>
     trail w' = trail w @ [(ActionClaim, rq_id req, [])] @ map (\<lambda>r. (ActionVerify, rq_id req, r)) vs @
       (if oc = OutcomeClosed then [(ActionRelease, rq_id req, ''closed'')]
        else [(ActionEscalate, rq_id req, ''blocked''), (ActionPark, rq_id req, ''blocked'')])"
proof -
  from work_facts(2,4) [OF assms] obtain vs where
    oc: "oc = OutcomeClosed \<or> oc = OutcomeParked" and len: "length vs \<le> nat (cf_retries cfg + 1)"
    and seq: "verify_seq (oc = OutcomeClosed) vs" and tr: "trail w' = trail w @ outcome_trail (rq_id req) vs oc"
    by auto
  then show ?thesis
    by (intro exI [of _ vs]) (auto simp: verify_seq_def outcome_trail_def verify_marks_def)
qed

lemma work_audit_trail_witness:
  "\<exists>w' vs. work sample_deps sample_config sample_req sample_world = ((OutcomeClosed, NotStuck, None), w') \<and>
     length vs \<le> 3 \<and> last vs = ''pass'' \<and>
     trail w' = (ActionClaim, ''REQ-A-1'', []) # map (\<lambda>r. (ActionVerify, ''REQ-A-1'', r)) vs
       @ [(ActionRelease, ''REQ-A-1'', ''closed'')]"
proof -
  obtain w' where w: "work sample_deps sample_config sample_req sample_world = ((OutcomeClosed, NotStuck, None), w')"
    by (rule sample_workE)
  have "trail sample_world = []" "rq_id sample_req = ''REQ-A-1''" "nat (cf_retries sample_config + 1) = 3"
    by (simp_all add: sample_world_def trail_def audit_new_def sample_req_def sample_config_def)
  with work_audit_trail [OF w sample_audited] w show ?thesis by auto
qed

text \<open>
  C5: If the status write of a finished requirement fails, the run stops with that error and the
  claim of the requirement is still held: this exit path does not release it.
\<close>

theorem work_write_failure_keeps_claim:
  assumes "store_ok (cli_store (wd_client w))"
    and "work (cli_deps drv vfy now canc ld rst md fb) cfg req w = ((oc, stuck, Some err), w')"
    and "err = LoopWriteClosed i e \<or> err = LoopWriteBlocked i e"
  shows "is_claimed (cli_store (wd_client w')) (rq_id req)"
  using cli_run.work_keeps(4) [OF assms(2,1)] assms(3) by blast

lemma work_write_failure_keeps_claim_witness:
  "\<exists>oc stuck i w'. work sample_deps sample_config sample_req frozen_world
       = ((oc, stuck, Some (LoopWriteClosed i WriteFailed)), w') \<and>
     is_claimed (cli_store (wd_client w')) (rq_id sample_req)"
proof -
  obtain i w' where w: "work sample_deps sample_config sample_req frozen_world
      = ((OutcomeError, NotStuck, Some (LoopWriteClosed i WriteFailed)), w')"
    using frozen_work by (metis prod.collapse)
  from work_write_failure_keeps_claim [OF frozen_store_ok w [unfolded sample_deps_def], of i WriteFailed] w
  show ?thesis by blast
qed

lemma store_release_failed:
  "store_release s i = (re, s') \<Longrightarrow> is_claimed s' i \<Longrightarrow> \<not> st_can_remove s'"
  by (auto simp: store_release_def is_claimed_def claim_path_def split: if_splits)

text \<open>
  A requirement that is worked without an error is neither open nor claimed afterwards, unless
  the host refused to remove its claim file.
\<close>

theorem work_releases:
  assumes "store_ok (cli_store (wd_client w))"
    and "work (cli_deps drv vfy now canc ld rst md fb) cfg req w = ((oc, stuck, None), w')"
  shows "rq_id req \<notin> store_backlog (cli_store (wd_client w')) \<and>
     (is_claimed (cli_store (wd_client w')) (rq_id req) \<longrightarrow> \<not> st_can_remove (cli_store (wd_client w')))"
proof -
  from cli_run.work_keeps(2,3) [OF assms(2,1)] obtain re c where
    out: "rq_id req \<notin> store_backlog (cli_store (wd_client w'))"
    and "dp_release (cli_deps drv vfy now canc ld rst md fb) (rq_id req) c = (re, wd_client w')" by auto
  moreover obtain re' s where r: "store_release (cli_store c) (rq_id req) = (re', s)" by (metis prod.exhaust)
  ultimately have "(re', c\<lparr>cli_store := s\<rparr>) = (re, wd_client w')" by (simp add: cli_deps_def cli_release_def)
  then have "wd_client w' = c\<lparr>cli_store := s\<rparr>" by simp
  then have "cli_store (wd_client w') = s" by simp
  with r have "store_release (cli_store c) (rq_id req) = (re', cli_store (wd_client w'))" by simp
  from store_release_failed [OF this] out show ?thesis by blast
qed

lemma work_releases_witness:
  "\<exists>w'. work sample_deps sample_config sample_req sample_world = ((OutcomeClosed, NotStuck, None), w') \<and>
     rq_id sample_req \<notin> store_backlog (cli_store (wd_client w'))"
proof -
  obtain w' where w: "work sample_deps sample_config sample_req sample_world = ((OutcomeClosed, NotStuck, None), w')"
    by (rule sample_workE)
  from work_releases [OF sample_store_ok w [unfolded sample_deps_def]] w show ?thesis by blast
qed

lemma drive_ctx_feedback: "\<exists>pre. drive_ctx d i lg mem st f = pre @ as_feedback st"
  by (simp add: drive_ctx_def Let_def before_ctx_def)

text \<open>
  The failed test output reaches the agent: after a turn whose verify failed with an output, the
  context of the next drive ends with that output, whatever ledger, memory or directives precede it.
\<close>

theorem failed_output_fed_back:
  assumes "attempt_step d cfg req lg mem start i (st, w) = (False, st', w')"
    and "on_both (dp_drive d req (drive_ctx d (rq_id req) lg mem st (hs_fs (wd_host w)))) w = ((df, False), w1)"
    and "on_both (dp_verify d (rq_id req)) w1 = ((False, out, None), w2)"
    and "detect_stuck (as_trace st @ steps_from_trace (df_trace df)) default_thresholds = NotStuck"
  shows "\<exists>pre. drive_ctx d (rq_id req) lg mem st' f = pre @ out"
proof -
  have ns: "as_stuck (add_diff df st) = NotStuck" using assms(4) by (simp add: add_diff_def Let_def)
  have "\<exists>over. st' = (after_failure (dp_fallback d) out (add_diff df st))\<lparr>as_over := over\<rparr>"
    using assms(1) by (auto simp: attempt_step_def assms(2,3) ns Let_def split: prod.splits)
  then have "\<exists>pre. as_feedback st' = pre @ out" by (auto simp: after_failure_def Let_def)
  with drive_ctx_feedback [of d "rq_id req" lg mem st' f] show ?thesis by auto
qed

lemma failed_output_fed_back_witness:
  "\<exists>st' w' pre. attempt_step sample_deps sample_config (sample_req\<lparr>rq_id := ''REQ-A-2''\<rparr>) None None 0 0
       (start_attempts ''REQ-A-2'', sample_world) = (False, st', w') \<and>
     drive_ctx sample_deps ''REQ-A-2'' None None st' (hs_fs sample_host) = pre @ ''boom''"
proof -
  let ?r = "sample_req\<lparr>rq_id := ''REQ-A-2''\<rparr>" and ?st = "start_attempts ''REQ-A-2''"
  have "fst (attempt_step sample_deps sample_config ?r None None 0 0 (?st, sample_world)) = False"
    by code_simp
  then obtain st' w' where s: "attempt_step sample_deps sample_config ?r None None 0 0 (?st, sample_world) = (False, st', w')"
    by (metis prod.collapse)
  have d: "on_both (dp_drive sample_deps ?r c) sample_world = ((empty_diff ''REQ-A-2'', False), sample_world)" for c
    by (simp add: on_both_def sample_deps_def cli_deps_def)
  have v: "on_both (dp_verify sample_deps (rq_id ?r)) sample_world = ((False, ''boom'', None), sample_world)"
    by (simp add: on_both_def sample_deps_def cli_deps_def)
  have "detect_stuck (as_trace ?st @ steps_from_trace (df_trace (empty_diff ''REQ-A-2''))) default_thresholds = NotStuck"
    by code_simp
  from failed_output_fed_back [OF s d v this, of "hs_fs sample_host"] s show ?thesis by auto
qed

end
