(* ===== verification/Serving.thy ===== *)
theory Serving
  imports GoJson FileSys
begin

text \<open>
  The serving package without its client: the calibration and its validation, the launch command
  of the model server and the context window it serves (\<open>serving.go\<close>), the reasoning budget
  (\<open>reasoning.go\<close>) and the output grammar (\<open>grammar.go\<close>).  The environment variable
  \<open>AEGIS_CTX_SIZE\<close> is an argument, empty when it is not set.
\<close>

section \<open>Calibration\<close>

definition serve_linux_cpu :: string where "serve_linux_cpu = ''linux-cpu''"
definition serve_darwin_metal :: string where "serve_darwin_metal = ''darwin-metal''"

record reasoning =
  ra_enable_for_hard :: bool
  ra_max_tokens :: int

record calibration =
  cal_target :: string
  cal_threads :: int
  cal_batch :: int
  cal_ngl :: int
  cal_model :: string
  cal_port :: int
  cal_ctx_size :: int
  cal_reasoning :: reasoning

definition zero_calibration :: calibration where
  "zero_calibration = \<lparr>cal_target = [], cal_threads = 0, cal_batch = 0, cal_ngl = 0, cal_model = [],
     cal_port = 0, cal_ctx_size = 0,
     cal_reasoning = \<lparr>ra_enable_for_hard = False, ra_max_tokens = 0\<rparr>\<rparr>"

definition reasoning_fields :: "reasoning json_field list" where
  "reasoning_fields =
     [(''enable_for_hard'', fld dec_bool ra_enable_for_hard ra_enable_for_hard_update),
      (''max_tokens'', fld dec_int ra_max_tokens ra_max_tokens_update)]"

definition calibration_fields :: "calibration json_field list" where
  "calibration_fields =
     [(''target'', fld dec_string cal_target cal_target_update),
      (''threads'', fld dec_int cal_threads cal_threads_update),
      (''batch'', fld dec_int cal_batch cal_batch_update),
      (''ngl'', fld dec_int cal_ngl cal_ngl_update),
      (''model'', fld dec_string cal_model cal_model_update),
      (''port'', fld dec_int cal_port cal_port_update),
      (''ctx_size'', fld dec_int cal_ctx_size cal_ctx_size_update),
      (''reasoning'', fld (dec_struct reasoning_fields) cal_reasoning cal_reasoning_update)]"

definition default_ctx_size :: int where "default_ctx_size = 32768"

definition resolve_ctx_size :: "string \<Rightarrow> int \<Rightarrow> int" where
  "resolve_ctx_size env hint =
     (case (if env = [] then None else atoi env) of
        Some n \<Rightarrow> if n \<ge> 512 then n else if hint \<ge> 512 then hint else default_ctx_size
      | None \<Rightarrow> if hint \<ge> 512 then hint else default_ctx_size)"

definition ctx_size_or_default :: "string \<Rightarrow> calibration \<Rightarrow> int" where
  "ctx_size_or_default env c = resolve_ctx_size env (cal_ctx_size c)"

datatype cal_err =
    CalReadFailed string
  | CalParseFailed string
  | NeedsThreads
  | LinuxOffload int
  | MetalNeedsOffload int
  | UnknownCalTarget string
  | MissingModel
  | Uncalibrated

definition cal_validate :: "calibration \<Rightarrow> cal_err option" where
  "cal_validate c =
     (case (if cal_target c = serve_linux_cpu then
              (if cal_threads c < 1 then Some NeedsThreads
               else if cal_ngl c \<noteq> 0 then Some (LinuxOffload (cal_ngl c)) else None)
            else if cal_target c = serve_darwin_metal then
              (if cal_ngl c \<le> 0 then Some (MetalNeedsOffload (cal_ngl c)) else None)
            else Some (UnknownCalTarget (cal_target c))) of
        Some e \<Rightarrow> Some e
      | None \<Rightarrow> if cal_model c = [] then Some MissingModel else None)"

definition load_calibration :: "string \<Rightarrow> fs \<Rightarrow> cal_err + calibration" where
  "load_calibration path f =
     (case fs_read path f of
        None \<Rightarrow> Inl (CalReadFailed path)
      | Some text \<Rightarrow>
          (case unmarshal (dec_struct calibration_fields) zero_calibration text of
             None \<Rightarrow> Inl (CalParseFailed path)
           | Some c \<Rightarrow> (case cal_validate c of Some e \<Rightarrow> Inl e | None \<Rightarrow> Inr c)))"

section \<open>The launch command\<close>

definition launch_args :: "string \<Rightarrow> calibration option \<Rightarrow> cal_err + string list" where
  "launch_args env cal =
     (case cal of
        None \<Rightarrow> Inl Uncalibrated
      | Some c \<Rightarrow>
          (case cal_validate c of
             Some e \<Rightarrow> Inl e
           | None \<Rightarrow>
               if cal_target c = serve_linux_cpu then
                 Inr [''taskset'', ''-c'', ''0-'' @ show_int (cal_threads c - 1),
                      ''nice'', ''-n'', ''5'', ''llama-server'', ''--model'', cal_model c, ''--jinja'',
                      ''--threads'', show_int (cal_threads c),
                      ''--batch-size'', show_int (cal_batch c),
                      ''--ctx-size'', show_int (ctx_size_or_default env c),
                      ''-ngl'', ''0'', ''--host'', ''127.0.0.1'', ''--port'', show_int (cal_port c)]
               else if cal_target c = serve_darwin_metal then
                 Inr [''nice'', ''-n'', ''5'', ''llama-server'', ''--model'', cal_model c, ''--jinja'',
                      ''--batch-size'', show_int (cal_batch c),
                      ''--ctx-size'', show_int (ctx_size_or_default env c),
                      ''-ngl'', ''999'', ''--host'', ''127.0.0.1'', ''--port'', show_int (cal_port c)]
               else Inl (UnknownCalTarget (cal_target c))))"

section \<open>Reasoning budget\<close>

datatype difficulty = Simple | Hard

definition reasoning_budget :: "calibration \<Rightarrow> difficulty \<Rightarrow> bool \<times> int" where
  "reasoning_budget c d =
     (if d = Hard \<and> ra_enable_for_hard (cal_reasoning c) then (True, ra_max_tokens (cal_reasoning c))
      else (False, 0))"

section \<open>Output grammar\<close>

definition gbnf_lit :: "string \<Rightarrow> string" where
  "gbnf_lit s =
     [CHR 0x22] @ replace_char CHR 0x22 [CHR 0x5C, CHR 0x22] (replace_char CHR 0x5C [CHR 0x5C, CHR 0x5C] s)
       @ [CHR 0x22]"

definition object_part :: "string \<Rightarrow> string" where
  \<open>object_part k = gbnf_lit ([CHR 0x22] @ k @ [CHR 0x22]) @ '' ws ":" ws string ws''\<close>

definition object_grammar :: "string list \<Rightarrow> string" where
  \<open>object_grammar keys =
     (if keys = [] then []
      else ''root ::= "{" ws '' @ join ''"," ws '' (map object_part keys) @ ''"}"'' @ [CHR 0x0A]
        @ ''string ::= "'' @ [CHR 0x5C] @ ''"" ( [^"'' @ [CHR 0x5C, CHR 0x5C] @ ''] | "''
        @ [CHR 0x5C, CHR 0x5C] @ ''" . )* "'' @ [CHR 0x5C] @ ''""'' @ [CHR 0x0A]
        @ ''ws ::= [ '' @ [CHR 0x5C] @ ''t'' @ [CHR 0x5C] @ ''n]*'' @ [CHR 0x0A])\<close>

section \<open>Facts\<close>

lemma cal_validate_None:
  "cal_validate c = None \<longleftrightarrow>
     (cal_target c = serve_linux_cpu \<and> cal_threads c \<ge> 1 \<and> cal_ngl c = 0
      \<or> cal_target c = serve_darwin_metal \<and> cal_ngl c > 0) \<and> cal_model c \<noteq> []"
  by (auto simp: cal_validate_def serve_linux_cpu_def serve_darwin_metal_def)

lemma launch_args_ok:
  assumes "cal_validate c = None"
  shows "\<exists>args. launch_args env (Some c) = Inr args"
proof -
  from assms have "cal_target c = serve_linux_cpu \<or> cal_target c = serve_darwin_metal"
    by (auto simp: cal_validate_None)
  then show ?thesis using assms by (auto simp: launch_args_def)
qed

lemma resolve_ctx_size_ge: "512 \<le> resolve_ctx_size env hint"
  by (simp add: resolve_ctx_size_def default_ctx_size_def split: option.split)

text \<open>How a GBNF reader takes a quoted literal: a backslash stands for the byte after it.\<close>

fun gbnf_body :: "string \<Rightarrow> (string \<times> string) option" where
  "gbnf_body [] = None"
| "gbnf_body (c # s) =
     (if c = CHR 0x22 then Some ([], s)
      else if c = CHR 0x5C then
        (case s of [] \<Rightarrow> None
         | d # t \<Rightarrow> if d = CHR 0x22 \<or> d = CHR 0x5C
                   then map_option (\<lambda>(x, r). (d # x, r)) (gbnf_body t) else None)
      else map_option (\<lambda>(x, r). (c # x, r)) (gbnf_body s))"

definition gbnf_read :: "string \<Rightarrow> (string \<times> string) option" where
  "gbnf_read s = (if has_prefix s [CHR 0x22] then gbnf_body (tl s) else None)"

lemma replace_char_Nil [simp]: "replace_char c n [] = []"
  by (simp add: replace_char_def)

lemma replace_char_Cons: "replace_char c n (x # s) = (if x = c then n else [x]) @ replace_char c n s"
  by (simp add: replace_char_def)

lemma gbnf_body_lit:
  "gbnf_body (replace_char CHR 0x22 [CHR 0x5C, CHR 0x22] (replace_char CHR 0x5C [CHR 0x5C, CHR 0x5C] s)
     @ [CHR 0x22] @ r) = Some (s, r)"
proof (induction s)
  case (Cons c s)
  then show ?case
    by (cases "c = CHR 0x22"; cases "c = CHR 0x5C") (simp_all add: replace_char_Cons)
qed simp

section \<open>Properties\<close>

lemma two_at:
  assumes "xs ! k = a" "xs ! Suc k = b" "Suc k < length xs"
  shows "\<exists>ys zs. xs = ys @ [a, b] @ zs"
proof (intro exI)
  show "xs = take k xs @ [a, b] @ drop (Suc (Suc k)) xs"
    using assms by (metis Cons_nth_drop_Suc Suc_lessD append_Cons append_Nil append_take_drop_id)
qed

text \<open>There is no launch command without a calibration or with one that does not validate; every
  other launch binds the server to 127.0.0.1 with the calibrated port last, and names the context
  window that the one resolver gives.\<close>

theorem launch_args_loopback:
  "case launch_args env cal of
     Inl e \<Rightarrow> (cal = None \<and> e = Uncalibrated) \<or> (\<exists>c. cal = Some c \<and> cal_validate c = Some e)
   | Inr xs \<Rightarrow> \<exists>c. cal = Some c \<and> cal_validate c = None \<and>
       drop (length xs - 4) xs = [''--host'', ''127.0.0.1'', ''--port'', show_int (cal_port c)] \<and>
       (\<exists>ys zs. xs = ys @ [''--ctx-size'', show_int (resolve_ctx_size env (cal_ctx_size c))] @ zs)"
proof (cases cal)
  case None
  then show ?thesis by (simp add: launch_args_def)
next
  case (Some c)
  show ?thesis
  proof (cases "cal_validate c")
    case (Some e)
    then show ?thesis using \<open>cal = Some c\<close> by (simp add: launch_args_def)
  next
    case ok: None
    then consider "cal_target c = serve_linux_cpu" | "cal_target c = serve_darwin_metal"
      by (auto simp: cal_validate_None)
    then show ?thesis
    proof cases
      case 1
      then show ?thesis using \<open>cal = Some c\<close> ok
        by (simp add: launch_args_def ctx_size_or_default_def del: append.simps) (rule two_at [of _ 14]; simp)
    next
      case 2
      then have "cal_target c \<noteq> serve_linux_cpu" by (simp add: serve_linux_cpu_def serve_darwin_metal_def)
      then show ?thesis using 2 \<open>cal = Some c\<close> ok
        by (simp add: launch_args_def ctx_size_or_default_def del: append.simps) (rule two_at [of _ 9]; simp)
    qed
  qed
qed

text \<open>The served context window is never below 512 tokens: it is the environment's value when
  that is a number of at least 512, else the hint when that is, else the default.\<close>

theorem resolve_ctx_size_spec:
  "512 \<le> resolve_ctx_size env hint \<and>
   resolve_ctx_size env hint =
     (if \<exists>n. env \<noteq> [] \<and> atoi env = Some n \<and> 512 \<le> n then the (atoi env)
      else if 512 \<le> hint then hint else 32768)"
  using resolve_ctx_size_ge [of env hint]
  by (cases "atoi env") (auto simp: resolve_ctx_size_def default_ctx_size_def)

text \<open>Reading a generated grammar literal back gives the literal's text, whatever bytes it holds,
  and leaves what follows it.\<close>

theorem gbnf_lit_roundtrip: "gbnf_read (gbnf_lit s @ rest) = Some (s, rest)"
  using gbnf_body_lit [of s rest] by (simp add: gbnf_read_def gbnf_lit_def)

end
