(* ===== verification/ServClient.thy ===== *)
theory ServClient
  imports Serving
begin

text \<open>
  The inference client of the serving package (\<open>client.go\<close>) and the health probe (\<open>serving.go\<close>).
  The server behind the endpoint is a function from requests and a state of its own to replies;
  a request carries the parsed URL of the endpoint and the path added to it, and a request that
  cannot be built counts as one that cannot be sent.  A reply is the status, the bytes of the
  body, whether reading them ended in an error, and the time the exchange took.
\<close>

section \<open>Messages\<close>

record message =
  ms_role :: string
  ms_content :: string

record chat_request =
  rq_model :: string
  rq_messages :: "message list"
  rq_stream :: bool
  rq_temperature :: real
  rq_max_tokens :: int
  rq_grammar :: string

record choice =
  ch_index :: int
  ch_message :: message
  ch_finish :: string

record usage =
  us_prompt :: int
  us_completion :: int
  us_total :: int

record chat_response =
  cr_id :: string
  cr_object :: string
  cr_created :: int
  cr_model :: string
  cr_choices :: "choice list"
  cr_usage :: usage
  cr_latency :: int

record chunk =
  ck_id :: string
  ck_object :: string
  ck_created :: int
  ck_model :: string
  ck_choices :: "choice list"

record model_info =
  mi_id :: string
  mi_digest :: string

definition zero_message :: message where
  "zero_message = \<lparr>ms_role = [], ms_content = []\<rparr>"

definition zero_choice :: choice where
  "zero_choice = \<lparr>ch_index = 0, ch_message = zero_message, ch_finish = []\<rparr>"

definition zero_response :: chat_response where
  "zero_response = \<lparr>cr_id = [], cr_object = [], cr_created = 0, cr_model = [], cr_choices = [],
     cr_usage = \<lparr>us_prompt = 0, us_completion = 0, us_total = 0\<rparr>, cr_latency = 0\<rparr>"

definition zero_chunk :: chunk where
  "zero_chunk = \<lparr>ck_id = [], ck_object = [], ck_created = 0, ck_model = [], ck_choices = []\<rparr>"

definition message_fields :: "message json_field list" where
  "message_fields =
     [(''role'', fld dec_string ms_role ms_role_update),
      (''content'', fld dec_string ms_content ms_content_update)]"

definition choice_fields :: "string \<Rightarrow> choice json_field list" where
  "choice_fields msg =
     [(''index'', fld dec_int ch_index ch_index_update),
      (msg, fld (dec_struct message_fields) ch_message ch_message_update),
      (''finish_reason'', fld dec_string ch_finish ch_finish_update)]"

definition usage_fields :: "usage json_field list" where
  "usage_fields =
     [(''prompt_tokens'', fld dec_int us_prompt us_prompt_update),
      (''completion_tokens'', fld dec_int us_completion us_completion_update),
      (''total_tokens'', fld dec_int us_total us_total_update)]"

definition response_fields :: "chat_response json_field list" where
  "response_fields =
     [(''id'', fld dec_string cr_id cr_id_update),
      (''object'', fld dec_string cr_object cr_object_update),
      (''created'', fld dec_int cr_created cr_created_update),
      (''model'', fld dec_string cr_model cr_model_update),
      (''choices'', fld (dec_list zero_choice (dec_struct (choice_fields ''message''))) cr_choices cr_choices_update),
      (''usage'', fld (dec_struct usage_fields) cr_usage cr_usage_update)]"

definition chunk_fields :: "chunk json_field list" where
  "chunk_fields =
     [(''id'', fld dec_string ck_id ck_id_update),
      (''object'', fld dec_string ck_object ck_object_update),
      (''created'', fld dec_int ck_created ck_created_update),
      (''model'', fld dec_string ck_model ck_model_update),
      (''choices'', fld (dec_list zero_choice (dec_struct (choice_fields ''delta''))) ck_choices ck_choices_update)]"

definition model_fields :: "model_info json_field list" where
  "model_fields =
     [(''id'', fld dec_string mi_id mi_id_update),
      (''digest'', fld dec_string mi_digest mi_digest_update)]"

section \<open>Requests and replies\<close>

datatype http_request =
    HttpGet url string
  | HttpPost url string chat_request

fun request_url :: "http_request \<Rightarrow> url" where
  "request_url (HttpGet u p) = u"
| "request_url (HttpPost u p r) = u"

record http_reply =
  hr_status :: int
  hr_status_text :: string
  hr_body :: string
  hr_read_error :: bool
  hr_elapsed :: int

text \<open>A server: \<open>None\<close> when the request fails to be sent or answered.\<close>

type_synonym 'w server = "http_request \<Rightarrow> 'w \<Rightarrow> http_reply option \<times> 'w"

datatype serv_err =
    BadEndpoint string
  | EndpointScheme string
  | NotLoopback string
  | RequestFailed string
  | ApiError int string string
  | DecodeFailed string
  | HealthStatus int
  | NoModelMatches string string "string list"
  | EmptyModelList
  | PreflightFailed serv_err
  | StreamCancelled
  | ChunkDecodeFailed
  | ChunkHandlerFailed
  | StreamReadFailed

section \<open>The client\<close>

definition new_client :: "string \<Rightarrow> serv_err + url" where
  "new_client endpoint =
     (case url_parse endpoint of
        None \<Rightarrow> Inl (BadEndpoint endpoint)
      | Some u \<Rightarrow>
          if url_scheme u \<noteq> ''http'' \<and> url_scheme u \<noteq> ''https'' then Inl (EndpointScheme endpoint)
          else if \<not> is_loopback_host (url_hostname u) then Inl (NotLoopback endpoint)
          else Inr u)"

definition serving_health :: "'w server \<Rightarrow> string \<Rightarrow> 'w \<Rightarrow> serv_err option \<times> 'w" where
  "serving_health srv endpoint w =
     (case url_parse endpoint of
        None \<Rightarrow> (Some (BadEndpoint endpoint), w)
      | Some u \<Rightarrow>
          if \<not> is_loopback_host (url_hostname u) then (Some (NotLoopback endpoint), w)
          else (case srv (HttpGet u ''/health'') w of
                  (None, w1) \<Rightarrow> (Some (RequestFailed ''/health''), w1)
                | (Some r, w1) \<Rightarrow>
                    (if hr_status r \<noteq> 200 then Some (HealthStatus (hr_status r)) else None, w1)))"

definition check_status :: "http_reply \<Rightarrow> serv_err option" where
  "check_status r =
     (if 200 \<le> hr_status r \<and> hr_status r < 300 then None
      else Some (ApiError (hr_status r) (hr_status_text r) (trim_space (take (64 * 1024) (hr_body r)))))"

definition post :: "'w server \<Rightarrow> url \<Rightarrow> string \<Rightarrow> chat_request \<Rightarrow> 'w \<Rightarrow> (serv_err + http_reply) \<times> 'w" where
  "post srv base path body w =
     (case srv (HttpPost base path body) w of
        (None, w1) \<Rightarrow> (Inl (RequestFailed path), w1)
      | (Some r, w1) \<Rightarrow> (Inr r, w1))"

definition completions_path :: string where "completions_path = ''/v1/chat/completions''"

definition chat_completion ::
  "'w server \<Rightarrow> url \<Rightarrow> chat_request \<Rightarrow> 'w \<Rightarrow> (serv_err + chat_response) \<times> 'w" where
  "chat_completion srv base req w =
     (case post srv base completions_path (req\<lparr>rq_stream := False\<rparr>) w of
        (Inl e, w1) \<Rightarrow> (Inl e, w1)
      | (Inr r, w1) \<Rightarrow>
          (case check_status r of
             Some e \<Rightarrow> (Inl e, w1)
           | None \<Rightarrow>
               (case decode_first (dec_struct response_fields) zero_response (hr_body r) of
                  None \<Rightarrow> (Inl (DecodeFailed completions_path), w1)
                | Some out \<Rightarrow> (Inr (out\<lparr>cr_latency := hr_elapsed r\<rparr>), w1))))"

text \<open>A GET whose body is decoded; the three read-only calls share it.\<close>

definition get_decoded ::
  "'w server \<Rightarrow> url \<Rightarrow> string \<Rightarrow> ('a \<Rightarrow> json \<Rightarrow> 'a option) \<Rightarrow> 'a \<Rightarrow> 'w \<Rightarrow> (serv_err + 'a) \<times> 'w" where
  "get_decoded srv base path dec zero w =
     (case srv (HttpGet base path) w of
        (None, w1) \<Rightarrow> (Inl (RequestFailed path), w1)
      | (Some r, w1) \<Rightarrow>
          (case check_status r of
             Some e \<Rightarrow> (Inl e, w1)
           | None \<Rightarrow>
               (case decode_first dec zero (hr_body r) of
                  None \<Rightarrow> (Inl (DecodeFailed path), w1)
                | Some x \<Rightarrow> (Inr x, w1))))"

definition models :: "'w server \<Rightarrow> url \<Rightarrow> 'w \<Rightarrow> (serv_err + model_info list) \<times> 'w" where
  "models srv base w =
     get_decoded srv base ''/v1/models''
       (dec_struct [(''data'',
          \<lambda>old j. dec_list \<lparr>mi_id = [], mi_digest = []\<rparr> (dec_struct model_fields) old j)]) [] w"

record props_ctx =
  px_n_ctx :: int
  px_default :: int

definition props_fields :: "props_ctx json_field list" where
  "props_fields =
     [(''n_ctx'', fld dec_int px_n_ctx px_n_ctx_update),
      (''default_generation_settings'',
         fld (\<lambda>old j. dec_struct [(''n_ctx'', dec_int)] old j) px_default px_default_update)]"

definition served_ctx_size :: "'w server \<Rightarrow> url \<Rightarrow> 'w \<Rightarrow> (serv_err + int) \<times> 'w" where
  "served_ctx_size srv base w =
     (case get_decoded srv base ''/props'' (dec_struct props_fields) \<lparr>px_n_ctx = 0, px_default = 0\<rparr> w of
        (Inl e, w1) \<Rightarrow> (Inl e, w1)
      | (Inr p, w1) \<Rightarrow> (Inr (if px_n_ctx p > 0 then px_n_ctx p else px_default p), w1))"

definition first_model :: "'w server \<Rightarrow> url \<Rightarrow> 'w \<Rightarrow> (serv_err + model_info) \<times> 'w" where
  "first_model srv base w =
     (case models srv base w of
        (Inl e, w1) \<Rightarrow> (Inl e, w1)
      | (Inr [], w1) \<Rightarrow> (Inl EmptyModelList, w1)
      | (Inr (m # ms), w1) \<Rightarrow> (Inr m, w1))"

definition check_model ::
  "'w server \<Rightarrow> url \<Rightarrow> string \<Rightarrow> string \<Rightarrow> 'w \<Rightarrow> serv_err option \<times> 'w" where
  "check_model srv base want_id want_digest w =
     (if want_id = [] \<and> want_digest = [] then (None, w)
      else case models srv base w of
        (Inl e, w1) \<Rightarrow> (Some e, w1)
      | (Inr ms, w1) \<Rightarrow>
          if list_ex (\<lambda>m. (want_id = [] \<or> mi_id m = want_id) \<and>
                          (want_digest = [] \<or> mi_digest m = want_digest)) ms
          then (None, w1)
          else (Some (NoModelMatches want_id want_digest (map mi_id ms)), w1))"

definition user_message :: "string \<Rightarrow> message" where
  "user_message t = \<lparr>ms_role = ''user'', ms_content = t\<rparr>"

definition plain_request :: "string \<Rightarrow> message list \<Rightarrow> int \<Rightarrow> chat_request" where
  "plain_request m ms n = \<lparr>rq_model = m, rq_messages = ms, rq_stream = False, rq_temperature = 0,
     rq_max_tokens = n, rq_grammar = []\<rparr>"

definition preflight_smoke :: "'w server \<Rightarrow> url \<Rightarrow> string \<Rightarrow> 'w \<Rightarrow> serv_err option \<times> 'w" where
  "preflight_smoke srv base model w =
     (case chat_completion srv base
             (plain_request (if model = [] then ''default'' else model) [user_message ''ping''] 1) w of
        (Inl e, w1) \<Rightarrow> (Some (PreflightFailed e), w1)
      | (Inr _, w1) \<Rightarrow> (None, w1))"

section \<open>Streaming\<close>

text \<open>
  The line loop: \<open>cancelled k\<close> is whether the context is done when line \<open>k\<close> has been read, the
  handler's boolean whether it succeeded.  The third result tells whether the loop ran out of lines.
\<close>

fun stream_lines ::
  "(nat \<Rightarrow> bool) \<Rightarrow> (chunk \<Rightarrow> 'h \<Rightarrow> bool \<times> 'h) \<Rightarrow> nat \<Rightarrow> string list \<Rightarrow> 'h \<Rightarrow> serv_err option \<times> 'h \<times> bool"
where
  "stream_lines cancelled handle k [] h = (None, h, True)"
| "stream_lines cancelled handle k (l # ls) h =
     (if cancelled k then (Some StreamCancelled, h, False)
      else if \<not> has_prefix l ''data:'' then stream_lines cancelled handle (Suc k) ls h
      else let d = trim_space (trim_prefix l ''data:'')
           in if d = [] then stream_lines cancelled handle (Suc k) ls h
              else if d = ''[DONE]'' then (None, h, False)
              else (case unmarshal (dec_struct chunk_fields) zero_chunk d of
                      None \<Rightarrow> (Some ChunkDecodeFailed, h, False)
                    | Some c \<Rightarrow>
                        (case handle c h of
                           (False, h1) \<Rightarrow> (Some ChunkHandlerFailed, h1, False)
                         | (True, h1) \<Rightarrow> stream_lines cancelled handle (Suc k) ls h1)))"

definition chat_completion_stream ::
  "'w server \<Rightarrow> url \<Rightarrow> (nat \<Rightarrow> bool) \<Rightarrow> (chunk \<Rightarrow> 'h \<Rightarrow> bool \<times> 'h) \<Rightarrow> chat_request \<Rightarrow> 'h \<Rightarrow> 'w
     \<Rightarrow> serv_err option \<times> 'h \<times> 'w" where
  "chat_completion_stream srv base cancelled handle req h w =
     (case post srv base completions_path (req\<lparr>rq_stream := True\<rparr>) w of
        (Inl e, w1) \<Rightarrow> (Some e, h, w1)
      | (Inr r, w1) \<Rightarrow>
          (case check_status r of
             Some e \<Rightarrow> (Some e, h, w1)
           | None \<Rightarrow>
               let (ls, long) = scan_lines (1024 * 1024) (hr_body r)
               in (case stream_lines cancelled handle 0 ls h of
                     (e, h1, ended) \<Rightarrow>
                       if ended \<and> (long \<or> hr_read_error r) then
                         (Some (if cancelled (length ls) then StreamCancelled else StreamReadFailed), h1, w1)
                       else (e, h1, w1))))"

section \<open>Facts\<close>

text \<open>A server that records the requests it gets: what the client sends, whatever it answers.\<close>

definition logged :: "'w server \<Rightarrow> ('w \<times> http_request list) server" where
  "logged srv req = (\<lambda>(w, l). case srv req w of (r, w1) \<Rightarrow> (r, w1, l @ [req]))"

lemma new_client_Inr:
  "new_client e = Inr u \<longleftrightarrow>
     url_parse e = Some u \<and> (url_scheme u = ''http'' \<or> url_scheme u = ''https'') \<and>
     is_loopback_host (url_hostname u)"
  by (auto simp: new_client_def split: option.splits)

lemma logged_simp [simp]:
  "logged srv req (w, l) = (fst (srv req w), snd (srv req w), l @ [req])"
  by (simp add: logged_def split: prod.split)

lemma chat_completion_log:
  "snd (snd (chat_completion (logged srv) base req (w, l))) =
     l @ [HttpPost base completions_path (req\<lparr>rq_stream := False\<rparr>)]"
  by (auto simp: chat_completion_def post_def split: prod.splits option.splits sum.splits)

lemma get_decoded_log:
  "snd (snd (get_decoded (logged srv) base p dec z (w, l))) = l @ [HttpGet base p]"
  by (auto simp: get_decoded_def split: prod.splits option.splits)

lemma serving_health_log:
  "serving_health (logged srv) e (w, l) = (x, (w1, l1)) \<Longrightarrow>
     l1 = l \<or> (\<exists>u. url_parse e = Some u \<and> is_loopback_host (url_hostname u) \<and> l1 = l @ [HttpGet u ''/health''])"
  by (auto simp: serving_health_def split: option.splits if_splits prod.splits)

text \<open>Any sequence of calls on a client, on any server, with the requests they send.\<close>

inductive client_run :: "'w server \<Rightarrow> url \<Rightarrow> 'w \<times> http_request list \<Rightarrow> 'w \<times> http_request list \<Rightarrow> bool"
  for srv base where
  run_done: "client_run srv base s s"
| run_chat: "client_run srv base s s1 \<Longrightarrow> client_run srv base s (snd (chat_completion (logged srv) base req s1))"
| run_models: "client_run srv base s s1 \<Longrightarrow> client_run srv base s (snd (models (logged srv) base s1))"
| run_props: "client_run srv base s s1 \<Longrightarrow> client_run srv base s (snd (served_ctx_size (logged srv) base s1))"
| run_first: "client_run srv base s s1 \<Longrightarrow> client_run srv base s (snd (first_model (logged srv) base s1))"
| run_check: "client_run srv base s s1 \<Longrightarrow> client_run srv base s (snd (check_model (logged srv) base i d s1))"
| run_preflight: "client_run srv base s s1 \<Longrightarrow> client_run srv base s (snd (preflight_smoke (logged srv) base m s1))"
| run_stream: "client_run srv base s s1 \<Longrightarrow>
    client_run srv base s (snd (snd (chat_completion_stream (logged srv) base cc hd' req () s1)))"

inductive_cases client_runE: "client_run srv base s s'"

lemma models_log: "snd (snd (models (logged srv) base (w, l))) = l @ [HttpGet base ''/v1/models'']"
  unfolding models_def by (rule get_decoded_log)

lemma first_model_log: "snd (snd (first_model (logged srv) base (w, l))) = l @ [HttpGet base ''/v1/models'']"
  using models_log [of srv base w l]
  by (auto simp: first_model_def split: prod.splits sum.splits list.splits)

lemma served_ctx_log: "snd (snd (served_ctx_size (logged srv) base (w, l))) = l @ [HttpGet base ''/props'']"
  using get_decoded_log [of srv base "''/props''" "dec_struct props_fields" "\<lparr>px_n_ctx = 0, px_default = 0\<rparr>" w l]
  by (auto simp: served_ctx_size_def split: prod.splits sum.splits)

lemma check_model_log:
  "snd (snd (check_model (logged srv) base i d (w, l))) =
     (if i = [] \<and> d = [] then l else l @ [HttpGet base ''/v1/models''])"
  using models_log [of srv base w l]
  by (auto simp: check_model_def split: prod.splits sum.splits)

lemma preflight_log:
  "\<exists>r. snd (snd (preflight_smoke (logged srv) base m (w, l))) = l @ [HttpPost base completions_path r]"
  using chat_completion_log [of srv base "plain_request (if m = [] then ''default'' else m) [user_message ''ping''] 1" w l]
  by (auto simp: preflight_smoke_def split: prod.splits sum.splits)

lemma stream_log:
  "snd (snd (snd (chat_completion_stream (logged srv) base cc hd' req h (w, l)))) =
     l @ [HttpPost base completions_path (req\<lparr>rq_stream := True\<rparr>)]"
  by (auto simp: chat_completion_stream_def post_def Let_def split: prod.splits option.splits sum.splits)

lemmas client_logs = chat_completion_log models_log first_model_log served_ctx_log check_model_log stream_log

lemma client_run_base:
  assumes "client_run srv base s s'" "\<forall>r \<in> set (snd s). request_url r = base"
  shows "\<forall>r \<in> set (snd s'). request_url r = base"
  using assms
proof (induction rule: client_run.induct)
  case (run_preflight s s1 m)
  obtain w l where s1: "s1 = (w, l)" by (cases s1)
  obtain r where "snd (snd (preflight_smoke (logged srv) base m (w, l))) = l @ [HttpPost base completions_path r]"
    using preflight_log [of srv base m w l] ..
  with run_preflight s1 show ?case by simp
next
  case (run_check s s1 i d)
  then show ?case by (cases s1) (simp add: check_model_log)
qed (simp, (case_tac s1, simp add: client_logs)+)

section \<open>Properties\<close>


definition local_url :: url where
  "local_url = \<lparr>url_scheme = ''http'', url_host = ''localhost:8080'', url_path = [], url_opaque = []\<rparr>"


text \<open>The model gate passes exactly when no model is asked for, or when the server lists a model
  that matches every expectation that is set; otherwise it reports an error.\<close>

theorem check_model_gate:
  "fst (check_model srv base want_id want_digest w) = None \<longleftrightarrow>
     (want_id = [] \<and> want_digest = []) \<or>
     (\<exists>ms m. fst (models srv base w) = Inr ms \<and> m \<in> set ms \<and>
        (want_id = [] \<or> mi_id m = want_id) \<and> (want_digest = [] \<or> mi_digest m = want_digest))"
  by (cases "models srv base w"; cases "fst (models srv base w)")
    (auto simp: check_model_def list_ex_iff)

text \<open>The payloads of a stream: the data of its data lines up to the end mark.\<close>

definition line_data :: "string \<Rightarrow> string option" where
  "line_data l =
     (if has_prefix l ''data:'' \<and> trim_space (trim_prefix l ''data:'') \<noteq> []
      then Some (trim_space (trim_prefix l ''data:'')) else None)"

definition payloads :: "string list \<Rightarrow> string list" where
  "payloads ls = takeWhile (\<lambda>d. d \<noteq> ''[DONE]'') (List.map_filter line_data ls)"

definition collect_chunk :: "chunk \<Rightarrow> chunk list \<Rightarrow> bool \<times> chunk list" where
  "collect_chunk c cs = (True, cs @ [c])"

lemma payloads_Cons:
  "payloads (l # ls) =
     (case line_data l of None \<Rightarrow> payloads ls
      | Some d \<Rightarrow> if d = ''[DONE]'' then [] else d # payloads ls)"
  by (simp add: payloads_def map_filter_simps split: option.split)

text \<open>C14: a stream that is neither cancelled nor refused by its handler hands over, in order, exactly
  the chunks of its data lines before the end mark, and then succeeds.\<close>

theorem stream_delivers_payloads:
  assumes "map (unmarshal (dec_struct chunk_fields) zero_chunk) (payloads ls) = map Some cs"
  shows "\<exists>ended. stream_lines (\<lambda>_. False) collect_chunk k ls h = (None, h @ cs, ended)"
  using assms
proof (induction ls arbitrary: k h cs)
  case Nil
  then have "cs = []" by (simp add: payloads_def map_filter_simps)
  then show ?case by (intro exI [of _ True]) simp
next
  case (Cons l ls)
  show ?case
  proof (cases "line_data l")
    case None
    then have "payloads (l # ls) = payloads ls" by (simp add: payloads_Cons)
    with Cons.prems have "map (unmarshal (dec_struct chunk_fields) zero_chunk) (payloads ls) = map Some cs" by simp
    from Cons.IH [OF this, of "Suc k" h] None show ?thesis
      by (auto simp: line_data_def Let_def split: if_splits)
  next
    case (Some d)
    then have d: "has_prefix l ''data:''" "trim_space (trim_prefix l ''data:'') = d" "d \<noteq> []"
      by (auto simp: line_data_def split: if_splits)
    show ?thesis
    proof (cases "d = ''[DONE]''")
      case True
      with Some Cons.prems have "cs = []" by (simp add: payloads_Cons)
      with d True show ?thesis by (intro exI [of _ False]) (simp add: Let_def)
    next
      case False
      with Some Cons.prems obtain c cs' where c: "unmarshal (dec_struct chunk_fields) zero_chunk d = Some c"
        "map (unmarshal (dec_struct chunk_fields) zero_chunk) (payloads ls) = map Some cs'" "cs = c # cs'"
        by (cases cs) (auto simp: payloads_Cons)
      from Cons.IH [OF c(2), of "Suc k" "h @ [c]"] show ?thesis
        using d False c by (simp add: collect_chunk_def Let_def)
    qed
  qed
qed

definition sample_stream :: "string list" where
  \<open>sample_stream = [''data: {"id": "a"}'', ''event: x'', ''data:{"id":"b"}'', ''data: [DONE]'', ''data: {'']\<close>

theorem stream_delivers_payloads_witness:
  "\<exists>ended. stream_lines (\<lambda>_. False) collect_chunk 0 sample_stream [] =
     (None, [] @ [zero_chunk\<lparr>ck_id := ''a''\<rparr>, zero_chunk\<lparr>ck_id := ''b''\<rparr>], ended)"
  by (rule stream_delivers_payloads) code_simp

end
