(* ===== verification/HarnessServing.thy ===== *)
theory HarnessServing
  imports ServClient Adapter
begin

text \<open>
  The built-in harness, \<open>internal/harness/serving/serving.go\<close>: prompt the local model for file
  blocks, parse them, refuse paths outside the workspace, write the files, run the acceptance
  test and roll back when anything fails.  The state is that of the model server and of the
  files; the acceptance test is a function of the workspace, the requirement and the files,
  which it may change.  Symbolic links are not modelled, nor is the removal of an empty directory
  that stands at the path of a file to be rolled back.
\<close>

section \<open>File blocks\<close>

record file_edit =
  fe_path :: string
  fe_content :: string

datatype parse_err = MissingPath | Unterminated string | NoEdits

definition fence :: string where "fence = ''```''"
definition file_fence :: string where "file_fence = ''```file''"

text \<open>The body of a block up to its closing fence, and the lines after the fence.\<close>

fun collect_body :: "string list \<Rightarrow> (string list \<times> string list) option" where
  "collect_body [] = None"
| "collect_body (l # ls) =
     (if trim_space (trim_right_char CHR 0x0D l) = fence then Some ([], ls)
      else map_option (\<lambda>(b, r). (l # b, r)) (collect_body ls))"

lemma collect_body_length: "collect_body ls = Some (b, r) \<Longrightarrow> length r < length ls"
  by (induction ls arbitrary: b r) (auto split: if_splits simp: less_Suc_eq)

definition body_text :: "string list \<Rightarrow> string" where
  "body_text b = join [CHR 0x0A] b @ (if b = [] then [] else [CHR 0x0A])"

function parse_blocks :: "string list \<Rightarrow> parse_err + file_edit list" where
  "parse_blocks [] = Inr []"
| "parse_blocks (l # ls) =
     (let t = trim_space (trim_right_char CHR 0x0D l)
      in if \<not> has_prefix t file_fence then parse_blocks ls
         else
           let path = trim_space (trim_prefix t file_fence)
           in if path = [] then Inl MissingPath
              else (case collect_body ls of
                      None \<Rightarrow> Inl (Unterminated path)
                    | Some (b, r) \<Rightarrow>
                        (case parse_blocks r of
                           Inl e \<Rightarrow> Inl e
                         | Inr es \<Rightarrow> Inr (\<lparr>fe_path = path, fe_content = body_text b\<rparr> # es))))"
  by pat_completeness auto
termination
  by (relation "measure length") (auto dest!: collect_body_length)

definition parse_edits :: "string \<Rightarrow> parse_err + file_edit list" where
  "parse_edits content =
     (case parse_blocks (split_on CHR 0x0A content) of
        Inl e \<Rightarrow> Inl e
      | Inr es \<Rightarrow> if es = [] then Inl NoEdits else Inr es)"

section \<open>The workspace sandbox\<close>

datatype path_err = AbsolutePath string | EscapesWorkspace string

definition edit_target :: "string \<Rightarrow> string \<Rightarrow> string" where
  "edit_target ws p = path_join [ws, path_clean p]"

definition safe_path :: "string \<Rightarrow> string \<Rightarrow> path_err option" where
  "safe_path ws p =
     (if is_abs p then Some (AbsolutePath p)
      else case path_rel ws (edit_target ws p) of
        None \<Rightarrow> Some (EscapesWorkspace p)
      | Some rel \<Rightarrow> if rel = ''..'' \<or> has_prefix rel ''../'' then Some (EscapesWorkspace p) else None)"

section \<open>Apply and roll back\<close>

record prior_file =
  pf_path :: string
  pf_existed :: bool
  pf_content :: string

definition prior_of :: "string \<Rightarrow> fs \<Rightarrow> prior_file" where
  "prior_of p f =
     (case fs_read p f of
        Some b \<Rightarrow> \<lparr>pf_path = p, pf_existed = True, pf_content = b\<rparr>
      | None \<Rightarrow> \<lparr>pf_path = p, pf_existed = False, pf_content = []\<rparr>)"

text \<open>The snapshot, whether every write succeeded, and the files.\<close>

fun apply_edits :: "string \<Rightarrow> file_edit list \<Rightarrow> fs \<Rightarrow> prior_file list \<times> bool \<times> fs" where
  "apply_edits ws [] f = ([], True, f)"
| "apply_edits ws (e # es) f =
     (let p = edit_target ws (fe_path e); pf = prior_of p f
      in case fs_mkdir_all (path_dir p) f of
           (False, f1) \<Rightarrow> ([pf], False, f1)
         | (True, f1) \<Rightarrow>
             (case fs_write p (fe_content e) f1 of
                (False, f2) \<Rightarrow> ([pf], False, f2)
              | (True, f2) \<Rightarrow>
                  (case apply_edits ws es f2 of (pfs, ok, f3) \<Rightarrow> (pf # pfs, ok, f3))))"

definition restore :: "prior_file \<Rightarrow> fs \<Rightarrow> fs" where
  "restore pf f =
     (if pf_existed pf then snd (fs_write (pf_path pf) (pf_content pf) f)
      else snd (fs_remove (pf_path pf) f))"

text \<open>Newest first, as the loop counts down.\<close>

definition undo :: "prior_file list \<Rightarrow> fs \<Rightarrow> fs" where
  "undo pfs f = foldr restore pfs f"

definition render_patch :: "file_edit list \<Rightarrow> string" where
  "render_patch es =
     concat (map (\<lambda>e. ''--- a/'' @ fe_path e @ [CHR 0x0A] @ ''+++ b/'' @ fe_path e @ [CHR 0x0A]) es)"

section \<open>Prompts\<close>

definition em_dash :: string where
  "em_dash = [CHR 0xE2, CHR 0x80, CHR 0x94]"

definition system_prompt :: string where
  \<open>system_prompt =
     ''You are a disciplined implementer. Make the minimal change to satisfy the requirement and its acceptance test. Reply with ONLY one or more file blocks '' @ em_dash @
     '' no prose, no explanation, no markdown fences other than the file blocks. Each block is exactly:'' @ [CHR 0x0A] @
     ''```file <relative/path>'' @ [CHR 0x0A] @ ''<full file contents>'' @ [CHR 0x0A] @ ''```'' @ [CHR 0x0A] @
     ''For example, to create greet.go you would reply with exactly:'' @ [CHR 0x0A] @
     ''```file greet.go'' @ [CHR 0x0A] @ ''package demo'' @ [CHR 0x0A, CHR 0x0A] @
     ''func Greet() string { return "hello" }'' @ [CHR 0x0A] @ ''```'' @ [CHR 0x0A] @
     ''Output nothing except file blocks.''\<close>

definition build_prompt :: "requirement \<Rightarrow> string" where
  "build_prompt r =
     ''Requirement '' @ rq_id r @ '': '' @ rq_title r @ [CHR 0x0A] @
     (if rq_tests r \<noteq> [] then ''Acceptance tests: '' @ join '', '' (rq_tests r) @ [CHR 0x0A] else []) @
     ''Implement the minimal change so the acceptance test passes.''"

definition drive_prompt :: "requirement \<Rightarrow> string \<Rightarrow> string" where
  "drive_prompt r feedback =
     (if feedback = [] then build_prompt r
      else ''The previous attempt did not pass the acceptance test. Test output:'' @ [CHR 0x0A] @ feedback @
           [CHR 0x0A, CHR 0x0A] @ ''Fix the cause, then re-implement.'' @ [CHR 0x0A, CHR 0x0A] @ build_prompt r)"

section \<open>The adapter\<close>

text \<open>A test run: whether it passed, or that it could not be run; and the files after it.\<close>

datatype test_result = TestPassed | TestFailed | TestError

type_synonym test_runner = "string \<Rightarrow> requirement \<Rightarrow> fs \<Rightarrow> test_result \<times> fs"

record serving_adapter =
  sa_base :: url
  sa_model :: string
  sa_workspace :: string
  sa_run_test :: test_runner
  sa_max_parse_retries :: int

record 'w drive_state =
  dv_world :: 'w
  dv_fs :: fs

datatype drive_err =
    CompletionFailed serv_err
  | Unparseable parse_err
  | RefusedPath path_err
  | ApplyFailed
  | TestNotRun
  | AcceptanceFailed

text \<open>How \<open>go test\<close> in the workspace ends, as \<open>os/exec\<close> reports it.\<close>

datatype exec_result = ExitZero | ExitNonZero | ExecFailed

definition default_test_runner :: "(string \<Rightarrow> string list \<Rightarrow> fs \<Rightarrow> exec_result \<times> fs) \<Rightarrow> test_runner" where
  "default_test_runner exec ws r f =
     (case exec ws [''go'', ''test'', ''./...''] f of
        (ExitZero, f1) \<Rightarrow> (TestPassed, f1)
      | (ExitNonZero, f1) \<Rightarrow> (TestFailed, f1)
      | (ExecFailed, f1) \<Rightarrow> (TestError, f1))"

definition new_serving_adapter :: "string \<Rightarrow> test_runner \<Rightarrow> serv_err + serving_adapter" where
  "new_serving_adapter endpoint runner =
     (case new_client endpoint of
        Inl e \<Rightarrow> Inl e
      | Inr u \<Rightarrow> Inr \<lparr>sa_base = u, sa_model = ''local'', sa_workspace = ''.'', sa_run_test = runner,
                   sa_max_parse_retries = 2\<rparr>)"

definition serving_adapter_health ::
  "'w server \<Rightarrow> serving_adapter \<Rightarrow> 'w drive_state \<Rightarrow> serv_err option \<times> 'w drive_state" where
  "serving_adapter_health srv a s =
     (case first_model srv (sa_base a) (dv_world s) of
        (Inl e, w) \<Rightarrow> (Some e, s\<lparr>dv_world := w\<rparr>)
      | (Inr _, w) \<Rightarrow> (None, s\<lparr>dv_world := w\<rparr>))"

definition first_content :: "chat_response \<Rightarrow> string" where
  "first_content r = (case cr_choices r of [] \<Rightarrow> [] | c # _ \<Rightarrow> ms_content (ch_message c))"

text \<open>
  The attempt loop, with the number of attempts left and the last parse result: it ends with a
  completion error or with the edits (none when no attempt is made) or the last parse error.
\<close>

fun parse_loop ::
  "'w server \<Rightarrow> serving_adapter \<Rightarrow> chat_request \<Rightarrow> nat \<Rightarrow> parse_err + file_edit list \<Rightarrow> diff \<Rightarrow> 'w
     \<Rightarrow> (serv_err + (parse_err + file_edit list)) \<times> diff \<times> 'w" where
  "parse_loop srv a req 0 res d w = (Inr res, d, w)"
| "parse_loop srv a req (Suc n) res d w =
     (case chat_completion srv (sa_base a) req w of
        (Inl e, w1) \<Rightarrow> (Inl e, d, w1)
      | (Inr resp, w1) \<Rightarrow>
          let content = first_content resp;
              d1 = d\<lparr>df_turns := df_turns d + 1, df_tool_calls := df_tool_calls d + 1,
                     df_tokens := df_tokens d + int (length content)\<rparr>
          in (case parse_edits content of
                Inr es \<Rightarrow> (Inr (Inr es), d1\<lparr>df_valid_calls := df_valid_calls d1 + 1\<rparr>, w1)
              | Inl pe \<Rightarrow> parse_loop srv a req n (Inl pe) d1 w1))"

definition drive_request :: "serving_adapter \<Rightarrow> requirement \<Rightarrow> string \<Rightarrow> chat_request" where
  "drive_request a r feedback =
     plain_request (sa_model a)
       [\<lparr>ms_role = ''system'', ms_content = system_prompt\<rparr>, user_message (drive_prompt r feedback)] 0"

text \<open>The part of \<open>Drive\<close> after the parse: sandbox, apply, test, roll back.\<close>

definition apply_and_test ::
  "serving_adapter \<Rightarrow> requirement \<Rightarrow> file_edit list \<Rightarrow> fs \<Rightarrow> drive_err option \<times> fs" where
  "apply_and_test a r es f =
     (case List.map_filter (\<lambda>e. safe_path (sa_workspace a) (fe_path e)) es of
        pe # _ \<Rightarrow> (Some (RefusedPath pe), f)
      | [] \<Rightarrow>
          (case apply_edits (sa_workspace a) es f of
             (snap, False, f1) \<Rightarrow> (Some ApplyFailed, undo snap f1)
           | (snap, True, f1) \<Rightarrow>
               (case sa_run_test a (sa_workspace a) r f1 of
                  (TestError, f2) \<Rightarrow> (Some TestNotRun, undo snap f2)
                | (TestFailed, f2) \<Rightarrow> (Some AcceptanceFailed, undo snap f2)
                | (TestPassed, f2) \<Rightarrow> (None, f2))))"

definition serving_drive ::
  "'w server \<Rightarrow> serving_adapter \<Rightarrow> requirement \<Rightarrow> string \<Rightarrow> 'w drive_state
     \<Rightarrow> (diff \<times> drive_err option) \<times> 'w drive_state" where
  "serving_drive srv a r feedback s =
     (case parse_loop srv a (drive_request a r feedback) (nat (sa_max_parse_retries a + 1)) (Inr [])
             (empty_diff (rq_id r)) (dv_world s) of
        (Inl e, d, w) \<Rightarrow> ((d, Some (CompletionFailed e)), s\<lparr>dv_world := w\<rparr>)
      | (Inr (Inl pe), d, w) \<Rightarrow> ((d, Some (Unparseable pe)), s\<lparr>dv_world := w\<rparr>)
      | (Inr (Inr es), d, w) \<Rightarrow>
          (case apply_and_test a r es (dv_fs s) of
             (Some e, f) \<Rightarrow> ((d, Some e), s\<lparr>dv_world := w, dv_fs := f\<rparr>)
           | (None, f) \<Rightarrow> ((d\<lparr>df_patch := render_patch es\<rparr>, None), s\<lparr>dv_world := w, dv_fs := f\<rparr>)))"

section \<open>Facts about the attempt loop\<close>

lemma parse_loop_diff:
  "parse_loop srv a req n res d w = (x, d', w') \<Longrightarrow> diff_ok d \<Longrightarrow>
     diff_ok d' \<and> df_req d' = df_req d \<and> df_turns d' \<le> df_turns d + int n"
proof (induction n arbitrary: res d w)
  case (Suc n)
  obtain c w1 where c: "chat_completion srv (sa_base a) req w = (c, w1)"
    by (cases "chat_completion srv (sa_base a) req w")
  show ?case
  proof (cases c)
    case (Inl e)
    with Suc.prems c show ?thesis by simp
  next
    case (Inr resp)
    let ?d = "d\<lparr>df_turns := df_turns d + 1, df_tool_calls := df_tool_calls d + 1,
      df_tokens := df_tokens d + int (length (first_content resp))\<rparr>"
    have ok: "diff_ok ?d" using Suc.prems(2) by (simp add: diff_ok_def)
    show ?thesis
    proof (cases "parse_edits (first_content resp)")
      case (Inl pe)
      with Suc.prems(1) c Inr have "parse_loop srv a req n (Inl pe) ?d w1 = (x, d', w')"
        by (simp add: Let_def)
      from Suc.IH [OF this ok] show ?thesis by simp
    next
      case (Inr es)
      with Suc.prems c \<open>c = Inr resp\<close> show ?thesis by (auto simp: Let_def diff_ok_def)
    qed
  qed
qed simp

lemma serving_drive_diff:
  assumes "serving_drive srv a r fb s = ((d, err), s')"
  shows "df_req d = rq_id r \<and> diff_ok d \<and> df_turns d \<le> int (nat (sa_max_parse_retries a + 1))"
proof -
  obtain x d0 w where p: "parse_loop srv a (drive_request a r fb) (nat (sa_max_parse_retries a + 1)) (Inr [])
      (empty_diff (rq_id r)) (dv_world s) = (x, d0, w)"
    by (cases "parse_loop srv a (drive_request a r fb) (nat (sa_max_parse_retries a + 1)) (Inr [])
      (empty_diff (rq_id r)) (dv_world s)")
  have d0: "diff_ok d0 \<and> df_req d0 = rq_id r \<and> df_turns d0 \<le> int (nat (sa_max_parse_retries a + 1))"
    using parse_loop_diff [OF p] by (simp add: empty_diff_def diff_ok_def)
  have "\<exists>q. d = d0\<lparr>df_patch := q\<rparr>"
  proof (cases x)
    case (Inl e)
    then show ?thesis using assms p by (intro exI [of _ "df_patch d"]) (simp add: serving_drive_def)
  next
    case (Inr y)
    show ?thesis
    proof (cases y)
      case (Inl e)
      then show ?thesis using assms p Inr by (intro exI [of _ "df_patch d"]) (simp add: serving_drive_def)
    next
      case es: (Inr es)
      obtain e f where "apply_and_test a r es (dv_fs s) = (e, f)" by (cases "apply_and_test a r es (dv_fs s)")
      then show ?thesis using assms p Inr es
        by (intro exI [of _ "df_patch d"]) (cases e; auto simp: serving_drive_def)
    qed
  qed
  then show ?thesis using d0 by (auto simp: diff_ok_def)
qed

definition serving_call ::
  "'w server \<Rightarrow> serving_adapter \<Rightarrow> requirement \<Rightarrow> string \<Rightarrow> 'w drive_state \<Rightarrow> (diff \<times> bool) \<times> 'w drive_state" where
  "serving_call srv a r fb s = (case serving_drive srv a r fb s of ((d, e), s') \<Rightarrow> ((d, e \<noteq> None), s'))"

interpretation serving_ad: adapter "serving_call srv a" "\<lambda>_. True" for srv a
  by unfold_locales (auto simp: serving_call_def split: prod.splits dest: serving_drive_diff)

section \<open>Facts about the sandbox\<close>

text \<open>A path below the workspace: the workspace's elements, then elements that do not climb.\<close>

definition inside :: "string \<Rightarrow> string \<Rightarrow> bool" where
  "inside ws p \<longleftrightarrow> is_abs p = is_abs ws \<and>
     (\<exists>rest. path_elems p = path_elems ws @ rest \<and> (rest = [] \<or> hd rest \<noteq> ''..''))"

lemma is_abs_clean [simp]: "is_abs (path_clean p) = is_abs p"
proof (cases "is_abs p")
  case True
  then show ?thesis by (simp add: path_clean_def path_of_elems_def is_abs_def)
next
  case False
  have "\<not> is_abs (join ''/'' (path_elems p))" if "path_elems p \<noteq> []"
  proof -
    obtain w ws where w: "path_elems p = w # ws" using \<open>path_elems p \<noteq> []\<close> by (cases "path_elems p") auto
    then have "w \<noteq> []" "CHR ''/'' \<notin> set w"
      using path_elems_nonempty_elem [of w p] path_elems_no_slash [of w p] by auto
    then show ?thesis unfolding w join_cons by (cases w) (auto simp: is_abs_def has_prefix_def)
  qed
  with False show ?thesis by (auto simp: path_clean_def path_of_elems_def) (simp add: is_abs_def)
qed

lemma is_abs_target: "ws \<noteq> [] \<Longrightarrow> is_abs (edit_target ws p) = is_abs ws"
proof -
  assume ws: "ws \<noteq> []"
  have "is_abs (join ''/'' (filter (\<lambda>p. p \<noteq> []) [ws, path_clean p])) = is_abs ws"
    using ws by (cases ws) (auto simp: is_abs_def has_prefix_def)
  then show ?thesis using ws by (simp add: edit_target_def path_join_def)
qed

lemma safe_path_inside:
  assumes "safe_path ws p = None" "ws \<noteq> []"
  shows "inside ws (edit_target ws p)"
proof -
  from assms(1) obtain rel where rel: "path_rel ws (edit_target ws p) = Some rel"
    "rel \<noteq> ''..''" "\<not> has_prefix rel ''../''"
    by (auto simp: safe_path_def split: if_splits option.splits)
  from path_rel_inside [OF this is_abs_target [OF assms(2), symmetric]]
  show ?thesis using is_abs_target [OF assms(2)] by (simp add: inside_def)
qed

lemma apply_edits_ConsE:
  assumes "apply_edits ws (e # es) f = (pfs, ok, f')"
  obtains (mkdir) "fs_mkdir_all (path_dir (edit_target ws (fe_path e))) f = (False, f')"
      "pfs = [prior_of (edit_target ws (fe_path e)) f]" "\<not> ok"
  | (refused) f1 where "fs_mkdir_all (path_dir (edit_target ws (fe_path e))) f = (True, f1)"
      "fs_write (edit_target ws (fe_path e)) (fe_content e) f1 = (False, f')"
      "pfs = [prior_of (edit_target ws (fe_path e)) f]" "\<not> ok"
  | (more) f1 f2 pfs' where "fs_mkdir_all (path_dir (edit_target ws (fe_path e))) f = (True, f1)"
      "fs_write (edit_target ws (fe_path e)) (fe_content e) f1 = (True, f2)"
      "apply_edits ws es f2 = (pfs', ok, f')" "pfs = prior_of (edit_target ws (fe_path e)) f # pfs'"
proof -
  obtain b1 f1 where m: "fs_mkdir_all (path_dir (edit_target ws (fe_path e))) f = (b1, f1)"
    by (cases "fs_mkdir_all (path_dir (edit_target ws (fe_path e))) f")
  obtain b2 f2 where w: "fs_write (edit_target ws (fe_path e)) (fe_content e) f1 = (b2, f2)"
    by (cases "fs_write (edit_target ws (fe_path e)) (fe_content e) f1")
  obtain pfs' ok' f3 where r: "apply_edits ws es f2 = (pfs', ok', f3)" by (cases "apply_edits ws es f2")
  show thesis
    using assms m w r mkdir refused more by (cases b1; cases b2) (simp_all add: Let_def)
qed

lemma prior_of_path [simp]: "pf_path (prior_of p f) = p"
  by (simp add: prior_of_def split: option.split)

lemma mkdir_files: "fs_mkdir_all p f = (b, f') \<Longrightarrow> fs_files f' = fs_files f"
  using fs_mkdir_all_files [of p f] by simp

lemma apply_edits_outside:
  assumes "apply_edits ws es f = (pfs, ok, f')" "\<And>e. e \<in> set es \<Longrightarrow> edit_target ws (fe_path e) \<noteq> q"
  shows "fs_files f' q = fs_files f q \<and> q \<notin> pf_path ` set pfs"
  using assms
proof (induction es arbitrary: f pfs)
  case (Cons e es)
  have q: "q \<noteq> edit_target ws (fe_path e)" using Cons.prems(2) [of e] by simp
  from Cons.prems(1) show ?case
  proof (cases rule: apply_edits_ConsE)
    case mkdir
    then show ?thesis using q by (simp add: mkdir_files)
  next
    case (refused f1)
    then show ?thesis using q fs_write_other [OF refused(2) q] by (simp add: mkdir_files)
  next
    case (more f1 f2 pfs')
    have "fs_files f' q = fs_files f2 q \<and> q \<notin> pf_path ` set pfs'"
      by (rule Cons.IH [OF more(3)]) (simp add: Cons.prems(2))
    then show ?thesis using q more(4) fs_write_other [OF more(2) q] by (simp add: mkdir_files [OF more(1)])
  qed
qed simp

lemma restore_other: "pf_path pf \<noteq> q \<Longrightarrow> fs_files (restore pf f) q = fs_files f q"
  by (auto simp: restore_def fs_write_def fs_remove_def)

lemma undo_other: "q \<notin> pf_path ` set pfs \<Longrightarrow> fs_files (undo pfs f) q = fs_files f q"
  unfolding undo_def by (induction pfs) (auto simp: restore_other)

lemma restore_props: "fs_grown f (restore pf f) \<and> (fs_ok f \<longrightarrow> fs_ok (restore pf f))"
  by (cases "fs_write (pf_path pf) (pf_content pf) f"; cases "fs_remove (pf_path pf) f")
    (auto simp: restore_def dest: fs_write_props fs_remove_props)

text \<open>Undoing a write whose file was recorded before it.\<close>

lemma restore_write:
  assumes w: "fs_write p c f1 = (True, f2)" and f1: "fs_files f1 = fs_files f" "fs_deny_read f = {}"
    and g: "fs_files g = fs_files f2" "fs_grown f2 g" "fs_ok g"
  shows "fs_files (restore (prior_of p f) g) = fs_files f"
proof -
  from w have can: "fs_can_write p f1" and f2: "f2 = f1\<lparr>fs_files := (fs_files f1)(p \<mapsto> c)\<rparr>"
    by (auto simp: fs_write_def split: if_splits)
  have gp: "fs_files g p = Some c" using g(1) f2 by simp
  then have nd: "p \<notin> fs_dirs g" using g(3) unfolding fs_ok_def by blast
  have "p \<notin> fs_deny_write g" "path_dir p \<in> fs_dirs g"
    using can f2 g(2) by (auto simp: fs_can_write_def fs_grown_def)
  then show ?thesis using gp nd g(1) f2 f1
    by (cases "fs_files f p") (auto simp: restore_def prior_of_def fs_read_def fs_write_def fs_remove_def
        fs_can_write_def fun_eq_iff)
qed

lemma restore_same:
  assumes "fs_files g = fs_files f" "fs_deny_read f = {}"
  shows "fs_files (restore (prior_of p f) g) = fs_files f"
  using assms by (cases "fs_files f p")
    (auto simp: restore_def prior_of_def fs_read_def fs_write_def fs_remove_def fun_eq_iff)

lemma undo_apply:
  assumes "apply_edits ws es f = (pfs, ok, f')" "fs_ok f" "fs_deny_read f = {}"
  shows "fs_files (undo pfs f') = fs_files f \<and> fs_grown f (undo pfs f') \<and> fs_ok (undo pfs f')"
  using assms
proof (induction es arbitrary: f pfs)
  case Nil
  then show ?case by (simp add: undo_def)
next
  case (Cons e es)
  let ?p = "edit_target ws (fe_path e)"
  from Cons.prems(1) show ?case
  proof (cases rule: apply_edits_ConsE)
    case mkdir
    note m = fs_mkdir_all_props [OF mkdir(1)]
    show ?thesis
      using restore_same [of f' f ?p] restore_props [of f' "prior_of ?p f"] m Cons.prems(2,3) mkdir(2)
      by (auto simp: undo_def intro: fs_grown_trans)
  next
    case (refused f1)
    note m = fs_mkdir_all_props [OF refused(1)]
    have "f' = f1" by (rule fs_write_fail [OF refused(2)])
    then show ?thesis
      using restore_same [of f' f ?p] restore_props [of f' "prior_of ?p f"] m Cons.prems(2,3) refused(3)
      by (auto simp: undo_def intro: fs_grown_trans)
  next
    case (more f1 f2 pfs')
    note m = fs_mkdir_all_props [OF more(1)] and w = fs_write_props [OF more(2)]
    have "fs_ok f2" "fs_deny_read f2 = {}" "fs_grown f f2"
      using m w Cons.prems(2,3) by (auto simp: fs_grown_def)
    with Cons.IH [OF more(3)] have g: "fs_files (undo pfs' f') = fs_files f2"
      "fs_grown f2 (undo pfs' f')" "fs_ok (undo pfs' f')" by auto
    have "undo pfs f' = restore (prior_of ?p f) (undo pfs' f')"
      using more(4) by (simp add: undo_def)
    then show ?thesis
      using restore_write [OF more(2) _ Cons.prems(3) g] restore_props [of "undo pfs' f'" "prior_of ?p f"]
        m g \<open>fs_grown f f2\<close> by (auto intro: fs_grown_trans)
  qed
qed

section \<open>The reply format\<close>

text \<open>A reply in the format the system prompt asks for: blocks of a path and the lines of a file.\<close>

definition block_lines :: "string \<times> string list \<Rightarrow> string list" where
  "block_lines b = [file_fence @ '' '' @ fst b] @ snd b @ [fence]"

definition reply_text :: "(string \<times> string list) list \<Rightarrow> string" where
  "reply_text bs = join [CHR 0x0A] (concat (map block_lines bs))"

definition block_ok :: "string \<times> string list \<Rightarrow> bool" where
  "block_ok b \<longleftrightarrow> fst b \<noteq> [] \<and> list_all visible (fst b) \<and>
     list_all (\<lambda>l. CHR 0x0A \<notin> set l \<and> trim_space (trim_right_char CHR 0x0D l) \<noteq> fence) (snd b)"

definition edit_of_block :: "string \<times> string list \<Rightarrow> file_edit" where
  "edit_of_block b = \<lparr>fe_path = fst b, fe_content = body_text (snd b)\<rparr>"

lemma trim_right_char_id: "s \<noteq> [] \<Longrightarrow> last s \<noteq> c \<Longrightarrow> trim_right_char c s = s"
  by (cases s rule: rev_cases) (auto simp: trim_right_char_def)

lemma visible_grave: "visible CHR 0x60"
  by (simp add: visible_def)

lemma fence_line: "trim_space (trim_right_char CHR 0x0D fence) = fence"
  by code_simp

lemma collect_body_fence:
  "list_all (\<lambda>l. trim_space (trim_right_char CHR 0x0D l) \<noteq> fence) body \<Longrightarrow>
     collect_body (body @ fence # rest) = Some (body, rest)"
  by (induction body) (simp_all add: fence_line)

lemma header_line:
  assumes "p \<noteq> []" "list_all visible p"
  shows "trim_space (trim_right_char CHR 0x0D (file_fence @ '' '' @ p)) = file_fence @ '' '' @ p"
    and "trim_space (trim_prefix (file_fence @ '' '' @ p) file_fence) = p"
proof -
  have l: "visible (last p)" and h: "visible (hd p)" using assms by (auto simp: list_all_iff)
  then have "last p \<noteq> CHR 0x0D" by (auto simp: visible_def)
  then have "trim_right_char CHR 0x0D (file_fence @ '' '' @ p) = file_fence @ '' '' @ p"
    using assms(1) by (intro trim_right_char_id) simp_all
  moreover have "trim_space (file_fence @ '' '' @ p) = file_fence @ '' '' @ p"
    using l assms(1) by (intro trim_space_visible) (simp_all add: file_fence_def visible_grave)
  ultimately show "trim_space (trim_right_char CHR 0x0D (file_fence @ '' '' @ p)) = file_fence @ '' '' @ p"
    by simp
  have "trim_space (CHR '' '' # p) = p"
    using l h assms(1) trim_space_blank [of p] trim_space_visible [of p] by simp
  then show "trim_space (trim_prefix (file_fence @ '' '' @ p) file_fence) = p" by simp
qed

lemma parse_block:
  assumes "block_ok b"
  shows "parse_blocks (block_lines b @ rest) =
    (case parse_blocks rest of Inl e \<Rightarrow> Inl e | Inr es \<Rightarrow> Inr (edit_of_block b # es))"
proof -
  have "list_all (\<lambda>l. trim_space (trim_right_char CHR 0x0D l) \<noteq> fence) (snd b)"
    using assms by (auto simp: block_ok_def list_all_iff)
  then have c: "collect_body (snd b @ fence # rest) = Some (snd b, rest)" by (rule collect_body_fence)
  have "fst b \<noteq> []" "list_all visible (fst b)" using assms by (auto simp: block_ok_def)
  note h = header_line [OF this]
  have "block_lines b @ rest = (file_fence @ '' '' @ fst b) # (snd b @ fence # rest)"
    by (simp add: block_lines_def)
  then show ?thesis using h c \<open>fst b \<noteq> []\<close>
    by (simp only: parse_blocks.simps Let_def h c has_prefix_append simp_thms if_False if_True
        option.case prod.case edit_of_block_def)
qed

lemma parse_blocks_all: "list_all block_ok bs \<Longrightarrow> parse_blocks (concat (map block_lines bs)) = Inr (map edit_of_block bs)"
  by (induction bs) (simp_all add: parse_block)

section \<open>Properties\<close>



definition nl :: string where "nl = [CHR 0x5C, CHR ''n'']"

definition reply_server :: "unit server" where
  \<open>reply_server = (\<lambda>req w. (Some \<lparr>hr_status = 200, hr_status_text = ''200 OK'',
     hr_body = ''{"choices":[{"message":{"content":"```file a.go'' @ nl @ ''new'' @ nl @ ''```"}}]}'',
     hr_read_error = False, hr_elapsed = 5\<rparr>, w))\<close>

definition sample_adapter :: serving_adapter where
  "sample_adapter = \<lparr>sa_base = local_url, sa_model = ''local'', sa_workspace = ''.'',
     sa_run_test = (\<lambda>ws r f. (TestFailed, f)), sa_max_parse_retries = 2\<rparr>"

definition sample_files :: "unit drive_state" where
  "sample_files = \<lparr>dv_world = (), dv_fs = \<lparr>fs_files = [''a.go'' \<mapsto> ''old''], fs_dirs = {''.''},
     fs_deny_read = {}, fs_deny_write = {}, fs_deny_mkdir = {}\<rparr>\<rparr>"

definition sample_req :: requirement where
  "sample_req = \<lparr>rq_id = ''R-1'', rq_prefix = ''R'', rq_title = ''t'', rq_status = StatusOpen,
     rq_tests = [], rq_deps = [], rq_spec_file = [], rq_notes = []\<rparr>"

lemma sample_drive: "fst (serving_drive reply_server sample_adapter sample_req [] sample_files) =
    ((empty_diff ''R-1'')\<lparr>df_turns := 1, df_tool_calls := 1, df_tokens := 20, df_valid_calls := 1\<rparr>,
     Some AcceptanceFailed)"
  by code_simp



text \<open>C9: the parser recovers the file edits of a reply written in the format the prompt asks for:
  every path and every line, in order.\<close>

theorem parse_edits_roundtrip:
  assumes "bs \<noteq> []" "list_all block_ok bs"
  shows "parse_edits (reply_text bs) = Inr (map edit_of_block bs)"
proof -
  have no: "CHR 0x0A \<notin> set l" if "l \<in> set (block_lines b)" "block_ok b" for l b
  proof -
    have "CHR 0x0A \<notin> set (fst b)" using that(2) by (auto simp: block_ok_def list_all_iff visible_def)
    then show ?thesis using that by (auto simp: block_lines_def block_ok_def list_all_iff file_fence_def fence_def)
  qed
  have ne: "concat (map block_lines bs) \<noteq> []" using assms(1) by (cases bs) (simp_all add: block_lines_def)
  have "split_on CHR 0x0A (reply_text bs) = concat (map block_lines bs)"
    unfolding reply_text_def
    by (rule split_on_join [OF ne]) (use assms(2) no in \<open>auto simp: list_all_iff\<close>)
  then show ?thesis using assms by (simp add: parse_edits_def parse_blocks_all)
qed

theorem parse_edits_roundtrip_witness:
  "parse_edits (reply_text [(''a.go'', [''package a'', [] ]), (''b/c.txt'', [])]) =
     Inr [\<lparr>fe_path = ''a.go'', fe_content = ''package a'' @ [CHR 0x0A, CHR 0x0A]\<rparr>,
          \<lparr>fe_path = ''b/c.txt'', fe_content = []\<rparr>]"
proof -
  have "list_all block_ok [(''a.go'', [''package a'', [] ]), (''b/c.txt'', [])]" by code_simp
  from parse_edits_roundtrip [OF _ this] show ?thesis
    by (simp add: edit_of_block_def body_text_def)
qed

text \<open>A drive asks the model at most once more than the retry bound allows and keeps its counters
  consistent: valid calls never exceed calls, and tokens and turns do not shrink.\<close>

theorem drive_turns_bounded:
  assumes "serving_drive srv a r fb s = ((d, err), s')"
  shows "df_req d = rq_id r \<and> diff_ok d \<and> df_turns d \<le> max 0 (sa_max_parse_retries a + 1)"
  using serving_drive_diff [OF assms] by (auto simp: max_def)

theorem drive_turns_bounded_witness:
  "df_turns (fst (fst (serving_drive reply_server sample_adapter sample_req [] sample_files))) \<le> 3"
proof -
  let ?r = "serving_drive reply_server sample_adapter sample_req [] sample_files"
  have e: "?r = ((fst (fst ?r), snd (fst ?r)), snd ?r)" by simp
  from drive_turns_bounded [OF e] show ?thesis by (simp add: sample_adapter_def)
qed

end
