(* ===== verification/McpClient.thy ===== *)
theory McpClient
  imports GoJson ReqClient
begin

text \<open>
  The rest of \<open>internal/rtmx/client.go\<close>: the shared base of the clients, the default verifier and
  health check over \<open>go test\<close> and \<open>rtmx\<close>, and the MCP client, which speaks JSON-RPC to a server
  process.  The server is a function from a request to the lines it writes in answer (\<open>None\<close> when
  the request cannot be written) and a state of its own; the client reads lines in order until
  one carries the id of its request, and what it has not read stays for the next call.  When the
  lines run out the read fails, as at the end of the stream.
\<close>

section \<open>The shared base\<close>

definition path_abs :: "string \<Rightarrow> string \<Rightarrow> string" where
  "path_abs cwd p = (if is_abs p then path_clean p else path_join [cwd, p])"

definition repo_root_of :: "string \<Rightarrow> string \<Rightarrow> string" where
  "repo_root_of cwd db_path = path_dir (path_dir (path_abs cwd db_path))"

text \<open>How a command ends: a clean exit, an exit error with its combined output, or not run at all.\<close>

datatype cmd_result = CmdOk | CmdExit string | CmdFailed

type_synonym runner = "string \<Rightarrow> string list \<Rightarrow> cmd_result"

datatype verify_err = VerifyStore store_err | VerifyNotRun

definition verify_args :: "requirement \<Rightarrow> string list" where
  "verify_args r =
     (let (m, fn, found) = cut_str (hd (rq_tests r)) ''::'';
          pkg = (if m \<noteq> [] then ''./'' @ trim_char CHR ''/'' m @ ''/...'' else ''./...'')
      in [''go'', ''test''] @ (if fn \<noteq> [] then [''-run'', ''^'' @ fn @ ''$''] else []) @ [pkg])"

definition default_verify :: "runner \<Rightarrow> string \<Rightarrow> store \<Rightarrow> string \<Rightarrow> bool \<times> string \<times> verify_err option" where
  "default_verify run root_dir s i =
     (case store_by_id s i of
        Inl e \<Rightarrow> (False, [], Some (VerifyStore e))
      | Inr r \<Rightarrow>
          if rq_tests r = [] then (False, [], None)
          else (case run root_dir (verify_args r) of
                  CmdOk \<Rightarrow> (True, [], None)
                | CmdExit out \<Rightarrow> (False, out, None)
                | CmdFailed \<Rightarrow> (False, [], Some VerifyNotRun)))"

definition rtmx_health :: "runner \<Rightarrow> string \<Rightarrow> bool" where
  "rtmx_health run root_dir = (run root_dir [''rtmx'', ''health''] = CmdOk)"

definition new_cli_client :: "store \<Rightarrow> cli_client" where
  "new_cli_client s = \<lparr>cli_store = s, cli_agent = ''aegis''\<rparr>"

section \<open>JSON-RPC\<close>

type_synonym 'w mcp_server = "int \<Rightarrow> string \<Rightarrow> json \<Rightarrow> 'w \<Rightarrow> string list option \<times> 'w"

record 'w mcp_client =
  mcp_store :: store
  mcp_agent :: string
  mcp_next_id :: int
  mcp_unread :: "string list"
  mcp_world :: 'w

datatype mcp_err =
    McpWriteFailed
  | McpReadFailed
  | McpError string
  | McpDecodeFailed
  | McpToolError string string
  | McpUnhealthy string
  | McpStore store_err

record rpc_reply =
  rr_id :: "int option"
  rr_result :: "json option"
  rr_error :: "string option"

definition reply_fields :: "rpc_reply json_field list" where
  "reply_fields =
     [(''id'', fld (dec_ptr 0 dec_int) rr_id rr_id_update),
      (''result'', fld (\<lambda>old j. Some (Some j)) rr_result rr_result_update),
      (''error'', fld (dec_ptr [] (dec_struct [(''message'', dec_string)])) rr_error rr_error_update)]"

definition zero_reply :: rpc_reply where
  "zero_reply = \<lparr>rr_id = None, rr_result = None, rr_error = None\<rparr>"

definition decode_reply :: "string \<Rightarrow> rpc_reply option" where
  "decode_reply l = unmarshal (dec_struct reply_fields) zero_reply l"

text \<open>The read loop: lines that do not parse or do not answer this request are skipped.\<close>

fun read_reply :: "int \<Rightarrow> string list \<Rightarrow> (mcp_err + json option) \<times> string list" where
  "read_reply i [] = (Inl McpReadFailed, [])"
| "read_reply i (l # ls) =
     (case decode_reply l of
        None \<Rightarrow> read_reply i ls
      | Some r \<Rightarrow>
          if rr_id r \<noteq> Some i then read_reply i ls
          else (case rr_error r of
                  Some m \<Rightarrow> (Inl (McpError m), ls)
                | None \<Rightarrow> (Inr (rr_result r), ls)))"

definition mcp_call ::
  "'w mcp_server \<Rightarrow> string \<Rightarrow> json \<Rightarrow> 'w mcp_client \<Rightarrow> (mcp_err + json option) \<times> 'w mcp_client" where
  "mcp_call srv m params c =
     (let i = mcp_next_id c + 1; c1 = c\<lparr>mcp_next_id := i\<rparr>
      in case srv i m params (mcp_world c1) of
           (None, w) \<Rightarrow> (Inl McpWriteFailed, c1\<lparr>mcp_world := w\<rparr>)
         | (Some lines, w) \<Rightarrow>
             (case read_reply i (mcp_unread c1 @ lines) of
                (x, rest) \<Rightarrow> (x, c1\<lparr>mcp_world := w, mcp_unread := rest\<rparr>)))"

record tool_result =
  tr_content :: "string list"
  tr_is_error :: bool

definition tool_fields :: "tool_result json_field list" where
  "tool_fields =
     [(''content'', fld (dec_list [] (dec_struct [(''text'', dec_string)])) tr_content tr_content_update),
      (''isError'', fld dec_bool tr_is_error tr_is_error_update)]"

definition decode_tool :: "json option \<Rightarrow> tool_result option" where
  "decode_tool raw =
     (case raw of None \<Rightarrow> None
      | Some j \<Rightarrow> dec_struct tool_fields \<lparr>tr_content = [], tr_is_error = False\<rparr> j)"

text \<open>The text payload of a tool's result; \<open>None\<close> when it has no content.\<close>

definition tool_call ::
  "'w mcp_server \<Rightarrow> string \<Rightarrow> (string \<times> json) list \<Rightarrow> 'w mcp_client
     \<Rightarrow> (mcp_err + string option) \<times> 'w mcp_client" where
  "tool_call srv name args c =
     (case mcp_call srv ''tools/call'' (JObj [(''name'', JStr name), (''arguments'', JObj args)]) c of
        (Inl e, c1) \<Rightarrow> (Inl e, c1)
      | (Inr raw, c1) \<Rightarrow>
          (case decode_tool raw of
             None \<Rightarrow> (Inl McpDecodeFailed, c1)
           | Some t \<Rightarrow>
               (case tr_content t of
                  [] \<Rightarrow> (Inr None, c1)
                | txt # _ \<Rightarrow>
                    if tr_is_error t then (Inl (McpToolError name txt), c1) else (Inr (Some txt), c1))))"

definition dial_mcp :: "'w mcp_server \<Rightarrow> store \<Rightarrow> 'w \<Rightarrow> mcp_err + 'w mcp_client" where
  "dial_mcp srv s w =
     (case mcp_call srv ''initialize''
             (JObj [(''protocolVersion'', JStr ''2024-11-05''), (''capabilities'', JObj []),
                    (''clientInfo'', JObj [(''name'', JStr ''aegis''), (''version'', JStr ''0'')])])
             \<lparr>mcp_store = s, mcp_agent = ''aegis'', mcp_next_id = 0, mcp_unread = [], mcp_world = w\<rparr> of
        (Inl e, c) \<Rightarrow> Inl e
      | (Inr _, c) \<Rightarrow> Inr c)"

section \<open>The client operations\<close>

record web =
  wb_unblocked :: int
  wb_top :: string

definition web_fields :: "web json_field list" where
  "web_fields =
     [(''unblocked'', fld dec_int wb_unblocked wb_unblocked_update),
      (''top_item'', fld dec_string wb_top wb_top_update)]"

definition decode_webs :: "string option \<Rightarrow> web list option" where
  "decode_webs raw =
     (case raw of None \<Rightarrow> None
      | Some t \<Rightarrow> unmarshal (dec_struct [(''webs'',
          \<lambda>old j. dec_list \<lparr>wb_unblocked = 0, wb_top = []\<rparr> (dec_struct web_fields) old j)]) [] t)"

definition mcp_next ::
  "'w mcp_server \<Rightarrow> 'w mcp_client \<Rightarrow> (mcp_err + requirement option) \<times> 'w mcp_client" where
  "mcp_next srv c =
     (case tool_call srv ''next'' [] c of
        (Inl e, c1) \<Rightarrow> (Inl e, c1)
      | (Inr raw, c1) \<Rightarrow>
          (case decode_webs raw of
             None \<Rightarrow> (Inl McpDecodeFailed, c1)
           | Some ws \<Rightarrow>
               (case find (\<lambda>x. wb_unblocked x > 0 \<and> wb_top x \<noteq> []) ws of
                  None \<Rightarrow> (Inr None, c1)
                | Some x \<Rightarrow>
                    (case store_by_id (mcp_store c1) (wb_top x) of
                       Inl e \<Rightarrow> (Inl (McpStore e), c1)
                     | Inr r \<Rightarrow> (Inr (Some r), c1)))))"

definition agent_args :: "string \<Rightarrow> 'w mcp_client \<Rightarrow> (string \<times> json) list" where
  "agent_args i c = [(''req_id'', JStr i), (''agent_id'', JStr (mcp_agent c))]"

definition mcp_claim :: "'w mcp_server \<Rightarrow> string \<Rightarrow> 'w mcp_client \<Rightarrow> mcp_err option \<times> 'w mcp_client" where
  "mcp_claim srv i c =
     (case tool_call srv ''claim'' (agent_args i c) c of
        (Inl e, c1) \<Rightarrow> (Some e, c1)
      | (Inr _, c1) \<Rightarrow> (None, c1))"

definition mcp_release :: "'w mcp_server \<Rightarrow> string \<Rightarrow> 'w mcp_client \<Rightarrow> mcp_err option \<times> 'w mcp_client" where
  "mcp_release srv i c =
     (case tool_call srv ''release'' (agent_args i c) c of
        (Inl e, c1) \<Rightarrow> (Some e, c1)
      | (Inr _, c1) \<Rightarrow> (None, c1))"

definition mcp_write_status :: "string \<Rightarrow> status \<Rightarrow> 'w mcp_client \<Rightarrow> store_err option \<times> 'w mcp_client" where
  "mcp_write_status i st c =
     (case store_set_status (mcp_store c) i st of (e, s) \<Rightarrow> (e, c\<lparr>mcp_store := s\<rparr>))"

definition mcp_health :: "'w mcp_server \<Rightarrow> 'w mcp_client \<Rightarrow> mcp_err option \<times> 'w mcp_client" where
  "mcp_health srv c =
     (case tool_call srv ''health'' [] c of
        (Inl e, c1) \<Rightarrow> (Some e, c1)
      | (Inr raw, c1) \<Rightarrow>
          (case (case raw of None \<Rightarrow> None
                 | Some t \<Rightarrow> unmarshal (dec_struct [(''status'', dec_string)]) [] t) of
             None \<Rightarrow> (Some McpDecodeFailed, c1)
           | Some st \<Rightarrow>
               if to_lower st = ''healthy'' \<or> to_lower st = ''warning'' then (None, c1)
               else (Some (McpUnhealthy st), c1)))"

section \<open>Facts\<close>

text \<open>A line that the read loop skips for request \<open>i\<close>.\<close>

definition other_line :: "int \<Rightarrow> string \<Rightarrow> bool" where
  "other_line i l \<longleftrightarrow> (case decode_reply l of None \<Rightarrow> True | Some r \<Rightarrow> rr_id r \<noteq> Some i)"

lemma read_reply_skip: "list_all (other_line i) ls \<Longrightarrow> read_reply i (ls @ rest) = read_reply i rest"
  by (induction ls) (auto simp: other_line_def split: option.splits)

lemma mcp_call_id: "mcp_next_id (snd (mcp_call srv m p c)) = mcp_next_id c + 1"
  by (auto simp: mcp_call_def Let_def split: prod.splits option.splits)

lemma mcp_call_store: "mcp_store (snd (mcp_call srv m p c)) = mcp_store c"
  by (auto simp: mcp_call_def Let_def split: prod.splits option.splits)

lemma tool_call_store: "mcp_store (snd (tool_call srv n args c)) = mcp_store c"
  using mcp_call_store [of srv "''tools/call''" "JObj [(''name'', JStr n), (''arguments'', JObj args)]" c]
  by (auto simp: tool_call_def split: prod.splits sum.splits option.splits list.splits)

lemma store_by_id_Inr: "store_by_id s i = Inr r \<Longrightarrow>
    \<exists>rs. store_requirements s = Inr rs \<and> r \<in> set rs \<and> rq_id r = i"
  by (auto simp: store_by_id_def split: sum.splits option.splits dest: find_Some_mem)

section \<open>Properties\<close>

text \<open>C12: a call answers with the first line that carries its own request id, skipping notifications,
  lines that do not parse and replies to other requests, and leaves the later lines unread.\<close>

theorem mcp_call_matches_id:
  assumes "mcp_unread c @ lines = skipped @ l # rest" "srv (mcp_next_id c + 1) m p (mcp_world c) = (Some lines, w)"
    and "list_all (other_line (mcp_next_id c + 1)) skipped"
    and "decode_reply l = Some r" "rr_id r = Some (mcp_next_id c + 1)"
  shows "mcp_call srv m p c =
    ((case rr_error r of Some e \<Rightarrow> Inl (McpError e) | None \<Rightarrow> Inr (rr_result r)),
     c\<lparr>mcp_next_id := mcp_next_id c + 1, mcp_world := w, mcp_unread := rest\<rparr>)"
proof -
  have "read_reply (mcp_next_id c + 1) (mcp_unread c @ lines) =
      ((case rr_error r of Some e \<Rightarrow> Inl (McpError e) | None \<Rightarrow> Inr (rr_result r)), rest)"
    unfolding assms(1) using assms(3-5) by (simp add: read_reply_skip split: option.split)
  then show ?thesis using assms(2) by (simp add: mcp_call_def Let_def)
qed

definition empty_store :: store where
  "empty_store = \<lparr>st_db_path = ''db.csv'', st_claims_dir = ''claims'', st_db = CsvRecords [needed_columns],
     st_dirs = {}, st_claims = Map.empty, st_can_mkdir = True, st_can_create = True,
     st_can_remove = True, st_can_replace = True\<rparr>"

definition idle_client :: "unit mcp_client" where
  "idle_client = \<lparr>mcp_store = empty_store, mcp_agent = ''aegis'', mcp_next_id = 1,
     mcp_unread = [''{}''], mcp_world = ()\<rparr>"

definition two_lines :: "string list" where
  \<open>two_lines = [''{"method": "notify"}'', ''{"id": 2, "result": true}'', ''{"id": 3}'']\<close>

theorem mcp_call_matches_id_witness:
  "mcp_call (\<lambda>i m p w. (Some two_lines, w)) ''x'' JNull idle_client =
     (Inr (Some (JBool True)),
      idle_client\<lparr>mcp_next_id := mcp_next_id idle_client + 1, mcp_world := (), mcp_unread := drop 2 two_lines\<rparr>)"
proof -
  let ?l = "two_lines ! 1" and ?r = "\<lparr>rr_id = Some 2, rr_result = Some (JBool True), rr_error = None\<rparr>"
  have 1: "mcp_unread idle_client @ two_lines = [''{}'', two_lines ! 0] @ ?l # drop 2 two_lines"
    by (simp add: idle_client_def two_lines_def)
  have 2: "list_all (other_line (mcp_next_id idle_client + 1)) [''{}'', two_lines ! 0]" by code_simp
  have 3: "decode_reply ?l = Some ?r" by code_simp
  have 4: "rr_id ?r = Some (mcp_next_id idle_client + 1)" by (simp add: idle_client_def)
  show ?thesis using mcp_call_matches_id [where srv = "\<lambda>i m p w. (Some two_lines, w)" and m = "''x''" and p = JNull
      and w = "()", OF 1 _ 2 3 4] by simp
qed

text \<open>A requirement the MCP client hands out is a row of the CSV database, and the server listed
  its id as unblocked work; the client itself changes no status by asking.\<close>

theorem mcp_next_from_database:
  assumes "mcp_next srv c = (Inr (Some r), c')"
  shows "\<exists>rs t ws x. store_requirements (mcp_store c) = Inr rs \<and> r \<in> set rs \<and>
    fst (tool_call srv ''next'' [] c) = Inr (Some t) \<and> decode_webs (Some t) = Some ws \<and> x \<in> set ws \<and>
    wb_unblocked x > 0 \<and> wb_top x = rq_id r \<and> mcp_store c' = mcp_store c"
proof -
  obtain y c1 where t: "tool_call srv ''next'' [] c = (y, c1)" by (cases "tool_call srv ''next'' [] c")
  have s: "mcp_store c1 = mcp_store c" using tool_call_store [of srv "''next''" "[]" c] t by simp
  from assms t obtain raw where raw: "y = Inr raw" by (cases y) (auto simp: mcp_next_def)
  with assms t obtain ws where ws: "decode_webs raw = Some ws"
    by (cases "decode_webs raw") (auto simp: mcp_next_def)
  then obtain tx where tx: "raw = Some tx" by (cases raw) (auto simp: decode_webs_def)
  from assms t raw ws obtain x where x: "find (\<lambda>x. wb_unblocked x > 0 \<and> wb_top x \<noteq> []) ws = Some x"
    by (cases "find (\<lambda>x. wb_unblocked x > 0 \<and> wb_top x \<noteq> []) ws") (auto simp: mcp_next_def)
  with assms t raw ws have r: "store_by_id (mcp_store c1) (wb_top x) = Inr r" "c' = c1"
    by (auto simp: mcp_next_def split: sum.splits)
  from store_by_id_Inr [OF r(1)] find_Some_mem [OF x] show ?thesis
    using s t raw ws tx r(2) by (auto simp: exI)
qed

definition one_row_store :: store where
  "one_row_store = empty_store\<lparr>st_db := CsvRecords [needed_columns, [''R-1'', ''t'', ''OPEN'', []]]\<rparr>"

definition web_text :: string where
  \<open>web_text = ''{"webs":[{"unblocked":0,"top_item":"R-0"},{"unblocked":2,"top_item":"R-1"}]}''\<close>

definition web_server :: "unit mcp_server" where
  \<open>web_server = (\<lambda>i m p w. (Some [''{"id":2,"result":{"content":[{"text":"'' @
     replace_char CHR 0x22 [CHR 0x5C, CHR 0x22] web_text @ ''"}]}}''], w))\<close>

theorem mcp_next_from_database_witness:
  "\<exists>r. fst (mcp_next web_server (idle_client\<lparr>mcp_store := one_row_store\<rparr>)) = Inr (Some r) \<and> rq_id r = ''R-1'' \<and>
     (\<exists>rs. store_requirements one_row_store = Inr rs \<and> r \<in> set rs)"
proof -
  let ?c = "idle_client\<lparr>mcp_store := one_row_store\<rparr>"
  let ?r = "to_requirement \<lparr>db_header = needed_columns, db_rows = [[''R-1'', ''t'', ''OPEN'', []]],
    db_col = build_col 0 needed_columns Map.empty\<rparr> [''R-1'', ''t'', ''OPEN'', []]"
  have "fst (mcp_next web_server ?c) = Inr (Some ?r)" by code_simp
  then have e: "mcp_next web_server ?c = (Inr (Some ?r), snd (mcp_next web_server ?c))"
    by (metis prod.collapse)
  have "rq_id ?r = ''R-1''" by code_simp
  moreover have "mcp_store ?c = one_row_store" by simp
  ultimately show ?thesis using mcp_next_from_database [OF e] e by (metis fst_conv)
qed

text \<open>A claim the server answers with an error result that has no content is reported as a success,
  because the check for empty content comes before the check of the error flag.\<close>

theorem mcp_claim_empty_error:
  assumes "mcp_call srv ''tools/call'' (JObj [(''name'', JStr ''claim''), (''arguments'', JObj (agent_args i c))]) c
      = (Inr (Some (JObj [(''isError'', JBool True)])), c1)"
  shows "mcp_claim srv i c = (None, c1)"
proof -
  have "decode_tool (Some (JObj [(''isError'', JBool True)])) = Some \<lparr>tr_content = [], tr_is_error = True\<rparr>"
    by code_simp
  then show ?thesis using assms by (simp add: mcp_claim_def tool_call_def)
qed

definition refusing_server :: "unit mcp_server" where
  \<open>refusing_server = (\<lambda>i m p w. (Some [''{"id": 2, "result": {"isError": true}}''], w))\<close>

theorem mcp_claim_empty_error_witness:
  "fst (mcp_claim refusing_server ''R-1'' idle_client) = None"
proof -
  let ?p = "JObj [(''name'', JStr ''claim''), (''arguments'', JObj (agent_args ''R-1'' idle_client))]"
  have "fst (mcp_call refusing_server ''tools/call'' ?p idle_client) = Inr (Some (JObj [(''isError'', JBool True)]))"
    by code_simp
  then have "mcp_call refusing_server ''tools/call'' ?p idle_client =
      (Inr (Some (JObj [(''isError'', JBool True)])), snd (mcp_call refusing_server ''tools/call'' ?p idle_client))"
    by (metis prod.collapse)
  from mcp_claim_empty_error [OF this] show ?thesis by simp
qed

end
