(* ===== verification/Origin.thy ===== *)
theory Origin
  imports GoJson FileSys
begin

text \<open>
  Model provenance, \<open>internal/origin/origin.go\<close>: the per-country policy, the origin a catalog
  records for a model, and the gate between the two.  The policy's map is an association list
  with one entry per key; which offending entry \<open>validate\<close> names depends on Go's map order and is
  left out of the error.
\<close>

definition Allow :: string where "Allow = ''allow''"
definition Deny :: string where "Deny = ''deny''"
definition default_policy_path :: string where "default_policy_path = ''deploy/models/origin-policy.json''"

record policy =
  pol_default :: string
  pol_countries :: "(string \<times> string) list"

datatype policy_err = PolicyReadFailed string | PolicyParseFailed | BadDefault string | BadDisposition

text \<open>The environment variable is an argument, empty when it is not set.\<close>

definition policy_path :: "string \<Rightarrow> string" where
  "policy_path env = (if env \<noteq> [] then env else default_policy_path)"

definition disposition :: "string \<Rightarrow> bool" where
  "disposition s \<longleftrightarrow> s = Allow \<or> s = Deny"

definition policy_validate :: "policy \<Rightarrow> policy_err option" where
  "policy_validate p =
     (if \<not> disposition (pol_default p) then Some (BadDefault (pol_default p))
      else if \<not> list_all (\<lambda>e. disposition (snd e)) (pol_countries p) then Some BadDisposition
      else None)"

definition policy_fields :: "policy json_field list" where
  "policy_fields =
     [(''default'', fld dec_string pol_default pol_default_update),
      (''countries'', fld dec_string_map pol_countries pol_countries_update)]"

definition parse_policy :: "string \<Rightarrow> policy_err + policy" where
  "parse_policy text =
     (case unmarshal (dec_struct policy_fields) \<lparr>pol_default = [], pol_countries = []\<rparr> text of
        None \<Rightarrow> Inl PolicyParseFailed
      | Some p \<Rightarrow> (case policy_validate p of Some e \<Rightarrow> Inl e | None \<Rightarrow> Inr p))"

definition load_policy :: "string \<Rightarrow> string \<Rightarrow> fs \<Rightarrow> policy_err + policy" where
  "load_policy env path f =
     (let q = (if path = [] then policy_path env else path)
      in case fs_read q f of None \<Rightarrow> Inl (PolicyReadFailed q) | Some text \<Rightarrow> parse_policy text)"

definition allows :: "policy \<Rightarrow> string \<Rightarrow> bool" where
  "allows p country =
     (case map_of (pol_countries p) (to_upper (trim_space country)) of
        Some d \<Rightarrow> d = Allow
      | None \<Rightarrow> pol_default p = Allow)"

section \<open>Catalog and gate\<close>

record origin_entry =
  oe_name :: string
  oe_file :: string
  oe_origin :: string

definition origin_fields :: "origin_entry json_field list" where
  "origin_fields =
     [(''name'', fld dec_string oe_name oe_name_update),
      (''file'', fld dec_string oe_file oe_file_update),
      (''origin'', fld dec_string oe_origin oe_origin_update)]"

definition origin_entries :: "string \<Rightarrow> origin_entry list option" where
  "origin_entries text =
     unmarshal (dec_struct [(''models'', \<lambda>old j. dec_list \<lparr>oe_name = [], oe_file = [], oe_origin = []\<rparr>
       (dec_struct origin_fields) old j)]) [] text"

definition origin_for_model :: "string \<Rightarrow> string \<Rightarrow> string option" where
  "origin_for_model name catalog =
     (case origin_entries catalog of
        None \<Rightarrow> None
      | Some ms \<Rightarrow>
          map_option oe_origin
            (find (\<lambda>m. (oe_file m = path_base name \<or> oe_name m = name) \<and> oe_origin m \<noteq> []) ms))"

record denial =
  dn_model :: string
  dn_country :: string
  dn_known :: bool

definition check_origin :: "string \<Rightarrow> string \<Rightarrow> policy \<Rightarrow> denial option" where
  "check_origin name catalog p =
     (case origin_for_model name catalog of
        None \<Rightarrow> if pol_default p = Allow then None
                else Some \<lparr>dn_model = name, dn_country = [], dn_known = False\<rparr>
      | Some c \<Rightarrow> if \<not> allows p c then Some \<lparr>dn_model = name, dn_country = c, dn_known = True\<rparr> else None)"

section \<open>Facts\<close>

lemma to_upper_char_idem [simp]: "to_upper_char (to_upper_char c) = to_upper_char c"
  by (auto simp: to_upper_char_def)

lemma to_upper_idem [simp]: "to_upper (to_upper s) = to_upper s"
  by (simp add: to_upper_def)

lemma load_policy_valid: "load_policy env path f = Inr p \<Longrightarrow> policy_validate p = None"
  by (auto simp: load_policy_def parse_policy_def Let_def split: option.splits)

section \<open>Properties\<close>

text \<open>C13: under a loaded policy whose default is deny, a model passes the gate exactly when the first
  catalog entry for it that records an origin names a country the policy lists as allow; a model
  without a recorded origin is denied.\<close>

theorem deny_default_gate:
  assumes "load_policy env path f = Inr p" and "pol_default p \<noteq> Allow"
  shows "check_origin name catalog p = None \<longleftrightarrow>
    (\<exists>ms m. origin_entries catalog = Some ms \<and>
       find (\<lambda>m. (oe_file m = path_base name \<or> oe_name m = name) \<and> oe_origin m \<noteq> []) ms = Some m \<and>
       map_of (pol_countries p) (to_upper (trim_space (oe_origin m))) = Some Allow) \<and>
    pol_default p = Deny"
proof -
  have "pol_default p = Deny"
    using load_policy_valid [OF assms(1)] assms(2) by (auto simp: policy_validate_def disposition_def split: if_splits)
  then show ?thesis using assms(2)
    by (auto simp: check_origin_def origin_for_model_def allows_def split: option.splits)
qed

definition sample_policy_fs :: fs where
  \<open>sample_policy_fs = \<lparr>fs_files = [''p.json'' \<mapsto> ''{"default": "deny", "countries": {"US": "allow"}}''],
     fs_dirs = {''.''}, fs_deny_read = {}, fs_deny_write = {}, fs_deny_mkdir = {}\<rparr>\<close>

definition sample_policy :: policy where
  "sample_policy = \<lparr>pol_default = ''deny'', pol_countries = [(''US'', ''allow'')]\<rparr>"

definition sample_models :: string where
  \<open>sample_models = ''{"models": [{"name": "gemma", "file": "gemma.gguf", "origin": " us"},
     {"name": "qwen", "file": "qwen.gguf", "origin": "CN"}]}''\<close>

theorem deny_default_gate_witness:
  "check_origin ''/models/gemma.gguf'' sample_models sample_policy = None"
proof -
  have l: "load_policy [] ''p.json'' sample_policy_fs = Inr sample_policy" by code_simp
  have d: "pol_default sample_policy \<noteq> Allow" by code_simp
  let ?g = "\<lparr>oe_name = ''gemma'', oe_file = ''gemma.gguf'', oe_origin = '' us''\<rparr>"
  let ?q = "\<lparr>oe_name = ''qwen'', oe_file = ''qwen.gguf'', oe_origin = ''CN''\<rparr>"
  have "origin_entries sample_models = Some [?g, ?q]" by code_simp
  moreover have "find (\<lambda>m. (oe_file m = path_base ''/models/gemma.gguf'' \<or> oe_name m = ''/models/gemma.gguf'')
      \<and> oe_origin m \<noteq> []) [?g, ?q] = Some ?g" by code_simp
  moreover have "map_of (pol_countries sample_policy) (to_upper (trim_space (oe_origin ?g))) = Some Allow" by code_simp
  moreover have "pol_default sample_policy = Deny" by code_simp
  ultimately show ?thesis
    unfolding deny_default_gate [OF l d] by (intro conjI exI)
qed

text \<open>A policy entry whose key is not in capitals is never consulted: the country it names gets the
  default, so a lower-case deny entry denies nothing.\<close>

theorem lowercase_entry_ignored:
  assumes "to_upper k \<noteq> k"
  shows "allows \<lparr>pol_default = d, pol_countries = es1 @ (k, v) # es2\<rparr> c =
    allows \<lparr>pol_default = d, pol_countries = es1 @ es2\<rparr> c"
proof -
  have "to_upper (trim_space c) \<noteq> k" using assms to_upper_idem by metis
  then have "map_of (es1 @ (k, v) # es2) (to_upper (trim_space c)) = map_of (es1 @ es2) (to_upper (trim_space c))"
    by (simp add: map_add_def split: option.split)
  then show ?thesis by (simp only: allows_def policy.select_convs)
qed

theorem lowercase_entry_ignored_witness:
  "allows \<lparr>pol_default = ''allow'', pol_countries = [(''cn'', ''deny'')]\<rparr> ''cn''"
proof -
  have "to_upper ''cn'' \<noteq> ''cn''" by code_simp
  from lowercase_entry_ignored [OF this, of "''allow''" "[]" "''deny''" "[]" "''cn''"]
  show ?thesis by (simp add: allows_def Allow_def)
qed

end
