(* ===== verification/Backlog.thy ===== *)
theory Backlog
  imports Rtmx AuditLog
begin

text \<open>
  The two packages around the backlog: \<open>internal/framing/framing.go\<close>, which sorts requirements
  into delivery lanes, and \<open>internal/propose/propose.go\<close>, which turns a requirement into proposed
  children under a cap, each recorded in the audit log.
\<close>

section \<open>Framing\<close>

record classification =
  cl_delivered :: "string list"
  cl_in_flight :: "string list"
  cl_parked :: "string list"
  cl_proposed :: "string list"
  cl_unframed :: "string list"

definition is_framed :: "requirement \<Rightarrow> bool" where
  "is_framed r \<longleftrightarrow> trim_space (rq_spec_file r) \<noteq> [] \<or> contains_str (rq_notes r) ''spec:''"

definition classify_one :: "requirement \<Rightarrow> classification \<Rightarrow> classification" where
  "classify_one r c =
     (let c1 = (case rq_status r of
                  StatusClosed \<Rightarrow> c\<lparr>cl_delivered := cl_delivered c @ [rq_id r]\<rparr>
                | StatusBlocked \<Rightarrow> c\<lparr>cl_parked := cl_parked c @ [rq_id r]\<rparr>
                | StatusProposed \<Rightarrow> c\<lparr>cl_proposed := cl_proposed c @ [rq_id r]\<rparr>
                | _ \<Rightarrow> c\<lparr>cl_in_flight := cl_in_flight c @ [rq_id r]\<rparr>)
      in if \<not> is_framed r then c1\<lparr>cl_unframed := cl_unframed c1 @ [rq_id r]\<rparr> else c1)"

definition classify :: "requirement list \<Rightarrow> classification" where
  "classify rs = fold classify_one rs
     \<lparr>cl_delivered = [], cl_in_flight = [], cl_parked = [], cl_proposed = [], cl_unframed = []\<rparr>"

definition reframe_backlog :: "requirement list \<Rightarrow> string list" where
  "reframe_backlog rs = cl_parked (classify rs)"

text \<open>The lane of a status, as a filter over the input.\<close>

definition lane :: "(requirement \<Rightarrow> bool) \<Rightarrow> requirement list \<Rightarrow> string list" where
  "lane P rs = map rq_id (filter P rs)"

lemma fold_classify:
  "fold classify_one rs c =
     \<lparr>cl_delivered = cl_delivered c @ lane (\<lambda>r. rq_status r = StatusClosed) rs,
      cl_in_flight = cl_in_flight c @ lane (\<lambda>r. rq_status r \<in> {StatusOpen, StatusClaimed}) rs,
      cl_parked = cl_parked c @ lane (\<lambda>r. rq_status r = StatusBlocked) rs,
      cl_proposed = cl_proposed c @ lane (\<lambda>r. rq_status r = StatusProposed) rs,
      cl_unframed = cl_unframed c @ lane (\<lambda>r. \<not> is_framed r) rs\<rparr>"
proof (induction rs arbitrary: c)
  case (Cons r rs)
  show ?case unfolding fold.simps comp_apply Cons.IH
    by (cases "rq_status r"; cases "is_framed r") (simp_all add: classify_one_def lane_def Let_def)
qed (simp add: lane_def)

lemma lanes_length:
  "length (lane (\<lambda>r. rq_status r = StatusClosed) rs)
   + length (lane (\<lambda>r. rq_status r \<in> {StatusOpen, StatusClaimed}) rs)
   + length (lane (\<lambda>r. rq_status r = StatusBlocked) rs)
   + length (lane (\<lambda>r. rq_status r = StatusProposed) rs) = length rs"
proof (induction rs)
  case (Cons r rs)
  then show ?case by (cases "rq_status r") (simp_all add: lane_def)
qed (simp add: lane_def)

text \<open>Classification puts every requirement into exactly one lane, in input order, and lists as
  unframed exactly those without a framing artifact; the reframe backlog is the parked lane.\<close>

theorem classify_lanes:
  "classify rs =
     \<lparr>cl_delivered = lane (\<lambda>r. rq_status r = StatusClosed) rs,
      cl_in_flight = lane (\<lambda>r. rq_status r \<in> {StatusOpen, StatusClaimed}) rs,
      cl_parked = lane (\<lambda>r. rq_status r = StatusBlocked) rs,
      cl_proposed = lane (\<lambda>r. rq_status r = StatusProposed) rs,
      cl_unframed = lane (\<lambda>r. \<not> is_framed r) rs\<rparr> \<and>
   length (cl_delivered (classify rs)) + length (cl_in_flight (classify rs)) +
     length (cl_parked (classify rs)) + length (cl_proposed (classify rs)) = length rs \<and>
   reframe_backlog rs = lane (\<lambda>r. rq_status r = StatusBlocked) rs"
  using lanes_length [of rs] by (simp add: classify_def reframe_backlog_def fold_classify)

section \<open>Proposals\<close>

record bounds =
  bd_max_depth :: int
  bd_max_children :: int

definition default_bounds :: bounds where
  "default_bounds = \<lparr>bd_max_depth = 1, bd_max_children = 8\<rparr>"

record proposal =
  pr_parent :: string
  pr_children :: "requirement list"

datatype propose_err = DepthBelowOne | NoChildren string | CapExceeded nat int string | AuditFailed string

text \<open>\<open>%02d\<close> of a positive number.\<close>

definition show2 :: "nat \<Rightarrow> string" where
  "show2 n = (if n < 10 then CHR ''0'' # show_nat n else show_nat n)"

definition child_of :: "requirement \<Rightarrow> nat \<Rightarrow> string \<Rightarrow> requirement" where
  "child_of p i title =
     \<lparr>rq_id = rq_id p @ ''-P'' @ show2 (Suc i), rq_prefix = rq_prefix p, rq_title = title,
      rq_status = StatusProposed, rq_tests = rq_tests p, rq_deps = [rq_id p],
      rq_spec_file = [], rq_notes = []\<rparr>"

definition propose_entry :: "requirement \<Rightarrow> requirement \<Rightarrow> audit_entry" where
  "propose_entry p c =
     \<lparr>en_time = 0, en_actor = [], en_action = ActionPropose, en_req = rq_id c,
      en_result = ''proposed'', en_machine = True, en_detail = ''proposed child of '' @ rq_id p\<rparr>"

fun propose_loop ::
  "requirement \<Rightarrow> nat \<Rightarrow> string list \<Rightarrow> audit_log option \<Rightarrow> (propose_err + requirement list) \<times> audit_log option"
where
  "propose_loop p i [] l = (Inr [], l)"
| "propose_loop p i (t # ts) l =
     (let c = child_of p i t
      in case (case l of None \<Rightarrow> (True, None)
               | Some a \<Rightarrow> (case audit_record (propose_entry p c) a of (ok, a') \<Rightarrow> (ok, Some a'))) of
           (False, l1) \<Rightarrow> (Inl (AuditFailed (rq_id c)), l1)
         | (True, l1) \<Rightarrow>
             (case propose_loop p (Suc i) ts l1 of
                (Inl e, l2) \<Rightarrow> (Inl e, l2)
              | (Inr cs, l2) \<Rightarrow> (Inr (c # cs), l2)))"

definition propose ::
  "bounds \<Rightarrow> requirement \<Rightarrow> string list \<Rightarrow> audit_log option \<Rightarrow> (propose_err + proposal) \<times> audit_log option" where
  "propose b p titles l =
     (if bd_max_depth b < 1 then (Inl DepthBelowOne, l)
      else if titles = [] then (Inl (NoChildren (rq_id p)), l)
      else if int (length titles) > bd_max_children b then
        (Inl (CapExceeded (length titles) (bd_max_children b) (rq_id p)), l)
      else (case propose_loop p 0 titles l of
              (Inl e, l1) \<Rightarrow> (Inl e, l1)
            | (Inr cs, l1) \<Rightarrow> (Inr \<lparr>pr_parent = rq_id p, pr_children = cs\<rparr>, l1)))"

lemma show2_inj: "show2 m = show2 n \<Longrightarrow> m = n"
proof -
  assume eq: "show2 m = show2 n"
  have "dec_val (show2 k) = k" for k
    using dec_val_show_nat [of k] by (simp add: show2_def dec_val_def digit_val_def)
  then show ?thesis using eq by metis
qed

lemma propose_loop_children:
  "propose_loop p i ts l = (Inr cs, l') \<Longrightarrow> cs = map (\<lambda>k. child_of p (i + k) (ts ! k)) [0..<length ts]"
proof (induction ts arbitrary: i l cs l')
  case (Cons t ts)
  obtain ok l1 where a: "(case l of None \<Rightarrow> (True, None)
      | Some a \<Rightarrow> (case audit_record (propose_entry p (child_of p i t)) a of (ok, a') \<Rightarrow> (ok, Some a'))) = (ok, l1)"
    by (metis surj_pair)
  obtain x l2 where r: "propose_loop p (Suc i) ts l1 = (x, l2)" by (cases "propose_loop p (Suc i) ts l1")
  with Cons.prems a obtain cs' where x: "x = Inr cs'" "cs = child_of p i t # cs'"
    by (cases ok; cases x) (auto simp: Let_def)
  from Cons.IH [OF r [unfolded x(1)]] have "cs' = map (\<lambda>k. child_of p (Suc i + k) (ts ! k)) [0..<length ts]" .
  moreover have "[0..<length (t # ts)] = 0 # map Suc [0..<length ts]"
    by (simp add: upt_conv_Cons map_Suc_upt del: upt_Suc)
  ultimately show ?case using x(2) by (simp del: upt_Suc)
qed simp

lemma propose_loop_audit:
  "propose_loop p i ts (Some a) = (Inr cs, l') \<Longrightarrow>
     \<exists>a'. l' = Some a' \<and> length (au_lines a') = length (au_lines a) + length ts \<and>
       take (length (au_lines a)) (au_lines a') = au_lines a \<and>
       map en_req (drop (length (au_lines a)) (au_lines a')) = map rq_id cs \<and>
       (\<forall>e \<in> set (drop (length (au_lines a)) (au_lines a')). en_action e = ActionPropose \<and> en_machine e)"
proof (induction ts arbitrary: i a cs l')
  case (Cons t ts)
  let ?c = "child_of p i t"
  obtain ok a1 where a: "audit_record (propose_entry p ?c) a = (ok, a1)"
    by (cases "audit_record (propose_entry p ?c) a")
  obtain x l2 where r: "propose_loop p (Suc i) ts (Some a1) = (x, l2)"
    by (cases "propose_loop p (Suc i) ts (Some a1)")
  with Cons.prems a obtain cs' where x: "x = Inr cs'" "cs = ?c # cs'" "l' = l2" "ok"
    by (cases ok; cases x) (auto simp: Let_def)
  have l1: "au_lines a1 = au_lines a @ [audit_stamp a (propose_entry p ?c)]"
    using a \<open>ok\<close> by (auto simp: audit_record_def Let_def split: if_splits)
  from Cons.IH [OF r [unfolded x(1)]] obtain a' where a': "l2 = Some a'"
    "length (au_lines a') = length (au_lines a1) + length ts"
    "take (length (au_lines a1)) (au_lines a') = au_lines a1"
    "map en_req (drop (length (au_lines a1)) (au_lines a')) = map rq_id cs'"
    "\<forall>e \<in> set (drop (length (au_lines a1)) (au_lines a')). en_action e = ActionPropose \<and> en_machine e"
    by blast
  obtain rest where rest: "au_lines a' = au_lines a1 @ rest" using a'(3) by (metis append_take_drop_id)
  have "en_req (propose_entry p ?c) = rq_id ?c" "en_action (propose_entry p ?c) = ActionPropose"
    "en_machine (propose_entry p ?c)" by (simp_all add: propose_entry_def)
  then show ?case using a' rest l1 x by simp
qed auto

text \<open>A successful proposal has one child per title, within the cap: all proposed, hence not
  claimable, with distinct ids, the parent's tests and a dependency on the parent; each child has
  its own machine-authored audit record, in order.\<close>

theorem propose_children:
  assumes "propose b p titles (Some a) = (Inr pr, l')"
  shows "pr_children pr = map (\<lambda>k. child_of p k (titles ! k)) [0..<length titles] \<and>
    int (length (pr_children pr)) \<le> bd_max_children b \<and> distinct (map rq_id (pr_children pr)) \<and>
    (\<exists>a' new. l' = Some a' \<and> au_lines a' = au_lines a @ new \<and> map en_req new = map rq_id (pr_children pr) \<and>
       list_all (\<lambda>e. en_action e = ActionPropose \<and> en_machine e) new)"
proof -
  obtain cs where cs: "propose_loop p 0 titles (Some a) = (Inr cs, l')" "pr_children pr = cs"
    and cap: "int (length titles) \<le> bd_max_children b"
    using assms by (auto simp: propose_def split: if_splits prod.splits sum.splits)
  have eq: "cs = map (\<lambda>k. child_of p k (titles ! k)) [0..<length titles]"
    using propose_loop_children [OF cs(1)] by simp
  have "distinct (map rq_id cs)"
    unfolding eq by (auto simp: distinct_map comp_def child_of_def inj_on_def dest: show2_inj)
  moreover from propose_loop_audit [OF cs(1)] obtain a' where a': "l' = Some a'"
    "take (length (au_lines a)) (au_lines a') = au_lines a"
    "map en_req (drop (length (au_lines a)) (au_lines a')) = map rq_id cs"
    "\<forall>e \<in> set (drop (length (au_lines a)) (au_lines a')). en_action e = ActionPropose \<and> en_machine e" by blast
  moreover have "au_lines a' = au_lines a @ drop (length (au_lines a)) (au_lines a')"
    using a'(2) by (metis append_take_drop_id)
  ultimately show ?thesis using eq cs(2) cap by (simp add: list_all_iff) (metis a'(1))
qed

definition sample_parent :: requirement where
  "sample_parent = \<lparr>rq_id = ''LOOP-1'', rq_prefix = ''LOOP'', rq_title = ''coarse'', rq_status = StatusOpen,
     rq_tests = [''m::T''], rq_deps = [], rq_spec_file = [], rq_notes = []\<rparr>"

theorem propose_children_witness:
  "\<exists>pr l'. propose default_bounds sample_parent [''a'', ''b''] (Some (audit_new ''m'' (\<lambda>_. 1) (\<lambda>_. False))) = (Inr pr, l') \<and>
     map rq_id (pr_children pr) = [''LOOP-1-P01'', ''LOOP-1-P02''] \<and> distinct (map rq_id (pr_children pr))"
proof -
  let ?l = "Some (audit_new ''m'' (\<lambda>_. 1) (\<lambda>_. False))"
  let ?r = "propose default_bounds sample_parent [''a'', ''b''] ?l"
  let ?p = "\<lparr>pr_parent = ''LOOP-1'', pr_children = [child_of sample_parent 0 ''a'', child_of sample_parent 1 ''b'']\<rparr>"
  have "fst ?r = Inr ?p" by code_simp
  then have e: "?r = (Inr ?p, snd ?r)" by (metis prod.collapse)
  have ids: "map rq_id (pr_children ?p) = [''LOOP-1-P01'', ''LOOP-1-P02'']" by code_simp
  have "distinct (map rq_id (pr_children ?p))"
    by (rule propose_children [OF e, THEN conjunct2, THEN conjunct2, THEN conjunct1])
  then show ?thesis using e ids by (intro exI conjI)
qed

end
