(* ===== verification/Install.thy ===== *)
theory Install
  imports Serving Config "HOL-Library.Word"
begin

text \<open>
  Host bootstrap, \<open>internal/install\<close>: the probes of the host and their parsers (\<open>detect.go\<close>) and
  the plan derived from them (\<open>plan.go\<close>).  The \<open>Sources\<close> interface is a record of functions, a
  byte count a 64-bit word.  A note of the plan is the constructor for its message.
\<close>

section \<open>Detection\<close>

record sources =
  so_goos :: string
  so_goarch :: string
  so_num_cpu :: int
  so_read_file :: "string \<Rightarrow> string option"
  so_look_path :: "string \<Rightarrow> bool"
  so_run :: "string list \<Rightarrow> string option"

datatype accel = AccelNone | AccelMetal | AccelNVIDIA | AccelROCm

record host_caps =
  hc_os :: string
  hc_arch :: string
  hc_logical :: int
  hc_physical :: int
  hc_ram :: "64 word"
  hc_accel :: accel

definition total_ram_gb :: "host_caps \<Rightarrow> 64 word" where
  "total_ram_gb h = hc_ram h div 2 ^ 30"

definition max1 :: "int \<Rightarrow> int" where
  "max1 n = (if n < 1 then 1 else n)"

text \<open>The lines a scanner with its default limit of 64 KiB delivers.\<close>

definition host_lines :: "string \<Rightarrow> string list" where
  "host_lines data = fst (scan_lines (64 * 1024) data)"

definition mem_total_line :: "string \<Rightarrow> nat option" where
  "mem_total_line l =
     (if has_prefix l ''MemTotal:'' then
        (case str_fields l of _ # v # _ \<Rightarrow> parse_uint64 v | _ \<Rightarrow> None)
      else None)"

definition parse_mem_total_kb :: "string \<Rightarrow> 64 word" where
  "parse_mem_total_kb data =
     (case List.map_filter mem_total_line (host_lines data) of [] \<Rightarrow> 0 | v # _ \<Rightarrow> word_of_nat v)"

definition split_colon :: "string \<Rightarrow> string \<times> string" where
  "split_colon l =
     (case index_char CHR '':'' l of
        None \<Rightarrow> (trim_space l, [])
      | Some i \<Rightarrow> (trim_space (take i l), trim_space (drop (Suc i) l)))"

text \<open>The state of the scan of \<open>/proc/cpuinfo\<close>; \<open>ci_seen\<close> has no duplicates.\<close>

record cpuinfo =
  ci_seen :: "(string \<times> string) list"
  ci_pkg :: string
  ci_core :: string
  ci_processors :: nat
  ci_have :: bool

definition ci_flush :: "cpuinfo \<Rightarrow> cpuinfo" where
  "ci_flush s =
     (if ci_pkg s \<noteq> [] \<and> ci_core s \<noteq> []
      then s\<lparr>ci_seen := List.insert (ci_pkg s, ci_core s) (ci_seen s), ci_have := True,
             ci_pkg := [], ci_core := []\<rparr>
      else s\<lparr>ci_pkg := [], ci_core := []\<rparr>)"

definition ci_line :: "string \<Rightarrow> cpuinfo \<Rightarrow> cpuinfo" where
  "ci_line l s =
     (if trim_space l = [] then ci_flush s
      else case split_colon l of (key, val) \<Rightarrow>
        if key = ''processor'' then s\<lparr>ci_processors := Suc (ci_processors s)\<rparr>
        else if key = ''physical id'' then s\<lparr>ci_pkg := val\<rparr>
        else if key = ''core id'' then s\<lparr>ci_core := val\<rparr>
        else s)"

definition parse_physical_cores :: "string \<Rightarrow> nat" where
  "parse_physical_cores data =
     (let s = ci_flush (fold ci_line (host_lines data)
                \<lparr>ci_seen = [], ci_pkg = [], ci_core = [], ci_processors = 0, ci_have = False\<rparr>)
      in if ci_have s then length (ci_seen s) else ci_processors s)"

definition parse_uint :: "string \<Rightarrow> 64 word" where
  "parse_uint b = (case parse_uint64 (trim_space b) of None \<Rightarrow> 0 | Some n \<Rightarrow> word_of_nat n)"

definition detect_ram_linux :: "sources \<Rightarrow> 64 word" where
  "detect_ram_linux s =
     (case so_read_file s ''/proc/meminfo'' of None \<Rightarrow> 0 | Some d \<Rightarrow> parse_mem_total_kb d * 1024)"

definition detect_physical_linux :: "sources \<Rightarrow> int \<Rightarrow> int" where
  "detect_physical_linux s logical =
     (case so_read_file s ''/proc/cpuinfo'' of
        None \<Rightarrow> logical
      | Some d \<Rightarrow> (let n = parse_physical_cores d in if n > 0 then int n else logical))"

definition detect_accel_linux :: "sources \<Rightarrow> accel" where
  "detect_accel_linux s =
     (if so_look_path s ''nvidia-smi'' then AccelNVIDIA
      else if so_look_path s ''rocminfo'' then AccelROCm else AccelNone)"

definition detect_ram_darwin :: "sources \<Rightarrow> 64 word" where
  "detect_ram_darwin s =
     (case so_run s [''sysctl'', ''-n'', ''hw.memsize''] of None \<Rightarrow> 0 | Some b \<Rightarrow> parse_uint b)"

definition detect_physical_darwin :: "sources \<Rightarrow> int \<Rightarrow> int" where
  "detect_physical_darwin s logical =
     (case so_run s [''sysctl'', ''-n'', ''hw.physicalcpu''] of
        None \<Rightarrow> logical
      | Some b \<Rightarrow> (let u = parse_uint b in if 0 < u \<and> u \<le> 2 ^ 31 - 1 then uint u else logical))"

definition detect_with :: "sources \<Rightarrow> host_caps" where
  "detect_with s =
     (let logical = so_num_cpu s;
          caps = (if so_goos s = ''darwin'' then
                    \<lparr>hc_os = so_goos s, hc_arch = so_goarch s, hc_logical = logical,
                     hc_physical = detect_physical_darwin s logical, hc_ram = detect_ram_darwin s,
                     hc_accel = AccelMetal\<rparr>
                  else
                    \<lparr>hc_os = so_goos s, hc_arch = so_goarch s, hc_logical = logical,
                     hc_physical = detect_physical_linux s logical, hc_ram = detect_ram_linux s,
                     hc_accel = detect_accel_linux s\<rparr>)
      in if hc_physical caps < 1 then caps\<lparr>hc_physical := max1 logical\<rparr> else caps)"

section \<open>Planning\<close>

datatype tier = TierSmall | TierMid | TierLarge

datatype plan_note = UnrecognizedOS string | NoRAMProbe | NvidiaCpuOnly | RocmCpuOnly

record install_plan =
  ip_caps :: host_caps
  ip_target :: string
  ip_tier :: tier
  ip_calibration :: calibration
  ip_config :: config
  ip_notes :: "plan_note list"

definition seed_port :: int where "seed_port = 8080"

definition pick_tier :: "64 word \<Rightarrow> tier" where
  "pick_tier ram =
     (if ram \<ge> 56 * 2 ^ 30 then TierLarge else if ram \<ge> 24 * 2 ^ 30 then TierMid else TierSmall)"

definition seed_calibration :: "string \<Rightarrow> host_caps \<Rightarrow> calibration" where
  "seed_calibration target caps =
     (if target = target_darwin_metal then
        zero_calibration\<lparr>cal_target := serve_darwin_metal, cal_threads := 0, cal_batch := 512,
          cal_ngl := 999, cal_model := ''/models/REPLACE-ME.gguf'', cal_port := seed_port\<rparr>
      else
        zero_calibration\<lparr>cal_target := serve_linux_cpu, cal_threads := max1 (hc_physical caps),
          cal_batch := 512, cal_ngl := 0, cal_model := ''/models/REPLACE-ME.gguf'', cal_port := seed_port\<rparr>)"

definition plan_target :: "host_caps \<Rightarrow> string \<times> plan_note list" where
  "plan_target caps =
     (if hc_os caps = ''darwin'' then (target_darwin_metal, [])
      else if hc_os caps = ''linux'' then (target_linux_cpu, [])
      else (target_linux_cpu, [UnrecognizedOS (hc_os caps)]))"

definition install_plan_for :: "host_caps \<Rightarrow> install_plan" where
  "install_plan_for caps =
     (case plan_target caps of (target, notes1) \<Rightarrow>
        let notes2 = notes1 @ (if hc_ram caps = 0 then [NoRAMProbe] else []);
            notes3 = notes2 @
              (if target = target_linux_cpu \<and> hc_accel caps = AccelNVIDIA then [NvidiaCpuOnly]
               else if target = target_linux_cpu \<and> hc_accel caps = AccelROCm then [RocmCpuOnly] else [])
        in \<lparr>ip_caps = caps, ip_target = target, ip_tier = pick_tier (hc_ram caps),
            ip_calibration = seed_calibration target caps,
            ip_config = default_config\<lparr>cf_allow_egress := False, cf_target := target\<rparr>,
            ip_notes = notes3\<rparr>)"

section \<open>Facts\<close>

lemma max1_ge [simp]: "1 \<le> max1 n"
  by (simp add: max1_def)

lemma plan_target_known: "fst (plan_target caps) \<in> {target_linux_cpu, target_darwin_metal}"
  by (simp add: plan_target_def)

lemma seed_calibration_valid: "cal_validate (seed_calibration t caps) = None"
  by (simp add: seed_calibration_def cal_validate_None)

text \<open>A block of \<open>/proc/cpuinfo\<close> for one logical processor.\<close>

definition cpu_block :: "string \<times> string \<Rightarrow> string list" where
  "cpu_block b = [''processor : 0'', ''physical id : '' @ fst b, ''core id : '' @ snd b, []]"

lemma colon_line:
  assumes "index_char CHR '':'' key = None"
  shows "index_char CHR '':'' (key @ CHR '':'' # v) = Some (length key)"
  using assms by (induction key) (auto split: if_splits)

lemma split_colon_line:
  assumes "index_char CHR '':'' key = None" "visible (hd v)" "visible (last v)" "v \<noteq> []"
  shows "split_colon (key @ '': '' @ v) = (trim_space key, v)"
proof -
  have "trim_space (CHR '' '' # v) = v" using assms trim_space_blank [of v] trim_space_visible [of v] by simp
  then show ?thesis using colon_line [OF assms(1), of "CHR '' '' # v"] by (simp add: split_colon_def)
qed

lemma visible_line_not_blank:
  assumes "visible c" "visible (last (c # s))" shows "trim_space (c # s) \<noteq> []"
  using trim_space_visible [of "c # s"] assms by simp

lemma visible_simps [simp]: "visible CHR ''p''" "visible CHR ''c''" "visible CHR ''0''"
  by (simp_all add: visible_def)

lemma ci_block:
  assumes "list_all visible (fst b)" "list_all visible (snd b)" "fst b \<noteq> []" "snd b \<noteq> []"
    and "ci_pkg s = []" "ci_core s = []"
  shows "fold ci_line (cpu_block b) s =
    s\<lparr>ci_seen := List.insert b (ci_seen s), ci_processors := Suc (ci_processors s), ci_have := True\<rparr>"
proof -
  obtain p c where b: "b = (p, c)" by (cases b)
  have v: "visible (hd p)" "visible (last p)" "p \<noteq> []" "visible (hd c)" "visible (last c)" "c \<noteq> []"
    using assms(1-4) b by (auto simp: list_all_iff)
  have k: "trim_space ''processor '' = ''processor''" "trim_space ''physical id '' = ''physical id''"
    "trim_space ''core id '' = ''core id''" by code_simp+
  have l1: "split_colon ''processor : 0'' = (''processor'', ''0'')"
    using split_colon_line [of "''processor ''" "''0''"] k by simp
  have l2: "split_colon (''physical id : '' @ p) = (''physical id'', p)"
    using split_colon_line [of "''physical id ''" p] v k by simp
  have l3: "split_colon (''core id : '' @ c) = (''core id'', c)"
    using split_colon_line [of "''core id ''" c] v k by simp
  have "trim_space (''physical id : '' @ p) = ''physical id : '' @ p"
    using v by (intro trim_space_visible) simp_all
  moreover have "trim_space (''core id : '' @ c) = ''core id : '' @ c"
    using v by (intro trim_space_visible) simp_all
  moreover have "trim_space ''processor : 0'' = ''processor : 0''"
    by (intro trim_space_visible) simp_all
  ultimately have s1: "ci_line ''processor : 0'' t = t\<lparr>ci_processors := Suc (ci_processors t)\<rparr>"
    and s2: "ci_line (''physical id : '' @ p) t = t\<lparr>ci_pkg := p\<rparr>"
    and s3: "ci_line (''core id : '' @ c) t = t\<lparr>ci_core := c\<rparr>" for t
    using l1 l2 l3 by (simp_all add: ci_line_def del: append.simps)
  show ?thesis using assms(5,6) v b
    by (simp add: cpu_block_def s1 s2 s3 ci_flush_def ci_line_def [of "[]"] del: append.simps)
qed

section \<open>Properties\<close>

text \<open>C11: every plan, whatever the host, is ready to run: its configuration validates with egress off
  and a loopback endpoint, and its calibration seed gives a launch command for the same target.\<close>

theorem plan_is_launchable:
  "config_ok (ip_config (install_plan_for caps)) \<and> \<not> cf_allow_egress (ip_config (install_plan_for caps)) \<and>
   cf_target (ip_config (install_plan_for caps)) = cal_target (ip_calibration (install_plan_for caps)) \<and>
   (\<exists>args. launch_args env (Some (ip_calibration (install_plan_for caps))) = Inr args)"
proof -
  obtain t n where t: "plan_target caps = (t, n)" by (cases "plan_target caps")
  with plan_target_known [of caps] have known: "t \<in> {target_linux_cpu, target_darwin_metal}" by simp
  have "config_ok default_config" using default_config_valid by (simp only: validate_iff_ok)
  then have "config_ok (default_config\<lparr>cf_allow_egress := False, cf_target := t\<rparr>)"
    using known by (auto simp: config_ok_def default_config_def)
  moreover have "cal_target (seed_calibration t caps) = t"
    using known by (auto simp: seed_calibration_def config_consts serve_linux_cpu_def serve_darwin_metal_def)
  moreover have "\<exists>args. launch_args env (Some (seed_calibration t caps)) = Inr args"
    by (rule launch_args_ok [OF seed_calibration_valid])
  ultimately show ?thesis using t by (simp add: install_plan_for_def Let_def)
qed

text \<open>Detection never fails and always reports at least one physical core; on a darwin host the
  accelerator is Metal, elsewhere it is never Metal.\<close>

theorem detect_at_least_one_core:
  "1 \<le> hc_physical (detect_with s) \<and> hc_os (detect_with s) = so_goos s \<and>
   (hc_accel (detect_with s) = AccelMetal \<longleftrightarrow> so_goos s = ''darwin'')"
  by (auto simp: detect_with_def Let_def detect_accel_linux_def)

section \<open>Reading the kernel's files\<close>

lemma fields_acc_word: "list_all visible w \<Longrightarrow> fields_acc cur (w @ s) = fields_acc (rev w @ cur) s"
proof (induction w arbitrary: cur)
  case (Cons c w)
  then have "space_len (c # w @ s) = 0" by (simp add: space_len_visible)
  then show ?case using Cons by (simp add: fields_acc.simps [of cur "c # w @ s"])
qed simp

lemma fields_acc_blank: "fields_acc cur (CHR '' '' # s) = (if cur = [] then [] else [rev cur]) @ fields_acc [] s"
proof -
  have "space_len (CHR '' '' # s) = 1" by (cases s; cases "tl s") (auto simp: ascii_space_def)
  then show ?thesis by (simp add: fields_acc.simps [of cur "CHR '' '' # s"])
qed

lemma fields_acc_end: "cur \<noteq> [] \<Longrightarrow> fields_acc cur [] = [rev cur]"
  by (simp add: fields_acc.simps)

lemma show_nat_visible: "list_all visible (show_nat n)"
  using show_nat_digits [of n] by (auto simp: list_all_iff is_digit_def visible_def)

lemma raw_lines_first: "CHR 0x0A \<notin> set l \<Longrightarrow> raw_lines (l @ CHR 0x0A # rest) = l # raw_lines rest"
  by (simp add: raw_lines_def split_on_append_sep Let_def)

lemma host_lines_first:
  assumes "CHR 0x0A \<notin> set l" "length l < 64 * 1024" "l \<noteq> []" "last l \<noteq> CHR 0x0D"
  shows "\<exists>ls. host_lines (l @ CHR 0x0A # rest) = l # ls"
proof -
  have "\<not> has_suffix l [CHR 0x0D]" using assms(3,4) by (simp add: has_suffix_single)
  then have "trim_suffix l [CHR 0x0D] = l" by (simp add: trim_suffix_def)
  then show ?thesis using assms(1,2) raw_lines_first [of l rest] by (simp add: host_lines_def scan_lines_def Let_def)
qed

definition meminfo_line :: "nat \<Rightarrow> string" where
  "meminfo_line n = ''MemTotal: '' @ show_nat n @ '' kB''"

lemma meminfo_fields: "str_fields (meminfo_line n) = [''MemTotal:'', show_nat n, ''kB'']"
proof -
  have v: "list_all visible ''MemTotal:''" "list_all visible ''kB''" by code_simp+
  have e: "meminfo_line n = ''MemTotal:'' @ CHR '' '' # (show_nat n @ CHR '' '' # (''kB'' @ []))"
    by (simp add: meminfo_line_def)
  show ?thesis unfolding str_fields_def e
    by (simp only: fields_acc_word [OF v(1)] fields_acc_blank fields_acc_word [OF show_nat_visible]
        fields_acc_word [OF v(2)]) (simp add: fields_acc_end)
qed

lemma length_show_nat: "n < 10 ^ k \<Longrightarrow> 0 < k \<Longrightarrow> length (show_nat n) \<le> k"
proof (induction k arbitrary: n)
  case (Suc k)
  show ?case
  proof (cases "n < 10")
    case True
    then show ?thesis by (simp add: show_nat.simps [of n])
  next
    case False
    then have k: "0 < k" using Suc.prems(1) by (cases k) auto
    from Suc.prems(1) have "n div 10 < 10 ^ k" by (simp add: less_mult_imp_div_less)
    from Suc.IH [OF this k] False show ?thesis by (simp add: show_nat.simps [of n])
  qed
qed simp


definition sample_host :: sources where
  "sample_host = \<lparr>so_goos = ''linux'', so_goarch = ''amd64'', so_num_cpu = 8,
     so_read_file = (\<lambda>p. if p = ''/proc/meminfo'' then Some (meminfo_line 65802256 @ CHR 0x0A # []) else None),
     so_look_path = (\<lambda>_. False), so_run = (\<lambda>_. None)\<rparr>"


lemma fold_cpu_blocks:
  assumes "list_all (\<lambda>b. list_all visible (fst b) \<and> list_all visible (snd b) \<and> fst b \<noteq> [] \<and> snd b \<noteq> []) bs"
    and "ci_pkg s = []" "ci_core s = []" "distinct (ci_seen s)"
  shows "\<exists>t. fold ci_line (concat (map cpu_block bs)) s = t \<and> ci_pkg t = [] \<and> ci_core t = [] \<and>
    distinct (ci_seen t) \<and> set (ci_seen t) = set (ci_seen s) \<union> set bs \<and>
    (ci_have t \<longleftrightarrow> ci_have s \<or> bs \<noteq> []) \<and> ci_processors t = ci_processors s + length bs"
  using assms
proof (induction bs arbitrary: s)
  case (Cons b bs)
  let ?s = "s\<lparr>ci_seen := List.insert b (ci_seen s), ci_processors := Suc (ci_processors s), ci_have := True\<rparr>"
  have b: "fold ci_line (cpu_block b) s = ?s" using Cons.prems by (intro ci_block) simp_all
  have "\<exists>t. fold ci_line (concat (map cpu_block bs)) ?s = t \<and> ci_pkg t = [] \<and> ci_core t = [] \<and>
    distinct (ci_seen t) \<and> set (ci_seen t) = set (ci_seen ?s) \<union> set bs \<and>
    (ci_have t \<longleftrightarrow> ci_have ?s \<or> bs \<noteq> []) \<and> ci_processors t = ci_processors ?s + length bs"
    by (rule Cons.IH) (use Cons.prems in simp_all)
  then show ?case by (simp add: fold_append b)
qed simp

text \<open>C26: on a \<open>/proc/cpuinfo\<close> of one block per logical processor, the core count is the number of
  distinct pairs of package and core, hyper-threads of a core counting once.\<close>

theorem parse_cores_counts_distinct:
  assumes "host_lines data = concat (map cpu_block bs)" and "bs \<noteq> []"
    and "list_all (\<lambda>b. list_all visible (fst b) \<and> list_all visible (snd b) \<and> fst b \<noteq> [] \<and> snd b \<noteq> []) bs"
  shows "parse_physical_cores data = card (set bs)"
proof -
  let ?z = "\<lparr>ci_seen = [], ci_pkg = [], ci_core = [], ci_processors = 0, ci_have = False\<rparr>"
  from fold_cpu_blocks [OF assms(3), of ?z] obtain t where t: "fold ci_line (host_lines data) ?z = t"
    "ci_pkg t = []" "ci_core t = []" "distinct (ci_seen t)" "set (ci_seen t) = set bs" "ci_have t"
    using assms(1,2) by auto
  have "ci_flush t = t" using t(2,3) by (simp add: ci_flush_def)
  moreover have "length (ci_seen t) = card (set bs)" using t(4,5) by (metis distinct_card)
  ultimately show ?thesis using t(1,6) by (simp add: parse_physical_cores_def Let_def)
qed

definition sample_cpuinfo :: string where
  "sample_cpuinfo = join [CHR 0x0A] (concat (map cpu_block [(''0'', ''0''), (''0'', ''0''), (''0'', ''1'')])) @ [CHR 0x0A]"

theorem parse_cores_counts_distinct_witness: "parse_physical_cores sample_cpuinfo = 2"
proof -
  let ?bs = "[(''0'', ''0''), (''0'', ''0''), (''0'', ''1'')]"
  have r: "raw_lines sample_cpuinfo = concat (map cpu_block ?bs)" by code_simp
  have t: "list_all (\<lambda>l. length l < 99 \<and> trim_suffix l [CHR 0x0D] = l) (concat (map cpu_block ?bs))" by code_simp
  have "host_lines sample_cpuinfo = concat (map cpu_block ?bs)"
  proof -
    have "length l < 64 * 1024 \<and> trim_suffix l [CHR 0x0D] = l" if "l \<in> set (concat (map cpu_block ?bs))" for l
    proof -
      have "length l < 99 \<and> trim_suffix l [CHR 0x0D] = l" using t that by (simp only: list_all_iff Ball_def)
      then show ?thesis by simp
    qed
    note all = this
    have "takeWhile (\<lambda>l. length l < 64 * 1024) (concat (map cpu_block ?bs)) = concat (map cpu_block ?bs)"
      "map (\<lambda>l. trim_suffix l [CHR 0x0D]) (concat (map cpu_block ?bs)) = concat (map cpu_block ?bs)"
      unfolding takeWhile_eq_all_conv using all by (blast, intro map_idI, blast)
    then show ?thesis unfolding host_lines_def scan_lines_def Let_def r fst_conv by (simp only:)
  qed
  then have "parse_physical_cores sample_cpuinfo = card (set ?bs)"
    by (rule parse_cores_counts_distinct) (simp_all add: visible_def)
  then show ?thesis by simp
qed

end
