(* ===== verification/JsonText.thy ===== *)
theory JsonText
  imports GoJson
begin

text \<open>
  The text \<open>json.MarshalIndent(v, "", "  ")\<close> produces for a tree, with the string escapes of
  \<open>encoding/json\<close>, and the round trip: parsing the text of a tree of UTF-8 strings and integers
  gives the tree back.
\<close>

section \<open>Strings\<close>

definition hex_low :: "nat \<Rightarrow> char" where
  "hex_low d = (if d < 10 then char_of (48 + d) else char_of (87 + d))"

definition u_escape :: "nat \<Rightarrow> string" where
  "u_escape n = [CHR 0x5C, CHR ''u'', hex_low (n div 4096 mod 16), hex_low (n div 256 mod 16),
     hex_low (n div 16 mod 16), hex_low (n mod 16)]"

definition html_safe :: "char \<Rightarrow> bool" where
  "html_safe c \<longleftrightarrow> byte_in 32 127 c \<and> c \<notin> {CHR 0x22, CHR 0x5C, CHR ''<'', CHR ''>'', CHR ''&''}"

text \<open>The encoding of an ASCII byte, and of the sequence at the head of a string with its length.\<close>

definition enc_ascii :: "char \<Rightarrow> string" where
  "enc_ascii c =
     (if html_safe c then [c]
      else if c = CHR 0x22 \<or> c = CHR 0x5C then [CHR 0x5C, c]
      else if c = CHR 0x08 then [CHR 0x5C, CHR ''b''] else if c = CHR 0x0C then [CHR 0x5C, CHR ''f'']
      else if c = CHR 0x0A then [CHR 0x5C, CHR ''n''] else if c = CHR 0x0D then [CHR 0x5C, CHR ''r'']
      else if c = CHR 0x09 then [CHR 0x5C, CHR ''t'']
      else u_escape (of_char c))"

definition line_separators :: "string list" where
  "line_separators = [[CHR 0xE2, CHR 0x80, CHR 0xA8], [CHR 0xE2, CHR 0x80, CHR 0xA9]]"

definition enc_unit :: "string \<Rightarrow> string \<times> nat" where
  "enc_unit s =
     (if byte_in 0 127 (hd s) then (enc_ascii (hd s), 1)
      else if utf8_len s = 0 then (u_escape 0xFFFD, 1)
      else if take 3 s \<in> set line_separators then (u_escape (0x2028 + (if s ! 2 = CHR 0xA9 then 1 else 0)), 3)
      else (take (utf8_len s) s, utf8_len s))"

fun enc_body :: "nat \<Rightarrow> string \<Rightarrow> string" where
  "enc_body 0 s = []"
| "enc_body (Suc n) s =
     (if s = [] then [] else case enc_unit s of (out, k) \<Rightarrow> out @ enc_body n (drop k s))"

definition enc_string :: "string \<Rightarrow> string" where
  "enc_string s = [CHR 0x22] @ enc_body (length s) s @ [CHR 0x22]"

section \<open>Values\<close>

definition line_pad :: "nat \<Rightarrow> string" where
  "line_pad n = CHR 0x0A # replicate (2 * n) CHR '' ''"

fun json_indent :: "nat \<Rightarrow> json \<Rightarrow> string"
  and indent_elems :: "nat \<Rightarrow> json list \<Rightarrow> string"
  and indent_members :: "nat \<Rightarrow> (string \<times> json) list \<Rightarrow> string"
where
  "json_indent n JNull = ''null''"
| "json_indent n (JBool b) = (if b then ''true'' else ''false'')"
| "json_indent n (JNum l) = l"
| "json_indent n (JStr s) = enc_string s"
| "json_indent n (JArr vs) = (if vs = [] then ''[]'' else ''['' @ indent_elems (Suc n) vs @ line_pad n @ '']'')"
| "json_indent n (JObj ms) = (if ms = [] then ''{}'' else ''{'' @ indent_members (Suc n) ms @ line_pad n @ ''}'')"
| "indent_elems n [] = []"
| "indent_elems n (v # vs) =
     line_pad n @ json_indent n v @ (if vs = [] then [] else '','' @ indent_elems n vs)"
| "indent_members n [] = []"
| "indent_members n ((k, v) # ms) =
     line_pad n @ enc_string k @ '': '' @ json_indent n v @ (if ms = [] then [] else '','' @ indent_members n ms)"

section \<open>Reading a string back\<close>

text \<open>Valid UTF-8: every sequence of the text is one.\<close>

function utf8_text :: "string \<Rightarrow> bool" where
  "utf8_text s =
     (if s = [] then True else if utf8_len s = 0 then False else utf8_text (drop (utf8_len s) s))"
  by pat_completeness auto
termination by (relation "measure length") auto

declare utf8_text.simps [simp del]

lemma utf8_text_Nil [simp]: "utf8_text []"
  by (simp add: utf8_text.simps)

lemma utf8_text_ascii [simp]: "byte_in 0 127 c \<Longrightarrow> utf8_text (c # s) = utf8_text s"
  by (subst utf8_text.simps) simp

lemma utf8_len_take:
  assumes "utf8_len s \<noteq> 0"
  shows "utf8_len (take (utf8_len s) s @ r) = utf8_len s \<and> utf8_len s \<le> length s"
proof -
  obtain a t where s: "s = a # t" using assms by (cases s) auto
  show ?thesis
  proof (cases "byte_in 0 127 a")
    case True
    then show ?thesis by (simp add: s)
  next
    case F1: False
    then obtain b u where t: "t = b # u" using assms s by (cases t) auto
    show ?thesis
    proof (cases "byte_in 194 223 a")
      case True
      then show ?thesis using assms F1 by (auto simp: s t split: if_splits)
    next
      case F2: False
      then obtain c v where u: "u = c # v" using assms F1 s t by (cases u) auto
      show ?thesis
      proof (cases "utf8_len s = 3")
        case True
        then have "(a = CHR 0xE0 \<and> byte_in 160 191 b \<or> a = CHR 0xED \<and> byte_in 128 159 b
            \<or> (byte_in 225 236 a \<or> byte_in 238 239 a) \<and> byte_in 128 191 b) \<and> byte_in 128 191 c"
          using F1 F2 by (auto simp: s t u split: if_splits list.splits)
        then show ?thesis using F1 F2 True by (simp add: s t u)
      next
        case F3: False
        then obtain d x where v: "v = d # x" using assms F1 F2 s t u by (cases v) (auto split: if_splits)
        then show ?thesis using assms F1 F2 F3 by (auto simp: s t u v split: if_splits)
      qed
    qed
  qed
qed

lemma hex_low_digit:
  assumes "d < 16"
  shows "is_hex (hex_low d) \<and> hex_digit (hex_low d) = d"
proof (cases "d < 10")
  case True
  then show ?thesis using digit_char_props [of d] by (simp add: is_hex_def hex_digit_def hex_low_def digit_char_def)
next
  case False
  with assms show ?thesis
    by (simp add: hex_low_def is_hex_def hex_digit_def less_eq_char_def is_digit_def)
qed

lemma u_escape_unit:
  assumes "n < 65536" and "\<not> surrogate n"
  shows "string_unit (u_escape n @ r) = Some (utf8_enc n, 6)"
proof -
  let ?h = "[hex_low (n div 4096 mod 16), hex_low (n div 256 mod 16), hex_low (n div 16 mod 16), hex_low (n mod 16)]"
  have "list_all is_hex ?h" by (simp add: hex_low_digit)
  moreover have "hex_val ?h = n"
  proof -
    have d: "n div 4096 < 16" using assms(1) by simp
    have "n div 4096 = n div 256 div 16" "n div 256 = n div 16 div 16" by (simp_all add: div_mult2_eq [symmetric])
    then have e: "n div 256 = 16 * (n div 4096) + n div 256 mod 16" "n div 16 = 16 * (n div 256) + n div 16 mod 16"
      "n = 16 * (n div 16) + n mod 16" by (simp_all only: mult_div_mod_eq)
    have "hex_val ?h = 16 * (16 * (16 * (n div 4096) + n div 256 mod 16) + n div 16 mod 16) + n mod 16"
      using d by (simp add: hex_val_def hex_low_digit)
    also have "\<dots> = n" by (simp only: e [symmetric])
    finally show ?thesis .
  qed
  ultimately show ?thesis using assms(2) by (simp add: u_escape_def string_unit_def hex4_def)
qed

lemma u_escape_start: "hd (u_escape n) = CHR 0x5C" "u_escape n \<noteq> []" "length (u_escape n) = 6"
  by (simp_all add: u_escape_def)

lemma enc_ascii_units:
  assumes "byte_in 0 127 c"
  shows "string_unit (enc_ascii c @ r) = Some ([c], length (enc_ascii c))" "hd (enc_ascii c) \<noteq> CHR 0x22"
    "enc_ascii c \<noteq> []"
proof -
  have n: "(of_char c :: nat) \<le> 127" using assms by (auto simp: byte_in_def)
  consider (short) "c \<in> {CHR 0x08, CHR 0x0C, CHR 0x0A, CHR 0x0D, CHR 0x09}"
    | (control) "(of_char c :: nat) < 32" "c \<notin> {CHR 0x08, CHR 0x0C, CHR 0x0A, CHR 0x0D, CHR 0x09}"
    | (safe) "html_safe c" | (quoted) "c = CHR 0x22 \<or> c = CHR 0x5C"
    | (html) "c = CHR ''<'' \<or> c = CHR ''>'' \<or> c = CHR ''&''"
  proof (cases "html_safe c \<or> (of_char c :: nat) < 32")
    case True
    then show ?thesis using that(1-3) by blast
  next
    case False
    then have "c \<in> {CHR 0x22, CHR 0x5C, CHR ''<'', CHR ''>'', CHR ''&''}" using n by (simp add: html_safe_def byte_in_def)
    then show ?thesis using that(4,5) by blast
  qed
  then have "string_unit (enc_ascii c @ r) = Some ([c], length (enc_ascii c)) \<and> hd (enc_ascii c) \<noteq> CHR 0x22 \<and> enc_ascii c \<noteq> []"
  proof cases
    case short
    have e: "enc_ascii CHR 0x08 = [CHR 0x5C, CHR ''b'']" "enc_ascii CHR 0x0C = [CHR 0x5C, CHR ''f'']"
      "enc_ascii CHR 0x0A = [CHR 0x5C, CHR ''n'']" "enc_ascii CHR 0x0D = [CHR 0x5C, CHR ''r'']"
      "enc_ascii CHR 0x09 = [CHR 0x5C, CHR ''t'']" by code_simp+
    show ?thesis using short
      by (elim insertE emptyE) (simp_all only: e, simp_all add: string_unit_def simple_escape_def)
  next
    case control
    have "\<not> html_safe c" "c \<noteq> CHR 0x22" "c \<noteq> CHR 0x5C" using control(1) by (auto simp: html_safe_def byte_in_def)
    then have e: "enc_ascii c = u_escape (of_char c)" using control(2) by (simp add: enc_ascii_def)
    have "string_unit (u_escape (of_char c) @ r) = Some ([c], 6)"
      using u_escape_unit [of "of_char c" r] control(1) by (simp add: surrogate_def utf8_enc_def)
    then show ?thesis by (simp add: e u_escape_start)
  next
    case safe
    then have "c \<noteq> CHR 0x5C" "c \<noteq> CHR 0x22" "\<not> (of_char c :: nat) < 32" by (auto simp: html_safe_def byte_in_def)
    then show ?thesis using safe assms by (simp add: enc_ascii_def string_unit_def)
  next
    case quoted
    then have "\<not> html_safe c" by (auto simp: html_safe_def)
    then show ?thesis using quoted by (auto simp: enc_ascii_def string_unit_def simple_escape_def)
  next
    case html
    have e: "enc_ascii CHR ''<'' = [CHR 0x5C, CHR ''u'', CHR ''0'', CHR ''0'', CHR ''3'', CHR ''c'']"
      "enc_ascii CHR ''>'' = [CHR 0x5C, CHR ''u'', CHR ''0'', CHR ''0'', CHR ''3'', CHR ''e'']"
      "enc_ascii CHR ''&'' = [CHR 0x5C, CHR ''u'', CHR ''0'', CHR ''0'', CHR ''2'', CHR ''6'']"
      by code_simp+
    have h: "is_hex CHR ''0''" "is_hex CHR ''3''" "is_hex CHR ''c''" "is_hex CHR ''e''" "is_hex CHR ''2''" "is_hex CHR ''6''"
      "hex_val ''003c'' = 60" "hex_val ''003e'' = 62" "hex_val ''0026'' = 38"
      "utf8_enc 60 = ''<''" "utf8_enc 62 = ''>''" "utf8_enc 38 = ''&''" by code_simp+
    show ?thesis using html
      by (elim disjE) (simp_all add: e string_unit_def hex4_def h surrogate_def)
  qed
  then show "string_unit (enc_ascii c @ r) = Some ([c], length (enc_ascii c))" "hd (enc_ascii c) \<noteq> CHR 0x22"
    "enc_ascii c \<noteq> []" by auto
qed

text \<open>One unit of valid text is read back, also the escaped line separators.\<close>

lemma separator_cases:
  assumes "take 3 s \<in> set line_separators"
  shows "utf8_len s = 3" "take 3 s = utf8_enc (0x2028 + (if s ! 2 = CHR 0xA9 then 1 else 0))"
proof -
  obtain x t where s: "s = CHR 0xE2 # CHR 0x80 # x # t" "x = CHR 0xA8 \<or> x = CHR 0xA9"
    using assms by (cases s; cases "tl s"; cases "tl (tl s)") (auto simp: line_separators_def)
  have b: "\<not> byte_in 0 127 CHR 0xE2" "\<not> byte_in 194 223 CHR 0xE2" "byte_in 225 236 CHR 0xE2" "byte_in 128 191 CHR 0x80"
    "byte_in 128 191 x" using s(2) by (auto simp: byte_in_def)
  show "utf8_len s = 3" by (simp add: s(1) b)
  have "char_of (226 :: nat) = CHR 0xE2" "char_of (128 :: nat) = CHR 0x80" "char_of (168 :: nat) = CHR 0xA8"
    "char_of (169 :: nat) = CHR 0xA9" by code_simp+
  then have "utf8_enc 8232 = [CHR 0xE2, CHR 0x80, CHR 0xA8]" "utf8_enc 8233 = [CHR 0xE2, CHR 0x80, CHR 0xA9]"
    by (simp_all add: utf8_enc_def)
  then show "take 3 s = utf8_enc (0x2028 + (if s ! 2 = CHR 0xA9 then 1 else 0))"
    using s by (elim disjE) (simp_all add: numeral_eq_Suc)
qed

lemma enc_unit_read:
  assumes "s \<noteq> []" and "utf8_len s \<noteq> 0" and "enc_unit s = (out, k)"
  shows "k = utf8_len s \<and> string_unit (out @ r) = Some (take k s, length out) \<and> out \<noteq> [] \<and> hd out \<noteq> CHR 0x22"
proof -
  obtain c t where s: "s = c # t" using assms(1) by (cases s) auto
  show ?thesis
  proof (cases "byte_in 0 127 c")
    case True
    then show ?thesis using assms(3) enc_ascii_units [OF True] by (auto simp: s enc_unit_def)
  next
    case F: False
    show ?thesis
    proof (cases "take 3 s \<in> set line_separators")
      case True
      let ?n = "0x2028 + (if s ! 2 = CHR 0xA9 then 1 else 0) :: nat"
      have "out = u_escape ?n" "k = 3" using assms(2,3) F True by (auto simp: s enc_unit_def)
      moreover have "string_unit (u_escape ?n @ r) = Some (utf8_enc ?n, 6)"
        by (intro u_escape_unit) (simp_all add: surrogate_def)
      ultimately show ?thesis using separator_cases [OF True] by (simp add: u_escape_start)
    next
      case False
      then have o: "out = take (utf8_len s) s" "k = utf8_len s" using assms(2,3) F by (auto simp: s enc_unit_def)
      have l: "utf8_len (take (utf8_len s) s @ r) = utf8_len s" "utf8_len s \<le> length s"
        using utf8_len_take [OF assms(2)] by auto
      obtain x where x: "take (utf8_len s) s = c # x" using assms(2) by (cases "utf8_len s") (auto simp: s)
      have "\<not> (of_char c :: nat) < 32" "c \<noteq> CHR 0x5C" "c \<noteq> CHR 0x22" using F by (auto simp: byte_in_def)
      moreover have "hd (take (utf8_len s) s @ r) = c" "take (utf8_len s) s \<noteq> []" "hd (take (utf8_len s) s) = c"
        by (simp_all add: x)
      moreover have "take (utf8_len s) (take (utf8_len s) s @ r) = take (utf8_len s) s" using l(2) by simp
      ultimately show ?thesis using l assms(2) unfolding o string_unit_def Let_def by simp
    qed
  qed
qed

lemma scan_string_body:
  "utf8_text s \<Longrightarrow> length s \<le> m \<Longrightarrow> length (enc_body m s) < n \<Longrightarrow>
     scan_string n (enc_body m s @ CHR 0x22 # r) = Some (s, r)"
proof (induction m arbitrary: s n)
  case 0
  then show ?case by (cases n) simp_all
next
  case (Suc m)
  then obtain j where n: "n = Suc j" by (cases n) auto
  show ?case
  proof (cases "s = []")
    case True
    then show ?thesis by (simp add: n)
  next
    case False
    have u: "utf8_len s \<noteq> 0" "utf8_text (drop (utf8_len s) s)"
      using Suc.prems(1) False by (auto simp: utf8_text.simps [of s] split: if_splits)
    obtain out k where e: "enc_unit s = (out, k)" by force
    let ?rest = "enc_body m (drop k s) @ CHR 0x22 # r"
    have o: "k = utf8_len s" "string_unit (out @ ?rest) = Some (take k s, length out)" "out \<noteq> []" "hd out \<noteq> CHR 0x22"
      using enc_unit_read [OF False u(1) e] by blast+
    have b: "enc_body (Suc m) s = out @ enc_body m (drop k s)" using False by (simp add: e)
    have "scan_string j ?rest = Some (drop k s, r)"
    proof (rule Suc.IH)
      show "utf8_text (drop k s)" using u o by simp
      show "length (drop k s) \<le> m" using Suc.prems(2) u(1) o(1) False by (cases s) auto
      show "length (enc_body m (drop k s)) < j" using Suc.prems(3) b n o(3) by (cases out) auto
    qed
    then show ?thesis using o unfolding b n by simp
  qed
qed

lemma json_string_enc:
  "utf8_text s \<Longrightarrow> json_string (enc_body (length s) s @ CHR 0x22 # r) = Some (s, r)"
  unfolding json_string_def by (rule scan_string_body) simp_all

section \<open>Reading a number back\<close>

definition delim :: "string \<Rightarrow> bool" where
  "delim r \<longleftrightarrow> r = [] \<or> hd r \<in> {CHR '','', CHR '']'', CHR ''}'', CHR 0x0A}"

lemma digits_of_append: "list_all is_digit ds \<Longrightarrow> delim r \<Longrightarrow> digits_of (ds @ r) = ds"
proof -
  assume d: "list_all is_digit ds" "delim r"
  have "digits_of r = []" using d(2) by (cases r) (auto simp: delim_def digits_of_def is_digit_def)
  then show ?thesis using d(1) by (simp add: digits_of_def list_all_iff takeWhile_append2)
qed

lemma scan_number_nat:
  assumes "delim r"
  shows "scan_frac r = Some []" "scan_exp r = Some []"
  using assms by (cases r; auto simp: delim_def scan_frac_def scan_exp_def)+

lemma show_nat_head: "\<exists>c s. show_nat n = c # s \<and> is_digit c \<and> (c = CHR ''0'' \<longrightarrow> s = [])"
proof -
  obtain c s where c: "show_nat n = c # s" by (cases "show_nat n") auto
  have "is_digit c" using show_nat_digits [of n] c by simp
  moreover have "s = []" if "c = CHR ''0''"
  proof -
    have "n = 0" using hd_show_nat [of n] c that by simp
    then show ?thesis using c by (simp add: show_nat.simps)
  qed
  ultimately show ?thesis using c by blast
qed

lemma show_int_head: "\<exists>c t. show_int i = c # t \<and> (is_digit c \<or> c = CHR ''-'')"
proof (cases "i < 0")
  case False
  then show ?thesis using show_nat_head [of "nat i"] by (auto simp: show_int_def)
qed (simp add: show_int_def)

lemma scan_number_show: "delim r \<Longrightarrow> scan_number (show_int i @ r) = Some (show_int i, r)"
proof -
  assume r: "delim r"
  note fx = scan_number_nat [OF r]
  have B: "digits_of (show_nat n @ r) = show_nat n" for n by (rule digits_of_append [OF show_nat_digits r])
  have A: "show_nat n = ''0''" if "has_prefix (show_nat n @ r) ''0''" for n
  proof -
    obtain c s where c: "show_nat n = c # s" "c = CHR ''0'' \<longrightarrow> s = []" using show_nat_head [of n] by blast
    then show ?thesis using that by auto
  qed
  have nominus: "\<not> has_prefix (show_nat n @ r) ''-''" for n
  proof -
    obtain c s where c: "show_nat n = c # s" "is_digit c" using show_nat_head [of n] by blast
    then show ?thesis by (auto simp: is_digit_def)
  qed
  have neg: "scan_number (CHR ''-'' # show_nat n @ r) = Some (CHR ''-'' # show_nat n, r)" for n
  proof (cases "has_prefix (show_nat n @ r) ''0''")
    case True
    then show ?thesis using A [OF True] fx by (simp add: scan_number_def)
  next
    case False
    then show ?thesis using fx by (simp add: scan_number_def B)
  qed
  have pos: "scan_number (show_nat n @ r) = Some (show_nat n, r)" for n
  proof (cases "has_prefix (show_nat n @ r) ''0''")
    case True
    then show ?thesis using A [OF True] fx by (simp add: scan_number_def)
  next
    case False
    then show ?thesis using fx nominus [of n] by (simp add: scan_number_def B)
  qed
  show ?thesis using neg pos by (simp add: show_int_def)
qed

section \<open>Reading a value back\<close>

fun plain_json :: "json \<Rightarrow> bool" where
  "plain_json (JNum l) = (\<exists>i. l = show_int i)"
| "plain_json (JStr s) = utf8_text s"
| "plain_json (JArr vs) = list_all plain_json vs"
| "plain_json (JObj ms) = list_all (\<lambda>m. utf8_text (fst m) \<and> plain_json (snd m)) ms"
| "plain_json _ = True"

text \<open>How much fuel the parser needs.\<close>

fun need :: "json \<Rightarrow> nat" and need_elems :: "json list \<Rightarrow> nat" and need_members :: "(string \<times> json) list \<Rightarrow> nat" where
  "need (JArr vs) = Suc (need_elems vs)"
| "need (JObj ms) = Suc (need_members ms)"
| "need JNull = 1"
| "need (JBool b) = 1"
| "need (JNum l) = 1"
| "need (JStr s) = 1"
| "need_elems [] = 0"
| "need_elems (v # vs) = Suc (max (need v) (need_elems vs))"
| "need_members [] = 0"
| "need_members ((k, v) # ms) = Suc (max (need v) (need_members ms))"

definition ws_char :: "char \<Rightarrow> bool" where
  "ws_char c \<longleftrightarrow> c = CHR '' '' \<or> c = CHR 0x09 \<or> c = CHR 0x0A \<or> c = CHR 0x0D"

lemma skip_ws_Cons: "\<not> ws_char c \<Longrightarrow> skip_ws (c # s) = c # s"
  by (simp add: skip_ws_def ws_char_def)

lemma skip_ws_pad [simp]: "skip_ws (line_pad n @ s) = skip_ws s"
proof -
  have "dropWhile (\<lambda>c. c = CHR '' '' \<or> P c) (replicate k CHR '' '' @ s) = dropWhile (\<lambda>c. c = CHR '' '' \<or> P c) s"
    for k P by (induction k) simp_all
  then show ?thesis by (simp add: skip_ws_def line_pad_def)
qed

lemma skip_ws_blank [simp]: "skip_ws (CHR '' '' # s) = skip_ws s"
  by (simp add: skip_ws_def)

lemma first_char:
  assumes "plain_json v"
  shows "\<exists>c s. json_indent n v = c # s \<and> \<not> ws_char c \<and> c \<noteq> CHR '']'' \<and> c \<noteq> CHR ''}''"
proof (cases v)
  case (JNum l)
  then obtain i where l: "l = show_int i" using assms by auto
  obtain c s where c: "show_nat (nat i) = c # s" "is_digit c" using show_nat_head [of "nat i"] by blast
  have "\<not> ws_char c \<and> c \<noteq> CHR '']'' \<and> c \<noteq> CHR ''}''" using c(2) by (auto simp: is_digit_def ws_char_def)
  then show ?thesis using JNum l c by (auto simp: show_int_def ws_char_def)
qed (auto simp: ws_char_def enc_string_def)

lemma jvalue_ws: "jvalue n (skip_ws s) = jvalue n s"
  by (cases n) (simp_all add: skip_ws_def)

lemma jvalue_scalar:
  assumes "delim r" "0 < k"
  shows "jvalue k (json_indent n JNull @ r) = Some (JNull, r)"
    "jvalue k (json_indent n (JBool b) @ r) = Some (JBool b, r)"
    "jvalue k (json_indent n (JNum (show_int i)) @ r) = Some (JNum (show_int i), r)"
    "utf8_text s \<Longrightarrow> jvalue k (json_indent n (JStr s) @ r) = Some (JStr s, r)"
proof -
  obtain m where k: "k = Suc m" using assms(2) by (cases k) auto
  show "jvalue k (json_indent n JNull @ r) = Some (JNull, r)"
    by (simp add: k skip_ws_Cons ws_char_def)
  show "jvalue k (json_indent n (JBool b) @ r) = Some (JBool b, r)"
    by (simp add: k skip_ws_Cons ws_char_def)
  show "jvalue k (json_indent n (JStr s) @ r) = Some (JStr s, r)" if "utf8_text s"
    using json_string_enc [OF that, of r] by (simp add: k enc_string_def skip_ws_Cons ws_char_def)
  obtain c t where c: "show_int i = c # t" "is_digit c \<or> c = CHR ''-''"
    using show_int_head [of i] by blast
  have c': "\<not> ws_char c" "c \<noteq> CHR ''{''" "c \<noteq> CHR ''[''" "c \<noteq> CHR 0x22" "c \<noteq> CHR ''n''" "c \<noteq> CHR ''t''" "c \<noteq> CHR ''f''"
    using c(2) by (auto simp: is_digit_def ws_char_def)
  show "jvalue k (json_indent n (JNum (show_int i)) @ r) = Some (JNum (show_int i), r)"
    using scan_number_show [OF assms(1), of i] c c' by (simp add: k skip_ws_Cons)
qed

text \<open>After a pad or a comma the parser is at a delimiter, and inside the brackets it never sees a closing one first.\<close>

lemma delim_simps [simp]: "delim (CHR '','' # s)" "delim (line_pad n @ s)" "delim []"
  by (simp_all add: delim_def line_pad_def)

lemma jvalue_pad [simp]: "jvalue n (line_pad k @ s) = jvalue n s" "jvalue n (CHR '' '' # s) = jvalue n s"
  by (metis jvalue_ws skip_ws_pad) (metis jvalue_ws skip_ws_blank)

lemma jelems_Suc:
  assumes "jvalue k s = Some (v, r)"
  shows "jelems (Suc k) s =
     (if has_prefix (skip_ws r) '']'' then Some ([v], tl (skip_ws r))
      else if has_prefix (skip_ws r) '','' then
        map_option (\<lambda>(vs, u). (v # vs, u)) (jelems k (tl (skip_ws r)))
      else None)"
  using assms by simp

lemma jmembers_Suc:
  assumes "utf8_text k" "jvalue n s = Some (v, r)"
  shows "jmembers (Suc n) (line_pad m @ enc_string k @ '': '' @ s) =
     (if has_prefix (skip_ws r) ''}'' then Some ([(k, v)], tl (skip_ws r))
      else if has_prefix (skip_ws r) '','' then
        map_option (\<lambda>(ms, u). ((k, v) # ms, u)) (jmembers n (tl (skip_ws r)))
      else None)"
proof -
  have q: "skip_ws (CHR 0x22 # t) = CHR 0x22 # t" "skip_ws (CHR '':'' # t) = CHR '':'' # t" for t
    by (simp_all add: skip_ws_Cons ws_char_def)
  show ?thesis using json_string_enc [OF assms(1), of "'': '' @ s"] assms(2)
    by (simp add: enc_string_def q)
qed

lemma skip_ws_close [simp]: "skip_ws (CHR '']'' # s) = CHR '']'' # s" "skip_ws (CHR ''}'' # s) = CHR ''}'' # s"
  "skip_ws (CHR '','' # s) = CHR '','' # s" "skip_ws (CHR ''['' # s) = CHR ''['' # s"
  "skip_ws (CHR ''{'' # s) = CHR ''{'' # s"
  by (simp_all add: skip_ws_Cons ws_char_def)

lemma parse_indent:
  "plain_json v \<Longrightarrow> delim r \<Longrightarrow> need v \<le> k \<Longrightarrow> jvalue k (json_indent n v @ r) = Some (v, r)"
  "list_all plain_json vs \<Longrightarrow> vs \<noteq> [] \<Longrightarrow> need_elems vs \<le> k \<Longrightarrow>
     jelems k (indent_elems n vs @ line_pad m @ '']'' @ r) = Some (vs, r)"
  "list_all (\<lambda>m. utf8_text (fst m) \<and> plain_json (snd m)) ms \<Longrightarrow> ms \<noteq> [] \<Longrightarrow> need_members ms \<le> k \<Longrightarrow>
     jmembers k (indent_members n ms @ line_pad m @ ''}'' @ r) = Some (ms, r)"
proof (induction n v and n vs and n ms arbitrary: r k and r k m and r k m
    rule: json_indent_indent_elems_indent_members.induct)
  case (1 n)
  then show ?case using jvalue_scalar(1) [of r k n] by simp
next
  case (2 n b)
  then show ?case using jvalue_scalar(2) [of r k n b] by simp
next
  case (3 n l)
  then obtain i where "l = show_int i" by auto
  with 3 show ?case using jvalue_scalar(3) [of r k n i] by simp
next
  case (4 n s)
  then show ?case using jvalue_scalar(4) [of r k s n] by simp
next
  case (5 n vs)
  then obtain j where k: "k = Suc j" "need_elems vs \<le> j" by (cases k) auto
  show ?case
  proof (cases vs)
    case Nil
    then show ?thesis using k by simp
  next
    case (Cons v ws)
    have "plain_json v" using 5 Cons by simp
    then obtain c s where c: "json_indent (Suc n) v = c # s" "\<not> ws_char c" "c \<noteq> CHR '']''"
      using first_char [of v "Suc n"] by blast
    then have "\<not> has_prefix (skip_ws (indent_elems (Suc n) vs @ t)) '']''" for t
      using Cons by (simp add: skip_ws_Cons)
    then show ?thesis using 5 Cons k by simp
  qed
next
  case (6 n ms)
  then obtain j where k: "k = Suc j" "need_members ms \<le> j" by (cases k) auto
  show ?case
  proof (cases ms)
    case Nil
    then show ?thesis using k by simp
  next
    case (Cons m ws)
    obtain key v where m: "m = (key, v)" by (cases m)
    then have "utf8_text key" using 6 Cons by simp
    then have "\<not> has_prefix (skip_ws (indent_members (Suc n) ms @ t)) ''}''" for t
      using Cons m by (simp add: enc_string_def skip_ws_Cons ws_char_def)
    then show ?thesis using 6 Cons k by simp
  qed
next
  case (8 n v vs)
  then obtain j where k: "k = Suc j" "need v \<le> j" "need_elems vs \<le> j" by (cases k) auto
  show ?case
  proof (cases "vs = []")
    case True
    then show ?thesis using 8 k jelems_Suc [of j "json_indent n v @ line_pad m @ '']'' @ r" v "line_pad m @ '']'' @ r"]
      by simp
  next
    case False
    let ?r = "'','' @ indent_elems n vs @ line_pad m @ '']'' @ r"
    have "jvalue j (json_indent n v @ ?r) = Some (v, ?r)" using 8 k by simp
    from jelems_Suc [OF this] show ?thesis using 8 k False by simp
  qed
next
  case (10 n key v ms)
  then obtain j where k: "k = Suc j" "need v \<le> j" "need_members ms \<le> j" by (cases k) auto
  have a: "utf8_text key" "plain_json v" using 10 by simp_all
  show ?case
  proof (cases "ms = []")
    case True
    let ?r = "line_pad m @ ''}'' @ r"
    have "jvalue j (json_indent n v @ ?r) = Some (v, ?r)" using 10 k by simp
    from jmembers_Suc [OF a(1) this] show ?thesis using k True by simp
  next
    case False
    let ?r = "'','' @ indent_members n ms @ line_pad m @ ''}'' @ r"
    have "jvalue j (json_indent n v @ ?r) = Some (v, ?r)" using 10 k by simp
    from jmembers_Suc [OF a(1) this] show ?thesis using 10 k False by simp
  qed
qed simp_all

lemma show_int_nonempty [simp]: "show_int i \<noteq> []"
  by (simp add: show_int_def)

lemma need_length:
  "plain_json v \<Longrightarrow> need v \<le> length (json_indent n v)"
  "list_all plain_json vs \<Longrightarrow> need_elems vs \<le> length (indent_elems n vs)"
  "list_all (\<lambda>m. utf8_text (fst m) \<and> plain_json (snd m)) ms \<Longrightarrow> need_members ms \<le> length (indent_members n ms)"
proof (induction n v and n vs and n ms rule: json_indent_indent_elems_indent_members.induct)
  case (3 n l)
  then obtain i where l: "l = show_int i" by auto
  then show ?case by (cases "show_int i") auto
next
  case (8 n v vs)
  then show ?case by (cases "vs = []") (auto simp: line_pad_def)
next
  case (10 n k v ms)
  then show ?case by (cases "ms = []") (auto simp: line_pad_def)
qed (auto simp: enc_string_def)

theorem json_text_roundtrip:
  assumes "plain_json v"
  shows "json_parse (json_indent 0 v @ [CHR 0x0A]) = Some v"
proof -
  have "delim [CHR 0x0A]" by (simp add: delim_def)
  moreover have "need v \<le> 2 * length (json_indent 0 v @ [CHR 0x0A]) + 2"
    using need_length(1) [OF assms, of 0] by simp
  ultimately have "jvalue (2 * length (json_indent 0 v @ [CHR 0x0A]) + 2) (json_indent 0 v @ [CHR 0x0A]) =
      Some (v, [CHR 0x0A])"
    by (intro parse_indent(1) assms)
  then show ?thesis by (simp add: json_parse_def skip_ws_def)
qed

lemma num_int_show: "- (2 ^ 63) \<le> i \<Longrightarrow> i < 2 ^ 63 \<Longrightarrow> num_int (show_int i) = Some i"
proof -
  assume i: "- (2 ^ 63) \<le> i" "i < 2 ^ 63"
  have nm: "\<not> has_prefix (show_nat n) ''-''" for n
    using show_nat_head [of n] by (auto simp: is_digit_def)
  then have tp: "trim_prefix (show_nat n) ''-'' = show_nat n" for n by (simp add: trim_prefix_def)
  show ?thesis
  proof (cases "i < 0")
    case True
    have "trim_prefix (CHR ''-'' # show_nat n) ''-'' = show_nat n" for n by (simp add: trim_prefix_def)
    then show ?thesis using True i show_nat_digits by (simp add: num_int_def show_int_def signed_def Let_def)
  next
    case False
    then show ?thesis using i show_nat_digits nm by (simp add: num_int_def show_int_def signed_def Let_def tp)
  qed
qed

end
