(* ===== verification/InstallConfig.thy ===== *)
theory InstallConfig
  imports Install JsonText
begin

text \<open>
  Writing the configuration, \<open>internal/install/config.go\<close>: the gates of \<open>WriteConfig\<close>, the JSON
  text of a configuration and the file it leaves.  How a \<open>float64\<close> is printed is an argument; a
  failing \<open>Stat\<close> other than "not there" is not modelled, nor is the summary of \<open>WritePlan\<close>.
\<close>

definition opt_member :: "string \<Rightarrow> ('a \<Rightarrow> json) \<Rightarrow> 'a option \<Rightarrow> (string \<times> json) list" where
  "opt_member name enc x = (case x of None \<Rightarrow> [] | Some y \<Rightarrow> [(name, enc y)])"

definition jint :: "int \<Rightarrow> json" where
  "jint i = JNum (show_int i)"

definition tuning_json :: "(real \<Rightarrow> string) \<Rightarrow> tuning \<Rightarrow> json" where
  "tuning_json ffmt t =
     JObj (opt_member ''temperature'' (\<lambda>x. JNum (ffmt x)) (tu_temperature t) @
           opt_member ''top_p'' (\<lambda>x. JNum (ffmt x)) (tu_top_p t) @
           opt_member ''top_k'' jint (tu_top_k t) @
           opt_member ''min_p'' (\<lambda>x. JNum (ffmt x)) (tu_min_p t) @
           opt_member ''repeat_penalty'' (\<lambda>x. JNum (ffmt x)) (tu_repeat_penalty t) @
           opt_member ''num_ctx'' jint (tu_num_ctx t) @
           opt_member ''think'' JBool (tu_think t))"

definition budget_json :: "budget \<Rightarrow> json" where
  "budget_json b =
     JObj [(''max_requirements'', jint (bg_max_requirements b)), (''wall_clock'', jint (bg_wall_clock b)),
           (''per_task_tokens'', jint (bg_per_task_tokens b)), (''per_task_wall_clock'', jint (bg_per_task_wall b))]"

text \<open>A member that is left out when it has the zero value.\<close>

definition omit_if :: "bool \<Rightarrow> string \<Rightarrow> json \<Rightarrow> (string \<times> json) list" where
  "omit_if zero name j = (if zero then [] else [(name, j)])"

definition config_json :: "(real \<Rightarrow> string) \<Rightarrow> config \<Rightarrow> json" where
  "config_json ffmt c =
     JObj ([(''endpoint'', JStr (cf_endpoint c)), (''harness'', JStr (cf_harness c)),
            (''target'', JStr (cf_target c)), (''retries'', jint (cf_retries c)),
            (''break_after'', jint (cf_break_after c)), (''budget'', budget_json (cf_budget c)),
            (''audit_path'', JStr (cf_audit_path c)), (''calibration_path'', JStr (cf_calibration_path c))] @
           omit_if (cf_model_id c = []) ''model_id'' (JStr (cf_model_id c)) @
           omit_if (cf_model_digest c = []) ''model_digest'' (JStr (cf_model_digest c)) @
           [(''allow_egress'', JBool (cf_allow_egress c))] @
           opt_member ''tuning'' (tuning_json ffmt) (cf_tuning c) @
           omit_if (cf_max_steps c = 0) ''max_steps'' (jint (cf_max_steps c)) @
           omit_if (cf_max_output_tokens c = 0) ''max_output_tokens'' (jint (cf_max_output_tokens c)))"

definition render_config :: "(real \<Rightarrow> string) \<Rightarrow> config \<Rightarrow> string" where
  "render_config ffmt c = json_indent 0 (config_json ffmt c) @ [CHR 0x0A]"

datatype install_err =
    NoConfigPath
  | RefusesEgress
  | InvalidConfig config_err
  | ConfigExists string
  | ConfigMkdir string
  | ConfigWrite string

definition write_config :: "(real \<Rightarrow> string) \<Rightarrow> string \<Rightarrow> config \<Rightarrow> bool \<Rightarrow> fs \<Rightarrow> install_err option \<times> fs" where
  "write_config ffmt path c overwrite f =
     (if path = [] then (Some NoConfigPath, f)
      else if cf_allow_egress c then (Some RefusesEgress, f)
      else case validate c of
        Some e \<Rightarrow> (Some (InvalidConfig e), f)
      | None \<Rightarrow>
          if \<not> overwrite \<and> fs_exists path f then (Some (ConfigExists path), f)
          else
            (case (if path_dir path \<noteq> [] \<and> path_dir path \<noteq> ''.'' then fs_mkdir_all (path_dir path) f
                   else (True, f)) of
               (False, f1) \<Rightarrow> (Some (ConfigMkdir (path_dir path)), f1)
             | (True, f1) \<Rightarrow>
                 (case fs_write path (render_config ffmt c) f1 of
                    (False, f2) \<Rightarrow> (Some (ConfigWrite path), f2)
                  | (True, f2) \<Rightarrow> (None, f2))))"

section \<open>Facts\<close>

definition int64_ok :: "int \<Rightarrow> bool" where
  "int64_ok i \<longleftrightarrow> - (2 ^ 63) \<le> i \<and> i < 2 ^ 63"

text \<open>A configuration whose text is exact: no per-model floats, UTF-8 strings, machine integers.\<close>

definition config_plain :: "config \<Rightarrow> bool" where
  "config_plain c \<longleftrightarrow> cf_tuning c = None \<and>
     list_all utf8_text [cf_endpoint c, cf_harness c, cf_target c, cf_audit_path c, cf_calibration_path c,
       cf_model_id c, cf_model_digest c] \<and>
     list_all int64_ok [cf_retries c, cf_break_after c, cf_max_steps c, cf_max_output_tokens c,
       bg_max_requirements (cf_budget c), bg_wall_clock (cf_budget c), bg_per_task_tokens (cf_budget c),
       bg_per_task_wall (cf_budget c)]"

lemma plain_jint [simp]: "plain_json (jint i)"
  by (auto simp: jint_def)

lemma plain_omit [simp]:
  "list_all (\<lambda>m. utf8_text (fst m) \<and> plain_json (snd m)) (omit_if z n j) \<longleftrightarrow> z \<or> utf8_text n \<and> plain_json j"
  by (auto simp: omit_if_def)

lemma config_names:
  "list_all utf8_text [''endpoint'', ''harness'', ''target'', ''retries'', ''break_after'', ''budget'', ''audit_path'',
     ''calibration_path'', ''model_id'', ''model_digest'', ''allow_egress'', ''max_steps'', ''max_output_tokens'',
     ''max_requirements'', ''wall_clock'', ''per_task_tokens'', ''per_task_wall_clock'']"
  by code_simp

lemma plain_budget: "plain_json (budget_json b)"
  using config_names by (simp add: budget_json_def)

lemma plain_config: "config_plain c \<Longrightarrow> plain_json (config_json ffmt c)"
  using config_names by (simp add: config_plain_def config_json_def opt_member_def plain_budget)

lemma dec_int_jint [simp]: "int64_ok i \<Longrightarrow> dec_int old (jint i) = Some i"
  by (simp add: dec_int_def jint_def int64_ok_def num_int_show)

lemma budget_field:
  "field_named budget_fields ''max_requirements'' =
     Some (''max_requirements'', fld dec_int bg_max_requirements bg_max_requirements_update)"
  "field_named budget_fields ''wall_clock'' = Some (''wall_clock'', fld dec_int bg_wall_clock bg_wall_clock_update)"
  "field_named budget_fields ''per_task_tokens'' =
     Some (''per_task_tokens'', fld dec_int bg_per_task_tokens bg_per_task_tokens_update)"
  "field_named budget_fields ''per_task_wall_clock'' =
     Some (''per_task_wall_clock'', fld dec_int bg_per_task_wall bg_per_task_wall_update)"
  by (simp_all add: field_named_def budget_fields_def)

lemma dec_budget:
  assumes "list_all int64_ok [bg_max_requirements b, bg_wall_clock b, bg_per_task_tokens b, bg_per_task_wall b]"
  shows "dec_struct budget_fields old (budget_json b) = Some b"
  using assms by (simp add: dec_struct_def budget_json_def budget_field fld_def)

lemma dec_members_append:
  "dec_members fs r (xs @ ys) = (case dec_members fs r xs of None \<Rightarrow> None | Some r' \<Rightarrow> dec_members fs r' ys)"
  by (induction xs arbitrary: r) (auto split: option.splits)

lemma config_field:
  "field_named config_fields ''endpoint'' = Some (''endpoint'', fld dec_string cf_endpoint cf_endpoint_update)"
  "field_named config_fields ''harness'' = Some (''harness'', fld dec_string cf_harness cf_harness_update)"
  "field_named config_fields ''target'' = Some (''target'', fld dec_string cf_target cf_target_update)"
  "field_named config_fields ''retries'' = Some (''retries'', fld dec_int cf_retries cf_retries_update)"
  "field_named config_fields ''break_after'' = Some (''break_after'', fld dec_int cf_break_after cf_break_after_update)"
  "field_named config_fields ''budget'' = Some (''budget'', fld (dec_struct budget_fields) cf_budget cf_budget_update)"
  "field_named config_fields ''audit_path'' = Some (''audit_path'', fld dec_string cf_audit_path cf_audit_path_update)"
  "field_named config_fields ''calibration_path'' =
     Some (''calibration_path'', fld dec_string cf_calibration_path cf_calibration_path_update)"
  "field_named config_fields ''model_id'' = Some (''model_id'', fld dec_string cf_model_id cf_model_id_update)"
  "field_named config_fields ''model_digest'' = Some (''model_digest'', fld dec_string cf_model_digest cf_model_digest_update)"
  "field_named config_fields ''allow_egress'' = Some (''allow_egress'', fld dec_bool cf_allow_egress cf_allow_egress_update)"
  "field_named config_fields ''max_steps'' = Some (''max_steps'', fld dec_int cf_max_steps cf_max_steps_update)"
  "field_named config_fields ''max_output_tokens'' =
     Some (''max_output_tokens'', fld dec_int cf_max_output_tokens cf_max_output_tokens_update)"
  by (simp_all add: field_named_def config_fields_def)

lemma dec_string_JStr [simp]: "dec_string old (JStr s) = Some s"
  by (simp add: dec_string_def)

lemma dec_omit_string:
  assumes "field_named config_fields name = Some (name, fld dec_string get upd)" "get r = []"
    and "upd (\<lambda>_. []) r = r"
  shows "dec_members config_fields r (omit_if (s = []) name (JStr s)) = Some (upd (\<lambda>_. s) r)"
  using assms by (simp add: omit_if_def fld_def)

lemma dec_omit_int:
  assumes "field_named config_fields name = Some (name, fld dec_int get upd)" "int64_ok i"
    and "upd (\<lambda>_. 0) r = r"
  shows "dec_members config_fields r (omit_if (i = 0) name (jint i)) = Some (upd (\<lambda>_. i) r)"
  using assms by (simp add: omit_if_def fld_def)

text \<open>What a file cannot carry: whether the session is interactive and the resolved window.\<close>

definition persisted :: "config \<Rightarrow> config" where
  "persisted c = c\<lparr>cf_interactive := False, cf_ctx_size := 0\<rparr>"

lemma decode_config:
  assumes "config_plain c"
  shows "dec_struct config_fields default_config (config_json ffmt c) = Some (persisted c)"
proof -
  have i: "int64_ok (cf_retries c)" "int64_ok (cf_break_after c)" "int64_ok (cf_max_steps c)"
    "int64_ok (cf_max_output_tokens c)" "cf_tuning c = None"
    and b: "dec_struct budget_fields old (budget_json (cf_budget c)) = Some (cf_budget c)" for old
    using assms by (simp_all add: config_plain_def dec_budget)
  have 1: "dec_members config_fields default_config
      [(''endpoint'', JStr (cf_endpoint c)), (''harness'', JStr (cf_harness c)),
       (''target'', JStr (cf_target c)), (''retries'', jint (cf_retries c)),
       (''break_after'', jint (cf_break_after c)), (''budget'', budget_json (cf_budget c)),
       (''audit_path'', JStr (cf_audit_path c)), (''calibration_path'', JStr (cf_calibration_path c))] =
     Some (default_config\<lparr>cf_endpoint := cf_endpoint c, cf_harness := cf_harness c, cf_target := cf_target c,
       cf_retries := cf_retries c, cf_break_after := cf_break_after c, cf_budget := cf_budget c,
       cf_audit_path := cf_audit_path c, cf_calibration_path := cf_calibration_path c\<rparr>)"
    using i b by (simp add: config_field fld_def)
  have 2: "dec_members config_fields r [(''allow_egress'', JBool e)] = Some (r\<lparr>cf_allow_egress := e\<rparr>)" for r e
    by (simp add: config_field fld_def dec_bool_def)
  show ?thesis
    unfolding config_json_def dec_struct_def json.case dec_members_append 1 option.case i(5) opt_member_def
      dec_omit_string [OF config_field(9)] 2
    using i
    by (simp add: dec_omit_string [OF config_field(9)] dec_omit_string [OF config_field(10)]
        dec_omit_int [OF config_field(12)] dec_omit_int [OF config_field(13)]
        default_config_def persisted_def del: dec_members.simps(2))
qed

lemma persisted_fields:
  "cf_endpoint (persisted c) = cf_endpoint c" "cf_allow_egress (persisted c) = cf_allow_egress c"
  "cf_harness (persisted c) = cf_harness c" "cf_target (persisted c) = cf_target c"
  "cf_retries (persisted c) = cf_retries c" "cf_break_after (persisted c) = cf_break_after c"
  "cf_budget (persisted c) = cf_budget c" "cf_audit_path (persisted c) = cf_audit_path c"
  by (simp_all add: persisted_def)

lemma validate_persisted [simp]: "validate (persisted c) = validate c"
  by (simp only: validate_def persisted_fields)

lemma write_config_done:
  assumes "write_config ffmt path c ow f = (None, f')"
  obtains f1 where "path \<noteq> []" "\<not> cf_allow_egress c" "validate c = None" "ow \<or> \<not> fs_exists path f"
    "fs_grown f f1" "fs_files f1 = fs_files f" "fs_write path (render_config ffmt c) f1 = (True, f')"
proof -
  let ?m = "if path_dir path \<noteq> [] \<and> path_dir path \<noteq> ''.'' then fs_mkdir_all (path_dir path) f else (True, f)"
  obtain b f1 where m: "?m = (b, f1)" by (cases ?m)
  have "fs_grown f f1 \<and> fs_files f1 = fs_files f"
    using m fs_mkdir_all_props [of "path_dir path" f b f1] by (auto split: if_splits)
  moreover from assms m have "path \<noteq> [] \<and> \<not> cf_allow_egress c \<and> validate c = None \<and>
      (ow \<or> \<not> fs_exists path f) \<and> fs_write path (render_config ffmt c) f1 = (True, f')"
    by (auto simp: write_config_def split: option.splits bool.splits prod.splits if_splits)
  ultimately show thesis using that by blast
qed

section \<open>Properties\<close>

lemma write_config_loads:
  assumes "write_config ffmt path c ow f = (None, f')" "config_plain c" "path \<notin> fs_deny_read f"
  shows "load_config path f' = Inr (persisted c)"
proof -
  from assms(1) obtain f1 where w: "path \<noteq> []" "validate c = None" "fs_grown f f1"
    "fs_write path (render_config ffmt c) f1 = (True, f')"
    by (rule write_config_done)
  have "path \<notin> fs_deny_read f1" using assms(3) w(3) by (simp add: fs_grown_def)
  with w(4) have "fs_read path f' = Some (render_config ffmt c)" by (rule fs_read_write)
  moreover have "unmarshal (dec_struct config_fields) default_config (render_config ffmt c) = Some (persisted c)"
    unfolding unmarshal_def render_config_def json_text_roundtrip [OF plain_config [OF assms(2)]] option.case
    by (rule decode_config [OF assms(2)])
  ultimately show ?thesis using w(1,2) by (simp add: load_config_def validated_def)
qed

text \<open>C9: a configuration that \<open>WriteConfig\<close> writes is the one \<open>Load\<close> reads back, up to the two fields
  that are never persisted.\<close>

theorem write_config_roundtrip:
  assumes "write_config ffmt path c ow f = (None, f')" "config_plain c" "path \<notin> fs_deny_read f"
  shows "load_config path f' = Inr (persisted c)"
  by (rule write_config_loads [OF assms])

definition empty_dir :: fs where
  "empty_dir = \<lparr>fs_files = Map.empty, fs_dirs = {''.''}, fs_deny_read = {}, fs_deny_write = {}, fs_deny_mkdir = {}\<rparr>"

lemma sample_write:
  "write_config (\<lambda>_. ''0'') ''aegis.json'' default_config False empty_dir =
     (None, empty_dir\<lparr>fs_files := [''aegis.json'' \<mapsto> render_config (\<lambda>_. ''0'') default_config]\<rparr>)"
proof -
  have "path_dir ''aegis.json'' = ''.''" by code_simp
  moreover have "\<not> cf_allow_egress default_config" by (simp add: default_config_def)
  moreover have "\<not> fs_exists ''aegis.json'' empty_dir" by (simp add: fs_exists_def empty_dir_def)
  ultimately show ?thesis
    using default_config_valid by (simp add: write_config_def fs_write_def fs_can_write_def empty_dir_def)
qed

theorem write_config_roundtrip_witness:
  "load_config ''aegis.json'' (snd (write_config (\<lambda>_. ''0'') ''aegis.json'' default_config False empty_dir)) =
     Inr default_config"
proof -
  let ?w = "write_config (\<lambda>_. ''0'') ''aegis.json'' default_config False empty_dir"
  have e: "?w = (None, snd ?w)" by (simp only: sample_write snd_conv)
  have "config_plain default_config"
    by (simp add: config_plain_def default_config_def config_consts byte_in_def int64_ok_def hour_def)
  from write_config_roundtrip [OF e this] have "load_config ''aegis.json'' (snd ?w) = Inr (persisted default_config)"
    by (simp add: empty_dir_def)
  moreover have "persisted default_config = default_config" by (simp add: persisted_def default_config_def)
  ultimately show ?thesis by (simp only:)
qed

text \<open>C14: \<open>WriteConfig\<close> changes a file only by writing a valid configuration without egress to the path
  it was given, and never one that is already there unless told to overwrite.\<close>

theorem write_config_gate:
  assumes "write_config ffmt path c ow f = (e, f')" and "fs_files f' q \<noteq> fs_files f q"
  shows "q = path \<and> e = None \<and> config_ok c \<and> \<not> cf_allow_egress c \<and> (ow \<or> \<not> fs_exists path f)"
proof -
  let ?m = "if path_dir path \<noteq> [] \<and> path_dir path \<noteq> ''.'' then fs_mkdir_all (path_dir path) f else (True, f)"
  obtain b f1 where m: "?m = (b, f1)" by (cases ?m)
  have f1: "fs_files f1 = fs_files f"
    using m fs_mkdir_all_props [of "path_dir path" f b f1] by (auto split: if_splits)
  obtain b2 f2 where w: "fs_write path (render_config ffmt c) f1 = (b2, f2)"
    by (cases "fs_write path (render_config ffmt c) f1")
  have e: "e = None"
  proof (rule ccontr)
    assume "e \<noteq> None"
    then have "f' = f \<or> f' = f1 \<or> (f' = f2 \<and> \<not> b2)" using assms(1) m w
      by (auto simp: write_config_def split: option.splits bool.splits prod.splits if_splits)
    moreover have "\<not> b2 \<Longrightarrow> f2 = f1" using w fs_write_fail by auto
    ultimately show False using assms(2) f1 by auto
  qed
  from assms(1) [unfolded e] obtain g where g: "\<not> cf_allow_egress c" "validate c = None" "ow \<or> \<not> fs_exists path f"
    "fs_files g = fs_files f" "fs_write path (render_config ffmt c) g = (True, f')"
    by (rule write_config_done)
  have "q = path" using fs_write_other [OF g(5), of q] g(4) assms(2) by auto
  then show ?thesis using e g by (simp add: validate_iff_ok)
qed

theorem write_config_gate_witness: "config_ok default_config"
proof -
  let ?w = "write_config (\<lambda>_. ''0'') ''aegis.json'' default_config False empty_dir"
  have e: "?w = (fst ?w, snd ?w)" by simp
  have "fs_files (snd ?w) ''aegis.json'' \<noteq> fs_files empty_dir ''aegis.json''"
    by (simp add: sample_write) (simp add: empty_dir_def)
  from write_config_gate [OF e this] show ?thesis by simp
qed

end
