(* ===== verification/Profile.thy ===== *)
theory Profile
  imports Install ServClient "HOL-Library.Multiset"
begin

text \<open>
  The model profiler, \<open>internal/profile\<close>: the fit of a model on a host (capacity, roofline
  throughput, floors), the ranking and the recommendation (\<open>profile.go\<close>), and the replacement of a
  prediction by a measurement (\<open>measure.go\<close>).  Byte and parameter counts are 64-bit words whose
  sums wrap, \<open>float64\<close> values are real numbers; the conversion of a float back to \<open>uint64\<close> is
  truncation, taken modulo 2^64 where Go leaves it to the implementation.  The measured memory
  bandwidth is an argument of the probe.
\<close>

section \<open>Data\<close>

record host_profile =
  hp_target :: string
  hp_os :: string
  hp_cpu :: int
  hp_total :: "64 word"
  hp_avail :: "64 word"
  hp_bandwidth :: "64 word"
  hp_accel :: accel

record model_spec =
  sp_id :: string
  sp_file :: string
  sp_size :: "64 word"
  sp_origin :: string
  sp_active :: "64 word"

record floors =
  fl_interactive :: real
  fl_unattended :: real

record model_fit =
  ft_id :: string
  ft_allowed :: bool
  ft_required :: "64 word"
  ft_capacity :: bool
  ft_tps :: real
  ft_measured :: bool
  ft_interactive :: bool
  ft_unattended :: bool

record recommendation =
  rc_profile :: host_profile
  rc_ctx :: int
  rc_floors :: floors
  rc_fits :: "model_fit list"
  rc_interactive :: string
  rc_unattended :: string

definition default_floors :: floors where
  "default_floors = \<lparr>fl_interactive = 10, fl_unattended = 3\<rparr>"

definition gib :: "64 word" where "gib = 2 ^ 30"
definition reserve_bytes :: "64 word" where "reserve_bytes = 3 * gib"
definition compute_buffer_bytes :: "64 word" where "compute_buffer_bytes = 1 * gib"
definition bandwidth_efficiency :: real where "bandwidth_efficiency = 65 / 100"
definition kv_bytes_per_billion :: real where "kv_bytes_per_billion = 7000"

definition to_u64 :: "real \<Rightarrow> 64 word" where
  "to_u64 x = word_of_int \<lfloor>x\<rfloor>"

definition of_u64 :: "64 word \<Rightarrow> real" where
  "of_u64 w = real (unat w)"

section \<open>Probing\<close>

definition mem_available_line :: "string \<Rightarrow> nat option" where
  "mem_available_line l =
     (if has_prefix l ''MemAvailable:'' then
        (case str_fields l of _ # v # _ \<Rightarrow> parse_uint64 v | _ \<Rightarrow> None)
      else None)"

definition available_ram_linux :: "sources \<Rightarrow> 64 word" where
  "available_ram_linux s =
     (case so_read_file s ''/proc/meminfo'' of
        None \<Rightarrow> 0
      | Some d \<Rightarrow>
          (case List.map_filter mem_available_line (split_on CHR 0x0A d) of
             [] \<Rightarrow> 0
           | kb # _ \<Rightarrow> word_of_nat kb * 1024))"

definition probe :: "sources \<Rightarrow> 64 word \<Rightarrow> host_profile" where
  "probe s bandwidth =
     (let caps = detect_with s;
          target = (if hc_os caps = ''darwin'' then ''darwin-metal'' else ''linux-cpu'');
          a = available_ram_linux s;
          avail = (if a = 0 \<or> a > hc_ram caps then hc_ram caps else a)
      in \<lparr>hp_target = target, hp_os = hc_os caps, hp_cpu = hc_physical caps, hp_total = hc_ram caps,
          hp_avail = avail, hp_bandwidth = bandwidth, hp_accel = hc_accel caps\<rparr>)"

section \<open>Parameters\<close>

text \<open>
  The leftmost match of \<open>a(\d+(?:\.\d+)?)b\<close>: the digits are greedy, and giving one back never
  helps, as a digit is not followed by the \<open>b\<close> then.
\<close>

definition active_at :: "string \<Rightarrow> string option" where
  "active_at s =
     (if \<not> has_prefix s ''a'' then None
      else let r = tl s; ip = digits_of r; r1 = drop (length ip) r;
               fr = (if has_prefix r1 ''.'' then digits_of (tl r1) else [])
           in if ip = [] then None
              else if fr \<noteq> [] \<and> has_prefix (drop (Suc (length fr)) r1) ''b'' then Some (ip @ ''.'' @ fr)
              else if has_prefix r1 ''b'' then Some ip
              else None)"

fun find_active :: "string \<Rightarrow> string option" where
  "find_active [] = None"
| "find_active (c # s) = (case active_at (c # s) of Some m \<Rightarrow> Some m | None \<Rightarrow> find_active s)"

definition bytes_per_param :: "string \<Rightarrow> real" where
  "bytes_per_param file =
     (let f = to_lower file
      in if contains_str f ''f16'' \<or> contains_str f ''bf16'' then 2
         else if contains_str f ''q8'' then 106 / 100
         else if contains_str f ''q6'' then 82 / 100
         else if contains_str f ''q5'' then 71 / 100
         else 58 / 100)"

definition derive_params :: "string \<Rightarrow> 64 word \<Rightarrow> real \<Rightarrow> 64 word \<times> 64 word" where
  "derive_params i bytes bpp0 =
     (let bpp = (if bpp0 \<le> 0 then 58 / 100 else bpp0);
          npar = to_u64 (of_u64 bytes / bpp)
      in (npar,
          case find_active (to_lower i) of
            Some m \<Rightarrow> if num_real m > 0 then to_u64 (num_real m * 10 ^ 9) else npar
          | None \<Rightarrow> npar))"

definition kv_bytes :: "64 word \<Rightarrow> int \<Rightarrow> 64 word" where
  "kv_bytes npar ctx =
     (let c = (if ctx \<le> 0 then 4096 else ctx)
      in to_u64 (kv_bytes_per_billion * (of_u64 npar / 10 ^ 9) * of_int c))"

definition estimate_total_params :: "string \<Rightarrow> string \<Rightarrow> 64 word \<Rightarrow> 64 word" where
  "estimate_total_params i file bytes = fst (derive_params i bytes (bytes_per_param file))"

section \<open>Fit and recommendation\<close>

definition usable_bytes :: "host_profile \<Rightarrow> 64 word" where
  "usable_bytes p = (if hp_avail p > reserve_bytes then hp_avail p - reserve_bytes else 0)"

definition predicted_tps :: "64 word \<Rightarrow> real \<Rightarrow> host_profile \<Rightarrow> real" where
  "predicted_tps active bpp p =
     (let per = of_u64 active * bpp
      in if per > 0 \<and> hp_bandwidth p > 0 then of_u64 (hp_bandwidth p) * bandwidth_efficiency / per else 0)"

definition fit :: "model_spec \<Rightarrow> host_profile \<Rightarrow> int \<Rightarrow> floors \<Rightarrow> model_fit" where
  "fit s p ctx f =
     (let bpp = bytes_per_param (sp_file s);
          (npar, active0) = derive_params (sp_id s) (sp_size s) bpp;
          active = (if sp_active s > 0 then sp_active s else active0);
          required = sp_size s + kv_bytes npar ctx + compute_buffer_bytes;
          cap = (required \<le> usable_bytes p);
          tps = predicted_tps active bpp p
      in \<lparr>ft_id = sp_id s, ft_allowed = False, ft_required = required, ft_capacity = cap, ft_tps = tps,
          ft_measured = False, ft_interactive = (cap \<and> tps \<ge> fl_interactive f),
          ft_unattended = (cap \<and> tps \<ge> fl_unattended f)\<rparr>)"

text \<open>
  The insertion sort: the next element moves left past the smaller ones of the sorted part, which
  is kept reversed here.
\<close>

fun move_left :: "model_spec \<Rightarrow> model_spec list \<Rightarrow> model_spec list" where
  "move_left x [] = [x]"
| "move_left x (y # ys) = (if sp_size y < sp_size x then y # move_left x ys else x # y # ys)"

definition sort_by_size_desc :: "model_spec list \<Rightarrow> model_spec list" where
  "sort_by_size_desc xs = rev (fold move_left xs [])"

definition pick_step :: "model_fit \<Rightarrow> string \<times> string \<Rightarrow> string \<times> string" where
  "pick_step f p =
     (if fst p = [] \<and> ft_interactive f then ft_id f else fst p,
      if snd p = [] \<and> ft_unattended f then ft_id f else snd p)"

definition recommend ::
  "model_spec list \<Rightarrow> (string \<Rightarrow> bool) \<Rightarrow> host_profile \<Rightarrow> int \<Rightarrow> floors \<Rightarrow> recommendation" where
  "recommend specs allowed p ctx f =
     (let fits = map (\<lambda>s. (fit s p ctx f)\<lparr>ft_allowed := True\<rparr>)
                   (filter (\<lambda>s. allowed (sp_origin s)) (sort_by_size_desc specs));
          picks = fold pick_step fits ([], [])
      in \<lparr>rc_profile = p, rc_ctx = ctx, rc_floors = f, rc_fits = fits,
          rc_interactive = fst picks, rc_unattended = snd picks\<rparr>)"

section \<open>Measurement\<close>

definition apply_one :: "floors \<Rightarrow> string \<Rightarrow> real \<Rightarrow> model_fit \<Rightarrow> model_fit" where
  "apply_one fl i tps f =
     (if ft_id f = i then
        f\<lparr>ft_tps := tps, ft_measured := True,
          ft_interactive := (ft_capacity f \<and> tps \<ge> fl_interactive fl),
          ft_unattended := (ft_capacity f \<and> tps \<ge> fl_unattended fl)\<rparr>
      else f)"

definition apply_measurement :: "string \<Rightarrow> real \<Rightarrow> recommendation \<Rightarrow> recommendation" where
  "apply_measurement i tps r =
     (let fits = map (apply_one (rc_floors r) i tps) (rc_fits r); picks = fold pick_step fits ([], [])
      in r\<lparr>rc_fits := fits, rc_interactive := fst picks, rc_unattended := snd picks\<rparr>)"

datatype measure_err = MeasureClient serv_err | NoTokens int

text \<open>Warm up, then time one completion; the time is the one the client measures, in nanoseconds.\<close>

definition measure_tok_per_sec ::
  "'w server \<Rightarrow> string \<Rightarrow> string \<Rightarrow> int \<Rightarrow> 'w \<Rightarrow> (measure_err + real) \<times> 'w" where
  "measure_tok_per_sec srv endpoint model max_tokens w =
     (case new_client endpoint of
        Inl e \<Rightarrow> (Inl (MeasureClient e), w)
      | Inr base \<Rightarrow>
          let n = (if max_tokens \<le> 0 then 96 else max_tokens);
              req = plain_request model [user_message ''Write a few plain sentences about software testing.''] n
          in (case chat_completion srv base req w of (_, w1) \<Rightarrow>
               (case chat_completion srv base req w1 of
                  (Inl e, w2) \<Rightarrow> (Inl (MeasureClient e), w2)
                | (Inr r, w2) \<Rightarrow>
                    let k = us_completion (cr_usage r)
                    in if k \<le> 0 \<or> cr_latency r \<le> 0 then (Inl (NoTokens k), w2)
                       else (Inr (of_int k / (of_int (cr_latency r) / 10 ^ 9)), w2))))"

section \<open>Facts\<close>

text \<open>The key a stable ascending sort needs for a descending order of sizes.\<close>

definition size_key :: "model_spec \<Rightarrow> int" where
  "size_key s = - uint (sp_size s)"

lemma size_less_iff: "sp_size a < sp_size b \<longleftrightarrow> size_key b < size_key a"
  by (simp add: size_key_def word_less_def)

lemma mset_move_left: "mset (move_left x ys) = add_mset x (mset ys)"
  by (induction ys) auto

lemma set_move_left: "set (move_left x ys) = insert x (set ys)"
  using mset_move_left [of x ys] by (metis set_mset_add_mset_insert set_mset_mset)

lemma sorted_move_left:
  "sorted (map size_key (rev ys)) \<Longrightarrow> sorted (map size_key (rev (move_left x ys)))"
proof (induction ys)
  case (Cons y ys)
  show ?case
  proof (cases "sp_size y < sp_size x")
    case True
    have s: "sorted (map size_key (rev ys))" "\<forall>z \<in> set ys. size_key z \<le> size_key y"
      using Cons.prems by (auto simp: sorted_append)
    have "size_key x \<le> size_key y" using True by (simp add: size_less_iff)
    then show ?thesis using True Cons.IH [OF s(1)] s(2) by (auto simp: sorted_append set_move_left)
  next
    case False
    then have "size_key y \<le> size_key x" by (simp add: size_less_iff)
    then show ?thesis using False Cons.prems by (auto simp: sorted_append)
  qed
qed simp

lemma filter_move_left:
  "sorted (map size_key (rev ys)) \<Longrightarrow>
     filter (\<lambda>z. k = size_key z) (move_left x ys) =
       (if k = size_key x then x # filter (\<lambda>z. k = size_key z) ys else filter (\<lambda>z. k = size_key z) ys)"
proof (induction ys)
  case (Cons y ys)
  have s: "sorted (map size_key (rev ys))" using Cons.prems by (auto simp: sorted_append)
  show ?case
  proof (cases "sp_size y < sp_size x")
    case True
    then have "size_key y \<noteq> size_key x" by (simp add: size_less_iff)
    then show ?thesis using True Cons.IH [OF s] by (cases "k = size_key x"; cases "k = size_key y") auto
  qed simp
qed simp

lemma fold_move_left:
  assumes "sorted (map size_key (rev acc))"
  shows "mset (fold move_left xs acc) = mset xs + mset acc \<and> sorted (map size_key (rev (fold move_left xs acc))) \<and>
    filter (\<lambda>z. k = size_key z) (rev (fold move_left xs acc)) =
      filter (\<lambda>z. k = size_key z) (rev acc) @ filter (\<lambda>z. k = size_key z) xs"
  using assms
proof (induction xs arbitrary: acc)
  case (Cons x xs)
  from Cons.IH [OF sorted_move_left [OF Cons.prems, of x]] filter_move_left [OF Cons.prems, of k x]
  show ?case by (simp add: mset_move_left flip: rev_filter)
qed simp

lemma sort_by_size_desc_eq: "sort_by_size_desc xs = sort_key size_key xs"
proof (rule properties_for_sort_key [symmetric])
  note f = fold_move_left [of "[]" xs, simplified]
  show "mset (sort_by_size_desc xs) = mset xs" using f by (simp add: sort_by_size_desc_def)
  show "filter (\<lambda>x. size_key k = size_key x) (sort_by_size_desc xs) = filter (\<lambda>x. size_key k = size_key x) xs"
    if "k \<in> set (sort_by_size_desc xs)" for k
    using f by (simp add: sort_by_size_desc_def)
  show "sorted (map size_key (sort_by_size_desc xs))" using f by (simp add: sort_by_size_desc_def)
qed

text \<open>The picks of a list of fits: the first named fit that clears the floor.\<close>

lemma fold_picks:
  "fold pick_step fits (a, b) =
     (if a \<noteq> [] then a else case find (\<lambda>f. ft_interactive f \<and> ft_id f \<noteq> []) fits of Some f \<Rightarrow> ft_id f | None \<Rightarrow> [],
      if b \<noteq> [] then b else case find (\<lambda>f. ft_unattended f \<and> ft_id f \<noteq> []) fits of Some f \<Rightarrow> ft_id f | None \<Rightarrow> [])"
  by (induction fits arbitrary: a b) (auto simp: pick_step_def)


lemma sort_by_size_desc_pairs:
  "sorted_wrt (\<lambda>a b. sp_size b \<le> sp_size a) (sort_by_size_desc xs)"
proof -
  have "sorted (map size_key (sort_by_size_desc xs))" by (simp add: sort_by_size_desc_eq)
  then show ?thesis
    unfolding sorted_map by (rule sorted_wrt_mono_rel [rotated]) (simp add: size_key_def word_le_def)
qed

lemma set_sort_by_size_desc [simp]: "set (sort_by_size_desc xs) = set xs"
  by (simp add: sort_by_size_desc_eq)

lemma fit_simps [simp]:
  "ft_id (fit s p ctx f) = sp_id s"
  "ft_capacity (fit s p ctx f) \<longleftrightarrow> ft_required (fit s p ctx f) \<le> usable_bytes p"
  "ft_interactive (fit s p ctx f) \<longleftrightarrow> ft_capacity (fit s p ctx f) \<and> fl_interactive f \<le> ft_tps (fit s p ctx f)"
  "ft_unattended (fit s p ctx f) \<longleftrightarrow> ft_capacity (fit s p ctx f) \<and> fl_unattended f \<le> ft_tps (fit s p ctx f)"
  by (simp_all add: fit_def Let_def case_prod_unfold)

text \<open>The first element of a descending list that passes is a largest one that passes.\<close>

lemma find_largest:
  assumes "sorted_wrt (\<lambda>a b. sp_size b \<le> sp_size a) xs"
  shows "case find P xs of
      None \<Rightarrow> \<not> (\<exists>s \<in> set xs. P s)
    | Some s \<Rightarrow> s \<in> set xs \<and> P s \<and> (\<forall>t \<in> set xs. P t \<longrightarrow> sp_size t \<le> sp_size s)"
  using assms by (induction xs) (auto split: option.splits)

definition largest :: "(model_spec \<Rightarrow> bool) \<Rightarrow> model_spec list \<Rightarrow> string \<Rightarrow> bool" where
  "largest P specs i =
     (if i = [] then \<not> (\<exists>s \<in> set specs. P s)
      else \<exists>s \<in> set specs. P s \<and> sp_id s = i \<and> (\<forall>t \<in> set specs. P t \<longrightarrow> sp_size t \<le> sp_size s))"

lemma find_map: "find P (map g xs) = map_option g (find (P \<circ> g) xs)"
  by (induction xs) auto

lemma find_filter: "find P (filter Q xs) = find (\<lambda>x. Q x \<and> P x) xs"
  by (induction xs) auto

lemma find_is_largest:
  assumes ids: "\<forall>s \<in> set specs. sp_id s \<noteq> []"
    and g: "\<And>s. ft_id (g s) = sp_id s" "\<And>s. P (g s) \<longleftrightarrow> Q s"
  shows "largest (\<lambda>s. A s \<and> Q s) specs
    (case find (\<lambda>f. P f \<and> ft_id f \<noteq> []) (map g (filter A (sort_by_size_desc specs))) of
       Some f \<Rightarrow> ft_id f | None \<Rightarrow> [])"
proof -
  have "sorted_wrt (\<lambda>a b. sp_size b \<le> sp_size a) (sort_by_size_desc specs)"
    by (rule sort_by_size_desc_pairs)
  from find_largest [OF this, of "\<lambda>s. A s \<and> Q s \<and> sp_id s \<noteq> []"] ids show ?thesis
    by (auto simp: find_map find_filter comp_def g largest_def split: option.splits)
qed

text \<open>
  C16: A recommendation is safe and best.  It lists exactly the models whose origin is allowed, largest
  first, and each mode's pick is a largest allowed model that fits the memory left after the reserve
  and decodes at that mode's floor; the pick is empty exactly when no allowed model does.
\<close>
theorem recommend_picks_largest:
  assumes "\<forall>s \<in> set specs. sp_id s \<noteq> []"
  shows "map ft_id (rc_fits (recommend specs allowed p ctx f)) =
           map sp_id (sort_key (\<lambda>s. - uint (sp_size s)) (filter (\<lambda>s. allowed (sp_origin s)) specs)) \<and>
         largest (\<lambda>s. allowed (sp_origin s) \<and> ft_required (fit s p ctx f) \<le> usable_bytes p \<and>
             fl_interactive f \<le> ft_tps (fit s p ctx f)) specs (rc_interactive (recommend specs allowed p ctx f)) \<and>
         largest (\<lambda>s. allowed (sp_origin s) \<and> ft_required (fit s p ctx f) \<le> usable_bytes p \<and>
             fl_unattended f \<le> ft_tps (fit s p ctx f)) specs (rc_unattended (recommend specs allowed p ctx f))"
proof (intro conjI)
  show "map ft_id (rc_fits (recommend specs allowed p ctx f)) =
      map sp_id (sort_key (\<lambda>s. - uint (sp_size s)) (filter (\<lambda>s. allowed (sp_origin s)) specs))"
    by (simp add: recommend_def Let_def comp_def sort_by_size_desc_eq filter_sort size_key_def [abs_def])
qed (use find_is_largest [OF assms, of "\<lambda>s. (fit s p ctx f)\<lparr>ft_allowed := True\<rparr>" ft_interactive _ "\<lambda>s. allowed (sp_origin s)"]
         find_is_largest [OF assms, of "\<lambda>s. (fit s p ctx f)\<lparr>ft_allowed := True\<rparr>" ft_unattended _ "\<lambda>s. allowed (sp_origin s)"]
     in \<open>simp_all add: recommend_def Let_def fold_picks\<close>)


text \<open>A host with 8 GiB available and two models, the larger one of a barred origin.\<close>

definition sample_host :: host_profile where
  "sample_host = \<lparr>hp_target = ''linux-cpu'', hp_os = ''linux'', hp_cpu = 4, hp_total = 2 ^ 34, hp_avail = 2 ^ 33,
     hp_bandwidth = 1000000, hp_accel = AccelNone\<rparr>"

definition sample_specs :: "model_spec list" where
  "sample_specs =
     [\<lparr>sp_id = ''small'', sp_file = ''small-q4.gguf'', sp_size = 58, sp_origin = ''US'', sp_active = 10\<rparr>,
      \<lparr>sp_id = ''large'', sp_file = ''large-q4.gguf'', sp_size = 116, sp_origin = ''XX'', sp_active = 20\<rparr>]"

lemma sample_tests:
  "contains_str (to_lower ''small-q4.gguf'') ''f16'' = False"
  "contains_str (to_lower ''small-q4.gguf'') ''bf16'' = False"
  "contains_str (to_lower ''small-q4.gguf'') ''q8'' = False"
  "contains_str (to_lower ''small-q4.gguf'') ''q6'' = False"
  "contains_str (to_lower ''small-q4.gguf'') ''q5'' = False"
  "find_active (to_lower ''small'') = None"
  by code_simp+

lemma sample_fit:
  "ft_required (fit (hd sample_specs) sample_host 4096 default_floors) \<le> usable_bytes sample_host"
  "fl_interactive default_floors \<le> ft_tps (fit (hd sample_specs) sample_host 4096 default_floors)"
  by (simp_all add: fit_def sample_specs_def sample_host_def usable_bytes_def reserve_bytes_def gib_def Let_def
      bytes_per_param_def sample_tests derive_params_def to_u64_def of_u64_def kv_bytes_def
      kv_bytes_per_billion_def compute_buffer_bytes_def predicted_tps_def bandwidth_efficiency_def default_floors_def)

theorem recommend_picks_largest_witness:
  "rc_interactive (recommend sample_specs (\<lambda>orig. orig = ''US'') sample_host 4096 default_floors) = ''small''"
proof -
  have "\<forall>s \<in> set sample_specs. sp_id s \<noteq> []" by (simp add: sample_specs_def)
  from recommend_picks_largest [OF this, of "\<lambda>orig. orig = ''US''" sample_host 4096 default_floors]
    sample_fit
  show ?thesis by (auto simp: largest_def sample_specs_def split: if_splits)
qed

lemma apply_one_simps [simp]:
  "ft_id (apply_one fl i tps f) = ft_id f"
  "ft_interactive (apply_one fl i tps f) \<longleftrightarrow>
     (if ft_id f = i then ft_capacity f \<and> fl_interactive fl \<le> tps else ft_interactive f)"
  "ft_unattended (apply_one fl i tps f) \<longleftrightarrow>
     (if ft_id f = i then ft_capacity f \<and> fl_unattended fl \<le> tps else ft_unattended f)"
  by (simp_all add: apply_one_def)

text \<open>
  A measurement decides.  After it each pick is the first listed model that clears the mode's floor,
  where the measured model is judged by its capacity and the measured rate and every other one by its
  estimate: a model measured below the floor steps down to the next one, and one that does not fit in
  memory is never picked however fast it ran.
\<close>
theorem measurement_repicks:
  "(rc_interactive (apply_measurement i tps r), rc_unattended (apply_measurement i tps r)) =
     (case find (\<lambda>f. ft_id f \<noteq> [] \<and>
          (if ft_id f = i then ft_capacity f \<and> fl_interactive (rc_floors r) \<le> tps else ft_interactive f)) (rc_fits r) of
        Some f \<Rightarrow> ft_id f | None \<Rightarrow> [],
      case find (\<lambda>f. ft_id f \<noteq> [] \<and>
          (if ft_id f = i then ft_capacity f \<and> fl_unattended (rc_floors r) \<le> tps else ft_unattended f)) (rc_fits r) of
        Some f \<Rightarrow> ft_id f | None \<Rightarrow> [])"
  by (simp add: apply_measurement_def Let_def fold_picks find_map comp_def conj_commute cong: if_cong
      split: option.splits)

end
