(* ===== verification/GoRegexp.thy ===== *)
theory GoRegexp
  imports GoLib
begin

text \<open>
  The regular expressions the index uses, with the semantics of \<open>regexp\<close>: leftmost-first
  (Perl-like) matching with one capture group.  A match of an expression yields all ways to go on in
  order of preference, and the first one wins.  Character classes are predicates on bytes; the
  classes \<open>\w\<close> and \<open>\s\<close> are the ASCII ones of the package.
\<close>

datatype rx =
    Cls "char \<Rightarrow> bool"
  | Eps
  | Cat rx rx
  | Or rx rx
  | Many rx
  | Grp rx

text \<open>What is left of the text, and the group captured last.\<close>

type_synonym rx_pos = "string \<times> string"

text \<open>
  Greedy iteration: as many rounds as possible first.  A round has to consume something, so a number
  of rounds equal to the length of the text is never exhausted.
\<close>

fun rx_iter :: "(rx_pos \<Rightarrow> rx_pos list) \<Rightarrow> nat \<Rightarrow> rx_pos \<Rightarrow> rx_pos list" where
  "rx_iter f 0 p = [p]"
| "rx_iter f (Suc n) p =
     concat (map (rx_iter f n) (filter (\<lambda>q. length (fst q) < length (fst p)) (f p))) @ [p]"

primrec rx_run :: "rx \<Rightarrow> rx_pos \<Rightarrow> rx_pos list" where
  "rx_run (Cls P) p = (case fst p of [] \<Rightarrow> [] | c # s \<Rightarrow> if P c then [(s, snd p)] else [])"
| "rx_run Eps p = [p]"
| "rx_run (Cat a b) p = concat (map (rx_run b) (rx_run a p))"
| "rx_run (Or a b) p = rx_run a p @ rx_run b p"
| "rx_run (Many a) p = rx_iter (rx_run a) (length (fst p)) p"
| "rx_run (Grp a) p =
     map (\<lambda>q. (fst q, take (length (fst p) - length (fst q)) (fst p))) (rx_run a p)"

text \<open>\<open>FindStringSubmatch\<close> of an expression anchored at the start: the captured group.\<close>

definition rx_capture :: "rx \<Rightarrow> string \<Rightarrow> string option" where
  "rx_capture r s = (case rx_run r (s, []) of [] \<Rightarrow> None | p # ps \<Rightarrow> Some (snd p))"

definition word_char :: "char \<Rightarrow> bool" where
  "word_char c \<longleftrightarrow> (CHR ''a'' \<le> c \<and> c \<le> CHR ''z'') \<or> (CHR ''A'' \<le> c \<and> c \<le> CHR ''Z'')
     \<or> (CHR ''0'' \<le> c \<and> c \<le> CHR ''9'') \<or> c = CHR ''_''"

definition rx_space :: "char \<Rightarrow> bool" where
  "rx_space c \<longleftrightarrow> c \<in> set [CHR '' '', CHR 0x09, CHR 0x0A, CHR 0x0C, CHR 0x0D]"

primrec lit :: "string \<Rightarrow> rx" where
  "lit [] = Eps"
| "lit (c # s) = Cat (Cls (\<lambda>d. d = c)) (lit s)"

primrec cats :: "rx list \<Rightarrow> rx" where
  "cats [] = Eps"
| "cats (r # rs) = Cat r (cats rs)"

primrec alts :: "string list \<Rightarrow> rx" where
  "alts [] = Cls (\<lambda>c. False)"
| "alts (w # ws) = Or (lit w) (alts ws)"

definition opt :: "rx \<Rightarrow> rx" where "opt r = Or r Eps"
definition plus :: "rx \<Rightarrow> rx" where "plus r = Cat r (Many r)"
definition sp0 :: rx where "sp0 = Many (Cls rx_space)"
definition sp1 :: rx where "sp1 = plus (Cls rx_space)"
definition word1 :: rx where "word1 = plus (Cls word_char)"

section \<open>Facts\<close>

text \<open>A match leaves a suffix of the text.\<close>

lemma rx_iter_suffix:
  assumes "\<And>p q. q \<in> set (f p) \<Longrightarrow> \<exists>u. fst p = u @ fst q"
  shows "q \<in> set (rx_iter f n p) \<Longrightarrow> \<exists>u. fst p = u @ fst q"
proof (induction n arbitrary: p)
  case (Suc n)
  show ?case
  proof (cases "q = p")
    case False
    with Suc.prems obtain m where m: "m \<in> set (f p)" "q \<in> set (rx_iter f n m)" by auto
    from assms [OF m(1)] Suc.IH [OF m(2)] show ?thesis by (metis append.assoc)
  qed simp
qed simp

lemma rx_run_suffix: "q \<in> set (rx_run r p) \<Longrightarrow> \<exists>u. fst p = u @ fst q"
proof (induction r arbitrary: p q)
  case (Cat a b)
  then obtain m where m: "m \<in> set (rx_run a p)" "q \<in> set (rx_run b m)" by auto
  from Cat.IH(1) [OF m(1)] Cat.IH(2) [OF m(2)] show ?case by (metis append.assoc)
next
  case (Many a)
  then show ?case using rx_iter_suffix [of "rx_run a"] by auto
qed (auto split: list.splits if_splits)

text \<open>Greedy runs over a class.\<close>

lemma rx_iter_class:
  "length s \<le> n \<Longrightarrow>
     hd (rx_iter (rx_run (Cls P)) n (s, c)) = (dropWhile P s, c) \<and> rx_iter (rx_run (Cls P)) n (s, c) \<noteq> []"
proof (induction s arbitrary: n)
  case (Cons x s)
  then show ?case by (cases n) auto
next
  case Nil
  then show ?case by (cases n) auto
qed

lemma hd_many_class: "hd (rx_run (Many (Cls P)) (s, c)) = (dropWhile P s, c)"
  and many_class_nonempty: "rx_run (Many (Cls P)) (s, c) \<noteq> []"
  using rx_iter_class [of s "length s" P c] by (simp_all del: rx_run.simps(1))

lemma hd_concat: "xs \<noteq> [] \<Longrightarrow> f (hd xs) \<noteq> [] \<Longrightarrow> hd (concat (map f xs)) = hd (f (hd xs))"
  by (cases xs) auto

text \<open>The preferred way: an expression whose first choice is followed by a match has that as its first match.\<close>

definition prefers :: "rx \<Rightarrow> rx_pos \<Rightarrow> rx_pos \<Rightarrow> bool" where
  "prefers r p q \<longleftrightarrow> rx_run r p \<noteq> [] \<and> hd (rx_run r p) = q"

lemma prefers_Cat: "prefers a p m \<Longrightarrow> prefers b m q \<Longrightarrow> prefers (Cat a b) p q"
  unfolding prefers_def by (cases "rx_run a p") (auto simp: hd_append)

lemma prefers_many: "prefers (Many (Cls P)) (s, c) (dropWhile P s, c)"
  using hd_many_class many_class_nonempty unfolding prefers_def by blast

lemma prefers_Cls: "P x \<Longrightarrow> prefers (Cls P) (x # s, c) (s, c)"
  by (simp add: prefers_def)

lemma prefers_plus: "P x \<Longrightarrow> prefers (plus (Cls P)) (x # s, c) (dropWhile P s, c)"
  unfolding plus_def by (rule prefers_Cat [OF prefers_Cls prefers_many])

lemma prefers_Eps: "prefers Eps p p"
  by (simp add: prefers_def)

lemma prefers_lit: "prefers (lit w) (w @ s, c) (s, c)"
proof (induction w)
  case (Cons x w)
  have "prefers (Cls (\<lambda>d. d = x)) (x # w @ s, c) (w @ s, c)" by (rule prefers_Cls) simp
  from prefers_Cat [OF this Cons.IH] show ?case by simp
qed (simp add: prefers_Eps)

lemma prefers_Grp:
  "prefers a p q \<Longrightarrow> prefers (Grp a) p (fst q, take (length (fst p) - length (fst q)) (fst p))"
  unfolding prefers_def by (cases "rx_run a p") auto

lemma prefers_opt_skip: "rx_run a p = [] \<Longrightarrow> prefers (opt a) p p"
  by (simp add: prefers_def opt_def)

lemma rx_capture_prefers: "prefers r (s, []) q \<Longrightarrow> rx_capture r s = Some (snd q)"
  unfolding prefers_def rx_capture_def by (cases "rx_run r (s, [])") auto

lemma lit_run: "rx_run (lit w) (s, c) = (if has_prefix s w then [(drop (length w) s, c)] else [])"
  by (induction w arbitrary: s) (auto simp: has_prefix_def split: list.splits)

end
