(* ===== verification/Index.thy ===== *)
theory Index
  imports GoRegexp GoPath "HOL-Library.AList"
begin

text \<open>
  The language side of \<open>internal/index\<close>: canonical languages (\<open>language.go\<close>), retrieval
  tiers (\<open>ladder.go\<close>), the retrieval doctrine (\<open>doctrine.go\<close>) and the extraction of
  definitions by patterns (\<open>extract.go\<close>).  A Go map literal is an association list.
\<close>

section \<open>Languages\<close>

definition first_class_languages :: "string list" where
  "first_class_languages =
     [''c'', ''cpp'', ''csharp'', ''go'', ''javascript'', ''python'', ''ruby'', ''rust'', ''typescript'']"

definition lang_aliases :: "(string \<times> string) list" where
  "lang_aliases =
     [(''c++'', ''cpp''), (''cc'', ''cpp''), (''cxx'', ''cpp''), (''hpp'', ''cpp''),
      (''c#'', ''csharp''), (''cs'', ''csharp''), (''golang'', ''go''),
      (''js'', ''javascript''), (''jsx'', ''javascript''), (''node'', ''javascript''),
      (''ts'', ''typescript''), (''tsx'', ''typescript''), (''py'', ''python''), (''py3'', ''python''),
      (''rb'', ''ruby''), (''rs'', ''rust'')]"

definition normalize_lang :: "string \<Rightarrow> string" where
  "normalize_lang lang =
     (let l = trim_prefix (to_lower (trim_space lang)) ''.''
      in case map_of lang_aliases l of Some c \<Rightarrow> c | None \<Rightarrow> l)"

definition is_first_class :: "string \<Rightarrow> bool" where
  "is_first_class lang \<longleftrightarrow> list_ex (\<lambda>f. f = normalize_lang lang) first_class_languages"

section \<open>Extraction of definitions\<close>

record symbol =
  sy_name :: string
  sy_sig :: string

definition not_in :: "string \<Rightarrow> rx" where "not_in cs = Cls (\<lambda>c. c \<notin> set cs)"
definition one_of :: "string \<Rightarrow> rx" where "one_of cs = Cls (\<lambda>c. c \<in> set cs)"
definition name1 :: rx where "name1 = Grp word1"

definition js_patterns :: "rx list" where
  "js_patterns =
     [cats [sp0, opt (Cat (lit ''export'') sp1), opt (Cat (lit ''default'') sp1),
            opt (Cat (lit ''async'') sp1), lit ''function'', sp1, name1],
      cats [sp0, opt (Cat (lit ''export'') sp1), opt (Cat (lit ''abstract'') sp1), lit ''class'', sp1, name1],
      cats [sp0, opt (Cat (lit ''export'') sp1), alts [''interface'', ''type'', ''enum''], sp1, name1],
      cats [sp0, opt (Cat (lit ''export'') sp1), alts [''const'', ''let'', ''var''], sp1, name1, sp0, lit ''='', sp0,
            opt (Cat (lit ''async'') sp0), opt (lit ''(''),
            Many (Cls (\<lambda>c. word_char c \<or> c = CHR '','' \<or> rx_space c)), opt (lit '')''), sp0, lit ''=>'']]"

definition c_patterns :: "rx list" where
  "c_patterns =
     [cats [sp0, opt (Cat (lit ''typedef'') sp1), alts [''struct'', ''class'', ''enum'', ''union''], sp1, name1],
      cats [Cls (\<lambda>c. word_char c \<and> \<not> (CHR ''0'' \<le> c \<and> c \<le> CHR ''9'')),
            Many (Cls (\<lambda>c. word_char c \<or> rx_space c \<or> c \<in> set ''*&:<>,'')), sp1, opt (lit ''*''), name1, sp0,
            lit ''('', Many (not_in '';''), lit '')'', sp0, lit ''{'']]"

definition def_extractors :: "(string \<times> rx list) list" where
  "def_extractors =
     [(''python'',
        [cats [sp0, opt (Cat (lit ''async'') sp1), lit ''def'', sp1, name1],
         cats [sp0, lit ''class'', sp1, name1]]),
      (''ruby'',
        [cats [sp0, lit ''def'', sp1, opt (lit ''self.''), name1],
         cats [sp0, alts [''class'', ''module''], sp1, name1]]),
      (''rust'',
        [cats [sp0, opt (cats [lit ''pub'', sp1, opt (cats [lit ''('', Many (not_in '')''), lit '')'', sp1])]),
               opt (Cat (lit ''async'') sp1), lit ''fn'', sp1, name1],
         cats [sp0, opt (Cat (lit ''pub'') sp1), alts [''struct'', ''enum'', ''trait'', ''union'', ''type''], sp1, name1],
         cats [sp0, opt (Cat (lit ''pub'') sp1), lit ''const'', sp1, name1]]),
      (''javascript'', js_patterns),
      (''typescript'', js_patterns),
      (''csharp'',
        [cats [sp0,
               Many (Cat (alts [''public'', ''private'', ''protected'', ''internal'', ''static'', ''abstract'',
                                ''sealed'', ''partial'']) sp1),
               alts [''class'', ''interface'', ''struct'', ''enum''], sp1, name1],
         cats [sp0,
               plus (Cat (alts [''public'', ''private'', ''protected'', ''internal'', ''static'', ''virtual'',
                                ''override'', ''async'']) sp1),
               plus (Cls (\<lambda>c. word_char c \<or> c \<in> set ''<>[],.'')), sp1, name1, sp0, lit ''('']]),
      (''c'', c_patterns),
      (''cpp'', c_patterns)]"

definition extract_step :: "string \<Rightarrow> rx \<Rightarrow> symbol list \<Rightarrow> symbol list" where
  "extract_step line p out =
     (case rx_capture p line of
        None \<Rightarrow> out
      | Some n \<Rightarrow>
          if n = [] \<or> n \<in> sy_name ` set out then out
          else out @ [\<lparr>sy_name = n, sy_sig = trim_space line\<rparr>])"

definition extract_symbols :: "string \<Rightarrow> string \<Rightarrow> symbol list" where
  "extract_symbols lang content =
     (case map_of def_extractors (normalize_lang lang) of
        None \<Rightarrow> []
      | Some pats \<Rightarrow> fold (\<lambda>line. fold (extract_step line) pats) (split_on CHR 0x0A content) [])"

definition structural_languages :: "string list" where
  "structural_languages = sort (map fst def_extractors)"

definition ext_to_lang :: "(string \<times> string) list" where
  "ext_to_lang =
     [(''.py'', ''python''), (''.rb'', ''ruby''), (''.rs'', ''rust''), (''.js'', ''javascript''),
      (''.jsx'', ''javascript''), (''.mjs'', ''javascript''), (''.ts'', ''typescript''), (''.tsx'', ''typescript''),
      (''.cs'', ''csharp''), (''.c'', ''c''), (''.h'', ''c''), (''.cc'', ''cpp''), (''.cpp'', ''cpp''),
      (''.cxx'', ''cpp''), (''.hpp'', ''cpp''), (''.hh'', ''cpp''), (''.go'', ''go'')]"

definition lang_from_path :: "string \<Rightarrow> string" where
  "lang_from_path p = (case map_of ext_to_lang (to_lower (path_ext p)) of Some l \<Rightarrow> l | None \<Rightarrow> [])"

section \<open>Retrieval tiers\<close>

datatype retrieval_level = TierGrep | TierStructural | TierPrecise

fun tier_string :: "retrieval_level \<Rightarrow> string" where
  "tier_string TierPrecise = ''precise''"
| "tier_string TierStructural = ''structural''"
| "tier_string TierGrep = ''grep''"

record capabilities =
  cp_precise :: "string list"
  cp_structural :: "string list"

definition retrieval_tier :: "string \<Rightarrow> capabilities \<Rightarrow> retrieval_level" where
  "retrieval_tier lang caps =
     (let l = normalize_lang lang
      in if l \<in> set (cp_precise caps) then TierPrecise
         else if l \<in> set (cp_structural caps) then TierStructural
         else TierGrep)"

definition default_capabilities :: capabilities where
  "default_capabilities = \<lparr>cp_precise = [], cp_structural = ''go'' # structural_languages\<rparr>"

section \<open>Doctrine\<close>

definition sanctioned_retrieval :: "string list" where
  "sanctioned_retrieval =
     [''grep'', ''glob'', ''lsp'', ''repomap'', ''repo-map'', ''ripgrep'', ''rg'', ''scip'']"

text \<open>The error quotes the method as it was given.\<close>

datatype guard_error = NotGrepFirst string

definition guard_retrieval :: "string \<Rightarrow> guard_error option" where
  "guard_retrieval method =
     (if to_lower (trim_space method) \<in> set sanctioned_retrieval then None else Some (NotGrepFirst method))"

section \<open>What is extracted\<close>

definition symbols_of_content :: "string list \<Rightarrow> symbol list \<Rightarrow> bool" where
  "symbols_of_content lines out \<longleftrightarrow>
     distinct (map sy_name out) \<and> (\<forall>s \<in> set out. sy_name s \<noteq> [] \<and> sy_sig s \<in> trim_space ` set lines)"

lemma extract_step_mono: "set out \<subseteq> set (extract_step line p out)"
  by (auto simp: extract_step_def split: option.splits)

lemma extract_pats_mono: "set out \<subseteq> set (fold (extract_step line) ps out)"
  by (induction ps arbitrary: out) (use extract_step_mono in fastforce)+

lemma extract_lines_mono: "set out \<subseteq> set (fold (\<lambda>line. fold (extract_step line) ps) lines out)"
  by (induction lines arbitrary: out) (use extract_pats_mono in fastforce)+

lemma extract_step_ok:
  "symbols_of_content lines out \<Longrightarrow> line \<in> set lines \<Longrightarrow> symbols_of_content lines (extract_step line p out)"
  by (auto simp: extract_step_def symbols_of_content_def split: option.splits)

lemma extract_pats_ok:
  "symbols_of_content lines out \<Longrightarrow> line \<in> set lines \<Longrightarrow>
     symbols_of_content lines (fold (extract_step line) ps out)"
  by (induction ps arbitrary: out) (auto intro: extract_step_ok)

lemma extract_lines_ok:
  "symbols_of_content ls out \<Longrightarrow> set lines \<subseteq> set ls \<Longrightarrow>
     symbols_of_content ls (fold (\<lambda>line. fold (extract_step line) ps) lines out)"
  by (induction lines arbitrary: out) (auto intro: extract_pats_ok)

lemma extract_step_finds:
  "rx_capture p line = Some n \<Longrightarrow> n \<noteq> [] \<Longrightarrow> n \<in> sy_name ` set (extract_step line p out)"
  by (auto simp: extract_step_def)

lemma extract_pats_finds:
  "p \<in> set ps \<Longrightarrow> rx_capture p line = Some n \<Longrightarrow> n \<noteq> [] \<Longrightarrow>
     n \<in> sy_name ` set (fold (extract_step line) ps out)"
proof (induction ps arbitrary: out)
  case (Cons q ps)
  then show ?case
    using extract_step_finds [of q line n out] extract_pats_mono [of "extract_step line q out" line ps]
    by auto
qed simp

lemma extract_lines_finds:
  "line \<in> set lines \<Longrightarrow> p \<in> set ps \<Longrightarrow> rx_capture p line = Some n \<Longrightarrow> n \<noteq> [] \<Longrightarrow>
     n \<in> sy_name ` set (fold (\<lambda>line. fold (extract_step line) ps) lines out)"
proof (induction lines arbitrary: out)
  case (Cons l lines)
  then show ?case
    using extract_pats_finds [of p ps line n out] extract_lines_mono [of "fold (extract_step line) ps out" ps lines]
    by auto
qed simp

text \<open>What a definition header in Python looks like to the pattern.\<close>

lemma python_def_capture:
  assumes ws: "list_all rx_space ws" and n: "n \<noteq> []" "list_all word_char n"
    and rest: "rest = [] \<or> \<not> word_char (hd rest)"
  shows "rx_capture (cats [sp0, opt (Cat (lit ''async'') sp1), lit ''def'', sp1, name1])
    (ws @ ''def '' @ n @ rest) = Some n"
proof -
  have space: "\<not> rx_space c" if "word_char c" for c
    using that by (auto simp: rx_space_def word_char_def less_eq_char_def)
  have dw: "dropWhile P (xs @ ys) = ys" if "list_all P xs" "ys = [] \<or> \<not> P (hd ys)" for P :: "char \<Rightarrow> bool" and xs ys
    using that by (induction xs; cases ys) auto
  obtain c m where cm: "n = c # m" using n(1) by (cases n) auto
  have 1: "prefers sp0 (ws @ ''def '' @ n @ rest, []) (''def '' @ n @ rest, [])"
    using prefers_many [of rx_space "ws @ ''def '' @ n @ rest" "[]"] dw [OF ws, of "''def '' @ n @ rest"]
    by (simp add: sp0_def rx_space_def)
  have 2: "prefers (opt (Cat (lit ''async'') sp1)) (''def '' @ n @ rest, []) (''def '' @ n @ rest, [])"
    by (rule prefers_opt_skip) (simp add: lit_run del: lit.simps)
  have 3: "prefers (lit ''def'') (''def '' @ n @ rest, []) ('' '' @ n @ rest, [])"
    using prefers_lit [of "''def''" "'' '' @ n @ rest" "[]"] by (simp del: lit.simps)
  have 4: "prefers sp1 ('' '' @ n @ rest, []) (n @ rest, [])"
    using prefers_plus [of rx_space "CHR '' ''" "n @ rest" "[]"] n space [of c] cm
    by (simp add: sp1_def) (simp add: rx_space_def)
  have "prefers word1 (n @ rest, []) (rest, [])"
    using prefers_plus [of word_char c "m @ rest" "[]"] dw [of word_char m rest] rest n cm by (simp add: word1_def)
  from prefers_Grp [OF this] have 5: "prefers name1 (n @ rest, []) (rest, n)" by (simp add: name1_def)
  from rx_capture_prefers [OF prefers_Cat [OF 1 prefers_Cat [OF 2 prefers_Cat [OF 3 prefers_Cat [OF 4
      prefers_Cat [OF 5 prefers_Eps]]]]]]
  show ?thesis by (simp only: cats.simps snd_conv)
qed

section \<open>Properties\<close>

lemma python_patterns:
  "map_of def_extractors ''python'' =
     Some [cats [sp0, opt (Cat (lit ''async'') sp1), lit ''def'', sp1, name1], cats [sp0, lit ''class'', sp1, name1]]"
  by (simp add: def_extractors_def)

text \<open>
  Extraction is sound and finds definitions.  Whatever the language and the content, the extracted
  names are distinct and not empty and every signature is a trimmed line of the content; and in a
  Python source each line that defines a function, at any indentation, puts its name into the result.
\<close>
theorem extract_finds_python_defs:
  assumes "normalize_lang lang = ''python''" and "line \<in> set (split_on CHR 0x0A content)"
    and "line = ws @ ''def '' @ n @ rest" and "list_all rx_space ws" and "n \<noteq> []" and "list_all word_char n"
    and "rest = [] \<or> \<not> word_char (hd rest)"
  shows "n \<in> sy_name ` set (extract_symbols lang content) \<and>
    (\<forall>l c. distinct (map sy_name (extract_symbols l c)) \<and>
      (\<forall>s \<in> set (extract_symbols l c). sy_name s \<noteq> [] \<and> sy_sig s \<in> trim_space ` set (split_on CHR 0x0A c)))"
proof
  show "n \<in> sy_name ` set (extract_symbols lang content)"
    unfolding extract_symbols_def assms(1) python_patterns option.simps
    by (rule extract_lines_finds [OF assms(2) _ python_def_capture [OF assms(4-7), folded assms(3)] assms(5)]) simp
  show "\<forall>l c. distinct (map sy_name (extract_symbols l c)) \<and>
      (\<forall>s \<in> set (extract_symbols l c). sy_name s \<noteq> [] \<and> sy_sig s \<in> trim_space ` set (split_on CHR 0x0A c))"
  proof (intro allI)
    fix l c
    have "symbols_of_content (split_on CHR 0x0A c) (extract_symbols l c)"
      unfolding extract_symbols_def
      using extract_lines_ok [of "split_on CHR 0x0A c" "[]" "split_on CHR 0x0A c"]
      by (cases "map_of def_extractors (normalize_lang l)") (auto simp: symbols_of_content_def)
    then show "distinct (map sy_name (extract_symbols l c)) \<and>
      (\<forall>s \<in> set (extract_symbols l c). sy_name s \<noteq> [] \<and> sy_sig s \<in> trim_space ` set (split_on CHR 0x0A c))"
      by (simp add: symbols_of_content_def)
  qed
qed

theorem extract_finds_python_defs_witness:
  "''f'' \<in> sy_name ` set (extract_symbols ''Py'' (''import os'' @ [CHR 0x0A] @ ''  def f(x):''))"
proof -
  have "normalize_lang ''Py'' = ''python''" by code_simp
  moreover have "''  def f(x):'' \<in> set (split_on CHR 0x0A (''import os'' @ [CHR 0x0A] @ ''  def f(x):''))"
    by code_simp
  moreover have "''  def f(x):'' = ''  '' @ ''def '' @ ''f'' @ ''(x):''" by simp
  moreover have "list_all rx_space ''  ''" "list_all word_char ''f''" "\<not> word_char (hd ''(x):'')" by code_simp+
  ultimately show ?thesis using extract_finds_python_defs by blast
qed

text \<open>
  The tiers of the shipped capabilities and the first-class set agree: a language, under any
  spelling, alias or extension, is served by the structural tier exactly when it is first class, every
  other one falls back to the text floor, and the precise tier is never claimed.
\<close>
theorem tier_is_first_class:
  "retrieval_tier lang default_capabilities = (if is_first_class lang then TierStructural else TierGrep)"
proof -
  have "set (''go'' # structural_languages) = set first_class_languages"
    by (auto simp: structural_languages_def def_extractors_def first_class_languages_def)
  then have "l \<in> set (''go'' # structural_languages) \<longleftrightarrow> list_ex (\<lambda>f. f = l) first_class_languages" for l
    by (simp add: list_ex_iff)
  then show ?thesis
    by (simp add: retrieval_tier_def default_capabilities_def is_first_class_def Let_def)
qed

end
