(* ===== verification/Sources.thy ===== *)
theory Sources
  imports Index Sha256
begin

text \<open>
  The file side of \<open>internal/index\<close>: the walk that selects source files
  (\<open>repomap.go\<close>) and the change detection between two snapshots (\<open>incremental.go\<close>).  A
  directory tree stands for the disk below the root; a directory that cannot be listed is
  \<open>TDeny\<close>, a file that cannot be read has no content.
\<close>

section \<open>Walking a tree\<close>

datatype tree = TFile string "string option" | TDir string "tree list" | TDeny string

fun tree_name :: "tree \<Rightarrow> string" where
  "tree_name (TFile b c) = b"
| "tree_name (TDir b ts) = b"
| "tree_name (TDeny b) = b"

text \<open>
  \<open>filepath.WalkDir\<close> with a callback that skips directories by name, passes files on, and returns
  every error it is given: the boolean is \<open>err == nil\<close>.
\<close>

fun walk :: "(string \<Rightarrow> bool) \<Rightarrow> (string \<Rightarrow> 'a \<Rightarrow> 'a) \<Rightarrow> string \<Rightarrow> tree \<Rightarrow> 'a \<Rightarrow> bool \<times> 'a"
and walk_all :: "(string \<Rightarrow> bool) \<Rightarrow> (string \<Rightarrow> 'a \<Rightarrow> 'a) \<Rightarrow> string \<Rightarrow> tree list \<Rightarrow> 'a \<Rightarrow> bool \<times> 'a" where
  "walk skip f path (TFile b c) a = (True, f path a)"
| "walk skip f path (TDir b ts) a = (if skip b then (True, a) else walk_all skip f path ts a)"
| "walk skip f path (TDeny b) a = (skip b, a)"
| "walk_all skip f path [] a = (True, a)"
| "walk_all skip f path (t # ts) a =
     (case walk skip f (path_join [path, tree_name t]) t a of
        (ok, a') \<Rightarrow> if ok then walk_all skip f path ts a' else (False, a'))"

definition walk_root :: "(string \<Rightarrow> bool) \<Rightarrow> (string \<Rightarrow> 'a \<Rightarrow> 'a) \<Rightarrow> string \<Rightarrow> tree option \<Rightarrow> 'a \<Rightarrow> bool \<times> 'a" where
  "walk_root skip f rt t a = (case t of None \<Rightarrow> (False, a) | Some t \<Rightarrow> walk skip f rt t a)"

text \<open>Reading a file below the root by its path.\<close>

fun tree_files :: "string \<Rightarrow> tree \<Rightarrow> (string \<times> string option) list"
and trees_files :: "string \<Rightarrow> tree list \<Rightarrow> (string \<times> string option) list" where
  "tree_files path (TFile b c) = [(path, c)]"
| "tree_files path (TDir b ts) = trees_files path ts"
| "tree_files path (TDeny b) = []"
| "trees_files path [] = []"
| "trees_files path (t # ts) = tree_files (path_join [path, tree_name t]) t @ trees_files path ts"

definition read_tree :: "string \<Rightarrow> tree option \<Rightarrow> string \<Rightarrow> string option" where
  "read_tree rt t p =
     (case t of None \<Rightarrow> None
      | Some t \<Rightarrow> (case map_of (tree_files rt t) p of Some c \<Rightarrow> c | None \<Rightarrow> None))"

definition rel_of :: "string \<Rightarrow> string \<Rightarrow> string" where
  "rel_of rt p = (case path_rel rt p of Some r \<Rightarrow> r | None \<Rightarrow> [])"

definition hidden_dir :: "string \<Rightarrow> bool" where
  "hidden_dir b \<longleftrightarrow> has_prefix b ''.'' \<and> b \<noteq> ''.''"

definition skip_source_dir :: "string \<Rightarrow> bool" where
  "skip_source_dir b \<longleftrightarrow> b \<in> set [''vendor'', ''testdata'', ''node_modules''] \<or> hidden_dir b"

definition add_source :: "string \<Rightarrow> string \<Rightarrow> (string \<times> string) list \<Rightarrow> (string \<times> string) list" where
  "add_source rt path out =
     (let lang = lang_from_path path
      in if lang = [] then out
         else if lang = ''go'' \<and> has_suffix path ''_test.go'' then out
         else AList.update (rel_of rt path) lang out)"

definition source_files :: "string \<Rightarrow> tree option \<Rightarrow> bool \<times> (string \<times> string) list" where
  "source_files rt t = walk_root skip_source_dir (add_source rt) rt t []"

definition skip_go_dir :: "string \<Rightarrow> bool" where
  "skip_go_dir b \<longleftrightarrow> b \<in> set [''vendor'', ''testdata''] \<or> hidden_dir b"

definition add_go :: "string \<Rightarrow> string \<Rightarrow> string list \<Rightarrow> string list" where
  "add_go rt path out =
     (if has_suffix path ''.go'' \<and> \<not> has_suffix path ''_test.go'' then out @ [rel_of rt path] else out)"

definition go_files :: "string \<Rightarrow> tree option \<Rightarrow> string list \<times> bool" where
  "go_files rt t = (case walk_root skip_go_dir (add_go rt) rt t [] of (ok, out) \<Rightarrow> (sort out, ok))"

section \<open>Snapshots\<close>

type_synonym snapshot = "(string \<times> string) list"

definition add_leaf :: "string \<Rightarrow> tree option \<Rightarrow> string \<Rightarrow> snapshot \<Rightarrow> snapshot" where
  "add_leaf rt t rel snap =
     (case read_tree rt t (path_join [rt, rel]) of
        None \<Rightarrow> snap
      | Some data \<Rightarrow> AList.update rel (sha256_hex data) snap)"

definition snapshot_dir :: "string \<Rightarrow> tree option \<Rightarrow> snapshot" where
  "snapshot_dir rt t = fold (add_leaf rt t) (fst (go_files rt t)) []"

text \<open>A missing key reads as the empty string.\<close>

definition leaf :: "snapshot \<Rightarrow> string \<Rightarrow> string" where
  "leaf s p = (case map_of s p of Some h \<Rightarrow> h | None \<Rightarrow> [])"

definition changed_since :: "snapshot \<Rightarrow> snapshot \<Rightarrow> string list \<times> string list" where
  "changed_since prev cur =
     (sort (map fst (filter (\<lambda>(p, h). leaf prev p \<noteq> h) cur)),
      sort (map fst (filter (\<lambda>(p, h). p \<notin> fst ` set cur) prev)))"

section \<open>Facts\<close>

text \<open>What an invariant of the visited files gives for the walk.\<close>

lemma walk_invariant:
  assumes "\<And>p a. I a \<Longrightarrow> I (f p a)"
  shows "I a \<Longrightarrow> I (snd (walk skip f path t a))"
    and "I a \<Longrightarrow> I (snd (walk_all skip f path ts a))"
  using assms
  by (induction skip f path t a and skip f path ts a rule: walk_walk_all.induct)
    (auto split: prod.splits)

lemma walk_root_invariant:
  "(\<And>p a. I a \<Longrightarrow> I (f p a)) \<Longrightarrow> I a \<Longrightarrow> I (snd (walk_root skip f rt t a))"
  by (cases t) (auto simp: walk_root_def walk_invariant)

lemma update_values: "h \<in> snd ` set (AList.update k v al) \<Longrightarrow> h = v \<or> h \<in> snd ` set al"
  by (induction al) (auto split: if_splits)

definition leaves_ok :: "snapshot \<Rightarrow> bool" where
  "leaves_ok s \<longleftrightarrow> distinct (map fst s) \<and> (\<forall>h \<in> snd ` set s. length h = 64)"

lemma add_leaf_ok: "leaves_ok s \<Longrightarrow> leaves_ok (add_leaf rt t rel s)"
  unfolding leaves_ok_def add_leaf_def
  by (cases "read_tree rt t (path_join [rt, rel])")
    (simp_all add: AList.distinct_update del: ball_simps, metis sha256_hex_length update_values)

lemma snapshot_dir_ok: "leaves_ok (snapshot_dir rt t)"
proof -
  have "leaves_ok s \<Longrightarrow> leaves_ok (fold (add_leaf rt t) fs s)" for fs s
    by (induction fs arbitrary: s) (simp_all add: add_leaf_ok)
  from this [of "[]"] show ?thesis unfolding snapshot_dir_def by (simp add: leaves_ok_def)
qed

lemma leaf_differs:
  assumes "\<forall>h \<in> snd ` set s. length h = 64" and "length h = 64"
  shows "leaf s p \<noteq> h \<longleftrightarrow> map_of s p \<noteq> Some h"
  using assms by (auto simp: leaf_def split: option.splits)

lemma keys_where: "fst ` {x \<in> A. case x of (p, h) \<Rightarrow> Q p h} = {p. \<exists>h. (p, h) \<in> A \<and> Q p h}"
  by force

lemma changed_since_sets:
  assumes "leaves_ok prev" "leaves_ok cur"
  shows "set (fst (changed_since prev cur)) = {p. map_of cur p \<noteq> None \<and> map_of cur p \<noteq> map_of prev p}"
    and "set (snd (changed_since prev cur)) = {p. map_of prev p \<noteq> None \<and> map_of cur p = None}"
proof -
  have differs: "(\<exists>h. m = Some h \<and> n \<noteq> Some h) \<longleftrightarrow> m \<noteq> None \<and> m \<noteq> n" for m n :: "string option"
    by (cases m) auto
  have mem: "p \<in> fst ` set s \<longleftrightarrow> map_of s p \<noteq> None" for p and s :: snapshot
    by (simp only: map_of_eq_None_iff not_not)
  have "set (snd (changed_since prev cur)) = {p. p \<in> fst ` set prev \<and> p \<notin> fst ` set cur}"
    unfolding changed_since_def by (simp only: snd_conv set_sort set_map set_filter keys_where) force
  then show "set (snd (changed_since prev cur)) = {p. map_of prev p \<noteq> None \<and> map_of cur p = None}"
    by (simp only: mem not_not)
  have "p \<in> set (fst (changed_since prev cur)) \<longleftrightarrow> (\<exists>h. (p, h) \<in> set cur \<and> leaf prev p \<noteq> h)" for p
    unfolding changed_since_def by (simp only: fst_conv set_sort set_map set_filter keys_where mem_Collect_eq)
  moreover have "(p, h) \<in> set cur \<and> leaf prev p \<noteq> h \<longleftrightarrow> map_of cur p = Some h \<and> map_of prev p \<noteq> Some h" for p h
  proof -
    have "(p, h) \<in> set cur \<longleftrightarrow> map_of cur p = Some h"
      using assms(2) by (simp add: leaves_ok_def map_of_eq_Some_iff)
    moreover have "length h = 64" if "(p, h) \<in> set cur"
      using assms(2) that unfolding leaves_ok_def by (metis image_eqI snd_conv)
    ultimately show ?thesis using leaf_differs [of prev h p] assms(1) unfolding leaves_ok_def by blast
  qed
  ultimately show "set (fst (changed_since prev cur)) = {p. map_of cur p \<noteq> None \<and> map_of cur p \<noteq> map_of prev p}"
    by (simp only: differs set_eq_iff mem_Collect_eq simp_thms)
qed

section \<open>Properties\<close>

text \<open>
  C17: Incremental indexing refines full indexing.  For any two states of the disk, whatever is computed
  from the leaf of each file, dropping the removed paths from the old index and recomputing just the
  changed ones gives the index of the new snapshot; and a path is reported as changed only if its leaf
  is new or differs, so nothing is processed in vain.
\<close>
theorem incremental_refines_full:
  "(let prev = snapshot_dir rt t; cur = snapshot_dir rt' t';
        (changed, removed) = changed_since prev cur
    in (\<lambda>p. if p \<in> set removed then None
            else if p \<in> set changed then map_option g (map_of cur p)
            else map_option g (map_of prev p)) = (\<lambda>p. map_option g (map_of cur p)) \<and>
       set changed = {p. map_of cur p \<noteq> None \<and> map_of cur p \<noteq> map_of prev p} \<and>
       set changed \<inter> set removed = {} \<and> sorted changed \<and> sorted removed)"
proof -
  note sets = changed_since_sets [OF snapshot_dir_ok [of rt t] snapshot_dir_ok [of rt' t']]
  have sorted: "sorted (fst (changed_since p c))" "sorted (snd (changed_since p c))" for p c
    by (simp_all add: changed_since_def)
  have rebuilt: "(\<lambda>p. if p \<in> {p. m p \<noteq> None \<and> n p = None} then None
      else if p \<in> {p. n p \<noteq> None \<and> n p \<noteq> m p} then map_option g (n p) else map_option g (m p)) =
      (\<lambda>p. map_option g (n p))" for m n :: "string \<Rightarrow> string option"
    by (rule ext) auto
  show ?thesis
    unfolding Let_def case_prod_unfold sets by (intro conjI rebuilt sorted refl) auto
qed

end
