(* ===== verification/RepoMap.thy ===== *)
theory RepoMap
  imports Sources Complex_Main
begin

text \<open>
  The repo map of \<open>internal/index/repomap.go\<close> and the context bundle of
  \<open>contextassembly.go\<close>: symbols per file, reference edges between files, personalized PageRank, and
  rendering within a budget.  What \<open>go/parser\<close> returns for a Go source is an argument: the
  declarations with their headers as \<open>go/printer\<close> prints them, and the names of all identifiers in
  the order \<open>ast.Inspect\<close> visits them.  Edge weights are counters, ranks are real numbers.
  Iterations over Go maps only add up numbers or collect keys that are sorted afterwards, so their
  order does not matter; they follow the order of insertion here.
\<close>

section \<open>Symbols\<close>

datatype type_form = StructT | InterfaceT | PrintedT string

datatype go_spec = TypeSpec string type_form | ValueSpec "string list" | ImportSpec

datatype go_decl = FuncDecl bool string string | GenDecl bool "go_spec list" | BadDecl

record go_file =
  gf_decls :: "go_decl list"
  gf_idents :: "string list"

record raw_sym =
  rw_name :: string
  rw_sig :: string
  rw_render :: bool

definition one_line :: "string \<Rightarrow> string" where
  "one_line s = join '' '' (str_fields s)"

definition is_exported :: "string \<Rightarrow> bool" where
  "is_exported n = (case n of [] \<Rightarrow> False | c # m \<Rightarrow> CHR ''A'' \<le> c \<and> c \<le> CHR ''Z'')"

fun type_sig :: "string \<Rightarrow> type_form \<Rightarrow> string" where
  "type_sig n StructT = ''type '' @ n @ '' struct''"
| "type_sig n InterfaceT = ''type '' @ n @ '' interface''"
| "type_sig n (PrintedT p) = ''type '' @ n @ '' '' @ one_line p"

fun spec_symbols :: "bool \<Rightarrow> go_spec \<Rightarrow> raw_sym list" where
  "spec_symbols k (TypeSpec n t) = [\<lparr>rw_name = n, rw_sig = type_sig n t, rw_render = is_exported n\<rparr>]"
| "spec_symbols k (ValueSpec ns) =
     map (\<lambda>n. \<lparr>rw_name = n, rw_sig = (if k then ''const'' else ''var'') @ '' '' @ n, rw_render = is_exported n\<rparr>) ns"
| "spec_symbols k ImportSpec = []"

fun symbols_of :: "go_decl \<Rightarrow> raw_sym list" where
  "symbols_of (FuncDecl is_method n header) =
     [\<lparr>rw_name = n, rw_sig = one_line header, rw_render = is_method \<or> is_exported n\<rparr>]"
| "symbols_of (GenDecl k specs) = concat (map (spec_symbols k) specs)"
| "symbols_of BadDecl = []"

section \<open>The files of a map\<close>

record map_data =
  md_asts :: "(string \<times> string list) list"
  md_other :: "(string \<times> string) list"
  md_defs :: "(string \<times> symbol list) list"
  md_home :: "(string \<times> string) list"

text \<open>The first file that defines a name is its home.\<close>

definition add_home :: "string \<Rightarrow> string \<Rightarrow> map_data \<Rightarrow> map_data" where
  "add_home rel n m =
     (if map_of (md_home m) n = None then m\<lparr>md_home := md_home m @ [(n, rel)]\<rparr> else m)"

definition defs_of :: "map_data \<Rightarrow> string \<Rightarrow> symbol list" where
  "defs_of m rel = (case map_of (md_defs m) rel of Some ds \<Rightarrow> ds | None \<Rightarrow> [])"

definition add_def :: "string \<Rightarrow> symbol \<Rightarrow> map_data \<Rightarrow> map_data" where
  "add_def rel s m = m\<lparr>md_defs := AList.update rel (defs_of m rel @ [s]) (md_defs m)\<rparr>"

definition add_raw :: "string \<Rightarrow> raw_sym \<Rightarrow> map_data \<Rightarrow> map_data" where
  "add_raw rel s m =
     (let m1 = add_home rel (rw_name s) m
      in if rw_render s then add_def rel \<lparr>sy_name = rw_name s, sy_sig = rw_sig s\<rparr> m1 else m1)"

definition scan_go :: "string \<Rightarrow> go_file \<Rightarrow> map_data \<Rightarrow> map_data" where
  "scan_go rel f m =
     fold (\<lambda>d. fold (add_raw rel) (symbols_of d)) (gf_decls f)
       (m\<lparr>md_asts := AList.update rel (gf_idents f) (md_asts m)\<rparr>)"

definition scan_other :: "string \<Rightarrow> string \<Rightarrow> string \<Rightarrow> map_data \<Rightarrow> map_data" where
  "scan_other rel lang data m =
     (let syms = extract_symbols lang data
      in if syms = [] then m
         else fold (\<lambda>s. add_def rel s \<circ> add_home rel (sy_name s)) syms
                (m\<lparr>md_other := AList.update rel data (md_other m)\<rparr>))"

definition scan_file ::
  "(string \<Rightarrow> go_file option) \<Rightarrow> string \<Rightarrow> tree option \<Rightarrow> string \<times> string \<Rightarrow> map_data \<Rightarrow> map_data" where
  "scan_file parse rt t src m =
     (case src of (rel, lang) \<Rightarrow>
        (case read_tree rt t (path_join [rt, rel]) of
           None \<Rightarrow> m
         | Some data \<Rightarrow>
             if lang = ''go'' then (case parse data of None \<Rightarrow> m | Some f \<Rightarrow> scan_go rel f m)
             else scan_other rel lang data m))"

definition empty_map :: map_data where
  "empty_map = \<lparr>md_asts = [], md_other = [], md_defs = [], md_home = []\<rparr>"

definition scan_sources ::
  "(string \<Rightarrow> go_file option) \<Rightarrow> string \<Rightarrow> tree option \<Rightarrow> (string \<times> string) list \<Rightarrow> map_data" where
  "scan_sources parse rt t srcs = fold (scan_file parse rt t) (sort_key fst srcs) empty_map"

section \<open>Edges\<close>

type_synonym edges = "(string \<times> (string \<times> nat) list) list"

definition weight :: "string \<Rightarrow> (string \<times> nat) list \<Rightarrow> nat" where
  "weight d ds = (case map_of ds d of Some w \<Rightarrow> w | None \<Rightarrow> 0)"

definition targets :: "string \<Rightarrow> edges \<Rightarrow> (string \<times> nat) list" where
  "targets f es = (case map_of es f of Some ds \<Rightarrow> ds | None \<Rightarrow> [])"

definition edge_step :: "(string \<times> string) list \<Rightarrow> string \<Rightarrow> string \<Rightarrow> edges \<Rightarrow> edges" where
  "edge_step home file w es =
     (case map_of home w of
        None \<Rightarrow> es
      | Some d \<Rightarrow>
          if d = file then es
          else AList.update file (AList.update d (weight d (targets file es) + 1) (targets file es)) es)"

definition build_edges :: "(string \<times> string list) list \<Rightarrow> (string \<times> string) list \<Rightarrow> edges" where
  "build_edges asts home = fold (\<lambda>(file, ids). fold (edge_step home file) ids) asts []"

definition ident_start :: "char \<Rightarrow> bool" where
  "ident_start c \<longleftrightarrow> word_char c \<and> \<not> (CHR ''0'' \<le> c \<and> c \<le> CHR ''9'')"

lemma dropWhile_shorter [termination_simp]: "length (dropWhile P s) < Suc (length s)"
  by (simp add: le_imp_less_Suc length_dropWhile_le)

fun find_idents :: "string \<Rightarrow> string list" where
  "find_idents [] = []"
| "find_idents (c # s) =
     (if ident_start c then (c # takeWhile word_char s) # find_idents (dropWhile word_char s)
      else find_idents s)"

definition add_text_edges :: "(string \<times> string) list \<Rightarrow> (string \<times> string) list \<Rightarrow> edges \<Rightarrow> edges" where
  "add_text_edges other home es =
     fold (\<lambda>(file, content). fold (edge_step home file) (find_idents content)) other es"

section \<open>Ranking\<close>

definition personalize :: "map_data \<Rightarrow> string list \<Rightarrow> string \<Rightarrow> real" where
  "personalize m mentions =
     (let p1 = fold (\<lambda>w p. case map_of (md_home m) w of Some f \<Rightarrow> p(f := p f + 1) | None \<Rightarrow> p)
                 mentions (\<lambda>x. 0)
      in fold (\<lambda>file. fold (\<lambda>w p. if contains_str file w then p(file := p file + 2) else p) mentions)
           (map fst (md_defs m)) p1)"

definition out_weight :: "edges \<Rightarrow> string \<Rightarrow> real" where
  "out_weight es src = (\<Sum>(d, w) \<leftarrow> targets src es. real w)"

definition restart :: "string list \<Rightarrow> (string \<Rightarrow> real) \<Rightarrow> string \<Rightarrow> real" where
  "restart nodes personal x =
     (let psum = (\<Sum>y \<leftarrow> nodes. personal y)
      in if x \<notin> set nodes then 0
         else if psum > 0 then personal x / psum else 1 / real (length nodes))"

definition rank_step ::
  "string list \<Rightarrow> edges \<Rightarrow> (string \<Rightarrow> real) \<Rightarrow> real \<Rightarrow> (string \<Rightarrow> real) \<Rightarrow> string \<Rightarrow> real" where
  "rank_step nodes es pv damping rank x =
     (let dangling = (\<Sum>y \<leftarrow> nodes. if out_weight es y = 0 then rank y else 0)
      in (if x \<in> set nodes then (1 - damping) * pv x else 0)
       + (\<Sum>(src, ds) \<leftarrow> es. if out_weight es src = 0 then 0
            else (\<Sum>(d, w) \<leftarrow> ds. if d = x then damping * rank src * (real w / out_weight es src) else 0))
       + (\<Sum>y \<leftarrow> nodes. if y = x then damping * dangling * pv y else 0))"

definition page_rank ::
  "string list \<Rightarrow> edges \<Rightarrow> (string \<Rightarrow> real) \<Rightarrow> nat \<Rightarrow> real \<Rightarrow> string \<Rightarrow> real" where
  "page_rank nodes es personal iters damping =
     (if nodes = [] then (\<lambda>x. 0)
      else (rank_step nodes es (restart nodes personal) damping ^^ iters)
             (\<lambda>x. if x \<in> set nodes then 1 / real (length nodes) else 0))"

definition map_keys :: "map_data \<Rightarrow> string list" where
  "map_keys m = sort (remdups (map snd (md_home m) @ map fst (md_defs m)))"

section \<open>Rendering\<close>

fun render_defs :: "int \<Rightarrow> symbol list \<Rightarrow> string \<Rightarrow> string \<times> bool" where
  "render_defs budget [] b = (b, True)"
| "render_defs budget (d # ds) b =
     (let line = ''  '' @ sy_sig d @ [CHR 0x0A]
      in if int (length b) + int (length line) > budget then (b, False)
         else render_defs budget ds (b @ line))"

fun render_files :: "(string \<Rightarrow> symbol list) \<Rightarrow> int \<Rightarrow> string list \<Rightarrow> string \<Rightarrow> string" where
  "render_files defs budget [] b = b"
| "render_files defs budget (f # fs) b =
     (if defs f = [] then render_files defs budget fs b
      else let header = f @ '':'' @ [CHR 0x0A]
           in if int (length b) + int (length header) > budget then b
              else (case render_defs budget (defs f) (b @ header) of
                      (b', all_in) \<Rightarrow> if all_in then render_files defs budget fs b' else b'))"

definition map_edges :: "map_data \<Rightarrow> edges" where
  "map_edges m = add_text_edges (md_other m) (md_home m) (build_edges (md_asts m) (md_home m))"

definition map_rank :: "map_data \<Rightarrow> string list \<Rightarrow> string \<Rightarrow> real" where
  "map_rank m mentions = page_rank (map_keys m) (map_edges m) (personalize m mentions) 20 (85 / 100)"

text \<open>The ranked files: by descending rank, then by name.\<close>

definition ranked_files :: "map_data \<Rightarrow> string list \<Rightarrow> string list" where
  "ranked_files m mentions = sort_key (\<lambda>f. - map_rank m mentions f) (sort (map fst (md_defs m)))"

definition build ::
  "(string \<Rightarrow> go_file option) \<Rightarrow> string \<Rightarrow> tree option \<Rightarrow> string list \<Rightarrow> int \<Rightarrow> string option" where
  "build parse rt t mentions budget0 =
     (let budget = (if budget0 \<le> 0 then 4000 else budget0)
      in case source_files rt t of
           (ok, srcs) \<Rightarrow>
             if \<not> ok then None
             else let m = scan_sources parse rt t srcs
                  in Some (render_files (defs_of m) budget (ranked_files m mentions) []))"

section \<open>Context bundle\<close>

definition content_matches_any :: "string \<Rightarrow> string list \<Rightarrow> bool" where
  "content_matches_any content mentions \<longleftrightarrow> list_ex (\<lambda>m. m \<noteq> [] \<and> contains_str content m) mentions"

definition file_block :: "string \<Rightarrow> string \<Rightarrow> string" where
  "file_block rel data =
     [CHR 0x0A] @ ''## '' @ rel @ [CHR 0x0A, CHR 0x0A] @ ''```'' @ [CHR 0x0A] @ data @ ''```'' @ [CHR 0x0A]"

fun append_bodies ::
  "string \<Rightarrow> tree option \<Rightarrow> string list \<Rightarrow> int \<Rightarrow> string list \<Rightarrow> string \<Rightarrow> string" where
  "append_bodies rt t mentions budget [] b = b"
| "append_bodies rt t mentions budget (rel # rels) b =
     (case read_tree rt t (path_join [rt, rel]) of
        None \<Rightarrow> append_bodies rt t mentions budget rels b
      | Some data \<Rightarrow>
          if \<not> content_matches_any data mentions then append_bodies rt t mentions budget rels b
          else if int (length b) + int (length (file_block rel data)) > budget then b
          else append_bodies rt t mentions budget rels (b @ file_block rel data))"

definition assemble_context ::
  "(string \<Rightarrow> go_file option) \<Rightarrow> string \<Rightarrow> tree option \<Rightarrow> string list \<Rightarrow> int \<Rightarrow> string" where
  "assemble_context parse rt t mentions budget0 =
     (let budget = (if budget0 \<le> 0 then 8000 else budget0);
          b = (case build parse rt t mentions (budget div 2) of
                 None \<Rightarrow> []
               | Some mp \<Rightarrow> if mp = [] then []
                           else ''## Repo map'' @ [CHR 0x0A, CHR 0x0A] @ mp @ [CHR 0x0A])
      in append_bodies rt t mentions budget (sort (fst (go_files rt t))) b)"

end
