(* ===== verification/RepoMapProps.thy ===== *)
theory RepoMapProps
  imports RepoMap
begin

text \<open>
  What is proved of the repo map: its ranks are a probability distribution on the files of the map,
  its rendering is the full listing cut at a line within the budget, and the context bundle keeps
  its budget.
\<close>

section \<open>The edges of a map\<close>

definition edges_ok :: "string set \<Rightarrow> edges \<Rightarrow> bool" where
  "edges_ok S es \<longleftrightarrow> distinct (map fst es) \<and> (\<forall>(src, ds) \<in> set es. fst ` set ds \<subseteq> S)"

lemma edges_ok_empty: "edges_ok S []"
  by (simp add: edges_ok_def)

lemma targets_mem: "edges_ok S es \<Longrightarrow> fst ` set (targets f es) \<subseteq> S"
  unfolding targets_def edges_ok_def by (cases "map_of es f") (force dest: map_of_SomeD)+

lemma alist_update_mem: "(k', v') \<in> set (AList.update k v al) \<Longrightarrow> (k' = k \<and> v' = v) \<or> (k', v') \<in> set al"
  by (induction al) (auto split: if_splits)

lemma edges_ok_update:
  assumes "edges_ok S es" and "fst ` set ds \<subseteq> S"
  shows "edges_ok S (AList.update f ds es)"
proof -
  have "fst ` set x \<subseteq> S" if "(src, x) \<in> set (AList.update f ds es)" for src x
    using alist_update_mem [OF that] assms unfolding edges_ok_def by blast
  moreover have "distinct (map fst (AList.update f ds es))"
    using assms(1) unfolding edges_ok_def by (blast intro: AList.distinct_update)
  ultimately show ?thesis unfolding edges_ok_def by blast
qed

lemma edge_step_ok:
  assumes "edges_ok S es" and "snd ` set home \<subseteq> S"
  shows "edges_ok S (edge_step home file w es)"
proof (cases "map_of home w")
  case (Some d)
  then have d: "d \<in> S" using assms(2) by (force dest: map_of_SomeD)
  have "fst ` set (AList.update d n (targets file es)) \<subseteq> S" for n
    using d targets_mem [OF assms(1)] by (simp add: dom_update)
  with edges_ok_update [OF assms(1)] Some assms(1) show ?thesis
    by (simp add: edge_step_def)
qed (use assms in \<open>simp add: edge_step_def\<close>)

lemma fold_edge_step_ok:
  "edges_ok S es \<Longrightarrow> snd ` set home \<subseteq> S \<Longrightarrow> edges_ok S (fold (edge_step home file) ids es)"
  by (induction ids arbitrary: es) (auto intro: edge_step_ok)

lemma fold_files_ok:
  "edges_ok S es \<Longrightarrow> snd ` set home \<subseteq> S \<Longrightarrow>
     edges_ok S (fold (\<lambda>(file, x). fold (edge_step home file) (g x)) fs es)"
  by (induction fs arbitrary: es) (auto intro: fold_edge_step_ok)

lemma map_edges_ok: "edges_ok (set (map_keys m)) (map_edges m)"
proof -
  have home: "snd ` set (md_home m) \<subseteq> set (map_keys m)" by (auto simp: map_keys_def)
  have "edges_ok (set (map_keys m)) (build_edges (md_asts m) (md_home m))"
    unfolding build_edges_def by (rule fold_files_ok [OF edges_ok_empty home])
  then show ?thesis
    unfolding map_edges_def add_text_edges_def by (rule fold_files_ok [OF _ home])
qed

lemma distinct_map_keys: "distinct (map_keys m)"
  by (simp add: map_keys_def)

lemma sum_list_zero: "(\<And>x. x \<in> set xs \<Longrightarrow> f x = (0 :: real)) \<Longrightarrow> (\<Sum>x \<leftarrow> xs. f x) = 0"
  by (induction xs) auto

section \<open>Rank is a distribution\<close>

definition distribution :: "string list \<Rightarrow> (string \<Rightarrow> real) \<Rightarrow> bool" where
  "distribution nodes r \<longleftrightarrow> (\<forall>x. 0 \<le> r x) \<and> (\<forall>x. x \<notin> set nodes \<longrightarrow> r x = 0) \<and> (\<Sum>x \<leftarrow> nodes. r x) = 1"

lemma out_weight_nonneg: "0 \<le> out_weight es x"
  unfolding out_weight_def by (rule sum_list_nonneg) auto

lemma out_weight_entry:
  "distinct (map fst es) \<Longrightarrow> (src, ds) \<in> set es \<Longrightarrow> out_weight es src = (\<Sum>(d, w) \<leftarrow> ds. real w)"
  by (simp add: out_weight_def targets_def)

lemma sum_list_swap:
  "(\<Sum>x \<leftarrow> xs. \<Sum>y \<leftarrow> ys. f x y) = (\<Sum>y \<leftarrow> ys. \<Sum>x \<leftarrow> xs. (f x y :: real))"
  by (induction xs) (simp_all add: sum_list_addf)

lemma sum_list_hit:
  "distinct nodes \<Longrightarrow> (\<Sum>x \<leftarrow> nodes. if d = x then (c :: real) else 0) = (if d \<in> set nodes then c else 0)"
  by (induction nodes) auto

lemma sum_list_hit':
  "distinct nodes \<Longrightarrow> (\<Sum>y \<leftarrow> nodes. if y = x then f y else 0) = (if x \<in> set nodes then f x else (0 :: real))"
  by (induction nodes) auto

text \<open>What one source passes on is its rank, damped.\<close>

lemma source_flow:
  assumes "distinct nodes" and "fst ` set ds \<subseteq> set nodes" and "o1 = (\<Sum>(d, w) \<leftarrow> ds. real w)" and "o1 \<noteq> 0"
  shows "(\<Sum>x \<leftarrow> nodes. \<Sum>(d, w) \<leftarrow> ds. if d = x then c * (real w / o1) else 0) = c"
proof -
  have "(\<Sum>x \<leftarrow> nodes. \<Sum>(d, w) \<leftarrow> ds. if d = x then c * (real w / o1) else 0) =
      (\<Sum>p \<leftarrow> ds. \<Sum>x \<leftarrow> nodes. if fst p = x then c * (real (snd p) / o1) else 0)"
    by (subst sum_list_swap) (simp add: case_prod_unfold)
  also have "\<dots> = (\<Sum>p \<leftarrow> ds. c / o1 * real (snd p))"
    by (rule arg_cong [where f = sum_list], rule map_cong) (use assms(1,2) in \<open>auto simp: sum_list_hit\<close>)
  also have "\<dots> = c / o1 * o1"
    by (simp only: sum_list_const_mult assms(3) case_prod_unfold)
  finally show ?thesis using assms(4) by simp
qed

text \<open>The ranks of the sources that pass something on, as edges and as nodes.\<close>

lemma flowing_rank:
  assumes "distinct nodes" "distribution nodes r" "distinct (map fst es)"
  shows "(\<Sum>(src, ds) \<leftarrow> es. if out_weight es src = 0 then 0 else r src) =
    (\<Sum>x \<leftarrow> nodes. if out_weight es x = 0 then 0 else r x)"
proof -
  let ?g = "\<lambda>x. if out_weight es x = 0 then 0 else r x"
  have "(\<Sum>(src, ds) \<leftarrow> es. ?g src) = sum_list (map ?g (map fst es))"
    by (simp add: comp_def case_prod_unfold)
  also have "\<dots> = sum ?g (fst ` set es)"
    using assms(3) by (simp only: sum_list_distinct_conv_sum_set set_map)
  also have "\<dots> = sum ?g (fst ` set es \<union> set nodes)"
  proof (rule sum.mono_neutral_left)
    have "out_weight es x = 0" if "x \<notin> fst ` set es" for x
    proof -
      have "map_of es x = None" using that by (rule iffD2 [OF map_of_eq_None_iff])
      then show ?thesis by (simp add: out_weight_def targets_def)
    qed
    then show "\<forall>i \<in> fst ` set es \<union> set nodes - fst ` set es. ?g i = 0" by auto
  qed auto
  also have "\<dots> = sum ?g (set nodes)"
    using assms(2) by (intro sum.mono_neutral_right) (auto simp: distribution_def)
  also have "\<dots> = (\<Sum>x \<leftarrow> nodes. ?g x)"
    using assms(1) by (simp only: sum_list_distinct_conv_sum_set)
  finally show ?thesis .
qed

lemma restart_distribution:
  assumes "distinct nodes" "nodes \<noteq> []" "\<And>x. 0 \<le> personal x"
  shows "distribution nodes (restart nodes personal)"
proof -
  let ?s = "\<Sum>y \<leftarrow> nodes. personal y"
  have s: "0 \<le> ?s" by (rule sum_list_nonneg) (use assms(3) in auto)
  have "(\<Sum>x \<leftarrow> nodes. restart nodes personal x) =
      (\<Sum>x \<leftarrow> nodes. if ?s > 0 then 1 / ?s * personal x else 1 / real (length nodes))"
    by (rule arg_cong [where f = sum_list], rule map_cong) (simp_all add: restart_def Let_def)
  also have "\<dots> = 1"
  proof (cases "?s > 0")
    case True
    then show ?thesis by (simp only: if_True sum_list_const_mult) simp
  qed (use assms(2) in \<open>simp add: sum_list_triv\<close>)
  finally show ?thesis using assms(3) s by (simp add: distribution_def restart_def Let_def)
qed

lemma rank_step_sum:
  assumes n: "distinct nodes" and e: "edges_ok (set nodes) es"
    and pv: "distribution nodes pv" and r: "distribution nodes r"
  shows "(\<Sum>x \<leftarrow> nodes. rank_step nodes es pv d r x) = 1"
proof -
  let ?dang = "\<Sum>y \<leftarrow> nodes. if out_weight es y = 0 then r y else 0"
  let ?go = "\<lambda>src ds x. if out_weight es src = 0 then 0
     else (\<Sum>(dst, w) \<leftarrow> ds. if dst = x then d * r src * (real w / out_weight es src) else 0)"
  have dist: "distinct (map fst es)" using e by (simp add: edges_ok_def)
  have a: "(\<Sum>x \<leftarrow> nodes. if x \<in> set nodes then (1 - d) * pv x else 0) = 1 - d"
  proof -
    have "(\<Sum>x \<leftarrow> nodes. if x \<in> set nodes then (1 - d) * pv x else 0) = (\<Sum>x \<leftarrow> nodes. (1 - d) * pv x)"
      by (rule arg_cong [where f = sum_list], rule map_cong) simp_all
    then show ?thesis using pv by (simp add: sum_list_const_mult distribution_def)
  qed
  have "(\<Sum>x \<leftarrow> nodes. \<Sum>(src, ds) \<leftarrow> es. ?go src ds x) = (\<Sum>(src, ds) \<leftarrow> es. \<Sum>x \<leftarrow> nodes. ?go src ds x)"
    by (subst sum_list_swap) (simp add: case_prod_unfold)
  also have "\<dots> = (\<Sum>(src, ds) \<leftarrow> es. d * (if out_weight es src = 0 then 0 else r src))"
  proof (rule arg_cong [where f = sum_list], rule map_cong [OF refl], clarify)
    fix src ds assume m: "(src, ds) \<in> set es"
    then have "fst ` set ds \<subseteq> set nodes" using e unfolding edges_ok_def by fast
    with source_flow [OF n this out_weight_entry [OF dist m], of "d * r src"]
    show "(\<Sum>x \<leftarrow> nodes. ?go src ds x) = d * (if out_weight es src = 0 then 0 else r src)" by simp
  qed
  also have "\<dots> = d * (\<Sum>(src, ds) \<leftarrow> es. if out_weight es src = 0 then 0 else r src)"
    by (simp add: sum_list_const_mult case_prod_unfold)
  also have "\<dots> = d * (\<Sum>x \<leftarrow> nodes. if out_weight es x = 0 then 0 else r x)"
    by (simp only: flowing_rank [OF n r dist])
  finally have b: "(\<Sum>x \<leftarrow> nodes. \<Sum>(src, ds) \<leftarrow> es. ?go src ds x) =
      d * (\<Sum>x \<leftarrow> nodes. if out_weight es x = 0 then 0 else r x)" .
  have "(\<Sum>x \<leftarrow> nodes. \<Sum>y \<leftarrow> nodes. if y = x then d * ?dang * pv y else 0) = (\<Sum>x \<leftarrow> nodes. d * ?dang * pv x)"
    by (rule arg_cong [where f = sum_list], rule map_cong) (simp_all add: sum_list_hit' [OF n])
  also have "\<dots> = d * ?dang" using pv by (simp add: sum_list_const_mult distribution_def)
  finally have c: "(\<Sum>x \<leftarrow> nodes. \<Sum>y \<leftarrow> nodes. if y = x then d * ?dang * pv y else 0) = d * ?dang" .
  have "(\<Sum>x \<leftarrow> nodes. if out_weight es x = 0 then 0 else r x) + ?dang = (\<Sum>x \<leftarrow> nodes. r x)"
    by (simp add: flip: sum_list_addf) (rule arg_cong [where f = sum_list], rule map_cong, simp_all)
  then have t: "(\<Sum>x \<leftarrow> nodes. if out_weight es x = 0 then 0 else r x) + ?dang = 1"
    using r by (simp add: distribution_def)
  show ?thesis
    unfolding rank_step_def Let_def sum_list_addf a b c using t by (simp flip: distrib_left)
qed

lemma rank_step_distribution:
  assumes n: "distinct nodes" and e: "edges_ok (set nodes) es"
    and pv: "distribution nodes pv" and r: "distribution nodes r" and d: "0 \<le> d" "d \<le> 1"
  shows "distribution nodes (rank_step nodes es pv d r)"
proof -
  have pos: "0 \<le> pv x" "0 \<le> r x" for x using pv r by (simp_all add: distribution_def)
  have dang: "0 \<le> (\<Sum>y \<leftarrow> nodes. if out_weight es y = 0 then r y else 0)"
    by (rule sum_list_nonneg) (auto simp: pos)
  have inner: "0 \<le> (\<Sum>(dst, w) \<leftarrow> ds. if dst = x then d * r src * (real w / out_weight es src) else 0)" for src ds x
    by (rule sum_list_nonneg) (auto simp: pos d out_weight_nonneg)
  have flow: "0 \<le> (\<Sum>(src, ds) \<leftarrow> es. if out_weight es src = 0 then 0
      else (\<Sum>(dst, w) \<leftarrow> ds. if dst = x then d * r src * (real w / out_weight es src) else 0))" for x
    by (rule sum_list_nonneg) (auto simp: inner)
  have last: "0 \<le> (\<Sum>y \<leftarrow> nodes. if y = x
      then d * (\<Sum>y \<leftarrow> nodes. if out_weight es y = 0 then r y else 0) * pv y else 0)" for x
    by (rule sum_list_nonneg) (auto simp: pos d dang)
  have "0 \<le> rank_step nodes es pv d r x" for x
    unfolding rank_step_def Let_def using flow [of x] last [of x] pos d by simp
  moreover have "rank_step nodes es pv d r x = 0" if "x \<notin> set nodes" for x
  proof -
    have "(\<Sum>(dst, w) \<leftarrow> ds. if dst = x then d * r src * (real w / out_weight es src) else 0) = 0"
      if "(src, ds) \<in> set es" for src ds
    proof -
      have "dst \<noteq> x" if "(dst, w) \<in> set ds" for dst w
        using e \<open>(src, ds) \<in> set es\<close> that \<open>x \<notin> set nodes\<close> by (force simp: edges_ok_def)
      then show ?thesis by (intro sum_list_zero) auto
    qed
    then have "(\<Sum>(src, ds) \<leftarrow> es. if out_weight es src = 0 then 0
      else (\<Sum>(dst, w) \<leftarrow> ds. if dst = x then d * r src * (real w / out_weight es src) else 0)) = 0"
      by (intro sum_list_zero) auto
    then show ?thesis unfolding rank_step_def Let_def using that by (simp add: sum_list_hit' [OF n])
  qed
  ultimately show ?thesis using rank_step_sum [OF n e pv r] unfolding distribution_def by blast
qed


lemma fold_nonneg:
  assumes "\<And>w p. (\<And>y. (0 :: real) \<le> p y) \<Longrightarrow> (\<And>y. 0 \<le> h w p y)"
  shows "(\<And>y. 0 \<le> p y) \<Longrightarrow> 0 \<le> fold h ws p x"
proof (induction ws arbitrary: p)
  case (Cons w ws)
  from Cons.IH [OF assms [OF Cons.prems]] show ?case by simp
qed simp

lemma personalize_nonneg: "0 \<le> personalize m mentions x"
  unfolding personalize_def Let_def
  by (intro fold_nonneg) (auto split: option.splits)

lemma iterate_distribution:
  assumes "\<And>r. distribution nodes r \<Longrightarrow> distribution nodes (f r)" and "distribution nodes r"
  shows "distribution nodes ((f ^^ n) r)"
  by (induction n) (simp_all add: assms)

text \<open>
  C18: The rank of a repo map is a probability distribution on its files, whatever the sources, the
  references between them (files without references, files outside the map and self references
  included) and the mentioned names: no rank is negative, and the ranks of the files of the map add up
  to one, or to zero when the map is empty.
\<close>
theorem map_rank_sums_to_one:
  "(\<forall>f. 0 \<le> map_rank m mentions f) \<and>
   (\<Sum>f \<leftarrow> map_keys m. map_rank m mentions f) = (if map_keys m = [] then 0 else 1)"
proof (cases "map_keys m = []")
  case False
  have start: "distribution (map_keys m) (\<lambda>x. if x \<in> set (map_keys m) then 1 / real (length (map_keys m)) else 0)"
  proof -
    have "(\<Sum>x \<leftarrow> map_keys m. if x \<in> set (map_keys m) then 1 / real (length (map_keys m)) else 0) =
        (\<Sum>x \<leftarrow> map_keys m. 1 / real (length (map_keys m)))"
      by (rule arg_cong [where f = sum_list], rule map_cong) simp_all
    then show ?thesis using False by (simp add: distribution_def sum_list_triv)
  qed
  have "distribution (map_keys m) (map_rank m mentions)"
    unfolding map_rank_def page_rank_def if_not_P [OF False]
    by (rule iterate_distribution [OF rank_step_distribution [OF distinct_map_keys map_edges_ok
          restart_distribution [OF distinct_map_keys False personalize_nonneg]] start]) simp_all
  then show ?thesis using False by (simp add: distribution_def)
qed (simp add: map_rank_def page_rank_def)

section \<open>Rendering\<close>

definition sig_lines :: "symbol list \<Rightarrow> string" where
  "sig_lines ds = concat (map (\<lambda>d. ''  '' @ sy_sig d @ [CHR 0x0A]) ds)"

text \<open>The listing without a budget: each file with symbols, its name and its signatures.\<close>

definition listing :: "(string \<Rightarrow> symbol list) \<Rightarrow> string list \<Rightarrow> string" where
  "listing defs fs =
     concat (map (\<lambda>f. if defs f = [] then [] else f @ '':'' @ [CHR 0x0A] @ sig_lines (defs f)) fs)"

lemma render_defs_cut:
  "int (length b) \<le> budget \<Longrightarrow> render_defs budget ds b = (b', ok) \<Longrightarrow>
     int (length b') \<le> budget \<and> (\<exists>rest. b @ sig_lines ds = b' @ rest) \<and>
     (ok \<longleftrightarrow> b' = b @ sig_lines ds) \<and> (ok \<longleftrightarrow> int (length (b @ sig_lines ds)) \<le> budget)"
proof (induction ds arbitrary: b)
  case (Cons d ds)
  let ?line = "''  '' @ sy_sig d @ [CHR 0x0A]"
  have split: "b @ sig_lines (d # ds) = (b @ ?line) @ sig_lines ds" by (simp add: sig_lines_def)
  show ?case
  proof (cases "int (length b) + int (length ?line) > budget")
    case True
    then show ?thesis using Cons.prems by (auto simp: Let_def sig_lines_def)
  next
    case False
    then have "render_defs budget ds (b @ ?line) = (b', ok)" "int (length (b @ ?line)) \<le> budget"
      using Cons.prems(2) by (simp_all add: Let_def)
    from Cons.IH [OF this(2,1)] show ?thesis unfolding split .
  qed
qed (auto simp: sig_lines_def)

lemma render_files_cut:
  "int (length b) \<le> budget \<Longrightarrow>
     int (length (render_files defs budget fs b)) \<le> budget \<and>
     (\<exists>rest. b @ listing defs fs = render_files defs budget fs b @ rest) \<and>
     (render_files defs budget fs b = b @ listing defs fs \<longleftrightarrow> int (length (b @ listing defs fs)) \<le> budget)"
proof (induction fs arbitrary: b)
  case (Cons f fs)
  let ?h = "f @ '':'' @ [CHR 0x0A]"
  show ?case
  proof (cases "defs f = []")
    case True
    then show ?thesis using Cons by (simp add: listing_def)
  next
    case False
    have split: "b @ listing defs (f # fs) = ((b @ ?h) @ sig_lines (defs f)) @ listing defs fs"
      using False by (simp add: listing_def)
    show ?thesis
    proof (cases "int (length b) + int (length ?h) > budget")
      case True
      then show ?thesis using Cons.prems False by (auto simp: Let_def listing_def)
    next
      case fits: False
      obtain b' ok where r: "render_defs budget (defs f) (b @ ?h) = (b', ok)" by (cases "render_defs budget (defs f) (b @ ?h)")
      have cut: "int (length b') \<le> budget \<and> (\<exists>rest. (b @ ?h) @ sig_lines (defs f) = b' @ rest) \<and>
          (ok \<longleftrightarrow> b' = (b @ ?h) @ sig_lines (defs f)) \<and>
          (ok \<longleftrightarrow> int (length ((b @ ?h) @ sig_lines (defs f))) \<le> budget)"
        using fits by (intro render_defs_cut [OF _ r]) simp
      have step: "render_files defs budget (f # fs) b = (if ok then render_files defs budget fs b' else b')"
        using False fits r by (simp add: Let_def)
      show ?thesis
      proof (cases ok)
        case True
        then show ?thesis using Cons.IH [of b'] cut unfolding step split by simp
      next
        case False
        from cut obtain rest where rest: "(b @ ?h) @ sig_lines (defs f) = b' @ rest" by blast
        have "rest \<noteq> []" "budget < int (length (b' @ rest))" using cut False rest by (metis append_Nil2, metis not_le)
        then show ?thesis using cut False unfolding step split rest by (simp only: if_False) auto
      qed
    qed
  qed
qed (simp add: listing_def)

text \<open>
  C19: The repo map keeps its budget and is a cut of the full listing.  It fails only when the walk does;
  otherwise the text is no longer than the budget (4000 when none is given), it is a prefix of the
  listing of all files with their signatures in ranked order, and it is all of it exactly when the
  listing fits.
\<close>
theorem build_within_budget:
  "(let b = (if budget \<le> 0 then 4000 else budget);
        m = scan_sources parse rt t (snd (source_files rt t));
        full = listing (defs_of m) (ranked_files m mentions)
    in case build parse rt t mentions budget of
         None \<Rightarrow> \<not> fst (source_files rt t)
       | Some r \<Rightarrow> int (length r) \<le> b \<and> (\<exists>rest. full = r @ rest) \<and> (r = full \<longleftrightarrow> int (length full) \<le> b))"
proof -
  let ?b = "if budget \<le> 0 then 4000 else budget"
  have "int (length []) \<le> ?b" by simp
  note cut = render_files_cut [OF this, unfolded append_Nil]
  show ?thesis
    unfolding build_def Let_def using cut
    by (cases "source_files rt t") simp
qed

lemma build_length:
  "build parse rt t mentions budget = Some r \<Longrightarrow> int (length r) \<le> (if budget \<le> 0 then 4000 else budget)"
  using render_files_cut [of "[]" "if budget \<le> 0 then 4000 else budget"]
  by (auto simp: build_def Let_def split: prod.splits if_splits)

lemma append_bodies_bound:
  "int (length b) \<le> n \<Longrightarrow> budget \<le> n \<Longrightarrow> int (length (append_bodies rt t mentions budget rels b)) \<le> n"
  by (induction rt t mentions budget rels b rule: append_bodies.induct) (auto split: option.splits)

text \<open>
  The context bundle keeps its budget when the budget is at least 28 characters; below that the
  repo map section alone may exceed it, up to 4014 characters for a budget of one, whose half is zero
  and so turns into the default of the map.
\<close>
theorem assemble_context_bound:
  "int (length (assemble_context parse rt t mentions budget)) \<le>
     (if budget \<le> 0 then 8000 else if budget \<ge> 28 then budget
      else if budget = 1 then 4014 else 14 + budget div 2)"
proof -
  let ?n = "if budget \<le> 0 then 8000 else budget"
  let ?b = "case build parse rt t mentions (?n div 2) of None \<Rightarrow> []
     | Some mp \<Rightarrow> if mp = [] then [] else ''## Repo map'' @ [CHR 0x0A, CHR 0x0A] @ mp @ [CHR 0x0A]"
  have "int (length ?b) \<le> 14 + (if ?n div 2 \<le> 0 then 4000 else ?n div 2)"
    using build_length [of parse rt t mentions "?n div 2"]
    by (cases "build parse rt t mentions (?n div 2)") (auto split: if_splits)
  then have "int (length (append_bodies rt t mentions ?n (sort (fst (go_files rt t))) ?b)) \<le>
      max ?n (14 + (if ?n div 2 \<le> 0 then 4000 else ?n div 2))"
    by (intro append_bodies_bound) linarith+
  then show ?thesis unfolding assemble_context_def Let_def by (auto split: if_splits)
qed

end
