(* ===== verification/Bakeoff.thy ===== *)
theory Bakeoff
  imports Metrics "HOL-Library.Product_Lexorder" "HOL-Library.Multiset"
begin

text \<open>
  The scoring of a bake-off, \<open>internal/bakeoff/bakeoff.go\<close>: aggregation of a model's outcomes with
  the metrics of the loop, and the head-to-head comparison.  \<open>sort.SliceStable\<close> is the stable
  \<open>sort_key\<close> on the tuple its comparison function orders by.  Where several served models are
  shared, the code reports any of them (map iteration); the model takes the first.
\<close>

record cell_outcome =
  oc_task :: string
  oc_files_edited :: int
  oc_closed :: bool
  oc_first_pass :: bool
  oc_escalated :: bool
  oc_tool_calls :: int
  oc_valid_calls :: int
  oc_turns :: int
  oc_tokens :: int
  oc_out_tokens :: int
  oc_wall_ms :: int
  oc_error :: string

record contestant =
  cd_model :: string
  cd_served :: string
  cd_attempts :: nat
  cd_edited :: nat
  cd_edit_rate :: real
  cd_tps :: real
  cd_report :: report
  cd_outcomes :: "cell_outcome list"

definition outcome_attempt :: "cell_outcome \<Rightarrow> attempt" where
  "outcome_attempt o1 =
     (new_attempt (oc_task o1))
       \<lparr>at_closed := oc_closed o1, at_escalated := oc_escalated o1, at_first_pass := oc_first_pass o1,
        at_turns := oc_turns o1, at_tool_calls := oc_tool_calls o1, at_valid_calls := oc_valid_calls o1,
        at_tokens := oc_tokens o1, at_wall := oc_wall_ms o1 * 1000000\<rparr>"

text \<open>The accumulators of the loop over the outcomes.\<close>

record tally_acc =
  ta_col :: collector
  ta_edited :: nat
  ta_wall :: int
  ta_out :: int

definition aggregate_step :: "cell_outcome \<Rightarrow> tally_acc \<Rightarrow> tally_acc" where
  "aggregate_step o1 a =
     \<lparr>ta_col = metrics_record (outcome_attempt o1) (ta_col a),
      ta_edited = (if oc_files_edited o1 > 0 then Suc (ta_edited a) else ta_edited a),
      ta_wall = ta_wall a + oc_wall_ms o1,
      ta_out = ta_out a + oc_out_tokens o1\<rparr>"

definition aggregate :: "string \<Rightarrow> string \<Rightarrow> cell_outcome list \<Rightarrow> contestant" where
  "aggregate model served outs =
     (let a = fold aggregate_step outs \<lparr>ta_col = new_collector, ta_edited = 0, ta_wall = 0, ta_out = 0\<rparr>
      in \<lparr>cd_model = model, cd_served = served, cd_attempts = length outs, cd_edited = ta_edited a,
          cd_edit_rate = (if length outs > 0 then real (ta_edited a) / real (length outs) else 0),
          cd_tps = (if ta_wall a > 0 then of_int (ta_out a) / (of_int (ta_wall a) / 1000) else 0),
          cd_report = metrics_report (ta_col a), cd_outcomes = outs\<rparr>)"

text \<open>The reason given for a result; the first one names the model served more than once.\<close>

datatype basis = SameModel string | NoAgency | AgencyFirst

record comparison =
  cm_suite :: string
  cm_host :: string
  cm_candidates :: "contestant list"
  cm_winner :: string
  cm_basis :: basis

definition rank_key :: "contestant \<Rightarrow> real \<times> real \<times> real \<times> int" where
  "rank_key r = (- cd_edit_rate r, - rp_acr (cd_report r), - cd_tps r, rp_wcr (cd_report r))"

definition duplicate_served_model :: "contestant list \<Rightarrow> string option" where
  "duplicate_served_model rs =
     (let served = filter (\<lambda>m. m \<noteq> []) (map cd_served rs)
      in find (\<lambda>m. count_list served m > 1) served)"

definition compare :: "string \<Rightarrow> string \<Rightarrow> contestant list \<Rightarrow> comparison" where
  "compare suite host reports =
     (let ranked = sort_key rank_key reports;
          c = \<lparr>cm_suite = suite, cm_host = host, cm_candidates = ranked, cm_winner = [], cm_basis = NoAgency\<rparr>
      in case duplicate_served_model ranked of
           Some m \<Rightarrow> c\<lparr>cm_basis := SameModel m\<rparr>
         | None \<Rightarrow>
             (case ranked of
                [] \<Rightarrow> c
              | r # rs \<Rightarrow>
                  if cd_edit_rate r = 0 then c
                  else c\<lparr>cm_winner := cd_model r, cm_basis := AgencyFirst\<rparr>))"

section \<open>Facts\<close>

lemma fold_aggregate_step:
  "fold aggregate_step outs a =
     \<lparr>ta_col = ta_col a @ map outcome_attempt outs,
      ta_edited = ta_edited a + length (filter (\<lambda>x. oc_files_edited x > 0) outs),
      ta_wall = ta_wall a + sum_list (map oc_wall_ms outs),
      ta_out = ta_out a + sum_list (map oc_out_tokens outs)\<rparr>"
  by (induction outs arbitrary: a) (simp_all add: aggregate_step_def metrics_record_def)

lemma aggregate_eq:
  "cd_report (aggregate m s outs) = metrics_report (map outcome_attempt outs)"
  "cd_edited (aggregate m s outs) = length (filter (\<lambda>x. oc_files_edited x > 0) outs)"
  "cd_model (aggregate m s outs) = m" "cd_served (aggregate m s outs) = s" "cd_outcomes (aggregate m s outs) = outs"
  "cd_edit_rate (aggregate m s outs) =
     (if outs = [] then 0 else real (length (filter (\<lambda>x. oc_files_edited x > 0) outs)) / real (length outs))"
  by (simp_all add: aggregate_def Let_def fold_aggregate_step new_collector_def)

lemma edit_rate_pos:
  "cd_edit_rate (aggregate m s outs) \<noteq> 0 \<longleftrightarrow> (\<exists>x \<in> set outs. 0 < oc_files_edited x)"
  by (auto simp: aggregate_eq filter_empty_conv)

lemma count_le_one: "(\<forall>m. count_list xs m \<le> 1) \<longleftrightarrow> distinct xs"
proof (induction xs)
  case (Cons x xs)
  have "count_list (x # xs) m \<le> 1 \<longleftrightarrow> (if m = x then x \<notin> set xs else count_list xs m \<le> 1)" for m
    by (simp add: count_list_0_iff)
  then have "(\<forall>m. count_list (x # xs) m \<le> 1) \<longleftrightarrow> x \<notin> set xs \<and> (\<forall>m. m \<noteq> x \<longrightarrow> count_list xs m \<le> 1)" by metis
  also have "\<dots> \<longleftrightarrow> x \<notin> set xs \<and> (\<forall>m. count_list xs m \<le> 1)"
    by (metis count_list_0_iff zero_le)
  finally show ?case using Cons.IH by simp
qed simp

lemma duplicate_none:
  "duplicate_served_model rs = None \<longleftrightarrow> distinct (filter (\<lambda>m. m \<noteq> []) (map cd_served rs))"
proof -
  have "duplicate_served_model rs = None \<longleftrightarrow>
      (\<forall>m. count_list (filter (\<lambda>m. m \<noteq> []) (map cd_served rs)) m \<le> 1)"
    unfolding duplicate_served_model_def Let_def find_None_iff
    by (metis One_nat_def count_list_0_iff le_numeral_extra(4) less_one linorder_not_le nat_le_linear)
  then show ?thesis by (simp only: count_le_one)
qed

lemma sort_key_head:
  "sort_key f xs = y # ys \<Longrightarrow> y \<in> set xs \<and> (\<forall>x \<in> set xs. f y \<le> f x)"
proof -
  assume e: "sort_key f xs = y # ys"
  have "sorted (map f (sort_key f xs))" by simp
  then have "\<forall>x \<in> set (sort_key f xs). f y \<le> f x" unfolding e by simp
  moreover have "set (sort_key f xs) = set (y # ys)" using e by simp
  ultimately show ?thesis by auto
qed

lemma rank_key_rate: "rank_key r \<le> rank_key s \<Longrightarrow> cd_edit_rate s \<le> cd_edit_rate r"
  by (auto simp: rank_key_def less_eq_prod_def)

lemma compare_candidates: "cm_candidates (compare suite host reports) = sort_key rank_key reports"
  by (cases "sort_key rank_key reports") (auto simp: compare_def Let_def split: option.splits)

definition wrote_code :: "contestant \<Rightarrow> bool" where
  "wrote_code r \<longleftrightarrow> list_ex (\<lambda>x. 0 < oc_files_edited x) (cd_outcomes r)"

text \<open>
  C20: A comparison crowns a best contestant or none.  Over the aggregated outcomes of any field it keeps
  every contestant; it names no winner when two candidates were served by one model, or when no
  contestant edited a file in any task; otherwise the winner did edit a file, and no contestant is ranked
  before it by edit rate, then closed rate, then throughput, then time per requirement.
\<close>
theorem compare_crowns_best:
  "(let reports = map (\<lambda>(m, s, outs). aggregate m s outs) cells;
        served = filter (\<lambda>m. m \<noteq> []) (map cd_served reports);
        c = compare suite host reports
    in mset (cm_candidates c) = mset reports \<and>
       (case cm_basis c of
          SameModel m \<Rightarrow> cm_winner c = [] \<and> m \<noteq> [] \<and> count_list served m > 1
        | NoAgency \<Rightarrow> cm_winner c = [] \<and> distinct served \<and> \<not> list_ex wrote_code reports
        | AgencyFirst \<Rightarrow> distinct served \<and>
            (\<exists>r \<in> set reports. cm_winner c = cd_model r \<and> wrote_code r \<and>
               list_all (\<lambda>s. rank_key r \<le> rank_key s) reports)))"
proof -
  define reports where "reports = map (\<lambda>(m, s, outs). aggregate m s outs) cells"
  let ?served = "filter (\<lambda>m. m \<noteq> []) (map cd_served reports)"
  let ?ranked = "sort_key rank_key reports"
  have perm: "mset (filter (\<lambda>m. m \<noteq> []) (map cd_served ?ranked)) = mset ?served" by simp
  have wrote: "cd_edit_rate r \<noteq> 0 \<longleftrightarrow> wrote_code r" "0 \<le> cd_edit_rate r" if r: "r \<in> set reports" for r
  proof -
    from r obtain m s outs where "r = aggregate m s outs" by (auto simp: reports_def)
    then show "cd_edit_rate r \<noteq> 0 \<longleftrightarrow> wrote_code r" "0 \<le> cd_edit_rate r"
      using edit_rate_pos [of m s outs] by (simp_all add: wrote_code_def list_ex_iff aggregate_eq)
  qed
  have keeps: "mset (cm_candidates (compare suite host reports)) = mset reports"
    by (simp add: compare_candidates)
  have result: "case cm_basis (compare suite host reports) of
          SameModel m \<Rightarrow> cm_winner (compare suite host reports) = [] \<and> m \<noteq> [] \<and> count_list ?served m > 1
        | NoAgency \<Rightarrow> cm_winner (compare suite host reports) = [] \<and> distinct ?served \<and> \<not> list_ex wrote_code reports
        | AgencyFirst \<Rightarrow> distinct ?served \<and>
            (\<exists>r \<in> set reports. cm_winner (compare suite host reports) = cd_model r \<and> wrote_code r \<and>
               list_all (\<lambda>s. rank_key r \<le> rank_key s) reports)"
  proof (cases "duplicate_served_model ?ranked")
    case (Some m)
    then have "m \<noteq> []" "count_list (filter (\<lambda>m. m \<noteq> []) (map cd_served ?ranked)) m > 1"
      by (auto simp: duplicate_served_model_def Let_def find_Some_iff dest: nth_mem)
    then show ?thesis using Some perm
      by (simp add: compare_def Let_def flip: count_mset)
  next
    case None
    then have d: "distinct ?served"
      using duplicate_none [of ?ranked] mset_eq_imp_distinct_iff [OF perm] by simp
    show ?thesis
    proof (cases ?ranked)
      case Nil
      then have "reports = []" by (metis length_0_conv length_sort)
      then show ?thesis using None d by (simp add: compare_def Let_def)
    next
      case (Cons r rs)
      note best = sort_key_head [OF Cons]
      show ?thesis
      proof (cases "cd_edit_rate r = 0")
        case True
        have "\<not> wrote_code s" if "s \<in> set reports" for s
        proof -
          have "rank_key r \<le> rank_key s" using best that by blast
          from rank_key_rate [OF this] wrote [OF that] True show ?thesis by simp
        qed
        then show ?thesis using None Cons True d by (auto simp: compare_def Let_def list_ex_iff)
      next
        case False
        then show ?thesis using None Cons d best wrote [of r] by (auto simp: compare_def Let_def list_all_iff)
      qed
    qed
  qed
  show ?thesis unfolding Let_def using keeps result unfolding reports_def by blast
qed

end
