(* ===== verification/OcMemory.thy ===== *)
theory OcMemory
  imports FileSys Complex_Main
begin

text \<open>
  The context side of \<open>internal/opencode\<close>: the guard of human-written files (\<open>memoryguard.go\<close>), the
  scratchpad (\<open>scratchpad.go\<close>), skills (\<open>skillmemory.go\<close>), the assembly of project memory
  (\<open>memoryassembly.go\<close>) and its tiers (\<open>tieredcontext.go\<close>), the plan phase (\<open>planact.go\<close>) and the
  delegation policy (\<open>subagent.go\<close>), over the flat file system.
\<close>

section \<open>Guard and scratchpad\<close>

definition protected_intent_files :: "string list" where
  "protected_intent_files =
     [''CLAUDE.md'', ''AGENTS.md'', ''AGENT.md'', ''GEMINI.md'', ''.clinerules'', ''.cursorrules'', ''.windsurfrules'']"

definition is_protected_intent_file :: "string \<Rightarrow> bool" where
  "is_protected_intent_file p \<longleftrightarrow> path_base p \<in> set protected_intent_files"

datatype pad_error = ProtectedFile string | PadIO

definition guard_intent_write :: "string \<Rightarrow> pad_error option" where
  "guard_intent_write p = (if is_protected_intent_file p then Some (ProtectedFile (path_base p)) else None)"

definition scratchpad_append :: "string \<Rightarrow> string \<Rightarrow> fs \<Rightarrow> pad_error option \<times> fs" where
  "scratchpad_append p note0 f =
     (case guard_intent_write p of
        Some e \<Rightarrow> (Some e, f)
      | None \<Rightarrow>
          let n = trim_space note0
          in if n = [] then (None, f)
             else (case fs_append True p (''- '' @ n @ [CHR 0x0A]) f of
                     (ok, f') \<Rightarrow> (if ok then None else Some PadIO, f')))"

definition pad_heading :: string where
  "pad_heading = ''# Task scratchpad (running notes; machine-written)'' @ [CHR 0x0A, CHR 0x0A]"

definition scratchpad_render :: "string \<Rightarrow> fs \<Rightarrow> string" where
  "scratchpad_render p f =
     (case fs_read p f of None \<Rightarrow> [] | Some b \<Rightarrow> if b = [] then [] else pad_heading @ b)"

section \<open>Sources of project memory\<close>

record memory_source =
  ms_name :: string
  ms_path :: string

definition default_memory_budget :: int where "default_memory_budget = 12000"

definition memory_block :: "string \<Rightarrow> memory_source \<Rightarrow> string \<Rightarrow> string" where
  "memory_block b src data =
     (let block = (if b \<noteq> [] then [CHR 0x0A] else []) @ ''## '' @ ms_name src @ [CHR 0x0A, CHR 0x0A] @ data
      in if has_suffix block [CHR 0x0A] then block else block @ [CHR 0x0A])"

fun assemble_loop :: "fs \<Rightarrow> int \<Rightarrow> memory_source list \<Rightarrow> string \<Rightarrow> string" where
  "assemble_loop f budget [] b = b"
| "assemble_loop f budget (src # srcs) b =
     (case fs_read (ms_path src) f of
        None \<Rightarrow> assemble_loop f budget srcs b
      | Some data \<Rightarrow>
          if trim_space data = [] then assemble_loop f budget srcs b
          else if int (length b) + int (length (memory_block b src data)) > budget then b
          else assemble_loop f budget srcs (b @ memory_block b src data))"

definition assemble_memory :: "memory_source list \<Rightarrow> int \<Rightarrow> fs \<Rightarrow> string" where
  "assemble_memory srcs budget f =
     assemble_loop f (if budget \<le> 0 then default_memory_budget else budget) srcs []"

text \<open>\<open>os.ReadDir\<close> lists a directory sorted by name; the listing is an argument.\<close>

definition skill_of :: "string \<Rightarrow> fs \<Rightarrow> string \<times> bool \<Rightarrow> memory_source option" where
  "skill_of dir f e =
     (case e of (nm, is_dir) \<Rightarrow>
        if is_dir then
          let p = path_join [dir, nm, ''SKILL.md'']
          in if fs_exists p f then Some \<lparr>ms_name = ''skill:'' @ nm, ms_path = p\<rparr> else None
        else if has_suffix nm ''.md'' then
          Some \<lparr>ms_name = ''skill:'' @ trim_suffix nm ''.md'', ms_path = path_join [dir, nm]\<rparr>
        else None)"

definition load_skills :: "string \<Rightarrow> (string \<times> bool) list option \<Rightarrow> fs \<Rightarrow> memory_source list" where
  "load_skills dir entries f =
     (case entries of
        None \<Rightarrow> []
      | Some es \<Rightarrow> sort_key ms_name (List.map_filter (skill_of dir f) es))"

definition lazy_threshold :: int where "lazy_threshold = 2000"

definition file_size :: "string \<Rightarrow> fs \<Rightarrow> int" where
  "file_size p f = (case fs_files f p of None \<Rightarrow> 0 | Some b \<Rightarrow> int (length b))"

fun tier_memory :: "fs \<Rightarrow> memory_source list \<Rightarrow> memory_source list \<times> memory_source list" where
  "tier_memory f [] = ([], [])"
| "tier_memory f (s # ss) =
     (case tier_memory f ss of
        (base, on_demand) \<Rightarrow>
          if file_size (ms_path s) f > lazy_threshold then (base, s # on_demand) else (s # base, on_demand))"

section \<open>Planning and delegation\<close>

definition plan_first :: "real \<Rightarrow> string \<Rightarrow> bool" where
  "plan_first effort_weeks title \<longleftrightarrow>
     effort_weeks \<ge> 1 \<or> count_str (to_lower title) '' and '' \<ge> 2 \<or> contains_str title '';''"

record subagent_policy =
  sp_max_concurrent :: int
  sp_max_subtasks :: int

definition default_subagent_policy :: subagent_policy where
  "default_subagent_policy = \<lparr>sp_max_concurrent = 1, sp_max_subtasks = 4\<rparr>"

datatype policy_error = NotSequential int | NoSubtasks int

definition validate_subagents :: "subagent_policy \<Rightarrow> policy_error option" where
  "validate_subagents p =
     (if sp_max_concurrent p \<noteq> 1 then Some (NotSequential (sp_max_concurrent p))
      else if sp_max_subtasks p \<le> 0 then Some (NoSubtasks (sp_max_subtasks p))
      else None)"

section \<open>Facts\<close>

lemma tier_memory_filter:
  "tier_memory f ss =
     (filter (\<lambda>s. file_size (ms_path s) f \<le> lazy_threshold) ss, filter (\<lambda>s. file_size (ms_path s) f > lazy_threshold) ss)"
  by (induction ss) auto

text \<open>The sources that are used, with their contents, and the text of the first of them.\<close>

definition usable :: "fs \<Rightarrow> memory_source list \<Rightarrow> (memory_source \<times> string) list" where
  "usable f srcs =
     List.map_filter (\<lambda>s. case fs_read (ms_path s) f of
        None \<Rightarrow> None | Some d \<Rightarrow> if trim_space d = [] then None else Some (s, d)) srcs"

definition add_block :: "memory_source \<times> string \<Rightarrow> string \<Rightarrow> string" where
  "add_block sd b = b @ memory_block b (fst sd) (snd sd)"

lemma usable_Cons:
  "usable f (s # srcs) =
     (case fs_read (ms_path s) f of
        None \<Rightarrow> usable f srcs
      | Some d \<Rightarrow> if trim_space d = [] then usable f srcs else (s, d) # usable f srcs)"
  by (simp add: usable_def List.map_filter_def split: option.splits)

lemma usable_Nil [simp]: "usable f [] = []"
  by (simp add: usable_def List.map_filter_def)

lemma assemble_loop_prefix:
  "int (length b) \<le> budget \<Longrightarrow>
     \<exists>k. assemble_loop f budget srcs b = fold add_block (take k (usable f srcs)) b \<and>
       int (length (assemble_loop f budget srcs b)) \<le> budget \<and>
       (k < length (usable f srcs) \<and> int (length (fold add_block (take (Suc k) (usable f srcs)) b)) > budget
        \<or> k = length (usable f srcs))"
proof (induction srcs arbitrary: b)
  case (Cons s srcs)
  show ?case
  proof (cases "fs_read (ms_path s) f")
    case None
    then show ?thesis using Cons by (simp add: usable_Cons)
  next
    case (Some d)
    show ?thesis
    proof (cases "trim_space d = []")
      case True
      then show ?thesis using Cons Some by (simp add: usable_Cons)
    next
      case False
      let ?b' = "add_block (s, d) b"
      show ?thesis
      proof (cases "int (length b) + int (length (memory_block b s d)) > budget")
        case True
        then show ?thesis using Some False Cons.prems
          by (intro exI [of _ 0]) (simp add: usable_Cons add_block_def)
      next
        case fits: False
        then have "int (length ?b') \<le> budget" by (simp add: add_block_def)
        from Cons.IH [OF this] obtain k where k:
          "assemble_loop f budget srcs ?b' = fold add_block (take k (usable f srcs)) ?b'"
          "int (length (assemble_loop f budget srcs ?b')) \<le> budget"
          "k < length (usable f srcs) \<and> int (length (fold add_block (take (Suc k) (usable f srcs)) ?b')) > budget
           \<or> k = length (usable f srcs)" by blast
        have "assemble_loop f budget (s # srcs) b = assemble_loop f budget srcs ?b'"
          using Some False fits by (simp add: add_block_def)
        then show ?thesis using Some False k by (intro exI [of _ "Suc k"]) (simp add: usable_Cons)
      qed
    qed
  qed
qed simp

section \<open>Properties\<close>

text \<open>
  Project memory keeps its budget and its precedence.  The assembled text is no longer than the
  budget (12000 when none is given); it consists of the whole blocks of the first usable sources in
  order of precedence, a source being usable when it can be read and is not blank; and it stops early
  only where the next whole block would not have fitted.
\<close>
theorem memory_keeps_precedence:
  "(let n = (if budget \<le> 0 then 12000 else budget); out = assemble_memory srcs budget f; us = usable f srcs
    in int (length out) \<le> n \<and>
       (\<exists>k. out = fold add_block (take k us) [] \<and>
          (k = length us \<or> k < length us \<and> int (length (fold add_block (take (Suc k) us) [])) > n)))"
proof -
  have "int (length []) \<le> (if budget \<le> 0 then 12000 else budget)" by simp
  from assemble_loop_prefix [OF this, of f srcs]
  show ?thesis unfolding assemble_memory_def default_memory_budget_def Let_def by blast
qed

text \<open>
  The scratchpad is append-only and never touches a file of the operator.  A write to a protected
  file is refused; a blank note changes nothing; any other note either fails and changes nothing or is
  added as one line at the end of the pad, and no other file changes.
\<close>
theorem scratchpad_append_only:
  "(case scratchpad_append p note0 f of (e, f') \<Rightarrow>
      (if is_protected_intent_file p then e = Some (ProtectedFile (path_base p)) \<and> f' = f
       else if trim_space note0 = [] then e = None \<and> f' = f
       else e = Some PadIO \<and> f' = f \<or>
            e = None \<and> f' = f\<lparr>fs_files := (fs_files f)(p \<mapsto>
              (case fs_files f p of Some old \<Rightarrow> old | None \<Rightarrow> []) @ ''- '' @ trim_space note0 @ [CHR 0x0A])\<rparr>))"
  by (auto simp: scratchpad_append_def guard_intent_write_def Let_def fs_append_def fs_write_def
      split: option.splits prod.splits)

end
