(* ===== verification/OcServe.thy ===== *)
theory OcServe
  imports GoNet GoJson "HOL-Library.Sublist"
begin

text \<open>
  The session client of \<open>internal/opencode\<close> (\<open>serve.go\<close>: requests, sessions, one driven turn, the
  transcript), the event stream of a headless run (\<open>run.go\<close>), and the transcript written for the
  benchmark (\<open>internal/bench/transcript.go\<close>).  The session server is an argument: a function on
  requests and a world of its own; whether the context of a drive has ended is read from that world.
\<close>

section \<open>Base64\<close>

definition b64_char :: "nat \<Rightarrow> char" where
  "b64_char n = ''ABCDEFGHIJKLMNOPQRSTUVWXYZabcdefghijklmnopqrstuvwxyz0123456789+/'' ! (n mod 64)"

fun base64 :: "string \<Rightarrow> string" where
  "base64 (a # b # c # s) =
     (let n = of_char a * 65536 + of_char b * 256 + of_char c
      in map b64_char [n div 262144, n div 4096, n div 64, n] @ base64 s)"
| "base64 [a, b] =
     (let n = of_char a * 65536 + of_char b * 256
      in map b64_char [n div 262144, n div 4096, n div 64] @ ''='')"
| "base64 [a] = (let n = of_char a * 65536 in map b64_char [n div 262144, n div 4096] @ ''=='')"
| "base64 [] = []"

section \<open>The client\<close>

record tokens =
  tk_total :: real
  tk_input :: real
  tk_output :: real
  tk_reasoning :: real

record transcript_message =
  tm_role :: string
  tm_tokens :: tokens
  tm_cost :: real
  tm_finish :: string
  tm_text :: string

record serve_client =
  sc_base :: string
  sc_auth :: string
  sc_dir :: string
  sc_agent :: string

record oc_model =
  om_provider :: string
  om_id :: string

record solve_result =
  sr_session :: string
  sr_messages :: "transcript_message list"
  sr_timed_out :: bool

definition zero_tokens :: tokens where
  "zero_tokens = \<lparr>tk_total = 0, tk_input = 0, tk_output = 0, tk_reasoning = 0\<rparr>"

definition new_serve_client :: "string \<Rightarrow> serve_client" where
  "new_serve_client base = \<lparr>sc_base = base, sc_auth = [], sc_dir = [], sc_agent = ''build''\<rparr>"

definition set_auth :: "string \<Rightarrow> string \<Rightarrow> serve_client \<Rightarrow> serve_client" where
  "set_auth user password c =
     (if password = [] then c else c\<lparr>sc_auth := ''Basic '' @ base64 (user @ '':'' @ password)\<rparr>)"

datatype oc_method = GET | POST

record oc_request =
  or_method :: oc_method
  or_url :: string
  or_auth :: string
  or_body :: "json option"

record oc_reply =
  oy_status :: int
  oy_body :: string

type_synonym 'w oc_server = "oc_request \<Rightarrow> 'w \<Rightarrow> oc_reply option \<times> 'w"

datatype oc_error =
    OcBadRequest string
  | OcSendFailed oc_method string
  | OcStatus oc_method string int string
  | OcDecode
  | OcNoSession

text \<open>
  \<open>do\<close>: send, check the status class, decode the first value of the body when a result is wanted.
  A request whose URL does not parse is never sent.
\<close>

definition oc_do ::
  "'w oc_server \<Rightarrow> serve_client \<Rightarrow> oc_method \<Rightarrow> string \<Rightarrow> json option \<Rightarrow> (string \<Rightarrow> 'a option) \<Rightarrow> 'w
     \<Rightarrow> (oc_error + 'a) \<times> 'w" where
  "oc_do srv c m path body dec w =
     (case url_parse (sc_base c @ path) of
        None \<Rightarrow> (Inl (OcBadRequest path), w)
      | Some u \<Rightarrow>
          (case srv \<lparr>or_method = m, or_url = sc_base c @ path, or_auth = sc_auth c, or_body = body\<rparr> w of
             (None, w1) \<Rightarrow> (Inl (OcSendFailed m path), w1)
           | (Some r, w1) \<Rightarrow>
               if oy_status r div 100 \<noteq> 2 then (Inl (OcStatus m path (oy_status r) (take 2048 (oy_body r))), w1)
               else (case dec (oy_body r) of
                       None \<Rightarrow> (Inl OcDecode, w1)
                     | Some x \<Rightarrow> (Inr x, w1))))"

definition no_result :: "string \<Rightarrow> unit option" where
  "no_result s = Some ()"

definition oc_ready :: "'w oc_server \<Rightarrow> serve_client \<Rightarrow> 'w \<Rightarrow> bool \<times> 'w" where
  "oc_ready srv c w =
     (case oc_do srv c GET ''/openapi.json'' None no_result w of
        (Inl e, w1) \<Rightarrow> (False, w1)
      | (Inr u, w1) \<Rightarrow> (True, w1))"

definition session_body :: "serve_client \<Rightarrow> oc_model \<Rightarrow> json" where
  "session_body c m =
     JObj [(''agent'', JStr (sc_agent c)),
           (''location'', JObj [(''directory'', JStr (sc_dir c))]),
           (''model'', JObj [(''id'', JStr (om_id m)), (''providerID'', JStr (om_provider m))])]"

definition session_id :: "string \<Rightarrow> string option" where
  "session_id = decode_first (dec_struct [(''id'', dec_string)]) []"

definition create_session :: "'w oc_server \<Rightarrow> serve_client \<Rightarrow> oc_model \<Rightarrow> 'w \<Rightarrow> (oc_error + string) \<times> 'w" where
  "create_session srv c m w =
     (case oc_do srv c POST ''/session'' (Some (session_body c m)) session_id w of
        (Inl e, w1) \<Rightarrow> (Inl e, w1)
      | (Inr i, w1) \<Rightarrow> if i = [] then (Inl OcNoSession, w1) else (Inr i, w1))"

definition message_path :: "string \<Rightarrow> string" where
  "message_path i = ''/session/'' @ i @ ''/message''"

definition prompt_body :: "serve_client \<Rightarrow> oc_model \<Rightarrow> string \<Rightarrow> json" where
  "prompt_body c m t =
     JObj [(''agent'', JStr (sc_agent c)),
           (''model'', JObj [(''modelID'', JStr (om_id m)), (''providerID'', JStr (om_provider m))]),
           (''parts'', JArr [JObj [(''text'', JStr t), (''type'', JStr ''text'')]])]"

definition send_message ::
  "'w oc_server \<Rightarrow> serve_client \<Rightarrow> string \<Rightarrow> oc_model \<Rightarrow> string \<Rightarrow> 'w \<Rightarrow> (oc_error + unit) \<times> 'w" where
  "send_message srv c i m t w = oc_do srv c POST (message_path i) (Some (prompt_body c m t)) no_result w"

section \<open>The transcript\<close>

record oc_part =
  op_type :: string
  op_text :: string

record oc_info =
  oi_role :: string
  oi_tokens :: tokens
  oi_cost :: real
  oi_finish :: string

record oc_message =
  og_info :: oc_info
  og_parts :: "oc_part list"

definition zero_info :: oc_info where
  "zero_info = \<lparr>oi_role = [], oi_tokens = zero_tokens, oi_cost = 0, oi_finish = []\<rparr>"

definition token_fields :: "tokens json_field list" where
  "token_fields =
     [(''total'', fld dec_real tk_total tk_total_update), (''input'', fld dec_real tk_input tk_input_update),
      (''output'', fld dec_real tk_output tk_output_update),
      (''reasoning'', fld dec_real tk_reasoning tk_reasoning_update)]"

definition info_fields :: "oc_info json_field list" where
  "info_fields =
     [(''role'', fld dec_string oi_role oi_role_update),
      (''tokens'', fld (dec_struct token_fields) oi_tokens oi_tokens_update),
      (''cost'', fld dec_real oi_cost oi_cost_update),
      (''finish'', fld dec_string oi_finish oi_finish_update)]"

definition part_fields :: "oc_part json_field list" where
  "part_fields =
     [(''type'', fld dec_string op_type op_type_update), (''text'', fld dec_string op_text op_text_update)]"

definition message_json_fields :: "oc_message json_field list" where
  "message_json_fields =
     [(''info'', fld (dec_struct info_fields) og_info og_info_update),
      (''parts'', fld (dec_list \<lparr>op_type = [], op_text = []\<rparr> (dec_struct part_fields)) og_parts og_parts_update)]"

definition flatten_message :: "oc_message \<Rightarrow> transcript_message" where
  "flatten_message m =
     \<lparr>tm_role = oi_role (og_info m), tm_tokens = oi_tokens (og_info m), tm_cost = oi_cost (og_info m),
      tm_finish = oi_finish (og_info m),
      tm_text = concat (map op_text (filter (\<lambda>p. op_type p = ''text'') (og_parts m)))\<rparr>"

definition decode_messages :: "string \<Rightarrow> oc_message list option" where
  "decode_messages =
     decode_first (dec_list \<lparr>og_info = zero_info, og_parts = []\<rparr> (dec_struct message_json_fields)) []"

definition messages ::
  "'w oc_server \<Rightarrow> serve_client \<Rightarrow> string \<Rightarrow> 'w \<Rightarrow> (oc_error + transcript_message list) \<times> 'w" where
  "messages srv c i w =
     (case oc_do srv c GET (message_path i) None decode_messages w of
        (Inl e, w1) \<Rightarrow> (Inl e, w1)
      | (Inr ms, w1) \<Rightarrow> (Inr (map flatten_message ms), w1))"

text \<open>How the context of a drive can have ended.\<close>

datatype ctx_end = DeadlineExceeded | Cancelled

definition partial_messages :: "'w oc_server \<Rightarrow> serve_client \<Rightarrow> string \<Rightarrow> 'w \<Rightarrow> transcript_message list \<times> 'w" where
  "partial_messages srv c i w =
     (case messages srv c i w of (Inl e, w1) \<Rightarrow> ([], w1) | (Inr ms, w1) \<Rightarrow> (ms, w1))"

definition oc_drive ::
  "'w oc_server \<Rightarrow> ('w \<Rightarrow> ctx_end option) \<Rightarrow> serve_client \<Rightarrow> oc_model \<Rightarrow> string \<Rightarrow> 'w
     \<Rightarrow> (oc_error + solve_result) \<times> 'w" where
  "oc_drive srv ctx_err c m prompt w =
     (case create_session srv c m w of
        (Inl e, w1) \<Rightarrow> (Inl e, w1)
      | (Inr i, w1) \<Rightarrow>
          (case send_message srv c i m prompt w1 of
             (Inl e, w2) \<Rightarrow>
               (case ctx_err w2 of
                  None \<Rightarrow> (Inl e, w2)
                | Some ce \<Rightarrow>
                    (case partial_messages srv c i w2 of
                       (ms, w3) \<Rightarrow>
                         (Inr \<lparr>sr_session = i, sr_messages = ms, sr_timed_out = (ce = DeadlineExceeded)\<rparr>, w3)))
           | (Inr u, w2) \<Rightarrow>
               (case messages srv c i w2 of
                  (Inl e, w3) \<Rightarrow> (Inl e, w3)
                | (Inr ms, w3) \<Rightarrow> (Inr \<lparr>sr_session = i, sr_messages = ms, sr_timed_out = False\<rparr>, w3))))"

section \<open>Events of a headless run\<close>

record event_part =
  ep_text :: string
  ep_reason :: string
  ep_tokens :: tokens

record run_event =
  ev_type :: string
  ev_part :: event_part

definition zero_event :: run_event where
  "zero_event = \<lparr>ev_type = [], ev_part = \<lparr>ep_text = [], ep_reason = [], ep_tokens = zero_tokens\<rparr>\<rparr>"

definition event_part_fields :: "event_part json_field list" where
  "event_part_fields =
     [(''text'', fld dec_string ep_text ep_text_update), (''reason'', fld dec_string ep_reason ep_reason_update),
      (''tokens'', fld (dec_struct token_fields) ep_tokens ep_tokens_update)]"

definition event_fields :: "run_event json_field list" where
  "event_fields =
     [(''type'', fld dec_string ev_type ev_type_update),
      (''part'', fld (dec_struct event_part_fields) ev_part ev_part_update)]"

definition event_of_line :: "string \<Rightarrow> run_event option" where
  "event_of_line l0 =
     (let l = trim_space l0
      in if l = [] \<or> hd l \<noteq> CHR 0x7B then None else unmarshal (dec_struct event_fields) zero_event l)"

definition apply_event :: "run_event \<Rightarrow> transcript_message \<Rightarrow> transcript_message" where
  "apply_event e m =
     (let m1 = m\<lparr>tm_text := tm_text m @ ep_text (ev_part e)\<rparr>
      in if ev_type e = ''step_finish'' then
           (let m2 = m1\<lparr>tm_finish := ep_reason (ev_part e)\<rparr>; t = ep_tokens (ev_part e)
            in if tk_total t > 0 \<or> tk_output t > 0 then m2\<lparr>tm_tokens := t\<rparr> else m2)
         else m1)"

definition parse_run_events :: "string \<Rightarrow> transcript_message list" where
  "parse_run_events s =
     (let start = \<lparr>tm_role = ''assistant'', tm_tokens = zero_tokens, tm_cost = 0, tm_finish = [], tm_text = []\<rparr>;
          m = fold apply_event (List.map_filter event_of_line (fst (scan_lines (16 * 1024 * 1024) s))) start
      in if tm_text m = [] \<and> tm_finish m = [] then [] else [m])"

section \<open>Benchmark transcript\<close>

text \<open>Go's conversion of a float to \<open>int\<close> drops the fraction.\<close>

definition to_int :: "real \<Rightarrow> int" where
  "to_int x = (if x < 0 then - \<lfloor>- x\<rfloor> else \<lfloor>x\<rfloor>)"

definition usage_json :: "int \<Rightarrow> int \<Rightarrow> json" where
  "usage_json i o1 = JObj [(''input_tokens'', JNum (show_int i)), (''output_tokens'', JNum (show_int o1))]"

definition message_record :: "transcript_message \<Rightarrow> json" where
  "message_record m =
     JObj [(''content'', JArr [JObj [(''text'', JStr (tm_text m)), (''type'', JStr ''text'')]]),
           (''type'', JStr (tm_role m)),
           (''usage'', usage_json (to_int (tk_input (tm_tokens m))) (to_int (tk_output (tm_tokens m))))]"

definition result_record :: "nat \<Rightarrow> int \<Rightarrow> int \<Rightarrow> json" where
  "result_record n i o1 =
     JObj [(''num_turns'', JNum (show_int (int n))), (''type'', JStr ''result''), (''usage'', usage_json i o1)]"

text \<open>The records encoded so far, on a writer that may refuse one; the boolean is \<open>err == nil\<close>.\<close>

fun write_messages ::
  "(nat \<Rightarrow> bool) \<Rightarrow> nat \<Rightarrow> int \<Rightarrow> int \<Rightarrow> transcript_message list \<Rightarrow> json list \<Rightarrow> bool \<times> json list" where
  "write_messages refuses n i o1 [] out =
     (if refuses (length out) then (False, out) else (True, out @ [result_record n i o1]))"
| "write_messages refuses n i o1 (m # ms) out =
     (if refuses (length out) then (False, out)
      else write_messages refuses n (i + to_int (tk_input (tm_tokens m))) (o1 + to_int (tk_output (tm_tokens m)))
             ms (out @ [message_record m]))"

definition write_transcript :: "(nat \<Rightarrow> bool) \<Rightarrow> transcript_message list \<Rightarrow> bool \<times> json list" where
  "write_transcript refuses ms = write_messages refuses (length ms) 0 0 ms []"

section \<open>Facts\<close>

lemma write_messages_ok:
  "write_messages (\<lambda>k. False) n i o1 ms out =
     (True, out @ map message_record ms @
        [result_record n (i + (\<Sum>m \<leftarrow> ms. to_int (tk_input (tm_tokens m))))
           (o1 + (\<Sum>m \<leftarrow> ms. to_int (tk_output (tm_tokens m))))])"
  by (induction ms arbitrary: i o1 out) (simp_all add: add.assoc)

lemma write_messages_prefix:
  "prefix (snd (write_messages refuses n i o1 ms out)) (snd (write_messages (\<lambda>k. False) n i o1 ms out)) \<and>
     (fst (write_messages refuses n i o1 ms out) \<longleftrightarrow>
        snd (write_messages refuses n i o1 ms out) = snd (write_messages (\<lambda>k. False) n i o1 ms out))"
proof (induction ms arbitrary: i o1 out)
  case (Cons m ms)
  show ?case
  proof (cases "refuses (length out)")
    case True
    then show ?thesis by (simp add: write_messages_ok)
  next
    case False
    then show ?thesis by (simp only: write_messages.simps if_False Cons.IH)
  qed
qed simp

text \<open>
  The benchmark transcript is complete and its totals agree.  If the writer accepts every record,
  there is one record per message, in order, and a last one whose turn count is the number of messages
  and whose token counts are the sums of theirs; a writer that refuses a record leaves a prefix of
  that, and the call succeeds exactly when nothing is missing.
\<close>
theorem transcript_totals_agree:
  "(let full = map message_record ms @
        [result_record (length ms) (\<Sum>m \<leftarrow> ms. to_int (tk_input (tm_tokens m)))
           (\<Sum>m \<leftarrow> ms. to_int (tk_output (tm_tokens m)))];
        (ok, out) = write_transcript refuses ms
    in prefix out full \<and> (ok \<longleftrightarrow> out = full))"
  using write_messages_prefix [of refuses "length ms" 0 0 ms "[]"]
  by (simp add: write_transcript_def write_messages_ok case_prod_unfold Let_def)

section \<open>The requests of a drive\<close>

text \<open>A server that also keeps the requests it was sent.\<close>

definition oc_logged :: "'w oc_server \<Rightarrow> ('w \<times> oc_request list) oc_server" where
  "oc_logged srv r s = (case srv r (fst s) of (a, w) \<Rightarrow> (a, (w, snd s @ [r])))"

definition the_request :: "serve_client \<Rightarrow> oc_method \<Rightarrow> string \<Rightarrow> json option \<Rightarrow> oc_request" where
  "the_request c m path body =
     \<lparr>or_method = m, or_url = sc_base c @ path, or_auth = sc_auth c, or_body = body\<rparr>"

text \<open>What a call sends: its request, unless the URL does not parse.\<close>

definition sent :: "serve_client \<Rightarrow> oc_method \<Rightarrow> string \<Rightarrow> json option \<Rightarrow> oc_request list" where
  "sent c m path body = (if url_parse (sc_base c @ path) = None then [] else [the_request c m path body])"

lemma oc_do_log:
  assumes "oc_do (oc_logged srv) c m path body dec s = (r, s')"
  shows "snd s' = snd s @ sent c m path body" and "r = Inr x \<Longrightarrow> sent c m path body \<noteq> []"
  using assms
  by (auto simp: oc_do_def oc_logged_def the_request_def sent_def split: option.splits prod.splits if_splits)

definition drive_requests :: "serve_client \<Rightarrow> oc_model \<Rightarrow> string \<Rightarrow> string \<Rightarrow> oc_request list" where
  "drive_requests c m prompt i =
     [the_request c POST ''/session'' (Some (session_body c m)),
      the_request c POST (message_path i) (Some (prompt_body c m prompt)),
      the_request c GET (message_path i) None]"

lemma create_session_log:
  assumes "create_session (oc_logged srv) c m s = (r, s')"
  shows "snd s' = snd s @ sent c POST ''/session'' (Some (session_body c m))"
    and "r = Inr i \<Longrightarrow> i \<noteq> [] \<and> sent c POST ''/session'' (Some (session_body c m)) \<noteq> []"
proof -
  obtain r0 s0 where d: "oc_do (oc_logged srv) c POST ''/session'' (Some (session_body c m)) session_id s = (r0, s0)"
    by (metis prod.exhaust)
  show "snd s' = snd s @ sent c POST ''/session'' (Some (session_body c m))"
    using oc_do_log(1) [OF d] assms by (auto simp: create_session_def d split: sum.splits if_splits)
  show "r = Inr i \<Longrightarrow> i \<noteq> [] \<and> sent c POST ''/session'' (Some (session_body c m)) \<noteq> []"
    using oc_do_log(2) [OF d] assms by (auto simp: create_session_def d split: sum.splits if_splits)
qed

lemma send_message_log:
  "send_message (oc_logged srv) c i m t s = (r, s') \<Longrightarrow>
     snd s' = snd s @ sent c POST (message_path i) (Some (prompt_body c m t))"
  using oc_do_log(1) unfolding send_message_def by blast

lemma send_message_sent:
  "send_message (oc_logged srv) c i m t s = (Inr u, s') \<Longrightarrow>
     sent c POST (message_path i) (Some (prompt_body c m t)) \<noteq> []"
  unfolding send_message_def by (rule oc_do_log(2) [OF _ refl])

lemma messages_log:
  assumes "messages (oc_logged srv) c i s = (r, s')"
  shows "snd s' = snd s @ sent c GET (message_path i) None"
proof -
  obtain r0 s0 where d: "oc_do (oc_logged srv) c GET (message_path i) None decode_messages s = (r0, s0)"
    by (metis prod.exhaust)
  show ?thesis using oc_do_log(1) [OF d] assms by (auto simp: messages_def d split: sum.splits)
qed

lemma sent_prefix:
  "sent c POST ''/session'' (Some (session_body c m)) \<noteq> [] \<Longrightarrow>
     prefix (sent c POST ''/session'' (Some (session_body c m)) @
        sent c POST (message_path i) (Some (prompt_body c m t)) @ sent c GET (message_path i) None)
       (drive_requests c m t i)"
  by (cases "url_parse (sc_base c @ message_path i)"; cases "url_parse (sc_base c @ ''/session'')")
    (simp_all add: sent_def drive_requests_def)

lemma oc_drive_log:
  assumes "oc_drive (oc_logged srv) (ctx_err \<circ> fst) c m prompt (w, []) = (r, s')"
  shows "\<exists>i. prefix (snd s') (drive_requests c m prompt i) \<and>
    (\<forall>x. r = Inr x \<longrightarrow> i = sr_session x \<and> i \<noteq> [] \<and>
       (\<not> sr_timed_out x \<and> (\<forall>v. ctx_err v = None) \<longrightarrow> snd s' = drive_requests c m prompt i))"
proof -
  let ?c = "sent c POST ''/session'' (Some (session_body c m))"
  obtain rc s1 where c: "create_session (oc_logged srv) c m (w, []) = (rc, s1)" by (metis prod.exhaust)
  show ?thesis
  proof (cases rc)
    case (Inl e)
    then show ?thesis using assms create_session_log(1) [OF c] c
      by (auto simp: oc_drive_def drive_requests_def sent_def)
  next
    case (Inr i)
    let ?p = "sent c POST (message_path i) (Some (prompt_body c m prompt))" and ?g = "sent c GET (message_path i) None"
    note i = create_session_log(2) [OF c Inr]
    have one: "snd s1 = ?c" using create_session_log(1) [OF c] by simp
    note pre = sent_prefix [of c m i prompt, OF conjunct2 [OF i]]
    obtain rs s2 where d: "send_message (oc_logged srv) c i m prompt s1 = (rs, s2)" by (metis prod.exhaust)
    have two: "snd s2 = ?c @ ?p" using send_message_log [OF d] one by simp
    obtain rm s3 where g: "messages (oc_logged srv) c i s2 = (rm, s3)" by (metis prod.exhaust)
    have three: "snd s3 = (?c @ ?p) @ ?g" using messages_log [OF g] two by simp
    have p2: "prefix (snd s2) (drive_requests c m prompt i)" "prefix (snd s3) (drive_requests c m prompt i)"
      using pre two three append_prefixD [of "?c @ ?p" ?g] by (simp_all only: append_assoc)
    have full: "snd s3 = drive_requests c m prompt i" if "rs = Inr u" for u
    proof -
      have "?p \<noteq> []" using send_message_sent d that by blast
      then show ?thesis using i three by (simp add: sent_def drive_requests_def split: if_splits)
    qed
    show ?thesis
      using assms c d g Inr i p2 full
      by (intro exI [of _ i])
        (auto simp: oc_drive_def partial_messages_def split: sum.splits option.splits prod.splits)
  qed
qed

text \<open>
  A drive asks in order and returns the turn it asked for.  Whatever the server answers, the requests
  of a drive are a beginning of: open a session, post the prompt to it, read its messages, all with the
  session id the server gave; a result carries that id, never an empty one, and a result that did not
  time out, where the context never ends, was read after all three requests.
\<close>
theorem drive_asks_in_order:
  "(case oc_drive (oc_logged srv) (ctx_err \<circ> fst) c m prompt (w, []) of
      (r, (w', reqs)) \<Rightarrow>
        \<exists>i. prefix reqs (drive_requests c m prompt i) \<and>
          (case r of
             Inl e \<Rightarrow> True
           | Inr x \<Rightarrow> i = sr_session x \<and> i \<noteq> [] \<and>
               (sr_timed_out x \<or> (\<exists>v. ctx_err v \<noteq> None) \<or> reqs = drive_requests c m prompt i)))"
proof -
  obtain r w' reqs where d: "oc_drive (oc_logged srv) (ctx_err \<circ> fst) c m prompt (w, []) = (r, (w', reqs))"
    by (metis prod.exhaust)
  show ?thesis using oc_drive_log [OF d] unfolding d by (auto split: sum.splits)
qed

end
