(* ===== verification/JsonCompact.thy ===== *)
theory JsonCompact
  imports JsonText
begin

text \<open>
  \<open>json.Marshal\<close> without indentation, as requests, replies and records are written, and its round
  trip through the parser.
\<close>

fun json_compact :: "json \<Rightarrow> string"
  and compact_elems :: "json list \<Rightarrow> string"
  and compact_members :: "(string \<times> json) list \<Rightarrow> string"
where
  "json_compact JNull = ''null''"
| "json_compact (JBool b) = (if b then ''true'' else ''false'')"
| "json_compact (JNum l) = l"
| "json_compact (JStr s) = enc_string s"
| "json_compact (JArr vs) = ''['' @ compact_elems vs @ '']''"
| "json_compact (JObj ms) = ''{'' @ compact_members ms @ ''}''"
| "compact_elems [] = []"
| "compact_elems (v # vs) = json_compact v @ (if vs = [] then [] else '','' @ compact_elems vs)"
| "compact_members [] = []"
| "compact_members ((k, v) # ms) =
     enc_string k @ '':'' @ json_compact v @ (if ms = [] then [] else '','' @ compact_members ms)"

lemma delim_close [simp]: "delim (CHR '']'' # s)" "delim (CHR ''}'' # s)"
  by (simp_all add: delim_def)

lemma compact_scalar:
  "json_compact JNull = json_indent 0 JNull" "json_compact (JBool b) = json_indent 0 (JBool b)"
  "json_compact (JNum l) = json_indent 0 (JNum l)" "json_compact (JStr s) = json_indent 0 (JStr s)"
  by simp_all

lemma compact_first_char:
  assumes "plain_json v"
  shows "\<exists>c s. json_compact v = c # s \<and> \<not> ws_char c \<and> c \<noteq> CHR '']'' \<and> c \<noteq> CHR ''}''"
proof (cases v)
  case (JArr vs)
  then show ?thesis by (simp add: ws_char_def)
next
  case (JObj ms)
  then show ?thesis by (simp add: ws_char_def)
qed (use first_char [OF assms, of 0] in simp_all)

lemma jmembers_compact:
  assumes "utf8_text k" "jvalue n s = Some (v, r)"
  shows "jmembers (Suc n) (enc_string k @ '':'' @ s) =
     (if has_prefix (skip_ws r) ''}'' then Some ([(k, v)], tl (skip_ws r))
      else if has_prefix (skip_ws r) '','' then
        map_option (\<lambda>(ms, u). ((k, v) # ms, u)) (jmembers n (tl (skip_ws r)))
      else None)"
proof -
  have q: "skip_ws (CHR 0x22 # t) = CHR 0x22 # t" "skip_ws (CHR '':'' # t) = CHR '':'' # t" for t
    by (simp_all add: skip_ws_Cons ws_char_def)
  show ?thesis using json_string_enc [OF assms(1), of "'':'' @ s"] assms(2)
    by (simp add: enc_string_def q)
qed

lemma parse_compact:
  "plain_json v \<Longrightarrow> delim r \<Longrightarrow> need v \<le> k \<Longrightarrow> jvalue k (json_compact v @ r) = Some (v, r)"
  "list_all plain_json vs \<Longrightarrow> vs \<noteq> [] \<Longrightarrow> need_elems vs \<le> k \<Longrightarrow>
     jelems k (compact_elems vs @ '']'' @ r) = Some (vs, r)"
  "list_all (\<lambda>m. utf8_text (fst m) \<and> plain_json (snd m)) ms \<Longrightarrow> ms \<noteq> [] \<Longrightarrow> need_members ms \<le> k \<Longrightarrow>
     jmembers k (compact_members ms @ ''}'' @ r) = Some (ms, r)"
proof (induction v and vs and ms arbitrary: r k and r k and r k
    rule: json_compact_compact_elems_compact_members.induct)
  case 1
  then show ?case using jvalue_scalar(1) [of r k 0] by simp
next
  case (2 b)
  then show ?case using jvalue_scalar(2) [of r k 0 b] by simp
next
  case (3 l)
  then obtain i where "l = show_int i" by auto
  with 3 show ?case using jvalue_scalar(3) [of r k 0 i] by simp
next
  case (4 s)
  then show ?case using jvalue_scalar(4) [of r k s 0] by simp
next
  case (5 vs)
  then obtain j where k: "k = Suc j" "need_elems vs \<le> j" by (cases k) auto
  show ?case
  proof (cases vs)
    case Nil
    then show ?thesis using k by simp
  next
    case (Cons v ws)
    have "plain_json v" using 5 Cons by simp
    then obtain c s where "json_compact v = c # s" "\<not> ws_char c" "c \<noteq> CHR '']''"
      using compact_first_char [of v] by blast
    then have "\<not> has_prefix (skip_ws (compact_elems vs @ t)) '']''" for t
      using Cons by (simp add: skip_ws_Cons)
    then show ?thesis using 5 Cons k by simp
  qed
next
  case (6 ms)
  then obtain j where k: "k = Suc j" "need_members ms \<le> j" by (cases k) auto
  show ?case
  proof (cases ms)
    case Nil
    then show ?thesis using k by simp
  next
    case (Cons m ws)
    obtain key v where m: "m = (key, v)" by (cases m)
    then have "utf8_text key" using 6 Cons by simp
    then have "\<not> has_prefix (skip_ws (compact_members ms @ t)) ''}''" for t
      using Cons m by (simp add: enc_string_def skip_ws_Cons ws_char_def)
    then show ?thesis using 6 Cons k by simp
  qed
next
  case (8 v vs)
  then obtain j where k: "k = Suc j" "need v \<le> j" "need_elems vs \<le> j" by (cases k) auto
  show ?case
  proof (cases "vs = []")
    case True
    have "jvalue j (json_compact v @ '']'' @ r) = Some (v, '']'' @ r)" using 8 k by simp
    from jelems_Suc [OF this] show ?thesis using k True by simp
  next
    case False
    let ?r = "'','' @ compact_elems vs @ '']'' @ r"
    have "jvalue j (json_compact v @ ?r) = Some (v, ?r)" using 8 k by simp
    from jelems_Suc [OF this] show ?thesis using 8 k False by simp
  qed
next
  case (10 key v ms)
  then obtain j where k: "k = Suc j" "need v \<le> j" "need_members ms \<le> j" by (cases k) auto
  have a: "utf8_text key" "plain_json v" using 10 by simp_all
  show ?case
  proof (cases "ms = []")
    case True
    have "jvalue j (json_compact v @ ''}'' @ r) = Some (v, ''}'' @ r)" using 10 k by simp
    from jmembers_compact [OF a(1) this] show ?thesis using k True by simp
  next
    case False
    let ?r = "'','' @ compact_members ms @ ''}'' @ r"
    have "jvalue j (json_compact v @ ?r) = Some (v, ?r)" using 10 k by simp
    from jmembers_compact [OF a(1) this] show ?thesis using 10 k False by simp
  qed
qed simp_all

lemma need_compact:
  "plain_json v \<Longrightarrow> need v \<le> length (json_compact v)"
  "list_all plain_json vs \<Longrightarrow> need_elems vs \<le> Suc (length (compact_elems vs))"
  "list_all (\<lambda>m. utf8_text (fst m) \<and> plain_json (snd m)) ms \<Longrightarrow> need_members ms \<le> length (compact_members ms)"
proof (induction v and vs and ms rule: json_compact_compact_elems_compact_members.induct)
  case (3 l)
  then obtain i where l: "l = show_int i" by auto
  then show ?case by (cases "show_int i") auto
next
  case (8 v vs)
  then show ?case by (cases "vs = []") auto
next
  case (10 k v ms)
  then show ?case by (cases "ms = []") (auto simp: enc_string_def)
qed (auto simp: enc_string_def)

text \<open>What is read back, with a line feed after it or not.\<close>

theorem json_compact_roundtrip:
  assumes "plain_json v" and "r = [] \<or> r = [CHR 0x0A]"
  shows "json_parse (json_compact v @ r) = Some v" and "json_first (json_compact v @ r) = Some v"
proof -
  have "delim r" using assms(2) by (auto simp: delim_def)
  then have j: "jvalue (2 * length (json_compact v @ r) + 2) (json_compact v @ r) = Some (v, r)"
    by (intro parse_compact(1) assms(1)) (use need_compact(1) [OF assms(1)] in simp_all)
  then show "json_parse (json_compact v @ r) = Some v" "json_first (json_compact v @ r) = Some v"
    using assms(2) by (auto simp: json_parse_def json_first_def skip_ws_def)
qed

end
