(* ===== verification/MockModel.thy ===== *)
theory MockModel
  imports ServClient JsonCompact
begin

text \<open>
  The mock model server, \<open>internal/mockmodel/mockmodel.go\<close>, as a server the inference client can be
  run against: it records each completion request, answers from the handler, the queue or a default,
  and writes the reply as one JSON document or as an event stream.  The clock is a function of the
  number of recorded requests.
\<close>

section \<open>State\<close>

record recorded =
  rr_path :: string
  rr_method :: string
  rr_model :: string
  rr_messages :: "message list"
  rr_stream :: bool
  rr_temperature :: real
  rr_body :: string

record scripted =
  sd_content :: string
  sd_finish :: string
  sd_status :: int
  sd_body :: string
  sd_chunk_words :: bool

record mock =
  mk_model_id :: string
  mk_digest :: string
  mk_models :: "(string \<times> string) list"
  mk_handler :: "recorded \<Rightarrow> scripted option"
  mk_now :: "nat \<Rightarrow> int"
  mk_queue :: "scripted list"
  mk_requests :: "recorded list"

definition or_default :: "string \<Rightarrow> string \<Rightarrow> string" where
  "or_default v d = (if v = [] then d else v)"

definition new_mock ::
  "string \<Rightarrow> string \<Rightarrow> (string \<times> string) list \<Rightarrow> (recorded \<Rightarrow> scripted option) \<Rightarrow> (nat \<Rightarrow> int) \<Rightarrow> scripted list \<Rightarrow> mock" where
  "new_mock mid digest ms h now q =
     \<lparr>mk_model_id = or_default mid ''mock-model'', mk_digest = or_default digest ''sha256:0000'',
      mk_models = ms, mk_handler = h, mk_now = now, mk_queue = q, mk_requests = []\<rparr>"

definition enqueue :: "scripted list \<Rightarrow> mock \<Rightarrow> mock" where
  "enqueue rs s = s\<lparr>mk_queue := mk_queue s @ rs\<rparr>"

definition last_request :: "mock \<Rightarrow> recorded option" where
  "last_request s = (if mk_requests s = [] then None else Some (last (mk_requests s)))"

definition plain_reply :: "string \<Rightarrow> scripted" where
  "plain_reply c = \<lparr>sd_content = c, sd_finish = [], sd_status = 0, sd_body = [], sd_chunk_words = False\<rparr>"

definition mock_next :: "recorded \<Rightarrow> mock \<Rightarrow> scripted \<times> mock" where
  "mock_next rec s =
     (let s1 = s\<lparr>mk_requests := mk_requests s @ [rec]\<rparr>
      in case mk_handler s rec of
           Some r \<Rightarrow> (r, s1)
         | None \<Rightarrow>
             (case mk_queue s of
                [] \<Rightarrow> (plain_reply ''ok'', s1)
              | r # q \<Rightarrow> (r, s1\<lparr>mk_queue := q\<rparr>)))"

section \<open>The decoded request\<close>

text \<open>
  The error of \<open>Unmarshal\<close> is dropped: a text that is not JSON leaves the zero value, a member of the
  wrong type leaves its own field and the rest is decoded.
\<close>

record mock_request =
  mq_model :: string
  mq_messages :: "message list"
  mq_stream :: bool
  mq_temperature :: real

definition keep :: "('a \<Rightarrow> json \<Rightarrow> 'a option) \<Rightarrow> 'a \<Rightarrow> json \<Rightarrow> 'a" where
  "keep d old j = (case d old j of Some x \<Rightarrow> x | None \<Rightarrow> old)"

type_synonym 'r loose_field = "string \<times> ('r \<Rightarrow> json \<Rightarrow> 'r)"

definition loose_named :: "'r loose_field list \<Rightarrow> string \<Rightarrow> 'r loose_field option" where
  "loose_named fs k =
     (case find (\<lambda>f. fst f = k) fs of
        Some f \<Rightarrow> Some f
      | None \<Rightarrow> find (\<lambda>f. to_lower (fst f) = to_lower k) fs)"

fun loose_members :: "'r loose_field list \<Rightarrow> 'r \<Rightarrow> (string \<times> json) list \<Rightarrow> 'r" where
  "loose_members fs r [] = r"
| "loose_members fs r ((k, j) # es) =
     loose_members fs (case loose_named fs k of None \<Rightarrow> r | Some f \<Rightarrow> snd f r j) es"

definition loose_struct :: "'r loose_field list \<Rightarrow> 'r \<Rightarrow> json \<Rightarrow> 'r" where
  "loose_struct fs r j = (case j of JObj es \<Rightarrow> loose_members fs r es | _ \<Rightarrow> r)"

definition loose_message :: "json \<Rightarrow> message" where
  "loose_message =
     loose_struct
       [(''role'', \<lambda>r j. r\<lparr>ms_role := keep dec_string (ms_role r) j\<rparr>),
        (''content'', \<lambda>r j. r\<lparr>ms_content := keep dec_string (ms_content r) j\<rparr>)] zero_message"

definition loose_messages :: "message list \<Rightarrow> json \<Rightarrow> message list" where
  "loose_messages old j = (case j of JNull \<Rightarrow> [] | JArr js \<Rightarrow> map loose_message js | _ \<Rightarrow> old)"

definition zero_request :: mock_request where
  "zero_request = \<lparr>mq_model = [], mq_messages = [], mq_stream = False, mq_temperature = 0\<rparr>"

definition request_fields :: "mock_request loose_field list" where
  "request_fields =
     [(''model'', \<lambda>r j. r\<lparr>mq_model := keep dec_string (mq_model r) j\<rparr>),
      (''messages'', \<lambda>r j. r\<lparr>mq_messages := loose_messages (mq_messages r) j\<rparr>),
      (''stream'', \<lambda>r j. r\<lparr>mq_stream := keep dec_bool (mq_stream r) j\<rparr>),
      (''temperature'', \<lambda>r j. r\<lparr>mq_temperature := keep dec_real (mq_temperature r) j\<rparr>)]"

definition read_request :: "string \<Rightarrow> mock_request" where
  "read_request body =
     (case json_parse body of None \<Rightarrow> zero_request | Some j \<Rightarrow> loose_struct request_fields zero_request j)"

section \<open>Replies\<close>

definition json_reply :: "json \<Rightarrow> http_reply" where
  "json_reply j =
     \<lparr>hr_status = 200, hr_status_text = ''200 OK'', hr_body = json_compact j @ [CHR 0x0A],
      hr_read_error = False, hr_elapsed = 0\<rparr>"

definition text_reply :: "int \<Rightarrow> string \<Rightarrow> http_reply" where
  "text_reply st b =
     \<lparr>hr_status = st, hr_status_text = show_int st, hr_body = b, hr_read_error = False, hr_elapsed = 0\<rparr>"

definition model_entry :: "int \<Rightarrow> string \<times> string \<Rightarrow> json" where
  "model_entry now e =
     JObj [(''created'', JNum (show_int now)), (''digest'', JStr (snd e)), (''id'', JStr (fst e)),
           (''object'', JStr ''model''), (''owned_by'', JStr ''mockmodel'')]"

definition handle_models :: "mock \<Rightarrow> http_reply" where
  "handle_models s =
     (let entries = (if mk_models s = [] then [(mk_model_id s, mk_digest s)] else mk_models s)
      in json_reply (JObj [(''data'', JArr (map (model_entry (mk_now s (length (mk_requests s)))) entries)),
                           (''object'', JStr ''list'')]))"

definition word_count :: "string \<Rightarrow> int" where
  "word_count c = int (length (str_fields c))"

definition json_completion :: "int \<Rightarrow> string \<Rightarrow> scripted \<Rightarrow> string \<Rightarrow> http_reply" where
  "json_completion now model r finish =
     json_reply (JObj
       [(''choices'', JArr [JObj
          [(''finish_reason'', JStr finish), (''index'', JNum (show_int 0)),
           (''message'', JObj [(''content'', JStr (sd_content r)), (''role'', JStr ''assistant'')])]]),
        (''created'', JNum (show_int now)), (''id'', JStr ''chatcmpl-mock''), (''model'', JStr model),
        (''object'', JStr ''chat.completion''),
        (''usage'', JObj [(''completion_tokens'', JNum (show_int (word_count (sd_content r) + 1))),
           (''prompt_tokens'', JNum (show_int 8)),
           (''total_tokens'', JNum (show_int (word_count (sd_content r) + 9)))])])"

definition stream_chunk :: "int \<Rightarrow> string \<Rightarrow> string \<Rightarrow> string \<Rightarrow> json" where
  "stream_chunk now model content finish =
     JObj [(''choices'', JArr [JObj
              ([(''delta'', JObj (if content \<noteq> [] then [(''content'', JStr content)] else []))] @
               (if finish \<noteq> [] then [(''finish_reason'', JStr finish)] else []) @
               [(''index'', JNum (show_int 0))])]),
           (''created'', JNum (show_int now)), (''id'', JStr ''chatcmpl-mock''), (''model'', JStr model),
           (''object'', JStr ''chat.completion.chunk'')]"

definition event_line :: "json \<Rightarrow> string" where
  "event_line j = ''data: '' @ json_compact j @ [CHR 0x0A, CHR 0x0A]"

definition stream_pieces :: "scripted \<Rightarrow> string list" where
  "stream_pieces r =
     (if sd_chunk_words r then map (\<lambda>w. w @ '' '') (str_fields (sd_content r))
      else if sd_content r \<noteq> [] then [sd_content r] else [])"

definition stream_completion :: "int \<Rightarrow> string \<Rightarrow> scripted \<Rightarrow> string \<Rightarrow> http_reply" where
  "stream_completion now model r finish =
     text_reply 200
       (concat (map event_line
          ([stream_chunk now model [] []] @ map (\<lambda>p. stream_chunk now model p []) (stream_pieces r) @
           [stream_chunk now model [] finish])) @ ''data: [DONE]'' @ [CHR 0x0A, CHR 0x0A])"

definition handle_chat :: "string \<Rightarrow> string \<Rightarrow> string \<Rightarrow> mock \<Rightarrow> http_reply \<times> mock" where
  "handle_chat method path body s =
     (let cr = read_request body;
          rec = \<lparr>rr_path = path, rr_method = method, rr_model = mq_model cr, rr_messages = mq_messages cr,
                 rr_stream = mq_stream cr, rr_temperature = mq_temperature cr, rr_body = body\<rparr>;
          now = mk_now s (length (mk_requests s))
      in case mock_next rec s of (r, s1) \<Rightarrow>
           if sd_status r \<noteq> 0 \<and> sd_status r div 100 \<noteq> 2 then (text_reply (sd_status r) (sd_body r @ [CHR 0x0A]), s1)
           else let finish = or_default (sd_finish r) ''stop''
                in (if mq_stream cr then stream_completion now (mq_model cr) r finish
                    else json_completion now (mq_model cr) r finish, s1))"

text \<open>The routes; other paths are not found.\<close>

definition mock_route :: "string \<Rightarrow> string \<Rightarrow> string \<Rightarrow> mock \<Rightarrow> http_reply \<times> mock" where
  "mock_route method path body s =
     (if path = ''/health'' then (text_reply 200 ''ok'', s)
      else if path = ''/v1/models'' then (handle_models s, s)
      else if path = ''/v1/chat/completions'' then handle_chat method path body s
      else (text_reply 404 (''404 page not found'' @ [CHR 0x0A]), s))"

section \<open>The server seen by the inference client\<close>

text \<open>The request body the client marshals; a float is written by \<open>ffmt\<close>.\<close>

definition message_json :: "message \<Rightarrow> json" where
  "message_json m = JObj [(''role'', JStr (ms_role m)), (''content'', JStr (ms_content m))]"

definition request_json :: "(real \<Rightarrow> string) \<Rightarrow> chat_request \<Rightarrow> json" where
  "request_json ffmt r =
     JObj ([(''model'', JStr (rq_model r)), (''messages'', JArr (map message_json (rq_messages r)))] @
       (if rq_stream r then [(''stream'', JBool True)] else []) @
       (if rq_temperature r \<noteq> 0 then [(''temperature'', JNum (ffmt (rq_temperature r)))] else []) @
       (if rq_max_tokens r \<noteq> 0 then [(''max_tokens'', JNum (show_int (rq_max_tokens r)))] else []) @
       (if rq_grammar r \<noteq> [] then [(''grammar'', JStr (rq_grammar r))] else []))"

definition mock_server :: "(real \<Rightarrow> string) \<Rightarrow> mock server" where
  "mock_server ffmt q s =
     (case q of
        HttpGet u p \<Rightarrow> (case mock_route ''GET'' p [] s of (r, s') \<Rightarrow> (Some r, s'))
      | HttpPost u p r \<Rightarrow>
          (case mock_route ''POST'' p (json_compact (request_json ffmt r)) s of (y, s') \<Rightarrow> (Some y, s')))"

section \<open>Facts\<close>

lemma request_names:
  "loose_named request_fields ''model'' = Some (''model'', \<lambda>r j. r\<lparr>mq_model := keep dec_string (mq_model r) j\<rparr>)"
  "loose_named request_fields ''messages'' =
     Some (''messages'', \<lambda>r j. r\<lparr>mq_messages := loose_messages (mq_messages r) j\<rparr>)"
  "loose_named request_fields ''stream'' = Some (''stream'', \<lambda>r j. r\<lparr>mq_stream := keep dec_bool (mq_stream r) j\<rparr>)"
  "loose_named request_fields ''max_tokens'' = None"
  "loose_named request_fields ''grammar'' = None"
  by (simp_all add: loose_named_def request_fields_def to_lower_def to_lower_char_def)

lemma loose_message_json: "loose_message (message_json m) = m"
  by (simp add: loose_message_def message_json_def loose_struct_def loose_named_def keep_def dec_string_def zero_message_def)

lemma loose_messages_json: "loose_messages old (JArr (map message_json ms)) = ms"
  by (simp add: loose_messages_def loose_message_json comp_def)

definition plain_request_text :: "chat_request \<Rightarrow> bool" where
  "plain_request_text r \<longleftrightarrow> utf8_text (rq_model r) \<and> utf8_text (rq_grammar r) \<and> rq_temperature r = 0 \<and>
     list_all (\<lambda>m. utf8_text (ms_role m) \<and> utf8_text (ms_content m)) (rq_messages r)"

lemma ascii_names:
  "utf8_text ''model''" "utf8_text ''messages''" "utf8_text ''stream''" "utf8_text ''max_tokens''"
  "utf8_text ''grammar''" "utf8_text ''role''" "utf8_text ''content''" "utf8_text ''choices''"
  "utf8_text ''created''" "utf8_text ''id''" "utf8_text ''object''" "utf8_text ''usage''" "utf8_text ''index''"
  "utf8_text ''finish_reason''" "utf8_text ''message''" "utf8_text ''completion_tokens''"
  "utf8_text ''prompt_tokens''" "utf8_text ''total_tokens''" "utf8_text ''assistant''"
  "utf8_text ''chatcmpl-mock''" "utf8_text ''chat.completion''"
  by code_simp+

lemma plain_show_int: "plain_json (JNum (show_int i))"
  by auto

lemma plain_messages:
  "list_all (\<lambda>m. utf8_text (ms_role m) \<and> utf8_text (ms_content m)) ms \<Longrightarrow> list_all plain_json (map message_json ms)"
  by (auto simp: list_all_iff message_json_def ascii_names)

lemma plain_request_json: "plain_request_text r \<Longrightarrow> plain_json (request_json ffmt r)"
  unfolding plain_request_text_def request_json_def
  by (auto simp: ascii_names plain_messages)

lemma read_request_json:
  assumes "plain_request_text r" and "\<not> rq_stream r"
  shows "read_request (json_compact (request_json ffmt r)) =
    \<lparr>mq_model = rq_model r, mq_messages = rq_messages r, mq_stream = False, mq_temperature = 0\<rparr>"
proof -
  have "json_parse (json_compact (request_json ffmt r)) = Some (request_json ffmt r)"
    using json_compact_roundtrip(1) [OF plain_request_json [OF assms(1)], of "[]"] by simp
  then have "read_request (json_compact (request_json ffmt r)) = loose_struct request_fields zero_request (request_json ffmt r)"
    by (simp add: read_request_def)
  also have "\<dots> = \<lparr>mq_model = rq_model r, mq_messages = rq_messages r, mq_stream = False, mq_temperature = 0\<rparr>"
    using assms
    by (simp add: request_json_def plain_request_text_def loose_struct_def request_names
        keep_def dec_string_def loose_messages_json zero_request_def)
  finally show ?thesis .
qed

text \<open>The reply, decoded by the client.\<close>

definition completion_json :: "int \<Rightarrow> string \<Rightarrow> scripted \<Rightarrow> string \<Rightarrow> json" where
  "completion_json now model r finish = JObj
       [(''choices'', JArr [JObj
          [(''finish_reason'', JStr finish), (''index'', JNum (show_int 0)),
           (''message'', JObj [(''content'', JStr (sd_content r)), (''role'', JStr ''assistant'')])]]),
        (''created'', JNum (show_int now)), (''id'', JStr ''chatcmpl-mock''), (''model'', JStr model),
        (''object'', JStr ''chat.completion''),
        (''usage'', JObj [(''completion_tokens'', JNum (show_int (word_count (sd_content r) + 1))),
           (''prompt_tokens'', JNum (show_int 8)),
           (''total_tokens'', JNum (show_int (word_count (sd_content r) + 9)))])]"

lemma json_completion_eq: "json_completion now model r finish = json_reply (completion_json now model r finish)"
  by (simp only: json_completion_def completion_json_def)

lemma plain_completion:
  "utf8_text model \<Longrightarrow> utf8_text (sd_content r) \<Longrightarrow> utf8_text finish \<Longrightarrow> plain_json (completion_json now model r finish)"
  unfolding completion_json_def by (auto simp: ascii_names)

lemma field_named_hit: "field_named ((k, f) # fs) k = Some (k, f)"
  by (simp add: field_named_def)

lemma field_named_skip:
  "k' \<noteq> k \<Longrightarrow> k \<in> fst ` set fs \<Longrightarrow> field_named ((k', f) # fs) k = field_named fs k"
  by (auto simp: field_named_def find_None_iff split: option.splits)

lemmas field_lookup = field_named_hit field_named_skip fld_def dec_string_def dec_int_def dec_list_def

lemma decode_completion:
  assumes "- (2 ^ 63) \<le> now" "now < 2 ^ 63" "word_count (sd_content r) + 9 < 2 ^ 63"
  shows "dec_struct response_fields zero_response (completion_json now model r finish) =
    Some \<lparr>cr_id = ''chatcmpl-mock'', cr_object = ''chat.completion'', cr_created = now, cr_model = model,
      cr_choices = [\<lparr>ch_index = 0, ch_message = \<lparr>ms_role = ''assistant'', ms_content = sd_content r\<rparr>, ch_finish = finish\<rparr>],
      cr_usage = \<lparr>us_prompt = 8, us_completion = word_count (sd_content r) + 1, us_total = word_count (sd_content r) + 9\<rparr>,
      cr_latency = 0\<rparr>"
proof -
  have w: "0 \<le> word_count (sd_content r)" by (simp add: word_count_def)
  note n = num_int_show [OF assms(1,2)] num_int_show [of 0] num_int_show [of 8]
    num_int_show [of "word_count (sd_content r) + 1"] num_int_show [of "word_count (sd_content r) + 9"]
  show ?thesis
    using n w assms(3)
    by (simp add: completion_json_def dec_struct_def response_fields_def choice_fields_def message_fields_def
        usage_fields_def field_lookup zero_response_def zero_choice_def zero_message_def)
qed

section \<open>Properties\<close>

text \<open>
  C21: The client reads what the mock was scripted to say.  For a request of plain text sent to a mock
  whose handler stays silent, the completion call returns the first queued reply: its content as the
  assistant's message, its finish reason (stop when none is given) and token counts that follow from
  its words; the reply leaves the queue, and the request is recorded as it was sent, with its model and
  messages decoded from the body the client wrote.
\<close>
theorem client_reads_scripted_reply:
  assumes "mk_queue s = r # q" and "\<And>x. mk_handler s x = None" and "sd_status r = 0"
    and "plain_request_text req" and "utf8_text (sd_content r)" and "utf8_text (sd_finish r)"
    and "- (2 ^ 63) \<le> mk_now s (length (mk_requests s))" and "mk_now s (length (mk_requests s)) < 2 ^ 63"
    and "word_count (sd_content r) + 9 < 2 ^ 63"
  shows "chat_completion (mock_server ffmt) base req s =
    (Inr \<lparr>cr_id = ''chatcmpl-mock'', cr_object = ''chat.completion'',
        cr_created = mk_now s (length (mk_requests s)), cr_model = rq_model req,
        cr_choices = [\<lparr>ch_index = 0, ch_message = \<lparr>ms_role = ''assistant'', ms_content = sd_content r\<rparr>,
          ch_finish = or_default (sd_finish r) ''stop''\<rparr>],
        cr_usage = \<lparr>us_prompt = 8, us_completion = word_count (sd_content r) + 1,
          us_total = word_count (sd_content r) + 9\<rparr>, cr_latency = 0\<rparr>,
     s\<lparr>mk_requests := mk_requests s @
          [\<lparr>rr_path = ''/v1/chat/completions'', rr_method = ''POST'', rr_model = rq_model req,
             rr_messages = rq_messages req, rr_stream = False, rr_temperature = 0,
             rr_body = json_compact (request_json ffmt (req\<lparr>rq_stream := False\<rparr>))\<rparr>],
       mk_queue := q\<rparr>)"
proof -
  let ?req = "req\<lparr>rq_stream := False\<rparr>" and ?now = "mk_now s (length (mk_requests s))"
  let ?body = "json_compact (request_json ffmt ?req)" and ?fin = "or_default (sd_finish r) ''stop''"
  have plain: "plain_request_text ?req" using assms(4) by (simp add: plain_request_text_def)
  have model: "utf8_text (rq_model req)" using assms(4) by (simp add: plain_request_text_def)
  have fin: "utf8_text ?fin" using assms(6) by (simp add: or_default_def byte_in_def)
  have "handle_chat ''POST'' ''/v1/chat/completions'' ?body s =
      (json_reply (completion_json ?now (rq_model req) r ?fin),
       s\<lparr>mk_requests := mk_requests s @
          [\<lparr>rr_path = ''/v1/chat/completions'', rr_method = ''POST'', rr_model = rq_model req,
             rr_messages = rq_messages req, rr_stream = False, rr_temperature = 0, rr_body = ?body\<rparr>],
         mk_queue := q\<rparr>)"
    using assms(1-3)
    by (simp add: handle_chat_def Let_def read_request_json [OF plain] mock_next_def json_completion_eq)
  moreover have "decode_first (dec_struct response_fields) zero_response
      (hr_body (json_reply (completion_json ?now (rq_model req) r ?fin))) =
      dec_struct response_fields zero_response (completion_json ?now (rq_model req) r ?fin)"
    using json_compact_roundtrip(2) [OF plain_completion [OF model assms(5) fin], of "[CHR 0x0A]"]
    by (simp add: decode_first_def json_reply_def)
  ultimately show ?thesis
    by (simp add: chat_completion_def post_def mock_server_def mock_route_def completions_path_def
        check_status_def json_reply_def decode_completion [OF assms(7-9)])
qed

definition sample_mock :: mock where
  "sample_mock = new_mock [] [] [] (\<lambda>x. None) (\<lambda>n. 7) [plain_reply ''hello world'']"

theorem client_reads_scripted_reply_witness:
  "map (ms_content \<circ> ch_message)
     (cr_choices (projr (fst (chat_completion (mock_server (\<lambda>x. [])) local_url
        (plain_request ''m'' [user_message ''hi''] 5) sample_mock)))) = [''hello world'']"
proof -
  have "mk_queue sample_mock = plain_reply ''hello world'' # []" "\<And>x. mk_handler sample_mock x = None"
    "mk_now sample_mock n = 7" for n
    by (simp_all add: sample_mock_def new_mock_def)
  moreover have "plain_request_text (plain_request ''m'' [user_message ''hi''] 5)"
    by (simp add: plain_request_text_def plain_request_def user_message_def byte_in_def)
  moreover have "utf8_text (sd_content (plain_reply ''hello world''))" "utf8_text (sd_finish (plain_reply ''hello world''))"
    "sd_status (plain_reply ''hello world'') = 0" "word_count (sd_content (plain_reply ''hello world'')) = 2"
    by code_simp+
  ultimately show ?thesis
    using client_reads_scripted_reply [of sample_mock "plain_reply ''hello world''" "[]"
        "plain_request ''m'' [user_message ''hi''] 5" "\<lambda>x. []" local_url]
    by (simp add: plain_reply_def)
qed

end
