(* ===== verification/OcTexts.thy ===== *)
theory OcTexts
  imports GoLib
begin

text \<open>
  The fixed texts of \<open>internal/opencode\<close> (\<open>config.go\<close>, \<open>pluginseed.go\<close>): the instruction files
  and the plugin that are staged for OpenCode, and the fixed parts of the rendered configuration.
\<close>

definition text_lines :: "string list \<Rightarrow> string" where
  "text_lines ls = join [CHR 0x0A] ls"

text \<open>The directives of a headless run.\<close>

definition tool_coaching_content :: string where
  \<open>tool_coaching_content = text_lines
     [''# Operating directives (aegis headless run)'',
      [],
      ''You are in a headless, air-gapped coding session. Every change MUST be made by'',
      ''calling a tool '' @ [CHR 0xE2, CHR 0x80, CHR 0x94] @ '' never print code, diffs, file contents, or "here is what I would'',
      ''do" as prose.'',
      [],
      ''- Edit an existing file with the **edit** tool; create one with **write**; run'',
      ''  commands or tests with **bash**; find code with **grep**/**glob**/**read**.'',
      ''- Inspect before you change: read the target file, then make one focused edit.'',
      ''- A reply that contains only prose and no tool call is a failure '' @ [CHR 0xE2, CHR 0x80, CHR 0x94] @ '' call a tool.'',
      ''- When the task is done and its tests pass, stop.''] @ [CHR 0x0A]\<close>

text \<open>The directives of an interactive session.\<close>

definition interactive_directives_content :: string where
  \<open>interactive_directives_content = text_lines
     [''# Operating directives'',
      [],
      ''You are an aegis coding agent working directly in a live repository. Match your response to'',
      ''the request: **do** the work when asked to build/fix/change; **answer in depth** when asked'',
      ''to explain, analyze, plan, or compare. Always read the real code first '' @ [CHR 0xE2, CHR 0x80, CHR 0x94] @ '' precision follows'',
      ''from looking.'',
      [],
      ''## When asked to make a change'',
      ''- Act with tools: **edit**/**write** to change files, **bash** to run commands and tests,'',
      ''  **grep**/**glob**/**read** to find and inspect code. Don't print code as prose when the job'',
      ''  is to change it.'',
      ''- Trace problems to their true root and confirm with evidence before changing anything.'',
      ''- Carry each task through: the follow-on edits it implies, the test that proves it, the next'',
      ''  step. Verify, then keep going until it is actually done.'',
      [],
      ''## When asked to explain, analyze, plan, or compare'',
      ''- Answer thoroughly and think it through '' @ [CHR 0xE2, CHR 0x80, CHR 0x94] @ '' do not give a shallow summary. Investigate with'',
      ''  **read**/**grep** first, then explain with specifics: the actual files, functions,'',
      ''  requirements, trade-offs, and *how* to accomplish the work, not just what exists.'',
      ''- Structure a substantial answer (short sections or a list). Depth and concrete detail are'',
      ''  the goal here, not brevity '' @ [CHR 0xE2, CHR 0x80, CHR 0x94] @ '' a one-line reply to a real question is a failure.'',
      [],
      ''## Always'',
      ''- When a detail is ambiguous, choose a sound default and proceed; state what you assumed.'',
      ''- Ground every claim in the real code; be concrete. Close with a brief, concrete summary of'',
      ''  what you found or changed.''] @ [CHR 0x0A]\<close>

text \<open>The plugin that trims the context of a model call.\<close>

definition context_efficiency_plugin :: string where
  \<open>context_efficiency_plugin = text_lines
     [''export const ContextEfficiency = async () => ({'',
      ''  "experimental.chat.messages.transform": async (_input, output) => {'',
      ''    const MAX = 8000'',
      ''    const KEEP_FIRST = 2, KEEP_RECENT = 6'',
      ''    const trunc = (s) => s.slice(0, MAX) + "'' @ [CHR 0x5C] @ ''n... [aegis: truncated " + (s.length - MAX) + " chars'' @
       '' to preserve context]"'',
      ''    const msgs = (output && output.messages) || []'',
      ''    // PERSONA-002: gemma is a reasoning model '' @ [CHR 0xE2, CHR 0x80, CHR 0x94] @ '' its substance and cross-turn continuity live in the'',
      ''    // reasoning parts. Keep reasoning on the most-recent turns; strip it only from OLDER history to'',
      ''    // reclaim context (PERF-005). KEEP_REASONING is how many recent reasoning-bearing turns'' @
       '' survive.'',
      ''    const KEEP_REASONING = 3'',
      ''    const reasoningMsgs = []'',
      ''    msgs.forEach((m, i) => { if (m && Array.isArray(m.parts) && m.parts.some((p) => p && p.type ==='' @
       '' "reasoning")) reasoningMsgs.push(i) })'',
      ''    // keepFrom = index of the oldest reasoning turn we preserve; -1 keeps them all (few enough to'' @
       '' afford).'',
      ''    const keepFrom = reasoningMsgs.length > KEEP_REASONING ? reasoningMsgs[reasoningMsgs.length -'' @
       '' KEEP_REASONING] : -1'',
      ''    // PERF-004: bound oversized tool output on every message; strip only STALE (pre-window)'' @
       '' reasoning.'',
      ''    for (let i = 0; i < msgs.length; i++) {'',
      ''      const msg = msgs[i]'',
      ''      if (!msg || !Array.isArray(msg.parts)) continue'',
      ''      if (i < keepFrom) msg.parts = msg.parts.filter((p) => p && p.type !== "reasoning")'',
      ''      for (const p of msg.parts) {'',
      ''        if (!p) continue'',
      ''        const inv = p.toolInvocation'',
      ''        if (inv && typeof inv.result === "string" && inv.result.length > MAX) inv.result ='' @
       '' trunc(inv.result)'',
      ''        const st = p.state'',
      ''        if (st && typeof st.output === "string" && st.output.length > MAX) st.output ='' @
       '' trunc(st.output)'',
      ''      }'',
      ''    }'',
      ''    // LONGRUN-002 (deterministic pruning): collect every tool observation in order.'',
      ''    const tools = []'',
      ''    for (const msg of msgs) {'',
      ''      if (!msg || !Array.isArray(msg.parts)) continue'',
      ''      for (const p of msg.parts) {'',
      ''        if (!p) continue'',
      ''        const inv = p.toolInvocation'',
      ''        if (inv && typeof inv.result === "string") {'',
      ''          tools.push({ key: (inv.toolName || "") + "'' @ [CHR 0x5C] @ ''x00" + JSON.stringify(inv.args || null), get:'' @
       '' () => inv.result, set: (v) => { inv.result = v } })'',
      ''          continue'',
      ''        }'',
      ''        const st = p.state'',
      ''        if (st && typeof st.output === "string") {'',
      ''          tools.push({ key: (p.tool || p.toolName || "") + "'' @ [CHR 0x5C] @ ''x00" + JSON.stringify(st.input ||'' @
       '' st.args || null), get: () => st.output, set: (v) => { st.output = v } })'',
      ''        }'',
      ''      }'',
      ''    }'',
      ''    // Dedupe repeated identical tool calls (e.g. re-reading the same file): keep the last, mask'' @
       '' earlier.'',
      ''    const last = new Map()'',
      ''    tools.forEach((t, i) => last.set(t.key, i))'',
      ''    tools.forEach((t, i) => { if (last.get(t.key) !== i) t.set("[aegis: superseded by a later'' @
       '' identical call]") })'',
      ''    // Keep the first-N and most-recent-M observations; elide the stale middle of a long run.'',
      ''    if (tools.length > KEEP_FIRST + KEEP_RECENT) {'',
      ''      for (let i = KEEP_FIRST; i < tools.length - KEEP_RECENT; i++) {'',
      ''        const cur = tools[i].get()'',
      ''        if (cur && cur.indexOf("[aegis:") !== 0) tools[i].set("[aegis: elided stale observation]")'',
      ''      }'',
      ''    }'',
      ''  },'',
      ''})'',
      ''export default ContextEfficiency''] @ [CHR 0x0A]\<close>

text \<open>The intent layer of a rendered configuration.\<close>

definition mcp_block :: string where
  \<open>mcp_block = text_lines
     ['','',
      ''  "mcp": {'',
      ''    "rtmx": { "type": "local", "enabled": true, "command": ["rtmx", "mcp-server", "--stdio"] }'',
      ''  }'']\<close>

text \<open>The slash commands of a rendered configuration.\<close>

definition command_block :: string where
  \<open>command_block = text_lines
     ['','',
      ''  "command": {'',
      ''    "rtmx": {'',
      ''      "description": "rtmx intent: next/claim/verify/status/health/backlog",'',
      ''      "template": "Run the bundled rtmx intent engine: execute the shell command 'rtmx $ARGUMENTS'' @ [CHR 0x27] @
       '' and show its full output verbatim, then stop '' @ [CHR 0xE2, CHR 0x80, CHR 0x94] @ '' do not edit files. rtmx subcommands: next, claim'' @
       '' <id>, verify, status, health, backlog. If no arguments were given, run 'rtmx status'."'',
      ''    },'',
      ''    "trace": {'',
      ''      "description": "Requirements traceability '' @ [CHR 0xE2, CHR 0x80, CHR 0x94] @ '' status, completion %, the requirement->test'' @
       '' matrix",'',
      ''      "template": "Show the requirements traceability state, then stop '' @ [CHR 0xE2, CHR 0x80, CHR 0x94] @ '' do not edit files. Run the'' @
       '' shell commands 'rtmx status' (the requirement->test matrix: each requirement's status'' @
       '' COMPLETE/PARTIAL/MISSING and its mapped test) and 'rtmx health' (completion %, orphaned'' @
       '' requirements/tests, reciprocity, the gates) and show their output verbatim. Lead with the'' @
       '' headline: total requirements and the COMPLETE / PARTIAL / MISSING breakdown with the completion'' @
       '' percentage. This is the live intent state; re-run /trace after closing a requirement to see it'' @
       '' update."'',
      ''    },'',
      ''    "map": {'',
      ''      "description": "Repo map '' @ [CHR 0xE2, CHR 0x80, CHR 0x94] @ '' a ranked, token-budgeted skeleton of the codebase (real symbols to'' @
       '' call)",'',
      ''      "template": "Run the shell command 'aegis map $ARGUMENTS' and show its full output verbatim,'' @
       '' then stop '' @ [CHR 0xE2, CHR 0x80, CHR 0x94] @ '' do not edit files. It is a ranked, token-budgeted skeleton (definition signatures) of'' @
       '' the repository built by static analysis (no model); use it to locate and call real symbols instead'' @
       '' of loading whole files. Pass identifiers or paths as arguments to focus the map on the current'' @
       '' task."'',
      ''    },'',
      ''    "licenses": {'',
      ''      "description": "Third-party software notices '' @ [CHR 0xE2, CHR 0x80, CHR 0x94] @ '' the open-source components aegis is built on",'',
      ''      "template": "Show aegis's third-party software disclosures verbatim, exactly as written'' @
       '' below, then stop '' @ [CHR 0xE2, CHR 0x80, CHR 0x94] @ '' do not edit files or add commentary:'' @ [CHR 0x5C] @ ''n'' @ [CHR 0x5C] @ ''naegis is built on and bundles these'' @
       '' open-source components, with gratitude:'' @ [CHR 0x5C] @ ''n  '' @ [CHR 0xE2, CHR 0x80, CHR 0xA2] @ '' OpenCode '' @ [CHR 0xE2, CHR 0x80, CHR 0x94] @ '' the agentic TUI/harness '' @ [CHR 0xE2, CHR 0x80, CHR 0x94] @ '' MIT License,'' @
       '' Copyright (c) 2025 opencode'' @ [CHR 0x5C] @ ''n  '' @ [CHR 0xE2, CHR 0x80, CHR 0xA2] @ '' llama.cpp '' @ [CHR 0xE2, CHR 0x80, CHR 0x94] @ '' local model serving '' @ [CHR 0xE2, CHR 0x80, CHR 0x94] @ '' MIT License, Copyright (c)'' @
       '' 2023-2024 The ggml authors'' @ [CHR 0x5C] @ ''n  '' @ [CHR 0xE2, CHR 0x80, CHR 0xA2] @ '' ripgrep '' @ [CHR 0xE2, CHR 0x80, CHR 0x94] @ '' fast code search '' @ [CHR 0xE2, CHR 0x80, CHR 0x94] @ '' MIT License / The Unlicense,'' @
       '' Copyright (c) 2016 Andrew Gallant'' @ [CHR 0x5C] @ ''n  '' @ [CHR 0xE2, CHR 0x80, CHR 0xA2] @ '' rtmx '' @ [CHR 0xE2, CHR 0x80, CHR 0x94] @ '' the requirements / intent engine '' @ [CHR 0xE2, CHR 0x80, CHR 0x94] @ '' (c) ioTACTICAL'' @ [CHR 0x5C] @ ''n '' @
       '' '' @ [CHR 0xE2, CHR 0x80, CHR 0xA2] @ '' Gemma '' @ [CHR 0xE2, CHR 0x80, CHR 0x94] @ '' the default local model weights '' @ [CHR 0xE2, CHR 0x80, CHR 0x94] @ '' (c) Google, used under the Gemma Terms of Use'' @ [CHR 0x5C] @ ''n'' @ [CHR 0x5C] @ ''nThe'' @
       '' full license texts ship in THIRD-PARTY-NOTICES.md alongside the aegis binary."'',
      ''    }'',
      ''  }'']\<close>

text \<open>A seed file.\<close>

definition seed_package_json :: string where
  \<open>seed_package_json = text_lines
     [''{"name":"opencode-config","private":true,"dependencies":{"@opencode-ai/plugin":"*"}}''] @ [CHR 0x0A]\<close>

text \<open>A seed file.\<close>

definition seed_package_lock :: string where
  \<open>seed_package_lock = text_lines
     [''{"name":"opencode-config","lockfileVersion":3,"requires":true,"packages":{"":{"dependencies":{"@open'' @
       ''code-ai/plugin":"*"}},"node_modules/@opencode-ai/plugin":{"version":"0.0.0"}}}''] @ [CHR 0x0A]\<close>

text \<open>A seed file.\<close>

definition seed_module_package :: string where
  \<open>seed_module_package = text_lines
     [''{"name":"@opencode-ai/plugin","version":"0.0.0","type":"module","main":"index.js"}''] @ [CHR 0x0A]\<close>

text \<open>A seed file.\<close>

definition seed_module_index :: string where
  \<open>seed_module_index = text_lines
     [''export {};''] @ [CHR 0x0A]\<close>

end
