(* ===== verification/OcLaunch.thy ===== *)
theory OcLaunch
  imports OcTexts Config Serving RepoMap JsonCompact
begin

text \<open>
  The launch side of \<open>internal/opencode\<close>: where the bundled helpers are looked for
  (\<open>libexec.go\<close>, \<open>launch.go\<close>, \<open>ripgrep.go\<close>, \<open>rtmx.go\<close>), the staged configuration directory
  (\<open>pluginseed.go\<close>), the staged repo map (\<open>repomap.go\<close>), the rendered configuration (\<open>config.go\<close>) and
  the launch environment (\<open>serve.go\<close>).  The host is a record of what the process can ask it; files
  are those of the flat file system, named by their absolute paths.
\<close>

section \<open>The host\<close>

record host =
  ho_self :: "string option"
  ho_cwd :: "string option"
  ho_cache :: "string option"
  ho_environ :: "string list"
  ho_range :: "(string \<times> string) list \<Rightarrow> (string \<times> string) list"
  ho_exec :: "string \<Rightarrow> bool"
  ho_look :: "string \<Rightarrow> string option"

text \<open>
  \<open>os.Getenv\<close>: the first entry of the environment counts; a child process sees the last one
  (\<open>exec.Cmd\<close> drops the earlier duplicates).  \<open>ho_range\<close> is the order in which the runtime ranges
  over the map of seed files.
\<close>

definition env_value :: "string list \<Rightarrow> string \<Rightarrow> string option" where
  "env_value env k = map_option (drop (Suc (length k))) (find (\<lambda>e. has_prefix e (k @ ''='')) env)"

definition child_env :: "string list \<Rightarrow> string \<Rightarrow> string option" where
  "child_env env k = env_value (rev env) k"

definition ho_env :: "host \<Rightarrow> string \<Rightarrow> string" where
  "ho_env h k = (case env_value (ho_environ h) k of None \<Rightarrow> [] | Some v \<Rightarrow> v)"

definition abs_of :: "host \<Rightarrow> string \<Rightarrow> string" where
  "abs_of h p =
     (if is_abs p then path_clean p
      else case ho_cwd h of None \<Rightarrow> p | Some d \<Rightarrow> path_join [d, p])"

definition libexec_dirs :: "host \<Rightarrow> string list" where
  "libexec_dirs h =
     (if ho_env h ''AEGIS_LIBEXEC'' \<noteq> [] then [ho_env h ''AEGIS_LIBEXEC''] else []) @
     (case ho_self h of
        None \<Rightarrow> []
      | Some self \<Rightarrow>
          let prefix = path_dir (path_dir self)
          in [path_join [prefix, ''lib'', ''aegis''], path_join [prefix, ''libexec'', ''aegis''],
              path_join [prefix, ''libexec'']])"

text \<open>The candidates of a bundled helper: beside the executable, in the package layout, in the tree.\<close>

definition helper_candidates :: "host \<Rightarrow> string \<Rightarrow> string \<Rightarrow> string list" where
  "helper_candidates h nm staged =
     (case ho_self h of
        None \<Rightarrow> []
      | Some self \<Rightarrow> [path_join [path_dir self, nm], path_join [path_dir self, staged]]) @
     map (\<lambda>d. path_join [d, nm]) (libexec_dirs h) @ [staged]"

definition first_executable :: "host \<Rightarrow> string list \<Rightarrow> string option" where
  "first_executable h cands = map_option (abs_of h) (find (ho_exec h) cands)"

datatype launch_error = BinaryMissing | NotExecutable string

definition staged_opencode :: string where "staged_opencode = ''deploy/opencode/bin/opencode''"
definition staged_ripgrep :: string where "staged_ripgrep = ''deploy/opencode/bin/rg''"
definition staged_rtmx :: string where "staged_rtmx = ''deploy/rtmx/bin/rtmx''"
definition staged_seed :: string where "staged_seed = ''deploy/opencode/oc-config/opencode''"

definition resolve_binary :: "host \<Rightarrow> string \<Rightarrow> launch_error + string" where
  "resolve_binary h explicit =
     (if explicit \<noteq> [] then
        (if ho_exec h explicit then Inr (abs_of h explicit) else Inl (NotExecutable explicit))
      else case ho_look h ''opencode'' of
        Some p \<Rightarrow> Inr (abs_of h p)
      | None \<Rightarrow>
          (case first_executable h (helper_candidates h ''opencode'' staged_opencode) of
             Some p \<Rightarrow> Inr p
           | None \<Rightarrow> Inl BinaryMissing))"

definition resolve_ripgrep :: "host \<Rightarrow> string option" where
  "resolve_ripgrep h = first_executable h (helper_candidates h ''rg'' staged_ripgrep)"

definition resolve_rtmx :: "host \<Rightarrow> string option" where
  "resolve_rtmx h = first_executable h (helper_candidates h ''rtmx'' staged_rtmx)"

definition hardened_path :: "host \<Rightarrow> string" where
  "hardened_path h =
     (let dirs = (case resolve_ripgrep h of None \<Rightarrow> [] | Some rg \<Rightarrow> [path_dir rg]);
          dirs1 = (case resolve_rtmx h of
                     None \<Rightarrow> dirs
                   | Some r \<Rightarrow> if path_dir r \<in> set dirs then dirs else dirs @ [path_dir r])
      in if dirs1 = [] then []
         else join '':'' (dirs1 @ (if ho_env h ''PATH'' \<noteq> [] then [ho_env h ''PATH''] else [])))"

section \<open>The staged directory\<close>

definition plugin_file :: string where "plugin_file = ''aegis-context-efficiency.js''"
definition coaching_file :: string where "coaching_file = ''tool-coaching.md''"
definition interactive_file :: string where "interactive_file = ''interactive-directives.md''"
definition repo_map_file :: string where "repo_map_file = ''repo-map.md''"

definition plugin_seed_files :: "(string \<times> string) list" where
  "plugin_seed_files =
     [(plugin_file, context_efficiency_plugin),
      (''package.json'', seed_package_json),
      (''package-lock.json'', seed_package_lock),
      (''node_modules/@opencode-ai/plugin/package.json'', seed_module_package),
      (''node_modules/@opencode-ai/plugin/index.js'', seed_module_index)]"

text \<open>A missing file is written, after its directory when \<open>mk\<close> is set; an existing one stays.\<close>

definition stage_file :: "bool \<Rightarrow> string \<Rightarrow> string \<Rightarrow> fs \<Rightarrow> bool \<times> fs" where
  "stage_file mk p content f =
     (if fs_exists p f then (True, f)
      else case (if mk then fs_mkdir_all (path_dir p) f else (True, f)) of
        (False, f1) \<Rightarrow> (False, f1)
      | (True, f1) \<Rightarrow> fs_write p content f1)"

fun stage_files :: "string \<Rightarrow> (string \<times> string) list \<Rightarrow> fs \<Rightarrow> bool \<times> fs" where
  "stage_files dir [] f = (True, f)"
| "stage_files dir ((rel, content) # rest) f =
     (case stage_file True (path_join [dir, rel]) content f of
        (False, f1) \<Rightarrow> (False, f1)
      | (True, f1) \<Rightarrow> stage_files dir rest f1)"

definition stage_plugin_seed :: "host \<Rightarrow> string \<Rightarrow> fs \<Rightarrow> bool \<times> fs" where
  "stage_plugin_seed h dir f = stage_files dir (ho_range h plugin_seed_files) f"

definition stage_seed :: "host \<Rightarrow> string \<Rightarrow> fs \<Rightarrow> bool \<times> fs" where
  "stage_seed h dir f =
     (case stage_plugin_seed h dir f of
        (False, f1) \<Rightarrow> (False, f1)
      | (True, f1) \<Rightarrow>
          (case stage_file False (path_join [dir, coaching_file]) tool_coaching_content f1 of
             (False, f2) \<Rightarrow> (False, f2)
           | (True, f2) \<Rightarrow> stage_file False (path_join [dir, interactive_file]) interactive_directives_content f2))"

definition seed_candidates :: "host \<Rightarrow> string list" where
  "seed_candidates h =
     (case ho_self h of None \<Rightarrow> [] | Some self \<Rightarrow> [path_join [path_dir self, ''oc-config'', ''opencode'']]) @
     map (\<lambda>d. path_join [d, ''oc-config'', ''opencode'']) (libexec_dirs h) @
     (case ho_cache h of None \<Rightarrow> [] | Some c \<Rightarrow> [path_join [c, ''aegis'', ''oc-config'', ''opencode'']]) @
     [staged_seed]"

fun first_staged :: "host \<Rightarrow> string list \<Rightarrow> fs \<Rightarrow> string option \<times> fs" where
  "first_staged h [] f = (None, f)"
| "first_staged h (c # cs) f =
     (case stage_seed h c f of
        (True, f1) \<Rightarrow> (Some c, f1)
      | (False, f1) \<Rightarrow> first_staged h cs f1)"

definition config_seed_dir :: "host \<Rightarrow> fs \<Rightarrow> string option \<times> fs" where
  "config_seed_dir h f = first_staged h (map (abs_of h) (seed_candidates h)) f"

definition repo_map_heading :: string where
  "repo_map_heading =
     ''# Repository map (auto-generated by aegis via static analysis '' @ [CHR 0xE2, CHR 0x80, CHR 0x94] @
     '' no model)'' @ [CHR 0x0A, CHR 0x0A] @
     ''A ranked skeleton of this codebase. Prefer calling these real symbols over guessing or loading whole files.'' @
     [CHR 0x0A, CHR 0x0A]"

definition stage_repo_map ::
  "(string \<Rightarrow> go_file option) \<Rightarrow> string \<Rightarrow> string \<Rightarrow> tree option \<Rightarrow> fs \<Rightarrow> bool \<times> fs" where
  "stage_repo_map parse seed rt t f =
     (case build parse rt t [] 6000 of
        None \<Rightarrow> (False, f)
      | Some out \<Rightarrow>
          if trim_space out = [] then (False, f)
          else fs_write (path_join [seed, repo_map_file]) (repo_map_heading @ out) f)"

section \<open>The rendered configuration\<close>

text \<open>
  The verb \<open>%q\<close>: a double-quoted Go string.  Every valid multi-byte rune is taken to be printable.
\<close>

definition go_escape :: "char \<Rightarrow> string" where
  "go_escape c =
     (if c = CHR 0x22 \<or> c = CHR 0x5C then [CHR 0x5C, c]
      else if c = CHR 0x07 then CHR 0x5C # ''a'' else if c = CHR 0x08 then CHR 0x5C # ''b''
      else if c = CHR 0x0C then CHR 0x5C # ''f'' else if c = CHR 0x0A then CHR 0x5C # ''n''
      else if c = CHR 0x0D then CHR 0x5C # ''r'' else if c = CHR 0x09 then CHR 0x5C # ''t''
      else if c = CHR 0x0B then CHR 0x5C # ''v''
      else if byte_in 32 126 c then [c]
      else CHR 0x5C # CHR ''x'' # [hex_low (of_char c div 16), hex_low (of_char c mod 16)])"

fun go_quote_body :: "nat \<Rightarrow> string \<Rightarrow> string" where
  "go_quote_body 0 s = []"
| "go_quote_body (Suc n) s =
     (case s of
        [] \<Rightarrow> []
      | c # r \<Rightarrow>
          if utf8_len s \<le> 1 then go_escape c @ go_quote_body n r
          else take (utf8_len s) s @ go_quote_body n (drop (utf8_len s) s))"

definition go_quote :: "string \<Rightarrow> string" where
  "go_quote s = [CHR 0x22] @ go_quote_body (length s) s @ [CHR 0x22]"

definition real_member :: "(real \<Rightarrow> string) \<Rightarrow> string \<Rightarrow> real option \<Rightarrow> (string \<times> json) list" where
  "real_member ffmt k v = (case v of None \<Rightarrow> [] | Some x \<Rightarrow> [(k, JNum (ffmt x))])"

definition int_member :: "string \<Rightarrow> int option \<Rightarrow> (string \<times> json) list" where
  "int_member k v = (case v of None \<Rightarrow> [] | Some x \<Rightarrow> [(k, JNum (show_int x))])"

definition bool_member :: "string \<Rightarrow> bool option \<Rightarrow> (string \<times> json) list" where
  "bool_member k v = (case v of None \<Rightarrow> [] | Some x \<Rightarrow> [(k, JBool x)])"

definition positive :: "int \<Rightarrow> int option" where
  "positive i = (if i > 0 then Some i else None)"

text \<open>The marshalled maps have their keys in order.\<close>

definition agent_options :: "(real \<Rightarrow> string) \<Rightarrow> config \<Rightarrow> (string \<times> json) list" where
  "agent_options ffmt cfg =
     (let t = (case cf_tuning cfg of Some t \<Rightarrow> t | None \<Rightarrow> zero_tuning)
      in real_member ffmt ''min_p'' (tu_min_p t) @ int_member ''num_ctx'' (tu_num_ctx t) @
         int_member ''num_predict'' (positive (cf_max_output_tokens cfg)) @
         real_member ffmt ''repeat_penalty'' (tu_repeat_penalty t) @ bool_member ''think'' (tu_think t) @
         int_member ''top_k'' (tu_top_k t))"

definition agent_build :: "(real \<Rightarrow> string) \<Rightarrow> config \<Rightarrow> (string \<times> json) list" where
  "agent_build ffmt cfg =
     (let t = (case cf_tuning cfg of Some t \<Rightarrow> t | None \<Rightarrow> zero_tuning); opts = agent_options ffmt cfg
      in (if opts = [] then [] else [(''options'', JObj opts)]) @
         int_member ''steps'' (positive (cf_max_steps cfg)) @
         real_member ffmt ''temperature'' (tu_temperature t) @ real_member ffmt ''top_p'' (tu_top_p t))"

definition lf2 :: string where "lf2 = [CHR 0x0A] @ ''  ''"

definition render_agent :: "(real \<Rightarrow> string) \<Rightarrow> config \<Rightarrow> string" where
  \<open>render_agent ffmt cfg =
     (let b = agent_build ffmt cfg
      in if b = [] then []
         else '','' @ lf2 @ ''"agent": '' @ json_compact (JObj [(''build'', JObj b)]))\<close>

definition instruction_list :: "config \<Rightarrow> string \<Rightarrow> fs \<Rightarrow> string" where
  "instruction_list cfg seed f =
     (let directives = (if cf_interactive cfg then interactive_file else coaching_file);
          rm = path_join [seed, repo_map_file]
      in go_quote (path_join [seed, directives]) @
         (if cf_interactive cfg \<and> fs_exists rm f then '', '' @ go_quote rm else []))"

definition render_instructions :: "host \<Rightarrow> config \<Rightarrow> fs \<Rightarrow> string \<times> fs" where
  \<open>render_instructions h cfg f =
     (case config_seed_dir h f of
        (None, f1) \<Rightarrow> ([], f1)
      | (Some seed, f1) \<Rightarrow> ('','' @ lf2 @ ''"instructions": ['' @ instruction_list cfg seed f1 @ '']'', f1))\<close>

definition render_plugin :: "host \<Rightarrow> fs \<Rightarrow> string \<times> fs" where
  \<open>render_plugin h f =
     (case config_seed_dir h f of
        (None, f1) \<Rightarrow> ([], f1)
      | (Some seed, f1) \<Rightarrow>
          ('','' @ lf2 @ ''"plugin": ['' @ go_quote (path_join [seed, plugin_file]) @ '']'', f1))\<close>

definition render_limit :: "config \<Rightarrow> string" where
  \<open>render_limit cfg =
     (let ctx = (if cf_ctx_size cfg \<le> 0 then default_ctx_size else cf_ctx_size cfg);
          out = (if cf_max_output_tokens cfg \<le> 0 then default_max_output_tokens else cf_max_output_tokens cfg)
      in '', "limit": { "context": '' @ show_int ctx @ '', "output": '' @ show_int out @ '' }'')\<close>

definition render_opencode_config :: "(real \<Rightarrow> string) \<Rightarrow> host \<Rightarrow> config \<Rightarrow> bool \<Rightarrow> fs \<Rightarrow> string \<times> fs" where
  \<open>render_opencode_config ffmt h cfg intent f =
     (let model = (if cf_model_id cfg = [] then ''local-moe'' else cf_model_id cfg);
          base = cf_endpoint cfg @ ''/v1'';
          mcp = (if intent then mcp_block else []);
          command = (if intent then command_block else []);
          (instructions, f1) = render_instructions h cfg f;
          (plugin, f2) = render_plugin h f1
      in (text_lines
            [''{'',
             ''  "$schema": "https://opencode.ai/config.json",'',
             ''  "share": "disabled",'',
             ''  "autoupdate": false,'',
             ''  "provider": {'',
             ''    "local": {'',
             ''      "npm": "@ai-sdk/openai-compatible",'',
             ''      "options": { "baseURL": '' @ go_quote base @ '', "apiKey": "not-needed-loopback" },'',
             ''      "models": { '' @ go_quote model @ '': { "name": '' @ go_quote model @ render_limit cfg @ '' } }'',
             ''    }'',
             ''  },'',
             ''  "model": '' @ go_quote (''local/'' @ model) @ mcp @ command @ instructions @ plugin @
               render_agent ffmt cfg,
             ''}''], f2))\<close>

section \<open>The launch environment\<close>

definition airgap_env :: "(real \<Rightarrow> string) \<Rightarrow> host \<Rightarrow> config \<Rightarrow> bool \<Rightarrow> fs \<Rightarrow> string list \<times> fs" where
  "airgap_env ffmt h cfg intent f =
     (let (content, f1) = render_opencode_config ffmt h cfg intent f;
          p = hardened_path h;
          (seed, f2) = config_seed_dir h f1
      in ([''OPENCODE_AUTOUPDATE=0'', ''OPENCODE_DISABLE_AUTOUPDATE=1'', ''OPENCODE_TELEMETRY=0'',
           ''OPENCODE_DISABLE_SHARE=1'', ''OPENCODE_DISABLE_MODELS_FETCH=1'', ''OPENCODE_PURE=1'',
           ''OPENCODE_DISABLE_LSP_DOWNLOAD=1'', ''OPENAI_BASE_URL='' @ cf_endpoint cfg @ ''/v1'',
           ''OPENAI_API_KEY=not-needed-loopback'', ''OPENCODE_CONFIG_CONTENT='' @ content] @
          (if p \<noteq> [] then [''PATH='' @ p] else []) @
          (case seed of None \<Rightarrow> [] | Some d \<Rightarrow> [''XDG_CONFIG_HOME='' @ path_dir d]), f2))"

definition hardened_env :: "(real \<Rightarrow> string) \<Rightarrow> host \<Rightarrow> config \<Rightarrow> fs \<Rightarrow> string list \<times> fs" where
  "hardened_env ffmt h cfg f = airgap_env ffmt h (cfg\<lparr>cf_interactive := True\<rparr>) True f"

text \<open>
  The launch of the TUI.  The repo map is staged by a goroutine of its own: before the configuration
  is rendered, after it, or not at all when the process has ended by then.
\<close>

datatype staging = StagedBefore | StagedAfter | NotStaged

definition launch_stage ::
  "(string \<Rightarrow> go_file option) \<Rightarrow> tree option \<Rightarrow> host \<Rightarrow> string option \<Rightarrow> fs \<Rightarrow> fs" where
  "launch_stage parse t h seed f =
     (case (seed, ho_cwd h) of
        (Some d, Some cwd) \<Rightarrow> snd (stage_repo_map parse d cwd t f)
      | x \<Rightarrow> f)"

definition launch_command ::
  "(real \<Rightarrow> string) \<Rightarrow> (string \<Rightarrow> go_file option) \<Rightarrow> tree option \<Rightarrow> staging \<Rightarrow> host \<Rightarrow> config \<Rightarrow> string \<Rightarrow> fs
     \<Rightarrow> string list \<times> fs" where
  "launch_command ffmt parse t st h cfg config_path f =
     (let cfg1 = cfg\<lparr>cf_interactive := True\<rparr>;
          (seed, f1) = config_seed_dir h f;
          f2 = (if st = StagedBefore then launch_stage parse t h seed f1 else f1);
          (air, f3) = airgap_env ffmt h cfg1 True f2;
          f4 = (if st = StagedAfter then launch_stage parse t h seed f3 else f3)
      in (ho_environ h @ air @ (if config_path \<noteq> [] then [''OPENCODE_CONFIG='' @ config_path] else []), f4))"

text \<open>\<open>Launch\<close>: \<open>run\<close> is the started program, \<open>None\<close> when it ends well.\<close>

datatype launch_failure = LaunchResolve launch_error | LaunchRun string

definition launch ::
  "(real \<Rightarrow> string) \<Rightarrow> (string \<Rightarrow> go_file option) \<Rightarrow> tree option \<Rightarrow> staging \<Rightarrow>
     (string \<Rightarrow> string list \<Rightarrow> string option) \<Rightarrow> host \<Rightarrow> config \<Rightarrow> string \<Rightarrow> string \<Rightarrow> fs
     \<Rightarrow> launch_failure option \<times> fs" where
  "launch ffmt parse t st run h cfg explicit config_path f =
     (case resolve_binary h explicit of
        Inl e \<Rightarrow> (Some (LaunchResolve e), f)
      | Inr bin \<Rightarrow>
          (case launch_command ffmt parse t st h cfg config_path f of
             (env, f1) \<Rightarrow> (map_option LaunchRun (run bin env), f1)))"

end
