(* ===== verification/OcLaunchProps.thy ===== *)
theory OcLaunchProps
  imports OcLaunch
begin

text \<open>
  What the launch side of \<open>internal/opencode\<close> promises: a child process sees the hardening markers
  whatever the inherited environment says, the bundled helpers come first on its path, and the
  staged directory is complete and never overwrites a file.
\<close>

section \<open>What a child process sees\<close>

definition hardening_markers :: "(string \<times> string) list" where
  "hardening_markers =
     [(''OPENCODE_AUTOUPDATE'', ''0''), (''OPENCODE_DISABLE_AUTOUPDATE'', ''1''), (''OPENCODE_TELEMETRY'', ''0''),
      (''OPENCODE_DISABLE_SHARE'', ''1''), (''OPENCODE_DISABLE_MODELS_FETCH'', ''1''), (''OPENCODE_PURE'', ''1''),
      (''OPENCODE_DISABLE_LSP_DOWNLOAD'', ''1''), (''OPENAI_API_KEY'', ''not-needed-loopback'')]"

lemma env_value_append:
  "env_value (xs @ ys) k = (case env_value xs k of None \<Rightarrow> env_value ys k | Some v \<Rightarrow> Some v)"
  by (induction xs) (auto simp: env_value_def)

lemma env_value_Nil [simp]: "env_value [] k = None"
  by (simp add: env_value_def)

lemma env_value_Cons:
  "env_value (x # xs) k = (if has_prefix x (k @ ''='') then Some (drop (Suc (length k)) x) else env_value xs k)"
  by (simp add: env_value_def)

lemma child_env_append:
  "child_env (xs @ ys) k = (case child_env ys k of None \<Rightarrow> child_env xs k | Some v \<Rightarrow> Some v)"
  by (simp add: child_env_def env_value_append split: option.split)

lemma child_env_snoc:
  "child_env (xs @ [x]) k = (if has_prefix x (k @ ''='') then Some (drop (Suc (length k)) x) else child_env xs k)"
  by (simp add: child_env_def env_value_Cons)

lemma child_env_Nil [simp]: "child_env [] k = None"
  by (simp add: child_env_def)

lemma child_env_Cons:
  "child_env (x # xs) k =
     (case child_env xs k of
        None \<Rightarrow> if has_prefix x (k @ ''='') then Some (drop (Suc (length k)) x) else None
      | Some v \<Rightarrow> Some v)"
  using child_env_append [of "[x]" xs k] by (simp add: child_env_def env_value_Cons split: option.split)

definition fixed_env :: "string \<Rightarrow> string \<Rightarrow> string list" where
  "fixed_env base content =
     [''OPENCODE_AUTOUPDATE=0'', ''OPENCODE_DISABLE_AUTOUPDATE=1'', ''OPENCODE_TELEMETRY=0'',
      ''OPENCODE_DISABLE_SHARE=1'', ''OPENCODE_DISABLE_MODELS_FETCH=1'', ''OPENCODE_PURE=1'',
      ''OPENCODE_DISABLE_LSP_DOWNLOAD=1'', ''OPENAI_BASE_URL='' @ base,
      ''OPENAI_API_KEY=not-needed-loopback'', ''OPENCODE_CONFIG_CONTENT='' @ content]"

lemma fixed_env_markers:
  "list_all (\<lambda>(k, v). child_env (fixed_env base content) k = Some v) hardening_markers"
  by (simp add: hardening_markers_def fixed_env_def child_env_Cons)

lemma fixed_env_base: "child_env (fixed_env base content) ''OPENAI_BASE_URL'' = Some base"
  by (simp add: fixed_env_def child_env_Cons)

lemma fixed_env_path: "child_env (fixed_env base content) ''PATH'' = None"
  by (simp add: fixed_env_def child_env_Cons)

definition path_entry :: "host \<Rightarrow> string list" where
  "path_entry h = (if hardened_path h \<noteq> [] then [''PATH='' @ hardened_path h] else [])"

definition xdg_entry :: "string option \<Rightarrow> string list" where
  "xdg_entry seed = (case seed of None \<Rightarrow> [] | Some d \<Rightarrow> [''XDG_CONFIG_HOME='' @ path_dir d])"

definition config_entry :: "string \<Rightarrow> string list" where
  "config_entry p = (if p \<noteq> [] then [''OPENCODE_CONFIG='' @ p] else [])"

lemma airgap_env_eq:
  obtains content seed where
    "fst (airgap_env ffmt h cfg intent f) =
       fixed_env (cf_endpoint cfg @ ''/v1'') content @ path_entry h @ xdg_entry seed"
proof -
  obtain content f1 where 1: "render_opencode_config ffmt h cfg intent f = (content, f1)" by force
  obtain seed f2 where 2: "config_seed_dir h f1 = (seed, f2)" by force
  have "fst (airgap_env ffmt h cfg intent f) =
      fixed_env (cf_endpoint cfg @ ''/v1'') content @ path_entry h @ xdg_entry seed"
    by (simp only: airgap_env_def Let_def 1 2 prod.case fst_conv fixed_env_def path_entry_def xdg_entry_def)
  then show ?thesis by (rule that)
qed

lemma launch_env_split:
  obtains f2 where
    "fst (launch_command ffmt parse t st h cfg config_path f) =
      ho_environ h @ fst (airgap_env ffmt h (cfg\<lparr>cf_interactive := True\<rparr>) True f2) @ config_entry config_path"
proof -
  obtain seed f1 where 1: "config_seed_dir h f = (seed, f1)" by force
  define f2 where "f2 = (if st = StagedBefore then launch_stage parse t h seed f1 else f1)"
  obtain air f3 where 2: "airgap_env ffmt h (cfg\<lparr>cf_interactive := True\<rparr>) True f2 = (air, f3)" by force
  have "fst (launch_command ffmt parse t st h cfg config_path f) = ho_environ h @ air @ config_entry config_path"
    using 2 by (simp add: launch_command_def Let_def 1 config_entry_def f2_def split del: if_split)
  then show ?thesis using that [of f2] 2 by simp
qed

lemma launch_env_eq:
  obtains content seed where
    "fst (launch_command ffmt parse t st h cfg config_path f) =
       ho_environ h @ fixed_env (cf_endpoint cfg @ ''/v1'') content @ path_entry h @ xdg_entry seed @
         config_entry config_path"
proof -
  obtain f2 where 1: "fst (launch_command ffmt parse t st h cfg config_path f) =
      ho_environ h @ fst (airgap_env ffmt h (cfg\<lparr>cf_interactive := True\<rparr>) True f2) @ config_entry config_path"
    by (rule launch_env_split)
  obtain content seed where "fst (airgap_env ffmt h (cfg\<lparr>cf_interactive := True\<rparr>) True f2) =
      fixed_env (cf_endpoint cfg @ ''/v1'') content @ path_entry h @ xdg_entry seed"
    using airgap_env_eq [of ffmt h "cfg\<lparr>cf_interactive := True\<rparr>" True f2] by auto
  with 1 show ?thesis by (intro that [of content seed]) simp
qed

text \<open>The entries that follow the fixed ones leave the markers alone.\<close>

definition later_env :: "host \<Rightarrow> string option \<Rightarrow> string \<Rightarrow> string list" where
  "later_env h seed p = path_entry h @ xdg_entry seed @ config_entry p"

lemmas later_defs = later_env_def path_entry_def xdg_entry_def config_entry_def child_env_append child_env_Cons

lemma later_markers: "list_all (\<lambda>(k, v). child_env (later_env h seed p) k = None) hardening_markers"
  by (cases seed) (simp_all add: hardening_markers_def later_defs)

lemma later_base: "child_env (later_env h seed p) ''OPENAI_BASE_URL'' = None"
  by (cases seed) (simp_all add: later_defs)

lemma later_path:
  "child_env (later_env h seed p) ''PATH'' = (if hardened_path h \<noteq> [] then Some (hardened_path h) else None)"
  by (cases seed) (simp_all add: later_defs)

lemma env_sees:
  assumes "env = xs @ fixed_env base content @ later_env h seed p"
  shows "list_all (\<lambda>(k, v). child_env env k = Some v) hardening_markers"
    and "child_env env ''OPENAI_BASE_URL'' = Some base"
    and "hardened_path h \<noteq> [] \<Longrightarrow> child_env env ''PATH'' = Some (hardened_path h)"
proof -
  have l: "child_env env k = (case child_env (later_env h seed p) k of
      None \<Rightarrow> (case child_env (fixed_env base content) k of None \<Rightarrow> child_env xs k | Some v \<Rightarrow> Some v)
    | Some v \<Rightarrow> Some v)" for k
    by (simp only: assms child_env_append) (simp split: option.split)
  show "list_all (\<lambda>(k, v). child_env env k = Some v) hardening_markers"
    using fixed_env_markers [of base content] later_markers [of h seed p]
    unfolding list_all_iff by (fastforce simp: l)
  show "child_env env ''OPENAI_BASE_URL'' = Some base" by (simp only: l later_base fixed_env_base option.case)
  show "hardened_path h \<noteq> [] \<Longrightarrow> child_env env ''PATH'' = Some (hardened_path h)"
    by (simp only: l later_path if_True option.case not_False_eq_True simp_thms if_P)
qed

section \<open>The bundled search tool comes first\<close>

lemma join_not_Nil: "ws \<noteq> [] \<Longrightarrow> hd ws \<noteq> [] \<Longrightarrow> join sep ws \<noteq> []"
  by (cases ws; cases "tl ws") auto

lemma path_clean_not_Nil: "path_clean p \<noteq> []"
  using path_elems_nonempty_elem [of "hd (path_elems p)" p]
  by (auto simp: path_clean_def path_of_elems_def dest: join_not_Nil)

lemma join_first: "has_prefix (join '':'' (d # ds) @ '':'') (d @ '':'')"
  by (cases ds) (auto simp: has_prefix_def)

lemma hardened_path_rest:
  assumes "resolve_ripgrep h = Some rg"
  obtains ds where "hardened_path h = join '':'' (path_dir rg # ds)"
proof -
  define rest where "rest = (if ho_env h ''PATH'' \<noteq> [] then [ho_env h ''PATH''] else [])"
  show ?thesis
  proof (cases "resolve_rtmx h")
    case None
    with assms show ?thesis by (intro that [of rest]) (simp add: hardened_path_def rest_def)
  next
    case (Some r)
    show ?thesis
    proof (cases "path_dir r = path_dir rg")
      case True
      with Some assms show ?thesis by (intro that [of rest]) (simp add: hardened_path_def rest_def)
    next
      case False
      with Some assms show ?thesis
        by (intro that [of "path_dir r # rest"]) (simp add: hardened_path_def rest_def)
    qed
  qed
qed

lemma hardened_path_first:
  assumes "resolve_ripgrep h = Some rg"
  shows "hardened_path h \<noteq> []" and "has_prefix (hardened_path h @ '':'') (path_dir rg @ '':'')"
proof -
  obtain ds where e: "hardened_path h = join '':'' (path_dir rg # ds)" using hardened_path_rest [OF assms] by blast
  show "hardened_path h \<noteq> []" unfolding e
    by (rule join_not_Nil) (simp_all add: path_dir_def path_clean_not_Nil)
  show "has_prefix (hardened_path h @ '':'') (path_dir rg @ '':'')" unfolding e by (rule join_first)
qed


section \<open>Staging\<close>

text \<open>Files are only added, each with one of the given contents; what exists stays.\<close>

definition fs_adds :: "string set \<Rightarrow> fs \<Rightarrow> fs \<Rightarrow> bool" where
  "fs_adds cs f g \<longleftrightarrow> fs_dirs f \<subseteq> fs_dirs g \<and>
     (\<forall>p c. fs_files f p = Some c \<longrightarrow> fs_files g p = Some c) \<and>
     (\<forall>p c. fs_files g p = Some c \<longrightarrow> fs_files f p = Some c \<or> c \<in> cs)"

lemma fs_adds_refl [simp]: "fs_adds cs f f"
  by (simp add: fs_adds_def)

lemma fs_adds_trans: "fs_adds cs f g \<Longrightarrow> fs_adds cs g h \<Longrightarrow> fs_adds cs f h"
  unfolding fs_adds_def by (meson order_trans)

lemma fs_adds_exists: "fs_adds cs f g \<Longrightarrow> fs_exists p f \<Longrightarrow> fs_exists p g"
  by (auto simp: fs_adds_def fs_exists_def)

lemma stage_file_adds:
  assumes "stage_file mk p c f = (b, g)" and "c \<in> cs"
  shows "fs_adds cs f g \<and> (b \<longrightarrow> fs_exists p g)"
proof (cases "fs_exists p f")
  case True
  with assms show ?thesis by (simp add: stage_file_def)
next
  case False
  obtain b1 f1 where m: "(if mk then fs_mkdir_all (path_dir p) f else (True, f)) = (b1, f1)" by force
  have 1: "fs_files f1 = fs_files f" "fs_dirs f \<subseteq> fs_dirs f1"
    using m fs_mkdir_all_props [of "path_dir p" f b1 f1] by (simp_all add: fs_grown_def split: if_splits)
  have no: "fs_files f p = None" using False by (simp add: fs_exists_def)
  from False m assms(1) have r: "(b, g) = (if b1 then fs_write p c f1 else (False, f1))"
    by (cases b1) (simp_all add: stage_file_def)
  show ?thesis
  proof (cases "b1 \<and> fs_can_write p f1")
    case True
    with r have "b" "g = f1\<lparr>fs_files := (fs_files f1)(p \<mapsto> c)\<rparr>" by (simp_all add: fs_write_def)
    with 1 no assms(2) show ?thesis by (auto simp: fs_adds_def fs_exists_def split: if_splits)
  next
    case False
    with r have "\<not> b" "g = f1" by (auto simp: fs_write_def split: if_splits)
    with 1 show ?thesis by (simp add: fs_adds_def)
  qed
qed

lemma stage_files_adds:
  "stage_files d fs f = (b, g) \<Longrightarrow> snd ` set fs \<subseteq> cs \<Longrightarrow>
     fs_adds cs f g \<and> (b \<longrightarrow> (\<forall>rc \<in> set fs. fs_exists (path_join [d, fst rc]) g))"
proof (induction d fs f rule: stage_files.induct)
  case (2 d rel content rest f)
  obtain b1 f1 where 1: "stage_file True (path_join [d, rel]) content f = (b1, f1)" by force
  from stage_file_adds [OF this, of cs] "2.prems"(2)
  have a: "fs_adds cs f f1" "b1 \<Longrightarrow> fs_exists (path_join [d, rel]) f1" by auto
  show ?case
  proof (cases b1)
    case True
    with "2.prems" 1 "2.IH" [OF 1 [symmetric]] have "fs_adds cs f1 g"
      "b \<Longrightarrow> \<forall>rc \<in> set rest. fs_exists (path_join [d, fst rc]) g" by auto
    with a True show ?thesis by (auto intro: fs_adds_trans fs_adds_exists)
  next
    case False
    with "2.prems"(1) 1 a show ?thesis by auto
  qed
qed simp

definition seed_layout :: "(string \<times> string) list" where
  "seed_layout = plugin_seed_files @
     [(coaching_file, tool_coaching_content), (interactive_file, interactive_directives_content)]"

lemma stage_seed_adds:
  assumes "stage_seed h d f = (b, g)" and rng: "set (ho_range h plugin_seed_files) = set plugin_seed_files"
  shows "fs_adds (snd ` set seed_layout) f g \<and> (b \<longrightarrow> (\<forall>rc \<in> set seed_layout. fs_exists (path_join [d, fst rc]) g))"
proof -
  let ?cs = "snd ` set seed_layout"
  obtain b1 f1 where 1: "stage_plugin_seed h d f = (b1, f1)" by force
  obtain b2 f2 where 2: "stage_file False (path_join [d, coaching_file]) tool_coaching_content f1 = (b2, f2)" by force
  obtain b3 f3 where 3: "stage_file False (path_join [d, interactive_file]) interactive_directives_content f2 = (b3, f3)"
    by force
  have a1: "fs_adds ?cs f f1" "b1 \<Longrightarrow> \<forall>rc \<in> set plugin_seed_files. fs_exists (path_join [d, fst rc]) f1"
    using stage_files_adds [OF 1 [unfolded stage_plugin_seed_def], of ?cs] rng by (auto simp: seed_layout_def)
  have a2: "fs_adds ?cs f1 f2" "b2 \<Longrightarrow> fs_exists (path_join [d, coaching_file]) f2"
    using stage_file_adds [OF 2, of ?cs] by (auto simp: seed_layout_def)
  have a3: "fs_adds ?cs f2 f3" "b3 \<Longrightarrow> fs_exists (path_join [d, interactive_file]) f3"
    using stage_file_adds [OF 3, of ?cs] by (auto simp: seed_layout_def)
  have "(b, g) = (if b1 then if b2 then (b3, f3) else (False, f2) else (False, f1))"
    using assms(1) by (cases b1; cases b2) (simp_all add: stage_seed_def 1 2 3)
  then show ?thesis
    using a1 a2 a3 unfolding seed_layout_def set_append
    by (cases b1; cases b2) (auto intro: fs_adds_trans fs_adds_exists)
qed

lemma first_staged_adds:
  "first_staged h cs f = (r, g) \<Longrightarrow> set (ho_range h plugin_seed_files) = set plugin_seed_files \<Longrightarrow>
     fs_adds (snd ` set seed_layout) f g \<and>
     (case r of None \<Rightarrow> True | Some d \<Rightarrow> d \<in> set cs \<and> (\<forall>rc \<in> set seed_layout. fs_exists (path_join [d, fst rc]) g))"
proof (induction h cs f rule: first_staged.induct)
  case (2 h c cs f)
  obtain b f1 where 1: "stage_seed h c f = (b, f1)" by force
  from stage_seed_adds [OF 1 "2.prems"(2)] have a: "fs_adds (snd ` set seed_layout) f f1"
    "b \<Longrightarrow> \<forall>rc \<in> set seed_layout. fs_exists (path_join [c, fst rc]) f1" by auto
  show ?case
  proof (cases b)
    case True
    with "2.prems"(1) 1 a show ?thesis by auto
  next
    case False
    with "2.prems" 1 "2.IH" [OF 1 [symmetric]] a(1) show ?thesis
      by (auto intro: fs_adds_trans split: option.splits)
  qed
qed simp

text \<open>When a directory is resolved for the staged configuration, every seed file and both
  instruction files exist in it; no file that was there before is changed, and each new file has
  the content of one of the seed files.\<close>

theorem config_seed_staged:
  assumes "config_seed_dir h f = (Some d, g)"
    and "set (ho_range h plugin_seed_files) = set plugin_seed_files"
  shows "(\<forall>rc \<in> set seed_layout. fs_exists (path_join [d, fst rc]) g) \<and>
         (\<forall>p c. fs_files f p = Some c \<longrightarrow> fs_files g p = Some c) \<and>
         (\<forall>p c. fs_files g p = Some c \<longrightarrow> fs_files f p = Some c \<or> c \<in> snd ` set seed_layout)"
  using first_staged_adds [OF assms(1) [unfolded config_seed_dir_def] assms(2)]
  by (simp add: fs_adds_def)

definition bundle_host :: host where
  "bundle_host =
     \<lparr>ho_self = Some ''/opt/aegis/bin/aegis'', ho_cwd = Some ''/work'', ho_cache = None, ho_environ = [],
      ho_range = rev, ho_exec = (\<lambda>p. False), ho_look = (\<lambda>p. None)\<rparr>"

definition bundle_fs :: fs where
  "bundle_fs = \<lparr>fs_files = Map.empty, fs_dirs = {''/''}, fs_deny_read = {}, fs_deny_write = {}, fs_deny_mkdir = {}\<rparr>"

lemma bundle_staged:
  "fst (config_seed_dir bundle_host bundle_fs) = Some ''/opt/aegis/bin/oc-config/opencode''"
  by code_simp

theorem config_seed_staged_witness:
  "\<exists>g. config_seed_dir bundle_host bundle_fs = (Some ''/opt/aegis/bin/oc-config/opencode'', g) \<and>
     (\<forall>rc \<in> set seed_layout. fs_exists (path_join [''/opt/aegis/bin/oc-config/opencode'', fst rc]) g)"
  using config_seed_staged [of bundle_host bundle_fs "''/opt/aegis/bin/oc-config/opencode''"
      "snd (config_seed_dir bundle_host bundle_fs)"] bundle_staged
  by (cases "config_seed_dir bundle_host bundle_fs") (simp add: bundle_host_def)

end
