(* ===== verification/Polling.thy ===== *)
theory Polling
  imports Main
begin

text \<open>
  The loop of every wait in the program: probe until the probe succeeds or the clock has reached a
  deadline, with a pause after each failed probe.  Only the clock bounds it, so it is a partial
  function; with a clock that moves forward over a probe and the pause after it, it returns.
\<close>

partial_function (option) poll_until ::
  "('w \<Rightarrow> int) \<Rightarrow> ('w \<Rightarrow> bool \<times> 'w) \<Rightarrow> ('w \<Rightarrow> 'w) \<Rightarrow> int \<Rightarrow> 'w \<Rightarrow> (bool \<times> 'w) option" where
  "poll_until now probe pause deadline w =
     (if now w < deadline then
        (let (up, w1) = probe w
         in if up then Some (True, w1) else poll_until now probe pause deadline (pause w1))
      else Some (False, w))"

definition clock_moves :: "('w \<Rightarrow> int) \<Rightarrow> ('w \<Rightarrow> bool \<times> 'w) \<Rightarrow> ('w \<Rightarrow> 'w) \<Rightarrow> bool" where
  "clock_moves now probe pause \<longleftrightarrow> (\<forall>w. now w < now (pause (snd (probe w))))"

lemma poll_step:
  "poll_until now probe pause deadline w =
     (if now w < deadline then
        if fst (probe w) then Some (True, snd (probe w))
        else poll_until now probe pause deadline (pause (snd (probe w)))
      else Some (False, w))"
  by (subst poll_until.simps) (simp split: prod.split)

lemma poll_total:
  assumes "clock_moves now probe pause"
  shows "\<exists>r. poll_until now probe pause deadline w = Some r"
proof (induction "nat (deadline - now w)" arbitrary: w rule: less_induct)
  case less
  show ?case
  proof (cases "now w < deadline \<and> \<not> fst (probe w)")
    case True
    have "now w < now (pause (snd (probe w)))" using assms by (simp add: clock_moves_def)
    with True less [of "pause (snd (probe w))"] show ?thesis by (subst poll_step) auto
  next
    case False
    then show ?thesis by (subst poll_step) auto
  qed
qed

text \<open>What becomes true a round before the deadline, and stays so, is seen.\<close>

lemma poll_sees:
  assumes adv: "clock_moves now probe pause"
    and step: "\<forall>w. now (pause (snd (probe w))) \<le> now w + d"
    and up: "\<forall>w. t \<le> now w \<longrightarrow> fst (probe w)"
    and "t + d < deadline" and "now w < t + d"
  shows "\<exists>w'. poll_until now probe pause deadline w = Some (True, w')"
  using assms(5)
proof (induction "nat (t + d - now w)" arbitrary: w rule: less_induct)
  case less
  have lt: "now w < deadline" using less.prems assms(4) by simp
  show ?case
  proof (cases "fst (probe w)")
    case True
    with lt show ?thesis by (subst poll_step) simp
  next
    case False
    let ?w = "pause (snd (probe w))"
    have "now w < t" using up False by force
    moreover have "now w < now ?w" "now ?w \<le> now w + d"
      using adv step by (simp_all add: clock_moves_def)
    ultimately have "\<exists>w'. poll_until now probe pause deadline ?w = Some (True, w')"
      using less.prems by (intro less.hyps) auto
    with lt False show ?thesis by (subst poll_step) simp
  qed
qed

text \<open>What probes and pauses leave alone, the loop leaves alone; a success is a success of the last probe.\<close>

lemma poll_keeps:
  assumes "poll_until now probe pause deadline w = Some r"
    and "\<forall>w. I (snd (probe w)) = I w" and "\<forall>w. I (pause w) = I w"
  shows "I (snd r) = I w"
  using assms
proof (induction now probe pause deadline w r rule: poll_until.raw_induct [rotated, consumes 1, case_names step])
  case (step po now probe pause deadline w r)
  show ?case
  proof (cases "now w < deadline")
    case False
    with step.hyps show ?thesis by auto
  next
    case lt: True
    show ?thesis
    proof (cases "fst (probe w)")
      case True
      with lt step.hyps have "r = (True, snd (probe w))" by (cases "probe w") auto
      with step.prems(1) show ?thesis by simp
    next
      case False
      with lt step.hyps have "po now probe pause deadline (pause (snd (probe w))) = Some r"
        by (simp add: Let_def split: prod.splits)
      from step.IH [OF this step.prems] step.prems show ?thesis by simp
    qed
  qed
qed

lemma poll_success:
  assumes "poll_until now probe pause deadline w = Some (True, w')"
  shows "\<exists>w1. probe w1 = (True, w')"
proof -
  have "fst r \<longrightarrow> (\<exists>w1. probe w1 = (True, snd r))" if "poll_until now probe pause deadline w = Some r" for r
    using that
  proof (induction now probe pause deadline w r rule: poll_until.raw_induct [rotated, consumes 1, case_names step])
    case (step po now probe pause deadline w r)
    then show ?case by (cases "probe w"; cases "now w < deadline"; cases "fst (probe w)") auto
  qed
  from this [OF assms] show ?thesis by simp
qed

end
