(* ===== verification/OcSolve.thy ===== *)
theory OcSolve
  imports OcLaunch OcServe Polling
begin

text \<open>
  One headless run of OpenCode (\<open>solve.go\<close>, \<open>StartServe\<close> of \<open>serve.go\<close>, \<open>RunHeadless\<close> of
  \<open>run.go\<close>): the server process is started, polled until it answers or its time is up, driven for one
  turn and stopped.  The operating system is a record of functions on a world; the wait is the
  polling loop of \<open>Polling\<close>.
\<close>

section \<open>Processes\<close>

record proc_request =
  pr_bin :: string
  pr_args :: "string list"
  pr_env :: "string list"
  pr_dir :: string

text \<open>
  \<open>po_spawn\<close> is \<open>cmd.Start\<close> (the process, if it starts), \<open>po_kill\<close> is \<open>Kill\<close> and \<open>Wait\<close>, \<open>po_sleep\<close>
  lets 200 ms pass, \<open>po_port\<close> listens on port 0 and closes again, \<open>po_run\<close> runs a program to its end
  and returns what it printed and whether it succeeded.
\<close>

record 'w proc_ops =
  po_spawn :: "proc_request \<Rightarrow> 'w \<Rightarrow> nat option \<times> 'w"
  po_kill :: "nat \<Rightarrow> 'w \<Rightarrow> 'w"
  po_now :: "'w \<Rightarrow> int"
  po_sleep :: "'w \<Rightarrow> 'w"
  po_port :: "'w \<Rightarrow> int option \<times> 'w"
  po_read :: "string \<Rightarrow> 'w \<Rightarrow> string option"
  po_run :: "proc_request \<Rightarrow> 'w \<Rightarrow> (string \<times> bool) \<times> 'w"

datatype solve_error =
    SolveBinary launch_error
  | SolvePort
  | SolveStart
  | SolveNotReady
  | SolveDrive oc_error
  | SolveRun

text \<open>The password file of the server's state directory; \<open>HOME\<close> is what \<open>UserHomeDir\<close> reads.\<close>

definition state_password :: "'w proc_ops \<Rightarrow> host \<Rightarrow> 'w \<Rightarrow> string" where
  "state_password os h w =
     (let xdg = ho_env h ''XDG_STATE_HOME'';
          dir = (if xdg \<noteq> [] then xdg
                 else if ho_env h ''HOME'' \<noteq> [] then path_join [ho_env h ''HOME'', ''.local'', ''state''] else [])
      in case po_read os (path_join [dir, ''opencode'', ''password'']) w of
           None \<Rightarrow> []
         | Some b \<Rightarrow> trim_space b)"

definition serve_ready_timeout :: int where "serve_ready_timeout = 90 * 1000000000"

definition await_ready ::
  "'w proc_ops \<Rightarrow> 'w oc_server \<Rightarrow> serve_client \<Rightarrow> int \<Rightarrow> 'w \<Rightarrow> (bool \<times> 'w) option" where
  "await_ready os srv c = poll_until (po_now os) (oc_ready srv c) (po_sleep os)"

definition serve_request :: "host \<Rightarrow> string \<Rightarrow> string list \<Rightarrow> string \<Rightarrow> int \<Rightarrow> proc_request" where
  "serve_request h bin env workdir port =
     \<lparr>pr_bin = bin, pr_args = [''serve'', ''--hostname'', ''127.0.0.1'', ''--port'', show_int port],
      pr_env = ho_environ h @ env, pr_dir = workdir\<rparr>"

definition serve_at :: "string \<Rightarrow> int \<Rightarrow> serve_client" where
  "serve_at workdir port = (new_serve_client (''http://127.0.0.1:'' @ show_int port))\<lparr>sc_dir := workdir\<rparr>"

definition start_serve ::
  "(real \<Rightarrow> string) \<Rightarrow> 'w proc_ops \<Rightarrow> 'w oc_server \<Rightarrow> host \<Rightarrow> string \<Rightarrow> config \<Rightarrow> string \<Rightarrow> int \<Rightarrow> bool \<Rightarrow> fs \<Rightarrow> 'w
     \<Rightarrow> ((solve_error + serve_client \<times> nat) \<times> fs \<times> 'w) option" where
  "start_serve ffmt os srv h bin cfg workdir port intent f w =
     (case airgap_env ffmt h cfg intent f of
        (env, f1) \<Rightarrow>
          (case po_spawn os (serve_request h bin env workdir port) w of
             (None, w1) \<Rightarrow> Some (Inl SolveStart, f1, w1)
           | (Some pid, w1) \<Rightarrow>
               (let c = serve_at workdir port
                in case await_ready os srv c (po_now os w1 + serve_ready_timeout) w1 of
                     None \<Rightarrow> None
                   | Some (True, w2) \<Rightarrow>
                       Some (Inr (set_auth ''opencode'' (state_password os h w2) c, pid), f1, w2)
                   | Some (False, w2) \<Rightarrow> Some (Inl SolveNotReady, f1, po_kill os pid w2))))"

section \<open>One run\<close>

record solve_options =
  so_workdir :: string
  so_prompt :: string
  so_model :: string
  so_port :: int
  so_no_intent :: bool

definition choose_port :: "'w proc_ops \<Rightarrow> int \<Rightarrow> 'w \<Rightarrow> int option \<times> 'w" where
  "choose_port os p w = (if p = 0 then po_port os w else (Some p, w))"

definition real_solve_drive ::
  "(real \<Rightarrow> string) \<Rightarrow> 'w proc_ops \<Rightarrow> 'w oc_server \<Rightarrow> ('w \<Rightarrow> ctx_end option) \<Rightarrow> host \<Rightarrow> string \<Rightarrow> config
     \<Rightarrow> solve_options \<Rightarrow> fs \<Rightarrow> 'w \<Rightarrow> ((solve_error + solve_result) \<times> fs \<times> 'w) option" where
  "real_solve_drive ffmt os srv ctx_err h bin cfg opts f w =
     (case choose_port os (so_port opts) w of
        (None, w1) \<Rightarrow> Some (Inl SolvePort, f, w1)
      | (Some port, w1) \<Rightarrow>
          (case start_serve ffmt os srv h bin cfg (so_workdir opts) port (\<not> so_no_intent opts) f w1 of
             None \<Rightarrow> None
           | Some (Inl e, f1, w2) \<Rightarrow> Some (Inl e, f1, w2)
           | Some (Inr (c, pid), f1, w2) \<Rightarrow>
               (let model = (if so_model opts = [] then cf_model_id cfg else so_model opts)
                in case oc_drive srv ctx_err c \<lparr>om_provider = ''local'', om_id = model\<rparr> (so_prompt opts) w2 of
                     (Inl e, w3) \<Rightarrow> Some (Inl (SolveDrive e), f1, po_kill os pid w3)
                   | (Inr r, w3) \<Rightarrow> Some (Inr r, f1, po_kill os pid w3))))"

definition solve ::
  "(real \<Rightarrow> string) \<Rightarrow> 'w proc_ops \<Rightarrow> 'w oc_server \<Rightarrow> ('w \<Rightarrow> ctx_end option) \<Rightarrow> host \<Rightarrow> config \<Rightarrow> string
     \<Rightarrow> solve_options \<Rightarrow> fs \<Rightarrow> 'w \<Rightarrow> ((solve_error + solve_result) \<times> fs \<times> 'w) option" where
  "solve ffmt os srv ctx_err h cfg explicit opts f w =
     (case resolve_binary h explicit of
        Inl e \<Rightarrow> Some (Inl (SolveBinary e), f, w)
      | Inr bin \<Rightarrow> real_solve_drive ffmt os srv ctx_err h bin cfg opts f w)"

definition verify_launch ::
  "(real \<Rightarrow> string) \<Rightarrow> 'w proc_ops \<Rightarrow> 'w oc_server \<Rightarrow> host \<Rightarrow> config \<Rightarrow> fs \<Rightarrow> 'w
     \<Rightarrow> (solve_error option \<times> fs \<times> 'w) option" where
  "verify_launch ffmt os srv h cfg f w =
     (case resolve_binary h [] of
        Inl e \<Rightarrow> Some (Some (SolveBinary e), f, w)
      | Inr bin \<Rightarrow>
          (case po_port os w of
             (None, w1) \<Rightarrow> Some (Some SolvePort, f, w1)
           | (Some port, w1) \<Rightarrow>
               (case start_serve ffmt os srv h bin cfg ''.'' port True f w1 of
                  None \<Rightarrow> None
                | Some (Inl e, f1, w2) \<Rightarrow> Some (Some e, f1, w2)
                | Some (Inr (c, pid), f1, w2) \<Rightarrow> Some (None, f1, po_kill os pid w2))))"

text \<open>The classic headless command.\<close>

definition run_request :: "host \<Rightarrow> string \<Rightarrow> string list \<Rightarrow> string \<Rightarrow> string \<Rightarrow> string \<Rightarrow> proc_request" where
  "run_request h bin env workdir model prompt =
     \<lparr>pr_bin = bin,
      pr_args = [''run'', ''--pure'', ''--format'', ''json'', ''--model'', ''local/'' @ model, ''--dir'', workdir, prompt],
      pr_env = ho_environ h @ env, pr_dir = []\<rparr>"

definition run_headless ::
  "(real \<Rightarrow> string) \<Rightarrow> 'w proc_ops \<Rightarrow> ('w \<Rightarrow> ctx_end option) \<Rightarrow> host \<Rightarrow> string \<Rightarrow> config \<Rightarrow> string \<Rightarrow> string \<Rightarrow> string
     \<Rightarrow> bool \<Rightarrow> fs \<Rightarrow> 'w \<Rightarrow> (solve_error + solve_result) \<times> fs \<times> 'w" where
  "run_headless ffmt os ctx_err h bin cfg workdir model0 prompt intent f w =
     (let model = (if model0 = [] then cf_model_id cfg else model0);
          (env, f1) = airgap_env ffmt h cfg intent f;
          ((out, ok), w1) = po_run os (run_request h bin env workdir model prompt) w;
          msgs = parse_run_events out
      in if ok then (Inr \<lparr>sr_session = [], sr_messages = msgs, sr_timed_out = False\<rparr>, f1, w1)
         else case ctx_err w1 of
           Some ce \<Rightarrow> (Inr \<lparr>sr_session = [], sr_messages = msgs, sr_timed_out = (ce = DeadlineExceeded)\<rparr>, f1, w1)
         | None \<Rightarrow> (Inl SolveRun, f1, w1))"

section \<open>The poll loop\<close>

text \<open>The clock moves forward over a readiness probe and the pause after it.\<close>

definition clock_advances :: "'w proc_ops \<Rightarrow> 'w oc_server \<Rightarrow> serve_client \<Rightarrow> bool" where
  "clock_advances os srv c \<longleftrightarrow> clock_moves (po_now os) (oc_ready srv c) (po_sleep os)"

definition probe_world :: "'w oc_server \<Rightarrow> serve_client \<Rightarrow> 'w \<Rightarrow> 'w" where
  "probe_world srv c w = snd (oc_ready srv c w)"

lemma start_serve_total:
  assumes "\<forall>c. clock_advances os srv c"
  shows "\<exists>r. start_serve ffmt os srv h bin cfg workdir port intent f w = Some r"
proof -
  obtain env f1 where 1: "airgap_env ffmt h cfg intent f = (env, f1)" by force
  obtain sp w1 where 2: "po_spawn os (serve_request h bin env workdir port) w = (sp, w1)" by force
  obtain b w2 where "await_ready os srv (serve_at workdir port) (po_now os w1 + serve_ready_timeout) w1 = Some (b, w2)"
    using poll_total assms unfolding await_ready_def clock_advances_def by fast
  with 1 2 show ?thesis by (cases sp; cases b) (simp_all add: start_serve_def)
qed

lemma real_solve_drive_total:
  assumes "\<forall>c. clock_advances os srv c"
  shows "\<exists>r. real_solve_drive ffmt os srv ctx_err h bin cfg opts f w = Some r"
proof -
  obtain p w1 where 1: "choose_port os (so_port opts) w = (p, w1)" by force
  show ?thesis
  proof (cases p)
    case None
    with 1 show ?thesis by (simp add: real_solve_drive_def)
  next
    case (Some port)
    obtain r f1 w2 where 2: "start_serve ffmt os srv h bin cfg (so_workdir opts) port (\<not> so_no_intent opts) f w1 =
        Some (r, f1, w2)" using start_serve_total [OF assms] by (metis prod_cases3)
    show ?thesis
    proof (cases r)
      case (Inl e)
      with 1 2 Some show ?thesis by (simp add: real_solve_drive_def)
    next
      case (Inr cp)
      with 1 2 Some show ?thesis by (cases cp) (simp add: real_solve_drive_def Let_def split: prod.split sum.split)
    qed
  qed
qed

text \<open>
  A host for the witnesses: time in nanoseconds, the number of processes started, those killed; the
  server answers everything from five seconds on.
\<close>

type_synonym tick_world = "int \<times> nat \<times> nat list"

definition tick_os :: "tick_world proc_ops" where
  "tick_os =
     \<lparr>po_spawn = (\<lambda>q (t, k, ks). (Some k, t, Suc k, filter (\<lambda>p. p \<noteq> k) ks)),
      po_kill = (\<lambda>p (t, k, ks). (t, k, p # ks)), po_now = fst, po_sleep = (\<lambda>(t, w). (t + 200000000, w)),
      po_port = (\<lambda>w. (Some 80, w)), po_read = (\<lambda>p w. None), po_run = (\<lambda>q w. (([], False), w))\<rparr>"

definition tick_srv :: "tick_world oc_server" where
  "tick_srv q w = (if fst w \<ge> 5000000000 then Some \<lparr>oy_status = 200, oy_body = ''[]''\<rparr> else None, w)"

definition tick_live :: "tick_world \<Rightarrow> nat set" where
  "tick_live w = {p. p < fst (snd w) \<and> p \<notin> set (snd (snd w))}"

definition tick_host :: host where
  "tick_host =
     \<lparr>ho_self = None, ho_cwd = Some ''/work'', ho_cache = None, ho_environ = [], ho_range = rev,
      ho_exec = (\<lambda>p. False), ho_look = (\<lambda>p. Some ''/usr/bin/opencode'')\<rparr>"

definition tick_fs :: fs where
  "tick_fs = \<lparr>fs_files = Map.empty, fs_dirs = {''/''}, fs_deny_read = {}, fs_deny_write = {}, fs_deny_mkdir = {}\<rparr>"

lemma tick_probe: "probe_world tick_srv c w = w"
  by (cases w) (simp add: probe_world_def oc_ready_def oc_do_def tick_srv_def split: option.split)

lemma tick_now: "po_now tick_os (po_sleep tick_os w) = po_now tick_os w + 200000000"
  by (cases w) (simp add: tick_os_def)

lemma tick_advances: "clock_advances tick_os tick_srv c"
  using tick_probe tick_now by (simp add: clock_advances_def clock_moves_def probe_world_def)

lemma tick_url: "url_parse ''http://127.0.0.1:80/openapi.json'' \<noteq> None"
  by code_simp

lemma tick_port: "show_int 80 = ''80''"
proof -
  have d: "digit_char 8 = CHR ''8''" "digit_char 0 = CHR ''0''" by code_simp+
  show ?thesis by (simp add: show_int_def show_nat.simps [of 80] show_nat.simps [of 8] d)
qed

lemma tick_base: "sc_base (serve_at ''.'' 80) = ''http://127.0.0.1:80''"
  by (simp add: serve_at_def new_serve_client_def tick_port)

lemma tick_do:
  assumes "url_parse (sc_base c @ p) \<noteq> None" and "5000000000 \<le> fst w"
  shows "oc_do tick_srv c m p b no_result w = (Inr (), w)"
proof -
  from assms(1) obtain u where "url_parse (sc_base c @ p) = Some u" by blast
  with assms(2) show ?thesis by (simp add: oc_do_def tick_srv_def no_result_def)
qed

lemma tick_up: "5000000000 \<le> po_now tick_os w \<longrightarrow> fst (oc_ready tick_srv (serve_at ''.'' 80) w)"
proof
  assume "5000000000 \<le> po_now tick_os w"
  then have t: "5000000000 \<le> fst w" by (simp add: tick_os_def)
  have "url_parse (sc_base (serve_at ''.'' 80) @ ''/openapi.json'') \<noteq> None"
    using tick_url unfolding tick_base append_Cons append_Nil .
  from tick_do [OF this t] show "fst (oc_ready tick_srv (serve_at ''.'' 80) w)" by (simp add: oc_ready_def)
qed

definition tick_options :: solve_options where
  "tick_options = \<lparr>so_workdir = ''.'', so_prompt = ''fix it'', so_model = [], so_port = 0, so_no_intent = False\<rparr>"

lemma solve_total:
  assumes "\<forall>c. clock_advances os srv c"
  obtains r f' w' where "solve ffmt os srv ctx_err h cfg explicit opts f w = Some (r, f', w')"
proof -
  have "\<exists>x. solve ffmt os srv ctx_err h cfg explicit opts f w = Some x"
    by (cases "resolve_binary h explicit") (simp_all add: solve_def real_solve_drive_total [OF assms] del: split_paired_Ex)
  then obtain x where "solve ffmt os srv ctx_err h cfg explicit opts f w = Some x" by blast
  then show ?thesis by (cases x) (simp add: that)
qed

text \<open>C24: A server that is up within its time is found: when the process starts, a round of the poll
  loop takes at most \<open>d\<close>, and the server answers from \<open>boot\<close> after its start on, where \<open>boot + d\<close>
  is below the readiness timeout of 90 seconds, \<open>StartServe\<close> returns a client.\<close>

theorem start_serve_becomes_ready:
  assumes "po_spawn os (serve_request h bin (fst (airgap_env ffmt h cfg intent f)) workdir port) w = (Some pid, w1)"
    and "clock_advances os srv (serve_at workdir port)"
    and "\<forall>w'. po_now os (po_sleep os (probe_world srv (serve_at workdir port) w')) \<le> po_now os w' + d"
    and "\<forall>w'. po_now os w1 + boot \<le> po_now os w' \<longrightarrow> fst (oc_ready srv (serve_at workdir port) w')"
    and "0 \<le> boot" and "0 < d" and "boot + d < serve_ready_timeout"
  shows "\<exists>c f' w'. start_serve ffmt os srv h bin cfg workdir port intent f w = Some (Inr (c, pid), f', w')"
proof -
  obtain w' where "await_ready os srv (serve_at workdir port) (po_now os w1 + serve_ready_timeout) w1 = Some (True, w')"
    using poll_sees [OF assms(2) [unfolded clock_advances_def] assms(3,4) [unfolded probe_world_def],
        of "po_now os w1 + serve_ready_timeout" w1] assms(5-7)
    by (auto simp: await_ready_def)
  then show ?thesis
    using assms(1)
    by (cases "airgap_env ffmt h cfg intent f") (simp add: start_serve_def Let_def)
qed

theorem start_serve_becomes_ready_witness:
  "\<exists>c f' w'. start_serve (\<lambda>x. []) tick_os tick_srv tick_host ''/usr/bin/opencode'' default_config ''.'' 80 True
     tick_fs (0, 0, []) = Some (Inr (c, 0), f', w')"
proof (rule start_serve_becomes_ready [where d = 200000000 and boot = 5000000000])
  show "po_spawn tick_os (serve_request tick_host ''/usr/bin/opencode''
      (fst (airgap_env (\<lambda>x. []) tick_host default_config True tick_fs)) ''.'' 80) (0, 0, []) = (Some 0, 0, 1, [])"
    by (simp add: tick_os_def)
  show "clock_advances tick_os tick_srv (serve_at ''.'' 80)" by (rule tick_advances)
  show "\<forall>w'. po_now tick_os (po_sleep tick_os (probe_world tick_srv (serve_at ''.'' 80) w')) \<le>
      po_now tick_os w' + 200000000" by (simp add: tick_probe tick_now)
  show "\<forall>w'. po_now tick_os (0, 1, []) + 5000000000 \<le> po_now tick_os w' \<longrightarrow>
      fst (oc_ready tick_srv (serve_at ''.'' 80) w')"
    using tick_up by (simp add: tick_os_def)
qed (simp_all add: serve_ready_timeout_def)

section \<open>Every server is stopped\<close>

definition proc_laws :: "('w \<Rightarrow> nat set) \<Rightarrow> 'w proc_ops \<Rightarrow> 'w oc_server \<Rightarrow> bool" where
  "proc_laws live os srv \<longleftrightarrow>
     (\<forall>q w. case po_spawn os q w of
        (None, w1) \<Rightarrow> live w1 = live w
      | (Some p, w1) \<Rightarrow> p \<notin> live w \<and> live w1 = insert p (live w)) \<and>
     (\<forall>p w. live (po_kill os p w) = live w - {p}) \<and>
     (\<forall>w. live (po_sleep os w) = live w) \<and> (\<forall>w. live (snd (po_port os w)) = live w) \<and>
     (\<forall>q w. live (snd (srv q w)) = live w)"

lemma oc_do_keeps:
  assumes "\<forall>q w. I (snd (srv q w)) = I w"
  shows "I (snd (oc_do srv c m p b dec w)) = I w"
proof (cases "url_parse (sc_base c @ p)")
  case None
  then show ?thesis by (simp add: oc_do_def)
next
  case (Some u)
  let ?q = "\<lparr>or_method = m, or_url = sc_base c @ p, or_auth = sc_auth c, or_body = b\<rparr>"
  obtain r w1 where 1: "srv ?q w = (r, w1)" by force
  with assms have "I w1 = I w" by (metis snd_conv)
  with Some 1 show ?thesis by (simp add: oc_do_def split: option.split)
qed

lemma probe_keeps:
  assumes "\<forall>q w. I (snd (srv q w)) = I w"
  shows "I (probe_world srv c w) = I w"
proof -
  let ?r = "oc_do srv c GET ''/openapi.json'' None no_result w"
  have "probe_world srv c w = snd ?r"
    by (cases ?r; cases "fst ?r") (simp_all add: probe_world_def oc_ready_def)
  then show ?thesis using oc_do_keeps [OF assms] by simp
qed

lemma await_ready_keeps:
  assumes "await_ready os srv c deadline w = Some r" and "\<forall>q w. I (snd (srv q w)) = I w"
    and "\<forall>w. I (po_sleep os w) = I w"
  shows "I (snd r) = I w"
  using poll_keeps [OF assms(1) [unfolded await_ready_def], of I] probe_keeps [of I srv c] assms(2,3)
  by (simp add: probe_world_def)

lemma oc_drive_keeps:
  assumes "\<forall>q w. I (snd (srv q w)) = I w"
  shows "I (snd (oc_drive srv ctx_err c m prompt w)) = I w"
proof -
  note k = oc_do_keeps [OF assms]
  have cs: "I (snd (create_session srv c m w)) = I w" for w
    using k [of c POST "''/session''" "Some (session_body c m)" session_id w]
    by (cases "oc_do srv c POST ''/session'' (Some (session_body c m)) session_id w")
      (simp add: create_session_def split: sum.split)
  have sm: "I (snd (send_message srv c i m prompt w)) = I w" for i w
    using k by (simp add: send_message_def)
  have ms: "I (snd (messages srv c i w)) = I w" for i w
    using k [of c GET "message_path i" None decode_messages w]
    by (cases "oc_do srv c GET (message_path i) None decode_messages w")
      (simp add: messages_def split: sum.split)
  have pm: "I (snd (partial_messages srv c i w)) = I w" for i w
    using ms [of i w] by (cases "messages srv c i w") (simp add: partial_messages_def split: sum.split)
  obtain r1 w1 where 1: "create_session srv c m w = (r1, w1)" by force
  show ?thesis
  proof (cases r1)
    case (Inl e)
    with 1 cs [of w] show ?thesis by (simp add: oc_drive_def)
  next
    case (Inr i)
    obtain r2 w2 where 2: "send_message srv c i m prompt w1 = (r2, w2)" by force
    obtain r3 w3 where 3: "messages srv c i w2 = (r3, w3)" by force
    obtain r4 w4 where 4: "partial_messages srv c i w2 = (r4, w4)" by force
    have w: "I w1 = I w" "I w2 = I w1" "I w3 = I w2" "I w4 = I w2"
      using cs [of w] 1 sm [of i w1] 2 ms [of i w2] 3 pm [of i w2] 4 by simp_all
    show ?thesis
      by (simp add: oc_drive_def 1 Inr 2 3 4 w split: sum.split option.split)
  qed
qed

lemma start_serve_lives:
  assumes "start_serve ffmt os srv h bin cfg workdir port intent f w = Some (r, f', w')"
    and "proc_laws live os srv"
  shows "case r of Inl e \<Rightarrow> live w' = live w | Inr (c, pid) \<Rightarrow> pid \<notin> live w \<and> live w' = insert pid (live w)"
proof -
  obtain env f1 where 1: "airgap_env ffmt h cfg intent f = (env, f1)" by force
  obtain sp w1 where 2: "po_spawn os (serve_request h bin env workdir port) w = (sp, w1)" by force
  have keeps: "\<forall>q w. live (snd (srv q w)) = live w" "\<forall>w. live (po_sleep os w) = live w"
    and kill: "\<And>p w. live (po_kill os p w) = live w - {p}"
    using assms(2) by (simp_all add: proc_laws_def)
  have spawn: "case sp of None \<Rightarrow> live w1 = live w | Some p \<Rightarrow> p \<notin> live w \<and> live w1 = insert p (live w)"
    using assms(2) 2 unfolding proc_laws_def by (metis (no_types, lifting) case_prod_conv)
  show ?thesis
  proof (cases sp)
    case None
    with assms(1) 1 2 spawn show ?thesis by (auto simp: start_serve_def)
  next
    case (Some pid)
    let ?a = "await_ready os srv (serve_at workdir port) (po_now os w1 + serve_ready_timeout) w1"
    from assms(1) 1 2 Some obtain b w2 where a: "?a = Some (b, w2)"
      by (cases ?a) (auto simp: start_serve_def Let_def)
    have "live w2 = live w1" using await_ready_keeps [OF a keeps] by simp
    with assms(1) 1 2 Some a spawn kill show ?thesis
      by (cases b) (auto simp: start_serve_def Let_def)
  qed
qed

text \<open>A headless run leaves no server behind: however it ends (binary missing, port, start,
  readiness timeout, failed or aborted turn, success), the processes alive after \<open>Solve\<close> are those
  that were alive before.\<close>

lemma solve_stops_server:
  assumes "solve ffmt os srv ctx_err h cfg explicit opts f w = Some (r, f', w')"
    and "proc_laws live os srv"
  shows "live w' = live w"
proof (cases "resolve_binary h explicit")
  case (Inl e)
  with assms(1) show ?thesis by (simp add: solve_def)
next
  case (Inr bin)
  obtain p w1 where 1: "choose_port os (so_port opts) w = (p, w1)" by force
  have l1: "live w1 = live w"
    using 1 assms(2) unfolding choose_port_def proc_laws_def by (metis snd_conv)
  show ?thesis
  proof (cases p)
    case None
    with assms(1) Inr 1 l1 show ?thesis by (simp add: solve_def real_solve_drive_def)
  next
    case (Some port)
    let ?s = "start_serve ffmt os srv h bin cfg (so_workdir opts) port (\<not> so_no_intent opts) f w1"
    from assms(1) Inr 1 Some obtain r2 f2 w2 where s: "?s = Some (r2, f2, w2)"
      by (cases ?s) (auto simp: solve_def real_solve_drive_def)
    note lives = start_serve_lives [OF s assms(2)]
    show ?thesis
    proof (cases r2)
      case (Inl e)
      with assms(1) Inr 1 Some s lives l1 show ?thesis by (simp add: solve_def real_solve_drive_def)
    next
      case r2: (Inr cp)
      obtain c pid where cp: "cp = (c, pid)" by force
      let ?m = "\<lparr>om_provider = ''local'', om_id = if so_model opts = [] then cf_model_id cfg else so_model opts\<rparr>"
      obtain r3 w3 where d: "oc_drive srv ctx_err c ?m (so_prompt opts) w2 = (r3, w3)" by force
      have "live w3 = live w2"
        using oc_drive_keeps [of live srv ctx_err c ?m "so_prompt opts" w2] d assms(2) by (simp add: proc_laws_def)
      moreover have "w' = po_kill os pid w3"
        using assms(1) Inr 1 Some s r2 cp d
        by (cases r3) (auto simp: solve_def real_solve_drive_def Let_def)
      ultimately show ?thesis using lives r2 cp l1 assms(2) by (auto simp: proc_laws_def)
    qed
  qed
qed

lemma tick_laws: "proc_laws tick_live tick_os tick_srv"
  by (auto simp: proc_laws_def tick_live_def tick_os_def tick_srv_def less_Suc_eq)



end
