(* ===== verification/CliHost.thy ===== *)
theory CliHost
  imports OcLaunch Origin Install InstallConfig Profile ServClient
begin

text \<open>
  How the command line (\<open>cmd/aegis\<close>) finds what it works on: the embedded deployment files
  (\<open>embed.go\<close>), the model catalog and the origin policy, the calibration, the local model and its
  context window (\<open>main.go\<close>, \<open>selfconfig.go\<close>), the recommendation and its cache
  (\<open>profile_surface.go\<close>, \<open>profile.go\<close>), and the launch command of the model server.  Files are
  named as the program names them.
\<close>

section \<open>The process and its host\<close>

text \<open>
  Besides what \<open>host\<close> has: the embedded files, what \<open>install.Detect\<close> and \<open>profile.Probe\<close> find, and the
  entries of a directory (name, whether it is a directory, its size unless the entry is gone).
\<close>

record cli =
  en_host :: host
  en_embedded :: "string \<Rightarrow> string option"
  en_caps :: host_caps
  en_probe :: host_profile
  en_ls :: "string \<Rightarrow> (string \<times> bool \<times> nat option) list option"

definition getenv :: "cli \<Rightarrow> string \<Rightarrow> string" where
  "getenv e k = ho_env (en_host e) k"

definition user_home :: "cli \<Rightarrow> string option" where
  "user_home e = (if getenv e ''HOME'' = [] then None else Some (getenv e ''HOME''))"

definition config_home :: "string \<Rightarrow> string \<Rightarrow> string" where
  "config_home home file = path_join [home, ''.config'', ''aegis'', file]"

section \<open>Deployment files\<close>

definition deploy_file_bytes :: "cli \<Rightarrow> string \<Rightarrow> fs \<Rightarrow> string option" where
  "deploy_file_bytes e rel f =
     (case (case ho_self (en_host e) of None \<Rightarrow> None | Some self \<Rightarrow> fs_read (path_join [path_dir self, rel]) f) of
        Some b \<Rightarrow> Some b
      | None \<Rightarrow>
          (case fs_read rel f of
             Some b \<Rightarrow> Some b
           | None \<Rightarrow> en_embedded e rel))"

definition catalog_bytes :: "cli \<Rightarrow> fs \<Rightarrow> string option" where
  "catalog_bytes e f =
     (let p = getenv e ''AEGIS_CATALOG''
      in if p \<noteq> [] then fs_read p f else deploy_file_bytes e ''deploy/models/catalog.json'' f)"

definition origin_policy_path :: "cli \<Rightarrow> fs \<Rightarrow> string" where
  "origin_policy_path e f =
     (let p = getenv e ''AEGIS_ORIGIN_POLICY''
      in if p \<noteq> [] then p
         else case ho_self (en_host e) of
           None \<Rightarrow> default_policy_path
         | Some self \<Rightarrow>
             (let q = path_join [path_dir self, default_policy_path]
              in if fs_exists q f then q else default_policy_path))"

definition aegis_origin_policy :: "cli \<Rightarrow> fs \<Rightarrow> policy_err + policy" where
  "aegis_origin_policy e f =
     (case load_policy (getenv e ''AEGIS_ORIGIN_POLICY'') (origin_policy_path e f) f of
        Inr p \<Rightarrow> Inr p
      | Inl x \<Rightarrow> parse_policy (case en_embedded e default_policy_path of None \<Rightarrow> [] | Some b \<Rightarrow> b))"

section \<open>The origin gate\<close>

text \<open>The pinned model is a file with a name; what the gate prints is its verdict.\<close>

datatype origin_verdict =
    OriginSkip string
  | OriginPolicyFail policy_err
  | OriginFail string string denial
  | OriginOK string string

definition model_ref_name :: "string \<Rightarrow> string option" where
  "model_ref_name text =
     (case unmarshal (dec_struct [(''name'', dec_string)]) [] text of
        None \<Rightarrow> None
      | Some n \<Rightarrow> if n = [] then None else Some n)"

definition verify_model_origin :: "cli \<Rightarrow> fs \<Rightarrow> origin_verdict \<times> int" where
  "verify_model_origin e f =
     (case deploy_file_bytes e (path_join [''deploy'', ''models'', ''MODEL_REF'']) f of
        None \<Rightarrow> (OriginSkip ''no MODEL_REF pinned'', 0)
      | Some ref \<Rightarrow>
          (case model_ref_name ref of
             None \<Rightarrow> (OriginSkip ''MODEL_REF unreadable'', 0)
           | Some m \<Rightarrow>
               (case catalog_bytes e f of
                  None \<Rightarrow> (OriginSkip ''no model catalog'', 0)
                | Some catalog \<Rightarrow>
                    (case aegis_origin_policy e f of
                       Inl x \<Rightarrow> (OriginPolicyFail x, 1)
                     | Inr pol \<Rightarrow>
                         (let label = (case origin_for_model m catalog of None \<Rightarrow> ''unknown'' | Some c \<Rightarrow> c)
                          in case check_origin m catalog pol of
                               Some d \<Rightarrow> (OriginFail m label d, 1)
                             | None \<Rightarrow> (OriginOK m label, 0))))))"

section \<open>Catalog lookups\<close>

record catalog_file =
  cg_id :: string
  cg_file :: string

definition catalog_models ::
  "'r \<Rightarrow> 'r json_field list \<Rightarrow> string \<Rightarrow> 'r list option" where
  "catalog_models zero fds text =
     unmarshal (dec_struct [(''models'', \<lambda>old j. dec_list zero (dec_struct fds) old j)]) [] text"

definition catalog_file_fields :: "catalog_file json_field list" where
  "catalog_file_fields =
     [(''id'', fld dec_string cg_id cg_id_update), (''file'', fld dec_string cg_file cg_file_update)]"

definition catalog_id_for_gguf :: "cli \<Rightarrow> string \<Rightarrow> fs \<Rightarrow> string" where
  "catalog_id_for_gguf e path f =
     (case catalog_bytes e f of
        None \<Rightarrow> []
      | Some b \<Rightarrow>
          (case catalog_models \<lparr>cg_id = [], cg_file = []\<rparr> catalog_file_fields b of
             None \<Rightarrow> []
           | Some ms \<Rightarrow>
               (case find (\<lambda>m. cg_file m = path_base path) ms of None \<Rightarrow> [] | Some m \<Rightarrow> cg_id m)))"

definition load_catalog_tuning :: "cli \<Rightarrow> string \<Rightarrow> fs \<Rightarrow> tuning option" where
  "load_catalog_tuning e m f =
     (if m = [] then None
      else case catalog_bytes e f of None \<Rightarrow> None | Some b \<Rightarrow> tuning_for_model m b)"

definition catalog_ctx_size_for_gguf :: "cli \<Rightarrow> string \<Rightarrow> fs \<Rightarrow> int" where
  "catalog_ctx_size_for_gguf e path f =
     (if path = [] then 0
      else case catalog_bytes e f of
        None \<Rightarrow> 0
      | Some b \<Rightarrow>
          (case tuning_for_gguf path b of
             None \<Rightarrow> 0
           | Some t \<Rightarrow> (case tu_num_ctx t of None \<Rightarrow> 0 | Some n \<Rightarrow> n)))"

section \<open>Calibration and local models\<close>

definition resolve_calibration_path :: "cli \<Rightarrow> fs \<Rightarrow> string" where
  "resolve_calibration_path e f =
     (let p = getenv e ''AEGIS_CALIBRATION'';
          cands = (case user_home e of None \<Rightarrow> [] | Some home \<Rightarrow> [config_home home ''calibration.json'']) @
                  [''deploy/llama-server/calibration.json'']
      in if p \<noteq> [] then p
         else case find (\<lambda>c. fs_exists c f) cands of None \<Rightarrow> [] | Some c \<Rightarrow> c)"

definition gguf_entry :: "string \<times> bool \<times> nat option \<Rightarrow> (string \<times> nat) option" where
  "gguf_entry x =
     (case x of (nm, is_dir, sz) \<Rightarrow>
        if is_dir \<or> \<not> has_suffix nm ''.gguf'' then None else map_option (Pair nm) sz)"

definition smaller_gguf :: "string \<Rightarrow> string \<times> nat \<Rightarrow> string \<times> nat \<Rightarrow> string \<times> nat" where
  "smaller_gguf dir x best =
     (if fst best = [] \<or> snd x < snd best then (path_join [dir, fst x], snd x) else best)"

definition resolve_any_model_gguf :: "cli \<Rightarrow> string" where
  "resolve_any_model_gguf e =
     (let d = getenv e ''MODEL_DOWNLOAD_DIR'';
          dir = (if d \<noteq> [] then Some d else map_option (\<lambda>home. path_join [home, ''models'']) (user_home e))
      in case dir of
           None \<Rightarrow> []
         | Some dir \<Rightarrow>
             (case en_ls e dir of
                None \<Rightarrow> []
              | Some es \<Rightarrow> fst (fold (smaller_gguf dir) (List.map_filter gguf_entry es) ([], 0))))"

definition reasoning_json :: "reasoning \<Rightarrow> json" where
  "reasoning_json r =
     JObj (omit_if (\<not> ra_enable_for_hard r) ''enable_for_hard'' (JBool (ra_enable_for_hard r)) @
           omit_if (ra_max_tokens r = 0) ''max_tokens'' (jint (ra_max_tokens r)))"

definition calibration_json :: "calibration \<Rightarrow> json" where
  "calibration_json c =
     JObj ([(''target'', JStr (cal_target c)), (''threads'', jint (cal_threads c)),
            (''batch'', jint (cal_batch c)), (''ngl'', jint (cal_ngl c)),
            (''model'', JStr (cal_model c)), (''port'', jint (cal_port c))] @
           omit_if (cal_ctx_size c = 0) ''ctx_size'' (jint (cal_ctx_size c)) @
           [(''reasoning'', reasoning_json (cal_reasoning c))])"

datatype seed_err = NoHome | SeedMkdir string | SeedWrite string

definition seed_for :: "cli \<Rightarrow> string \<Rightarrow> fs \<Rightarrow> calibration" where
  "seed_for e gguf f =
     (ip_calibration (install_plan_for (en_caps e)))
       \<lparr>cal_model := gguf,
        cal_ctx_size := resolve_ctx_size (getenv e ''AEGIS_CTX_SIZE'') (catalog_ctx_size_for_gguf e gguf f)\<rparr>"

definition write_seed_calibration :: "cli \<Rightarrow> string \<Rightarrow> fs \<Rightarrow> (seed_err + string) \<times> fs" where
  "write_seed_calibration e gguf f =
     (case user_home e of
        None \<Rightarrow> (Inl NoHome, f)
      | Some home \<Rightarrow>
          (let dir = path_join [home, ''.config'', ''aegis'']; path = path_join [dir, ''calibration.json'']
           in case fs_mkdir_all dir f of
                (False, f1) \<Rightarrow> (Inl (SeedMkdir dir), f1)
              | (True, f1) \<Rightarrow>
                  (case fs_write path (json_indent 0 (calibration_json (seed_for e gguf f))) f1 of
                     (False, f2) \<Rightarrow> (Inl (SeedWrite path), f2)
                   | (True, f2) \<Rightarrow> (Inr path, f2))))"

section \<open>The context window that fits\<close>

definition ctx_ladder :: "int list" where "ctx_ladder = [32768, 24576, 16384, 12288, 8192, 4096]"

definition serve_reserve_bytes :: "64 word" where "serve_reserve_bytes = 6 * 2 ^ 30"

definition window_fits :: "64 word \<Rightarrow> 64 word \<Rightarrow> string \<Rightarrow> int \<Rightarrow> bool" where
  "window_fits sz ram i c \<longleftrightarrow>
     sz + kv_bytes (estimate_total_params i i sz) c \<le> ram - serve_reserve_bytes"

definition fit_ctx_tokens :: "int \<Rightarrow> 64 word \<Rightarrow> 64 word \<Rightarrow> string \<Rightarrow> int" where
  "fit_ctx_tokens desired0 sz ram i =
     (let desired = (if desired0 \<le> 0 then default_ctx_size else desired0)
      in if sz = 0 \<or> ram = 0 \<or> ram \<le> serve_reserve_bytes then desired
         else case find (\<lambda>c. c \<le> desired \<and> window_fits sz ram i c) ctx_ladder of
           Some c \<Rightarrow> c
         | None \<Rightarrow> last ctx_ladder)"

definition fit_ctx_size :: "cli \<Rightarrow> int \<Rightarrow> string \<Rightarrow> fs \<Rightarrow> int" where
  "fit_ctx_size e desired path f =
     (if getenv e ''AEGIS_CTX_SIZE'' \<noteq> [] then desired
      else case fs_files f path of
        None \<Rightarrow> desired
      | Some b \<Rightarrow> if b = [] then desired
                  else fit_ctx_tokens desired (word_of_nat (length b)) (hc_ram (en_caps e)) path)"

section \<open>The launch command\<close>

definition resolve_llama_server :: "cli \<Rightarrow> (string \<Rightarrow> bool) \<Rightarrow> string" where
  "resolve_llama_server e xbits =
     (let staged = ''deploy/llama-server/bin/llama-server''; h = en_host e
      in if xbits staged then abs_of h staged
         else case find xbits (map (\<lambda>d. path_join [d, ''llama-server'']) (libexec_dirs h)) of
           Some p \<Rightarrow> p
         | None \<Rightarrow> (case ho_look h ''llama-server'' of Some p \<Rightarrow> p | None \<Rightarrow> ''llama-server''))"

fun replace_arg :: "string \<Rightarrow> string \<Rightarrow> string list \<Rightarrow> string list" where
  "replace_arg old new [] = []"
| "replace_arg old new (a # as) = (if a = old then new # as else a # replace_arg old new as)"

datatype serve_err = ServeCal cal_err | ServeEmpty

text \<open>The calibration with the window of this launch.\<close>

definition launch_calibration :: "cli \<Rightarrow> calibration \<Rightarrow> fs \<Rightarrow> calibration" where
  "launch_calibration e cal f =
     (let want = resolve_ctx_size (getenv e ''AEGIS_CTX_SIZE'') (catalog_ctx_size_for_gguf e (cal_model cal) f)
      in cal\<lparr>cal_ctx_size := fit_ctx_size e want (cal_model cal) f\<rparr>)"

definition build_serve_command :: "cli \<Rightarrow> (string \<Rightarrow> bool) \<Rightarrow> string \<Rightarrow> fs \<Rightarrow> serve_err + string list" where
  "build_serve_command e xbits cal_path f =
     (case load_calibration cal_path f of
        Inl x \<Rightarrow> Inl (ServeCal x)
      | Inr cal \<Rightarrow>
          (case launch_args (getenv e ''AEGIS_CTX_SIZE'') (Some (launch_calibration e cal f)) of
             Inl x \<Rightarrow> Inl (ServeCal x)
           | Inr argv \<Rightarrow>
               (let argv1 = replace_arg ''llama-server'' (resolve_llama_server e xbits) argv
                in if argv1 = [] then Inl ServeEmpty else Inr argv1)))"

section \<open>The served model\<close>

definition calibrated_model :: "cli \<Rightarrow> fs \<Rightarrow> string option" where
  "calibrated_model e f =
     (let cp = resolve_calibration_path e f
      in if cp = [] then None
         else case load_calibration cp f of Inl x \<Rightarrow> None | Inr cal \<Rightarrow> Some (cal_model cal))"

definition serving_model_id :: "cli \<Rightarrow> fs \<Rightarrow> string" where
  "serving_model_id e f =
     (case calibrated_model e f of None \<Rightarrow> [] | Some m \<Rightarrow> catalog_id_for_gguf e m f)"

definition served_window :: "cli \<Rightarrow> 'w server \<Rightarrow> string \<Rightarrow> fs \<Rightarrow> 'w \<Rightarrow> int \<times> 'w" where
  "served_window e srv endpoint f w =
     (let m = (case calibrated_model e f of None \<Rightarrow> [] | Some m \<Rightarrow> m);
          fallback = fit_ctx_size e (resolve_ctx_size (getenv e ''AEGIS_CTX_SIZE'') (catalog_ctx_size_for_gguf e m f)) m f
      in if endpoint = [] then (fallback, w)
         else case new_client endpoint of
           Inl x \<Rightarrow> (fallback, w)
         | Inr u \<Rightarrow>
             (case served_ctx_size srv u w of
                (Inr n, w1) \<Rightarrow> (if n \<ge> 512 then n else fallback, w1)
              | (Inl x, w1) \<Rightarrow> (fallback, w1)))"

section \<open>The recommendation and its cache\<close>

definition spec_fields :: "model_spec json_field list" where
  "spec_fields =
     [(''id'', fld dec_string sp_id sp_id_update), (''file'', fld dec_string sp_file sp_file_update),
      (''size'', fld (\<lambda>old j. map_option word_of_nat (dec_uint (unat old) j)) sp_size sp_size_update),
      (''origin'', fld dec_string sp_origin sp_origin_update),
      (''active_params'', fld (\<lambda>old j. map_option word_of_nat (dec_uint (unat old) j)) sp_active sp_active_update)]"

definition zero_spec :: model_spec where
  "zero_spec = \<lparr>sp_id = [], sp_file = [], sp_size = 0, sp_origin = [], sp_active = 0\<rparr>"

datatype catalog_err = CatalogMissing | CatalogParse

definition catalog_model_specs :: "cli \<Rightarrow> fs \<Rightarrow> catalog_err + model_spec list" where
  "catalog_model_specs e f =
     (case catalog_bytes e f of
        None \<Rightarrow> Inl CatalogMissing
      | Some b \<Rightarrow> (case catalog_models zero_spec spec_fields b of None \<Rightarrow> Inl CatalogParse | Some ms \<Rightarrow> Inr ms))"

definition compute_recommendation :: "cli \<Rightarrow> int \<Rightarrow> fs \<Rightarrow> catalog_err + recommendation" where
  "compute_recommendation e ctx f =
     (case catalog_model_specs e f of
        Inl x \<Rightarrow> Inl x
      | Inr specs \<Rightarrow>
          (let allowed = (case aegis_origin_policy e f of Inr pol \<Rightarrow> allows pol | Inl x \<Rightarrow> (\<lambda>c. True))
           in Inr (recommend specs allowed (en_probe e) ctx default_floors)))"

definition profile_cache_path :: "cli \<Rightarrow> string" where
  "profile_cache_path e = (case user_home e of None \<Rightarrow> [] | Some home \<Rightarrow> config_home home ''profile.json'')"

definition accel_name :: "accel \<Rightarrow> string" where
  "accel_name a =
     (case a of AccelNone \<Rightarrow> ''none'' | AccelMetal \<Rightarrow> ''apple-metal'' | AccelNVIDIA \<Rightarrow> ''nvidia-cuda'' |
                AccelROCm \<Rightarrow> ''amd-rocm'')"

definition jword :: "64 word \<Rightarrow> json" where
  "jword x = JNum (show_nat (unat x))"

definition host_profile_json :: "host_profile \<Rightarrow> json" where
  "host_profile_json p =
     JObj [(''target'', JStr (hp_target p)), (''os'', JStr (hp_os p)), (''physical_cpu'', jint (hp_cpu p)),
           (''total_ram_bytes'', jword (hp_total p)), (''available_ram_bytes'', jword (hp_avail p)),
           (''mem_bandwidth_bytes_per_sec'', jword (hp_bandwidth p)), (''accel'', JStr (accel_name (hp_accel p)))]"

definition model_fit_json :: "(real \<Rightarrow> string) \<Rightarrow> model_fit \<Rightarrow> json" where
  "model_fit_json ffmt m =
     JObj [(''id'', JStr (ft_id m)), (''origin_allowed'', JBool (ft_allowed m)),
           (''required_bytes'', jword (ft_required m)), (''fits_capacity'', JBool (ft_capacity m)),
           (''predicted_tok_per_sec'', JNum (ffmt (ft_tps m))), (''measured'', JBool (ft_measured m)),
           (''fits_interactive'', JBool (ft_interactive m)), (''fits_unattended'', JBool (ft_unattended m))]"

definition recommendation_json :: "(real \<Rightarrow> string) \<Rightarrow> recommendation \<Rightarrow> json" where
  "recommendation_json ffmt r =
     JObj [(''profile'', host_profile_json (rc_profile r)), (''ctx_tokens'', jint (rc_ctx r)),
           (''floors'', JObj [(''interactive_tok_per_sec'', JNum (ffmt (fl_interactive (rc_floors r)))),
                              (''unattended_tok_per_sec'', JNum (ffmt (fl_unattended (rc_floors r))))]),
           (''fits'', if rc_fits r = [] then JNull else JArr (map (model_fit_json ffmt) (rc_fits r))),
           (''interactive_pick'', JStr (rc_interactive r)), (''unattended_pick'', JStr (rc_unattended r))]"

definition write_profile_cache :: "(real \<Rightarrow> string) \<Rightarrow> cli \<Rightarrow> recommendation \<Rightarrow> fs \<Rightarrow> bool \<times> fs" where
  "write_profile_cache ffmt e r f =
     (let p = profile_cache_path e
      in if p = [] then (False, f)
         else case fs_mkdir_all (path_dir p) f of
           (False, f1) \<Rightarrow> (False, f1)
         | (True, f1) \<Rightarrow> fs_write p (json_indent 0 (recommendation_json ffmt r)) f1)"

text \<open>A 64-bit number of the cached text; of the accelerator only the type is read.\<close>

definition dec_word :: "64 word \<Rightarrow> json \<Rightarrow> 64 word option" where
  "dec_word old j = map_option word_of_nat (dec_uint (unat old) j)"

definition zero_profile :: host_profile where
  "zero_profile = \<lparr>hp_target = [], hp_os = [], hp_cpu = 0, hp_total = 0, hp_avail = 0, hp_bandwidth = 0,
     hp_accel = AccelNone\<rparr>"

definition zero_fit :: model_fit where
  "zero_fit = \<lparr>ft_id = [], ft_allowed = False, ft_required = 0, ft_capacity = False, ft_tps = 0,
     ft_measured = False, ft_interactive = False, ft_unattended = False\<rparr>"

definition host_profile_fields :: "host_profile json_field list" where
  "host_profile_fields =
     [(''target'', fld dec_string hp_target hp_target_update), (''os'', fld dec_string hp_os hp_os_update),
      (''physical_cpu'', fld dec_int hp_cpu hp_cpu_update),
      (''total_ram_bytes'', fld dec_word hp_total hp_total_update),
      (''available_ram_bytes'', fld dec_word hp_avail hp_avail_update),
      (''mem_bandwidth_bytes_per_sec'', fld dec_word hp_bandwidth hp_bandwidth_update),
      (''accel'', \<lambda>p j. map_option (\<lambda>s. p) (dec_string [] j))]"

definition floors_fields :: "floors json_field list" where
  "floors_fields =
     [(''interactive_tok_per_sec'', fld dec_real fl_interactive fl_interactive_update),
      (''unattended_tok_per_sec'', fld dec_real fl_unattended fl_unattended_update)]"

definition fit_fields :: "model_fit json_field list" where
  "fit_fields =
     [(''id'', fld dec_string ft_id ft_id_update), (''origin_allowed'', fld dec_bool ft_allowed ft_allowed_update),
      (''required_bytes'', fld dec_word ft_required ft_required_update),
      (''fits_capacity'', fld dec_bool ft_capacity ft_capacity_update),
      (''predicted_tok_per_sec'', fld dec_real ft_tps ft_tps_update),
      (''measured'', fld dec_bool ft_measured ft_measured_update),
      (''fits_interactive'', fld dec_bool ft_interactive ft_interactive_update),
      (''fits_unattended'', fld dec_bool ft_unattended ft_unattended_update)]"

definition cache_fields :: "recommendation json_field list" where
  "cache_fields =
     [(''profile'', fld (dec_struct host_profile_fields) rc_profile rc_profile_update),
      (''ctx_tokens'', fld dec_int rc_ctx rc_ctx_update),
      (''floors'', fld (dec_struct floors_fields) rc_floors rc_floors_update),
      (''fits'', fld (dec_list zero_fit (dec_struct fit_fields)) rc_fits rc_fits_update),
      (''interactive_pick'', fld dec_string rc_interactive rc_interactive_update),
      (''unattended_pick'', fld dec_string rc_unattended rc_unattended_update)]"

definition zero_recommendation :: recommendation where
  "zero_recommendation = \<lparr>rc_profile = zero_profile, rc_ctx = 0,
     rc_floors = \<lparr>fl_interactive = 0, fl_unattended = 0\<rparr>, rc_fits = [], rc_interactive = [], rc_unattended = []\<rparr>"

definition load_profile_cache :: "cli \<Rightarrow> fs \<Rightarrow> recommendation option" where
  "load_profile_cache e f =
     (let p = profile_cache_path e
      in if p = [] then None
         else case fs_read p f of
           None \<Rightarrow> None
         | Some b \<Rightarrow> unmarshal (dec_struct cache_fields) zero_recommendation b)"

definition auto_profile :: "(real \<Rightarrow> string) \<Rightarrow> cli \<Rightarrow> fs \<Rightarrow> fs" where
  "auto_profile ffmt e f =
     (case load_profile_cache e f of
        Some r \<Rightarrow> f
      | None \<Rightarrow>
          (case compute_recommendation e 16384 f of
             Inl x \<Rightarrow> f
           | Inr r \<Rightarrow> snd (write_profile_cache ffmt e r f)))"

definition em_dash3 :: string where "em_dash3 = [CHR 0xE2, CHR 0x80, CHR 0x94]"

definition profile_hint :: "cli \<Rightarrow> string \<Rightarrow> fs \<Rightarrow> string" where
  "profile_hint e running f =
     (case load_profile_cache e f of
        None \<Rightarrow> []
      | Some r \<Rightarrow>
          (let best = (if rc_interactive r = [] then rc_unattended r else rc_interactive r)
           in if rc_fits r = [] \<or> best = [] then []
              else if running \<noteq> [] \<and> running \<noteq> best then
                ''this host fits '' @ best @ '' best '' @ em_dash3 @ '' you'' @ [CHR 0x27] @ ''re running '' @ running @
                '' (run `aegis profile` for details)''
              else ''best-fitting model for this host: '' @ best @ '' (run `aegis profile` for the full table)''))"

definition rationale_for :: "string \<Rightarrow> string \<Rightarrow> string" where
  "rationale_for m grade =
     (if m = [] then []
      else ''Recommended: '' @ m @ '' is the most capable US-origin model that fits this host at '' @ grade @
           '' speed '' @ em_dash3 @ '' host-calibrated and origin-verified, vs an unvetted Ollama pull.'')"

definition recommendation_rationale :: "cli \<Rightarrow> fs \<Rightarrow> string" where
  "recommendation_rationale e f =
     (case compute_recommendation e 16384 f of
        Inl x \<Rightarrow> []
      | Inr r \<Rightarrow> if rc_interactive r \<noteq> [] then rationale_for (rc_interactive r) ''interactive''
                 else rationale_for (rc_unattended r) ''unattended'')"

end
