(* ===== verification/CliHostProps.thy ===== *)
theory CliHostProps
  imports CliHost OcLaunchProps
begin

text \<open>
  What the command line's model resolution promises: the window it serves is on the ladder and fits,
  the fast start picks the smallest local model, and a seeded calibration can be read back and
  launched on the loopback address.
\<close>

section \<open>The window\<close>

lemma find_rev_sorted:
  assumes "sorted_wrt (>) (xs :: int list)"
  shows "find P xs = Some c \<Longrightarrow> c \<in> set xs \<and> P c \<and> filter (\<lambda>x. P x \<and> c < x) xs = []"
    and "find P xs = None \<Longrightarrow> filter P xs = []"
  using assms by (induction xs) (auto split: if_splits simp: filter_empty_conv)


section \<open>Fast start\<close>

lemma path_join2_not_Nil: "b \<noteq> [] \<Longrightarrow> path_join [a, b] \<noteq> []"
  by (simp add: path_join_def path_clean_not_Nil)

definition gguf_at :: "string \<Rightarrow> string \<times> nat \<Rightarrow> string \<times> nat" where
  "gguf_at dir x = (path_join [dir, fst x], snd x)"

lemma smaller_gguf_fold:
  "\<forall>x \<in> set xs. fst x \<noteq> [] \<Longrightarrow> fst a \<noteq> [] \<Longrightarrow> b = fold (smaller_gguf dir) xs a \<Longrightarrow>
     b \<in> insert a (gguf_at dir ` set xs) \<and> snd b \<le> snd a \<and> (\<forall>x \<in> set xs. snd b \<le> snd x)"
proof (induction xs arbitrary: a)
  case (Cons x xs)
  let ?a = "smaller_gguf dir x a"
  have a: "fst ?a \<noteq> []" "?a = a \<or> ?a = gguf_at dir x" "snd ?a \<le> snd a" "snd ?a \<le> snd x"
    using Cons.prems path_join2_not_Nil [of "fst x" dir] by (auto simp: smaller_gguf_def gguf_at_def)
  have "b \<in> insert ?a (gguf_at dir ` set xs) \<and> snd b \<le> snd ?a \<and> (\<forall>x \<in> set xs. snd b \<le> snd x)"
    using Cons.prems a(1) by (intro Cons.IH) auto
  then show ?case using a by auto
qed simp

definition local_ggufs :: "(string \<times> bool \<times> nat option) list \<Rightarrow> (string \<times> nat) list" where
  "local_ggufs es = List.map_filter gguf_entry es"

lemma gguf_entry_named: "gguf_entry y = Some x \<Longrightarrow> fst x \<noteq> []"
  by (cases y; cases "snd (snd y)") (auto simp: gguf_entry_def has_suffix_def split: if_splits)

lemma local_ggufs_named: "x \<in> set (local_ggufs es) \<Longrightarrow> fst x \<noteq> []"
  unfolding local_ggufs_def
  by (induction es) (auto simp: List.map_filter_simps dest: gguf_entry_named split: option.splits)

definition model_dir :: "cli \<Rightarrow> string option" where
  "model_dir e =
     (if getenv e ''MODEL_DOWNLOAD_DIR'' \<noteq> [] then Some (getenv e ''MODEL_DOWNLOAD_DIR'')
      else map_option (\<lambda>home. path_join [home, ''models'']) (user_home e))"

text \<open>Without a calibration the fast start takes a smallest model file of the download directory, and
  none only when the directory has no readable model file.\<close>

theorem fast_start_picks_smallest:
  assumes "model_dir e = Some dir" and "en_ls e dir = Some es"
  shows "case local_ggufs es of
      [] \<Rightarrow> resolve_any_model_gguf e = []
    | _ \<Rightarrow> \<exists>x \<in> set (local_ggufs es). resolve_any_model_gguf e = path_join [dir, fst x] \<and>
              (\<forall>y \<in> set (local_ggufs es). snd x \<le> snd y)"
proof -
  have r: "resolve_any_model_gguf e = fst (fold (smaller_gguf dir) (local_ggufs es) ([], 0))"
    using assms unfolding resolve_any_model_gguf_def model_dir_def Let_def local_ggufs_def by (simp split: if_splits)
  show ?thesis
  proof (cases "local_ggufs es")
    case Nil
    then show ?thesis using r by simp
  next
    case (Cons x xs)
    let ?b = "fold (smaller_gguf dir) xs (gguf_at dir x)"
    have n: "fst x \<noteq> []" "\<forall>y \<in> set xs. fst y \<noteq> []" using local_ggufs_named [of _ es] Cons by auto
    have "fold (smaller_gguf dir) (x # xs) ([], 0) = ?b" by (simp add: smaller_gguf_def gguf_at_def)
    moreover have "?b \<in> insert (gguf_at dir x) (gguf_at dir ` set xs) \<and> snd ?b \<le> snd (gguf_at dir x) \<and>
        (\<forall>y \<in> set xs. snd ?b \<le> snd y)"
      using n path_join2_not_Nil by (intro smaller_gguf_fold) (auto simp: gguf_at_def)
    ultimately show ?thesis using r Cons by (fastforce simp: gguf_at_def)
  qed
qed

section \<open>A seeded calibration\<close>

definition cal_plain :: "calibration \<Rightarrow> bool" where
  "cal_plain c \<longleftrightarrow> utf8_text (cal_target c) \<and> utf8_text (cal_model c) \<and>
     list_all int64_ok [cal_threads c, cal_batch c, cal_ngl c, cal_port c, cal_ctx_size c, ra_max_tokens (cal_reasoning c)]"

lemma cal_names:
  "list_all utf8_text [''target'', ''threads'', ''batch'', ''ngl'', ''model'', ''port'', ''ctx_size'', ''reasoning'',
     ''enable_for_hard'', ''max_tokens'']"
  by code_simp

lemma plain_calibration: "cal_plain c \<Longrightarrow> plain_json (calibration_json c)"
  using cal_names by (simp add: cal_plain_def calibration_json_def reasoning_json_def)

lemma reasoning_field:
  "field_named reasoning_fields ''enable_for_hard'' =
     Some (''enable_for_hard'', fld dec_bool ra_enable_for_hard ra_enable_for_hard_update)"
  "field_named reasoning_fields ''max_tokens'' = Some (''max_tokens'', fld dec_int ra_max_tokens ra_max_tokens_update)"
  by (simp_all add: field_named_def reasoning_fields_def)

lemma dec_reasoning:
  assumes "int64_ok (ra_max_tokens r)"
  shows "dec_struct reasoning_fields \<lparr>ra_enable_for_hard = False, ra_max_tokens = 0\<rparr> (reasoning_json r) = Some r"
  using assms by (cases r) (simp add: dec_struct_def reasoning_json_def omit_if_def reasoning_field fld_def dec_bool_def)

lemma calibration_field:
  "field_named calibration_fields ''target'' = Some (''target'', fld dec_string cal_target cal_target_update)"
  "field_named calibration_fields ''threads'' = Some (''threads'', fld dec_int cal_threads cal_threads_update)"
  "field_named calibration_fields ''batch'' = Some (''batch'', fld dec_int cal_batch cal_batch_update)"
  "field_named calibration_fields ''ngl'' = Some (''ngl'', fld dec_int cal_ngl cal_ngl_update)"
  "field_named calibration_fields ''model'' = Some (''model'', fld dec_string cal_model cal_model_update)"
  "field_named calibration_fields ''port'' = Some (''port'', fld dec_int cal_port cal_port_update)"
  "field_named calibration_fields ''ctx_size'' = Some (''ctx_size'', fld dec_int cal_ctx_size cal_ctx_size_update)"
  "field_named calibration_fields ''reasoning'' =
     Some (''reasoning'', fld (dec_struct reasoning_fields) cal_reasoning cal_reasoning_update)"
  by (simp_all add: field_named_def calibration_fields_def)

lemma decode_calibration:
  assumes "cal_plain c"
  shows "dec_struct calibration_fields zero_calibration (calibration_json c) = Some c"
proof -
  have i: "int64_ok (cal_threads c)" "int64_ok (cal_batch c)" "int64_ok (cal_ngl c)" "int64_ok (cal_port c)"
    "int64_ok (cal_ctx_size c)" and
    r: "dec_struct reasoning_fields \<lparr>ra_enable_for_hard = False, ra_max_tokens = 0\<rparr> (reasoning_json (cal_reasoning c)) =
      Some (cal_reasoning c)"
    using assms dec_reasoning by (simp_all add: cal_plain_def)
  show ?thesis
    using i r by (cases "cal_ctx_size c = 0")
      (simp_all add: dec_struct_def calibration_json_def omit_if_def calibration_field fld_def zero_calibration_def)
qed

lemma json_text_bare:
  assumes "plain_json v"
  shows "json_parse (json_indent 0 v) = Some v"
proof -
  have "need v \<le> 2 * length (json_indent 0 v) + 2" using need_length(1) [OF assms, of 0] by simp
  then have "jvalue (2 * length (json_indent 0 v) + 2) (json_indent 0 v @ []) = Some (v, [])"
    by (intro parse_indent(1) assms) (simp_all add: delim_def)
  then show ?thesis by (simp add: json_parse_def skip_ws_def del: jvalue.simps)
qed

lemma seed_written:
  assumes "write_seed_calibration e gguf f = (Inr path, f')" and "cal_plain (seed_for e gguf f)"
    and "path \<notin> fs_deny_read f"
  shows "load_calibration path f' =
     (case cal_validate (seed_for e gguf f) of Some x \<Rightarrow> Inl x | None \<Rightarrow> Inr (seed_for e gguf f))"
proof -
  let ?c = "seed_for e gguf f"
  obtain home where h: "user_home e = Some home"
    using assms(1) by (cases "user_home e") (auto simp: write_seed_calibration_def)
  let ?dir = "path_join [home, ''.config'', ''aegis'']"
  obtain b1 f1 where m: "fs_mkdir_all ?dir f = (b1, f1)" by force
  obtain b2 f2 where w: "fs_write (path_join [?dir, ''calibration.json'']) (json_indent 0 (calibration_json ?c)) f1 =
      (b2, f2)" by force
  from assms(1) h m w have b: "b1" "b2" "path = path_join [?dir, ''calibration.json'']" "f' = f2"
    unfolding write_seed_calibration_def Let_def by (simp_all split: bool.splits)
  have "path \<notin> fs_deny_read f1"
    using assms(3) fs_mkdir_all_props [OF m] by (simp add: fs_grown_def)
  with w b have "fs_read path f' = Some (json_indent 0 (calibration_json ?c))" by (auto intro: fs_read_write)
  moreover have "unmarshal (dec_struct calibration_fields) zero_calibration (json_indent 0 (calibration_json ?c)) = Some ?c"
    using json_text_bare [OF plain_calibration [OF assms(2)]] decode_calibration [OF assms(2)]
    by (simp add: unmarshal_def)
  ultimately show ?thesis by (simp add: load_calibration_def)
qed

lemma seed_for_valid: "gguf \<noteq> [] \<Longrightarrow> cal_validate (seed_for e gguf f) = None"
  by (simp add: cal_validate_None seed_for_def install_plan_for_def Let_def seed_calibration_def split: prod.split)

lemma three_at:
  assumes "k + 2 < length zs" "zs ! k = a" "zs ! (k + 1) = b" "zs ! (k + 2) = c"
  shows "\<exists>xs ys. zs = xs @ a # b # c # ys"
proof -
  have "zs = take k zs @ zs ! k # zs ! (k + 1) # zs ! (k + 2) # drop (k + 3) zs"
    using assms(1) by (simp add: Cons_nth_drop_Suc numeral_3_eq_3 add_2_eq_Suc')
  with assms show ?thesis by (metis append_Cons append_Nil)
qed

text \<open>The arguments that end a launch command, after the program has been resolved.\<close>

lemma launch_resolved:
  assumes "cal_validate c = None"
  shows "\<exists>argv. launch_args env (Some c) = Inr argv \<and> replace_arg ''llama-server'' bin argv \<noteq> [] \<and>
     drop (length argv - 4) (replace_arg ''llama-server'' bin argv) =
       [''--host'', ''127.0.0.1'', ''--port'', show_int (cal_port c)] \<and>
     (\<exists>xs ys. replace_arg ''llama-server'' bin argv = xs @ [bin, ''--model'', cal_model c] @ ys)"
proof -
  consider "cal_target c = serve_linux_cpu" | "cal_target c = serve_darwin_metal" "cal_target c \<noteq> serve_linux_cpu"
    using assms by (auto simp: cal_validate_None serve_linux_cpu_def serve_darwin_metal_def)
  then show ?thesis
  proof cases
    case 1
    then show ?thesis using assms by (simp add: launch_args_def) (rule three_at [of 6]; simp)
  next
    case 2
    then show ?thesis using assms by (simp add: launch_args_def) (rule three_at [of 3]; simp)
  qed
qed

lemma seeded_ready:
  assumes "write_seed_calibration e gguf f = (Inr path, f')" and "gguf \<noteq> []"
    and "cal_plain (seed_for e gguf f)" and "path \<notin> fs_deny_read f"
  shows "load_calibration path f' = Inr (seed_for e gguf f)"
    and "cal_validate (launch_calibration e (seed_for e gguf f) f') = None"
proof -
  show "load_calibration path f' = Inr (seed_for e gguf f)"
    using seed_written [OF assms(1,3,4)] seed_for_valid [OF assms(2)] by simp
  show "cal_validate (launch_calibration e (seed_for e gguf f) f') = None"
    using seed_for_valid [OF assms(2), of e f] by (simp add: launch_calibration_def cal_validate_None Let_def)
qed

lemma seeded_build:
  assumes "write_seed_calibration e gguf f = (Inr path, f')" and "gguf \<noteq> []"
    and "cal_plain (seed_for e gguf f)" and "path \<notin> fs_deny_read f"
  shows "\<exists>argv. build_serve_command e xbits path f' = Inr argv"
proof -
  let ?bin = "resolve_llama_server e xbits"
  obtain argv where "launch_args (getenv e ''AEGIS_CTX_SIZE'') (Some (launch_calibration e (seed_for e gguf f) f')) = Inr argv"
    "replace_arg ''llama-server'' ?bin argv \<noteq> []"
    using launch_resolved [OF seeded_ready(2) [OF assms], of "getenv e ''AEGIS_CTX_SIZE''" ?bin] by blast
  then show ?thesis using seeded_ready(1) [OF assms] by (simp add: build_serve_command_def Let_def)
qed

text \<open>C27: The fast start: a calibration seeded for a local model is read back exactly, and the command
  built from it starts the resolved server on that model, bound to 127.0.0.1.\<close>

theorem seeded_model_launches:
  assumes "write_seed_calibration e gguf f = (Inr path, f')" and "gguf \<noteq> []"
    and "cal_plain (seed_for e gguf f)" and "path \<notin> fs_deny_read f"
  shows "load_calibration path f' = Inr (seed_for e gguf f) \<and>
    (case build_serve_command e xbits path f' of
       Inl x \<Rightarrow> False
     | Inr argv \<Rightarrow>
         (\<exists>xs ys. argv = xs @ [resolve_llama_server e xbits, ''--model'', gguf] @ ys) \<and>
         (\<exists>k. drop k argv = [''--host'', ''127.0.0.1'', ''--port'', show_int seed_port]))"
proof -
  note l = seeded_ready(1) [OF assms]
  let ?c = "launch_calibration e (seed_for e gguf f) f'"
  note v = seeded_ready(2) [OF assms]
  have m: "cal_model ?c = gguf" "cal_port ?c = seed_port"
    by (simp_all add: launch_calibration_def Let_def seed_for_def install_plan_for_def seed_calibration_def
        split: prod.split)
  let ?bin = "resolve_llama_server e xbits"
  obtain argv where a: "launch_args (getenv e ''AEGIS_CTX_SIZE'') (Some ?c) = Inr argv"
    "replace_arg ''llama-server'' ?bin argv \<noteq> []"
    "drop (length argv - 4) (replace_arg ''llama-server'' ?bin argv) = [''--host'', ''127.0.0.1'', ''--port'', show_int seed_port]"
    "\<exists>xs ys. replace_arg ''llama-server'' ?bin argv = xs @ [?bin, ''--model'', gguf] @ ys"
    using launch_resolved [OF v, of "getenv e ''AEGIS_CTX_SIZE''" ?bin] unfolding m by blast
  have b: "build_serve_command e xbits path f' = Inr (replace_arg ''llama-server'' ?bin argv)"
    using l a(1,2) by (simp add: build_serve_command_def Let_def)
  show ?thesis unfolding b sum.case using l a(3,4) by blast
qed

definition seed_env :: cli where
  "seed_env =
     \<lparr>en_host = bundle_host\<lparr>ho_environ := [''HOME=/home/op'']\<rparr>, en_embedded = (\<lambda>p. None),
      en_caps = \<lparr>hc_os = ''linux'', hc_arch = ''amd64'', hc_logical = 8, hc_physical = 4, hc_ram = 0, hc_accel = AccelNone\<rparr>,
      en_probe = zero_profile, en_ls = (\<lambda>p. None)\<rparr>"

definition model_fs :: fs where
  "model_fs = bundle_fs\<lparr>fs_files := [''/m/a.gguf'' \<mapsto> ''GGUF'']\<rparr>"

lemma seed_env_written:
  "fst (write_seed_calibration seed_env ''/m/a.gguf'' model_fs) = Inr ''/home/op/.config/aegis/calibration.json''"
proof -
  have h: "user_home seed_env = Some ''/home/op''" by code_simp
  have d: "path_join [''/home/op'', ''.config'', ''aegis''] = ''/home/op/.config/aegis''"
    "path_join [''/home/op/.config/aegis'', ''calibration.json''] = ''/home/op/.config/aegis/calibration.json''"
    by code_simp+
  have m: "fst (fs_mkdir_all ''/home/op/.config/aegis'' model_fs)" by code_simp
  have w: "fs_can_write ''/home/op/.config/aegis/calibration.json'' (snd (fs_mkdir_all ''/home/op/.config/aegis'' model_fs))"
    by code_simp
  show ?thesis
    using m w by (cases "fs_mkdir_all ''/home/op/.config/aegis'' model_fs")
      (simp add: write_seed_calibration_def h d Let_def fs_write_def)
qed

lemma seed_env_plain: "cal_plain (seed_for seed_env ''/m/a.gguf'' model_fs)"
proof -
  have c: "catalog_ctx_size_for_gguf seed_env ''/m/a.gguf'' model_fs = 0"
    "getenv seed_env ''AEGIS_CTX_SIZE'' = []" by code_simp+
  have p: "plan_target (en_caps seed_env) = (target_linux_cpu, [])" "hc_physical (en_caps seed_env) = 4"
    by (simp_all add: seed_env_def plan_target_def)
  have t: "list_all utf8_text [''linux-cpu'', ''/m/a.gguf'']" by code_simp
  show ?thesis
    using t by (simp add: cal_plain_def seed_for_def install_plan_for_def p Let_def c resolve_ctx_size_def
        default_ctx_size_def seed_calibration_def config_consts serve_linux_cpu_def zero_calibration_def int64_ok_def
        max1_def seed_port_def)
qed

theorem seeded_model_launches_witness:
  "load_calibration ''/home/op/.config/aegis/calibration.json''
     (snd (write_seed_calibration seed_env ''/m/a.gguf'' model_fs)) = Inr (seed_for seed_env ''/m/a.gguf'' model_fs)"
proof -
  have 1: "write_seed_calibration seed_env ''/m/a.gguf'' model_fs =
      (Inr ''/home/op/.config/aegis/calibration.json'', snd (write_seed_calibration seed_env ''/m/a.gguf'' model_fs))"
    using seed_env_written by (metis prod.collapse)
  note 2 = seed_env_plain
  have 3: "''/home/op/.config/aegis/calibration.json'' \<notin> fs_deny_read model_fs" by (simp add: model_fs_def bundle_fs_def)
  show ?thesis using seeded_model_launches [OF 1 _ 2 3] by blast
qed

theorem fast_start_picks_smallest_witness:
  "\<exists>x \<in> {(''b.gguf'', 5)}.
     resolve_any_model_gguf (seed_env\<lparr>en_ls := (\<lambda>p. Some [(''b.gguf'', False, Some 5), (''notes.txt'', False, Some 1)])\<rparr>) =
       path_join [''/home/op/models'', fst x]"
proof -
  let ?e = "seed_env\<lparr>en_ls := (\<lambda>p. Some [(''b.gguf'', False, Some 5), (''notes.txt'', False, Some 1)])\<rparr>"
  have 1: "model_dir ?e = Some ''/home/op/models''" by code_simp
  have 2: "local_ggufs [(''b.gguf'', False, Some 5), (''notes.txt'', False, Some 1)] = [(''b.gguf'', 5)]" by code_simp
  have 3: "en_ls ?e ''/home/op/models'' = Some [(''b.gguf'', False, Some 5), (''notes.txt'', False, Some 1)]" by simp
  show ?thesis using fast_start_picks_smallest [OF 1 3] unfolding 2 list.case by auto
qed

end
