(* ===== verification/GoFlag.thy ===== *)
theory GoFlag
  imports GoLib
begin

text \<open>
  Command-line flags as the program uses them (Go's \<open>flag\<close> package, a \<open>FlagSet\<close> with
  \<open>ContinueOnError\<close>): the scan of the arguments and the values of boolean, integer, string and duration
  flags with the number syntax of \<open>strconv\<close> and \<open>time\<close>.  Two flags may name one variable.  Fractions of
  a duration are computed exactly, where \<open>time.ParseDuration\<close> rounds with floats.
\<close>

section \<open>Values\<close>

datatype flag_val = FlagBool bool | FlagInt int | FlagString string | FlagDuration int

definition parse_bool :: "string \<Rightarrow> bool option" where
  "parse_bool s =
     (if s \<in> {''1'', ''t'', ''T'', ''true'', ''TRUE'', ''True''} then Some True
      else if s \<in> {''0'', ''f'', ''F'', ''false'', ''FALSE'', ''False''} then Some False else None)"

text \<open>\<open>strconv.ParseInt(s, 0, 64)\<close>: a base prefix and underscores between digits are allowed.\<close>

definition digit_of :: "char \<Rightarrow> nat option" where
  "digit_of c =
     (let n = (of_char (to_lower_char c) :: nat)
      in if is_digit c then Some (digit_val c)
         else if 97 \<le> n \<and> n \<le> 122 then Some (n - 97 + 10) else None)"

fun based_val :: "nat \<Rightarrow> string \<Rightarrow> nat \<Rightarrow> nat option" where
  "based_val b [] a = Some a"
| "based_val b (c # s) a =
     (if c = CHR ''_'' then based_val b s a
      else case digit_of c of
        None \<Rightarrow> None
      | Some d \<Rightarrow> if d \<ge> b then None else based_val b s (b * a + d))"

definition base_of :: "string \<Rightarrow> nat \<times> string" where
  "base_of s =
     (case s of
        c # d # t \<Rightarrow>
          if c \<noteq> CHR ''0'' then (10, s)
          else if t \<noteq> [] \<and> to_lower_char d = CHR ''b'' then (2, t)
          else if t \<noteq> [] \<and> to_lower_char d = CHR ''o'' then (8, t)
          else if t \<noteq> [] \<and> to_lower_char d = CHR ''x'' then (16, t)
          else (8, d # t)
      | c # [] \<Rightarrow> if c = CHR ''0'' then (8, []) else (10, s)
      | [] \<Rightarrow> (10, []))"

text \<open>Where underscores may stand: after a digit (or the prefix) and before one.\<close>

fun underscores_ok :: "bool \<Rightarrow> char \<Rightarrow> string \<Rightarrow> bool" where
  "underscores_ok hex saw [] \<longleftrightarrow> saw \<noteq> CHR ''_''"
| "underscores_ok hex saw (c # s) \<longleftrightarrow>
     (if is_digit c \<or> hex \<and> to_lower_char c \<in> set ''abcdef'' then underscores_ok hex CHR ''0'' s
      else if c = CHR ''_'' then saw = CHR ''0'' \<and> underscores_ok hex CHR ''_'' s
      else saw \<noteq> CHR ''_'' \<and> underscores_ok hex CHR ''!'' s)"

definition underscore_ok :: "string \<Rightarrow> bool" where
  "underscore_ok s =
     (case s of
        c # d # t \<Rightarrow>
          if c = CHR ''0'' \<and> to_lower_char d \<in> set ''box''
          then underscores_ok (to_lower_char d = CHR ''x'') CHR ''0'' t
          else underscores_ok False CHR ''^'' s
      | _ \<Rightarrow> underscores_ok False CHR ''^'' s)"

definition parse_int :: "string \<Rightarrow> int option" where
  "parse_int s =
     (let ds = (if s \<noteq> [] \<and> (hd s = CHR ''+'' \<or> hd s = CHR ''-'') then tl s else s);
          (b, body) = base_of ds
      in if ds = [] then None
         else case based_val b body 0 of
           None \<Rightarrow> None
         | Some n \<Rightarrow>
             (let v = (if has_prefix s ''-'' then - int n else int n)
              in if (CHR ''_'' \<in> set body \<longrightarrow> underscore_ok ds) \<and> - (2 ^ 63) \<le> v \<and> v < 2 ^ 63
                 then Some v else None))"

text \<open>
  \<open>time.ParseDuration\<close>: signed sums of decimal numbers with a unit, in nanoseconds.  The digits of a
  fraction that do not fit in 63 bits are dropped.
\<close>

definition unit_ns :: "string \<Rightarrow> nat option" where
  "unit_ns u =
     (if u = ''ns'' then Some 1
      else if u = ''us'' \<or> u = [CHR 0xC2, CHR 0xB5, CHR ''s''] \<or> u = [CHR 0xCE, CHR 0xBC, CHR ''s''] then Some 1000
      else if u = ''ms'' then Some 1000000
      else if u = ''s'' then Some 1000000000
      else if u = ''m'' then Some 60000000000
      else if u = ''h'' then Some 3600000000000 else None)"

fun fraction_acc :: "string \<Rightarrow> nat \<Rightarrow> nat \<Rightarrow> nat \<times> nat" where
  "fraction_acc [] x scale = (x, scale)"
| "fraction_acc (c # s) x scale =
     (if x > (2 ^ 63 - 1) div 10 \<or> x * 10 + digit_val c > 2 ^ 63 then (x, scale)
      else fraction_acc s (x * 10 + digit_val c) (scale * 10))"

definition duration_part :: "string \<Rightarrow> (nat \<times> string) option" where
  "duration_part s =
     (let ip = takeWhile is_digit s; r1 = dropWhile is_digit s;
          point = has_prefix r1 ''.'';
          fp = (if point then takeWhile is_digit (tl r1) else []);
          r2 = (if point then dropWhile is_digit (tl r1) else r1);
          in_unit = (\<lambda>c. c \<noteq> CHR ''.'' \<and> \<not> is_digit c);
          (x, scale) = fraction_acc fp 0 1
      in if ip = [] \<and> fp = [] \<or> dec_val ip > 2 ^ 63 then None
         else case unit_ns (takeWhile in_unit r2) of
           None \<Rightarrow> None
         | Some u \<Rightarrow>
             if dec_val ip > 2 ^ 63 div u then None
             else let v = dec_val ip * u + x * u div scale
                  in if v > 2 ^ 63 then None else Some (v, dropWhile in_unit r2))"

lemma duration_part_shorter: "duration_part s = Some (v, r) \<Longrightarrow> length r < length s"
proof -
  assume a: "duration_part s = Some (v, r)"
  define r1 where "r1 = dropWhile is_digit s"
  define r2 where "r2 = (if has_prefix r1 ''.'' then dropWhile is_digit (tl r1) else r1)"
  define g where "g = (\<lambda>c. c \<noteq> CHR ''.'' \<and> \<not> is_digit c)"
  have l: "length r1 \<le> length s" "length r2 \<le> length r1"
    using length_dropWhile_le [of is_digit "tl r1"]
    by (auto simp: r1_def r2_def length_dropWhile_le intro: le_trans)
  have "unit_ns (takeWhile g r2) \<noteq> None" "r = dropWhile g r2"
    using a unfolding duration_part_def Let_def r1_def [symmetric] r2_def [symmetric] g_def
    by (auto split: prod.splits if_splits option.splits)
  then have "takeWhile g r2 \<noteq> []" "r = dropWhile g r2" by (auto simp: unit_ns_def)
  then have "length r < length r2"
    by (metis append_self_conv2 length_dropWhile_le le_neq_implies_less length_append length_greater_0_conv
        less_add_same_cancel2 takeWhile_dropWhile_id)
  with l show ?thesis by simp
qed

function duration_sum :: "string \<Rightarrow> nat \<Rightarrow> nat option" where
  "duration_sum s d =
     (if s = [] then Some d
      else case duration_part s of
        None \<Rightarrow> None
      | Some (v, r) \<Rightarrow> if d + v > 2 ^ 63 then None else duration_sum r (d + v))"
  by pat_completeness auto
termination by (relation "measure (length \<circ> fst)") (auto dest: duration_part_shorter)

declare duration_sum.simps [simp del]

definition parse_duration :: "string \<Rightarrow> int option" where
  "parse_duration s =
     (let neg = has_prefix s ''-'';
          r = (if s \<noteq> [] \<and> (hd s = CHR ''+'' \<or> hd s = CHR ''-'') then tl s else s)
      in if r = ''0'' then Some 0
         else if r = [] then None
         else case duration_sum r 0 of
           None \<Rightarrow> None
         | Some d \<Rightarrow> if neg then Some (- int d) else if d > 2 ^ 63 - 1 then None else Some (int d))"

text \<open>\<open>Duration.String\<close>: the whole part of a number in units of \<open>10 ^ prec\<close>, and its fraction without
  trailing zeros.\<close>

definition show_frac :: "nat \<Rightarrow> nat \<Rightarrow> string" where
  "show_frac prec v =
     (let ds = trim_right_char CHR ''0'' (tl (show_nat (10 ^ prec + v mod 10 ^ prec)))
      in show_nat (v div 10 ^ prec) @ (if ds = [] then [] else CHR ''.'' # ds))"

definition show_duration :: "int \<Rightarrow> string" where
  "show_duration d =
     (let u = nat \<bar>d\<bar>; total_s = u div 10 ^ 9; mins = total_s div 60; hours = mins div 60;
          text = (if u = 0 then ''0s''
                  else if u < 1000 then show_nat u @ ''ns''
                  else if u < 1000000 then show_frac 3 u @ [CHR 0xC2, CHR 0xB5, CHR ''s'']
                  else if u < 10 ^ 9 then show_frac 6 u @ ''ms''
                  else (if hours > 0 then show_nat hours @ ''h'' else []) @
                       (if mins > 0 then show_nat (mins mod 60) @ ''m'' else []) @
                       show_frac 9 (u mod (60 * 10 ^ 9)) @ ''s'')
      in if d < 0 then CHR ''-'' # text else text)"

section \<open>Parsing the arguments\<close>

record flags =
  fg_formal :: "(string \<times> string) list"
  fg_vals :: "(string \<times> flag_val) list"

datatype flag_err =
    FlagSyntax string
  | FlagHelp
  | FlagUnknown string
  | FlagValue string string
  | FlagNeedsArg string

definition set_val :: "flag_val \<Rightarrow> string \<Rightarrow> flag_val option" where
  "set_val old s =
     (case old of
        FlagBool b \<Rightarrow> map_option FlagBool (parse_bool s)
      | FlagInt i \<Rightarrow> map_option FlagInt (parse_int s)
      | FlagString t \<Rightarrow> Some (FlagString s)
      | FlagDuration d \<Rightarrow> map_option FlagDuration (parse_duration s))"

definition is_bool_flag :: "flag_val \<Rightarrow> bool" where
  "is_bool_flag v = (case v of FlagBool b \<Rightarrow> True | _ \<Rightarrow> False)"

definition flag_var :: "flags \<Rightarrow> string \<Rightarrow> (string \<times> flag_val) option" where
  "flag_var fl name =
     (case map_of (fg_formal fl) name of
        None \<Rightarrow> None
      | Some var \<Rightarrow> (case map_of (fg_vals fl) var of None \<Rightarrow> None | Some v \<Rightarrow> Some (var, v)))"

definition put_val :: "string \<Rightarrow> flag_val \<Rightarrow> flags \<Rightarrow> flags" where
  "put_val var v fl = fl\<lparr>fg_vals := map (\<lambda>(k, u). if k = var then (k, v) else (k, u)) (fg_vals fl)\<rparr>"

text \<open>The name of an argument that is a flag, with the value written after an equals sign.\<close>

definition flag_name :: "string \<Rightarrow> string \<times> string option" where
  "flag_name name = (case cut_str name ''='' of (a, b, found) \<Rightarrow> (a, if found then Some b else None))"

definition assign :: "flags \<Rightarrow> string \<Rightarrow> string \<Rightarrow> flag_err + flags" where
  "assign fl name text =
     (case flag_var fl name of
        None \<Rightarrow> Inl (if name = ''help'' \<or> name = ''h'' then FlagHelp else FlagUnknown name)
      | Some (var, v) \<Rightarrow>
          (case set_val v text of None \<Rightarrow> Inl (FlagValue name text) | Some v' \<Rightarrow> Inr (put_val var v' fl)))"

definition takes_arg :: "flags \<Rightarrow> string \<Rightarrow> bool" where
  "takes_arg fl name = (case flag_var fl name of None \<Rightarrow> False | Some (var, v) \<Rightarrow> \<not> is_bool_flag v)"

fun flag_parse :: "flags \<Rightarrow> string list \<Rightarrow> flag_err + flags \<times> string list" where
  "flag_parse fl [] = Inr (fl, [])"
| "flag_parse fl (s # args) =
     (if length s < 2 \<or> hd s \<noteq> CHR ''-'' then Inr (fl, s # args)
      else if s = ''--'' then Inr (fl, args)
      else
        let name = (if s ! 1 = CHR ''-'' then drop 2 s else drop 1 s)
        in if name = [] \<or> hd name = CHR ''-'' \<or> hd name = CHR ''='' then Inl (FlagSyntax s)
           else case flag_name name of
             (n, Some v) \<Rightarrow>
               (case assign fl n v of Inl x \<Rightarrow> Inl x | Inr fl' \<Rightarrow> flag_parse fl' args)
           | (n, None) \<Rightarrow>
               if takes_arg fl n then
                 (case args of
                    [] \<Rightarrow> Inl (FlagNeedsArg n)
                  | v # rest \<Rightarrow> (case assign fl n v of Inl x \<Rightarrow> Inl x | Inr fl' \<Rightarrow> flag_parse fl' rest))
               else (case assign fl n ''true'' of Inl x \<Rightarrow> Inl x | Inr fl' \<Rightarrow> flag_parse fl' args))"

text \<open>Reading the variables.\<close>

definition bool_of :: "flags \<Rightarrow> string \<Rightarrow> bool" where
  "bool_of fl v = (case map_of (fg_vals fl) v of Some (FlagBool b) \<Rightarrow> b | _ \<Rightarrow> False)"

definition int_of_flag :: "flags \<Rightarrow> string \<Rightarrow> int" where
  "int_of_flag fl v = (case map_of (fg_vals fl) v of Some (FlagInt i) \<Rightarrow> i | Some (FlagDuration i) \<Rightarrow> i | _ \<Rightarrow> 0)"

definition string_of :: "flags \<Rightarrow> string \<Rightarrow> string" where
  "string_of fl v = (case map_of (fg_vals fl) v of Some (FlagString s) \<Rightarrow> s | _ \<Rightarrow> [])"

text \<open>A flag set in which every flag has its own variable.\<close>

definition new_flags :: "(string \<times> flag_val) list \<Rightarrow> flags" where
  "new_flags vs = \<lparr>fg_formal = map (\<lambda>(n, v). (n, n)) vs, fg_vals = vs\<rparr>"

section \<open>Facts\<close>

text \<open>A flag written with two dashes takes the next argument as it is.\<close>

definition plain_name :: "string \<Rightarrow> bool" where
  "plain_name n \<longleftrightarrow> n \<noteq> [] \<and> hd n \<noteq> CHR ''-'' \<and> CHR ''='' \<notin> set n"

lemma cut_str_none: "c \<notin> set s \<Longrightarrow> cut_str s [c] = (s, [], False)"
  by (induction s) (auto simp: has_prefix_def)

lemma flag_parse_pair:
  assumes "plain_name n" and "takes_arg fl n"
  shows "flag_parse fl ((''--'' @ n) # v # rest) =
     (case assign fl n v of Inl x \<Rightarrow> Inl x | Inr fl' \<Rightarrow> flag_parse fl' rest)"
proof -
  have "flag_name n = (n, None)" using assms(1) by (simp add: flag_name_def plain_name_def cut_str_none)
  moreover have "hd n \<noteq> CHR ''=''" using assms(1) by (cases n) (auto simp: plain_name_def)
  moreover have "length n \<ge> 1" using assms(1) by (cases n) (auto simp: plain_name_def)
  ultimately show ?thesis using assms by (simp add: plain_name_def)
qed

lemma flag_parse_rest: "rest = [] \<or> \<not> has_prefix (hd rest) ''-'' \<Longrightarrow> flag_parse fl rest = Inr (fl, rest)"
  by (cases rest; cases "hd rest") (auto simp: has_prefix_def)

text \<open>Durations of whole seconds are read back.\<close>

lemma duration_part_whole:
  assumes "unit_ns [c] = Some u" and "\<not> is_digit c" "c \<noteq> CHR ''.''"
    and "r = [] \<or> is_digit (hd r)" and "n * u \<le> 2 ^ 63"
  shows "duration_part (show_nat n @ c # r) = Some (n * u, r)"
proof -
  have u: "0 < u" using assms(1) by (auto simp: unit_ns_def split: if_splits)
  have n: "n \<le> 2 ^ 63 div u" using assms(5) u by (simp add: less_eq_div_iff_mult_less_eq)
  then have n2: "n \<le> 2 ^ 63" using div_le_dividend order_trans by blast
  have d: "\<forall>x \<in> set (show_nat n). is_digit x" using show_nat_digits [of n] by (simp add: list_all_iff)
  have t: "takeWhile is_digit (show_nat n @ c # r) = show_nat n" "dropWhile is_digit (show_nat n @ c # r) = c # r"
    using d assms(2) by (simp_all add: takeWhile_append2 dropWhile_append2)
  have g: "takeWhile (\<lambda>c. c \<noteq> CHR ''.'' \<and> \<not> is_digit c) r = []"
    "dropWhile (\<lambda>c. c \<noteq> CHR ''.'' \<and> \<not> is_digit c) r = r"
    using assms(4) by (cases r; simp)+
  have le: "\<not> 2 ^ 63 div u < n" "\<not> 2 ^ 63 < n" "\<not> 2 ^ 63 < n * u" using n n2 assms(5) by linarith+
  show ?thesis
    unfolding duration_part_def Let_def t dec_val_show_nat
    using assms(1-3) le by (simp add: has_prefix_def g del: linorder_not_less)
qed

lemma duration_sum_step:
  assumes "unit_ns [c] = Some u" and "\<not> is_digit c" "c \<noteq> CHR ''.''"
    and "r = [] \<or> is_digit (hd r)" and "d + n * u \<le> 2 ^ 63"
  shows "duration_sum (show_nat n @ c # r) d = duration_sum r (d + n * u)"
proof -
  have "duration_part (show_nat n @ c # r) = Some (n * u, r)"
    using assms by (intro duration_part_whole) simp_all
  then show ?thesis using assms(5) by (subst duration_sum.simps) simp
qed

lemma duration_sum_nil: "duration_sum [] d = Some d"
  by (subst duration_sum.simps) simp

lemma show_nat_hd_digit: "is_digit (hd (show_nat n @ r))"
  using show_nat_digits [of n] by (cases "show_nat n") (auto simp: list_all_iff)

lemma show_nat_power: "show_nat (10 ^ k) = CHR ''1'' # replicate k CHR ''0''"
proof (induction k)
  case 0
  have "digit_char 1 = CHR ''1''" by code_simp
  then show ?case by (subst show_nat.simps) simp
next
  case (Suc k)
  have "(10 :: nat) \<le> 10 ^ Suc k" by simp
  then have "show_nat (10 ^ Suc k) = show_nat (10 ^ Suc k div 10) @ [digit_char (10 ^ Suc k mod 10)]"
    by (subst show_nat.simps) simp
  moreover have "digit_char 0 = CHR ''0''" by code_simp
  ultimately show ?case using Suc.IH by (simp add: replicate_append_same)
qed

text \<open>The text of a whole number of seconds: hours and minutes when there are any, then seconds.\<close>

lemma show_duration_seconds:
  "show_duration (int n * 10 ^ 9) =
     (if n div 3600 > 0 then show_nat (n div 3600) @ ''h'' else []) @
     (if n div 60 > 0 then show_nat (n div 60 mod 60) @ ''m'' else []) @ show_nat (n mod 60) @ ''s''"
proof -
  have u: "nat \<bar>int n * 10 ^ 9\<bar> = n * 10 ^ 9" by (simp add: nat_mult_distrib)
  have m: "n * 10 ^ 9 mod (60 * 10 ^ 9) = n mod 60 * 10 ^ 9" by (rule mod_mult_mult2)
  have f: "show_frac 9 (k * 10 ^ 9) = show_nat k" for k
  proof -
    have "trim_right_char CHR ''0'' (tl (show_nat (10 ^ 9))) = []"
      by (simp add: show_nat_power trim_right_char_def del: power_numeral)
    then show ?thesis by (simp add: show_frac_def del: power_numeral)
  qed
  have z: "show_nat 0 = ''0''" by code_simp
  show ?thesis
  proof (cases "n = 0")
    case True
    then show ?thesis by (simp add: show_duration_def z)
  next
    case False
    then have "\<not> n * 10 ^ 9 < 1000" "\<not> n * 10 ^ 9 < 1000000" "\<not> n * 10 ^ 9 < 10 ^ 9" "n * 10 ^ 9 \<noteq> 0"
      by simp_all
    then show ?thesis
      unfolding show_duration_def Let_def u m f by (simp add: div_mult2_eq [symmetric] z)
  qed
qed

lemma unit_values: "unit_ns ''h'' = Some (3600 * 10 ^ 9)" "unit_ns ''m'' = Some (60 * 10 ^ 9)" "unit_ns ''s'' = Some (10 ^ 9)"
  by (simp_all add: unit_ns_def)

lemma not_digit_units: "\<not> is_digit CHR ''h''" "\<not> is_digit CHR ''m''" "\<not> is_digit CHR ''s''"
  by (simp_all add: is_digit_def)

lemma optional_part:
  assumes "unit_ns [c] = Some u" and "\<not> is_digit c" "c \<noteq> CHR ''.''" and "is_digit (hd r)"
    and "\<not> b \<Longrightarrow> n = 0" and "d + n * u \<le> 2 ^ 63"
  shows "duration_sum ((if b then show_nat n @ [c] else []) @ r) d = duration_sum r (d + n * u)"
  using duration_sum_step [OF assms(1-3) disjI2 [OF assms(4)] assms(6)] assms(5) by (cases b) simp_all

lemma parse_positive:
  assumes "is_digit (hd t)" and "last t = CHR ''s''" and "duration_sum t 0 = Some d" and "t \<noteq> []" and "d < 2 ^ 63"
  shows "parse_duration t = Some (int d)"
proof -
  have sign: "hd t \<noteq> CHR ''+''" "hd t \<noteq> CHR ''-''"
  proof -
    have "\<not> is_digit CHR ''+''" "\<not> is_digit CHR ''-''" by (simp_all add: is_digit_def)
    then show "hd t \<noteq> CHR ''+''" "hd t \<noteq> CHR ''-''" using assms(1) by metis+
  qed
  have "t \<noteq> ''0''"
  proof
    assume "t = ''0''"
    with assms(2) show False by simp
  qed
  then have 1: "(t = ''0'') = False" "(t = []) = False" using assms(4) by simp_all
  have 2: "(hd t = CHR ''+'' \<or> hd t = CHR ''-'') = False" using sign by simp
  have 3: "has_prefix t ''-'' = False" using sign(2) assms(4) by (cases t) (simp_all add: has_prefix_def)
  have 4: "(d > 2 ^ 63 - 1) = False" using assms(5) unfolding eq_False by linarith
  show ?thesis unfolding parse_duration_def Let_def by (simp only: 1 2 3 4 if_False assms(3) option.case simp_thms)
qed

text \<open>Hours, minutes and seconds, the first two only when wanted.\<close>

lemma parse_hms:
  assumes "h * (3600 * 10 ^ 9) + m * (60 * 10 ^ 9) + a * 10 ^ 9 = d" and "d < 2 ^ 63"
    and "\<not> bh \<Longrightarrow> h = 0" and "\<not> bm \<Longrightarrow> m = 0"
  shows "parse_duration ((if bh then show_nat h @ ''h'' else []) @
           (if bm then show_nat m @ ''m'' else []) @ show_nat a @ ''s'') = Some (int d)"
proof -
  let ?s = "show_nat a @ ''s''"
  let ?m = "if bm then show_nat m @ ''m'' else []"
  let ?h = "if bh then show_nat h @ ''h'' else []"
  have le: "0 + h * (3600 * 10 ^ 9) \<le> 2 ^ 63" "h * (3600 * 10 ^ 9) + m * (60 * 10 ^ 9) \<le> 2 ^ 63"
    "h * (3600 * 10 ^ 9) + m * (60 * 10 ^ 9) + a * 10 ^ 9 \<le> 2 ^ 63"
    using assms(1,2) by linarith+
  have d1: "is_digit (hd ?s)" by (rule show_nat_hd_digit)
  have d2: "is_digit (hd (?m @ ?s))" using d1 by (cases bm) (simp_all only: if_True if_False append_assoc show_nat_hd_digit append_Nil)
  have d3: "is_digit (hd (?h @ ?m @ ?s))" using d2 by (cases bh) (simp_all only: if_True if_False append_assoc show_nat_hd_digit append_Nil)
  have "duration_sum (?h @ ?m @ ?s) 0 = duration_sum (?m @ ?s) (0 + h * (3600 * 10 ^ 9))"
    by (rule optional_part [OF unit_values(1) not_digit_units(1) _ d2 assms(3) le(1)]) simp_all
  also have "\<dots> = duration_sum (?m @ ?s) (h * (3600 * 10 ^ 9))" by (simp only: add_0)
  also have "\<dots> = duration_sum ?s (h * (3600 * 10 ^ 9) + m * (60 * 10 ^ 9))"
    by (rule optional_part [OF unit_values(2) not_digit_units(2) _ d1 assms(4) le(2)]) simp_all
  also have "\<dots> = duration_sum [] (h * (3600 * 10 ^ 9) + m * (60 * 10 ^ 9) + a * 10 ^ 9)"
    by (rule duration_sum_step [OF unit_values(3) not_digit_units(3) _ _ le(3)]) simp_all
  also have "\<dots> = Some d" unfolding assms(1) by (rule duration_sum_nil)
  finally have sum: "duration_sum (?h @ ?m @ ?s) 0 = Some d" .
  have l: "last (?h @ ?m @ ?s) = CHR ''s''" "?h @ ?m @ ?s \<noteq> []" by (simp_all only: last_append) simp_all
  show ?thesis by (rule parse_positive [OF d3 l(1) sum l(2) assms(2)])
qed

lemma scaled_sum: "h * x + m * y + a = (n :: nat) \<Longrightarrow> h * (x * k) + m * (y * k) + a * k = n * k"
  by (auto simp: algebra_simps)

lemma parse_duration_seconds:
  assumes "n * 10 ^ 9 < 2 ^ 63"
  shows "parse_duration (show_duration (int n * 10 ^ 9)) = Some (int (n * 10 ^ 9))"
proof -
  have "n div 3600 = n div 60 div 60" by (simp add: div_mult2_eq [symmetric])
  moreover have "n div 60 div 60 * 60 + n div 60 mod 60 = n div 60" "n div 60 * 60 + n mod 60 = n"
    by (simp_all only: div_mult_mod_eq)
  ultimately have "n div 3600 * 3600 + n div 60 mod 60 * 60 + n mod 60 = n" by linarith
  then have n9: "n div 3600 * (3600 * 10 ^ 9) + n div 60 mod 60 * (60 * 10 ^ 9) + n mod 60 * 10 ^ 9 = n * 10 ^ 9"
    by (rule scaled_sum)
  show ?thesis
    unfolding show_duration_seconds by (rule parse_hms [OF n9 assms]) simp_all
qed

end
