(* ===== verification/CliOllama.thy ===== *)
theory CliOllama
  imports CliHost JsonCompact
begin

text \<open>
  The fallback to a running Ollama (\<open>cmd/aegis/ollama.go\<close>): its tag list, the derived model with a
  larger context, the probes, the markers that remember which models do not work, and the choice of
  a usable model.  The Ollama server is an argument: a function on requests and a world of its own;
  \<open>None\<close> is a request that could not be made, sent or answered in time.
\<close>

section \<open>Requests\<close>

datatype oll_request = OllGet string | OllPost string string | OllDelete string string

type_synonym 'w ollama = "oll_request \<Rightarrow> 'w \<Rightarrow> (int \<times> string) option \<times> 'w"

definition ollama_ctx_tokens :: int where "ollama_ctx_tokens = default_ctx_size"

definition ollama_host :: "cli \<Rightarrow> string" where
  "ollama_host e =
     (let h = getenv e ''OLLAMA_HOST''
      in if h = [] then ''http://localhost:11434''
         else trim_right_char CHR ''/''
           (if \<not> has_prefix h ''http://'' \<and> \<not> has_prefix h ''https://'' then ''http://'' @ h else h))"

definition ok_reply :: "(int \<times> string) option \<Rightarrow> bool" where
  "ok_reply r = (case r of None \<Rightarrow> False | Some (st, body) \<Rightarrow> st = 200)"

definition tag_names :: "string \<Rightarrow> string list option" where
  "tag_names body =
     decode_first (dec_struct [(''models'', \<lambda>old j. dec_list [] (dec_struct [(''name'', dec_string)]) old j)]) [] body"

definition detect_ollama :: "cli \<Rightarrow> 'w ollama \<Rightarrow> 'w \<Rightarrow> string list \<times> 'w" where
  "detect_ollama e srv w =
     (case srv (OllGet (ollama_host e @ ''/api/tags'')) w of
        (None, w1) \<Rightarrow> ([], w1)
      | (Some (st, body), w1) \<Rightarrow>
          if st \<noteq> 200 then ([], w1)
          else (case tag_names body of None \<Rightarrow> ([], w1) | Some ns \<Rightarrow> (filter (\<lambda>n. n \<noteq> []) ns, w1)))"

definition dashed :: "string \<Rightarrow> string" where
  "dashed s = map (\<lambda>c. if c = CHR '':'' \<or> c = CHR ''/'' then CHR ''-'' else c) s"

definition ollama_derived_name :: "string \<Rightarrow> string" where
  "ollama_derived_name base = ''aegis-'' @ dashed base"

section \<open>Markers\<close>

definition ollama_skip_ctx_marker :: "cli \<Rightarrow> string \<Rightarrow> string" where
  "ollama_skip_ctx_marker e base =
     (case user_home e of None \<Rightarrow> [] | Some home \<Rightarrow> config_home home (''ollama-no-ctx-'' @ dashed base))"

definition ollama_unusable_marker :: "cli \<Rightarrow> string \<Rightarrow> string" where
  "ollama_unusable_marker e m =
     (case user_home e of None \<Rightarrow> [] | Some home \<Rightarrow> config_home home (''ollama-unusable-'' @ dashed m))"

definition marked :: "string \<Rightarrow> fs \<Rightarrow> bool" where
  "marked p f \<longleftrightarrow> p \<noteq> [] \<and> fs_exists p f"

definition write_marker :: "string \<Rightarrow> string \<Rightarrow> fs \<Rightarrow> fs" where
  "write_marker p text f =
     (if p = [] then f else snd (fs_write p text (snd (fs_mkdir_all (path_dir p) f))))"

definition ollama_ctx_broken :: "cli \<Rightarrow> string \<Rightarrow> fs \<Rightarrow> bool" where
  "ollama_ctx_broken e base f = marked (ollama_skip_ctx_marker e base) f"

definition mark_ollama_ctx_broken :: "cli \<Rightarrow> string \<Rightarrow> fs \<Rightarrow> fs" where
  "mark_ollama_ctx_broken e base f =
     write_marker (ollama_skip_ctx_marker e base)
       (''derived ctx model hangs this model'' @ [CHR 0x27] @ ''s Ollama load; using the base'' @ [CHR 0x0A]) f"

definition ollama_model_unusable :: "cli \<Rightarrow> string \<Rightarrow> fs \<Rightarrow> bool" where
  "ollama_model_unusable e m f = marked (ollama_unusable_marker e m) f"

definition mark_ollama_model_unusable :: "cli \<Rightarrow> string \<Rightarrow> fs \<Rightarrow> fs" where
  "mark_ollama_model_unusable e m f =
     write_marker (ollama_unusable_marker e m)
       (''this Ollama model crashes the backend on generation; aegis skips it'' @ [CHR 0x0A]) f"

section \<open>Derived model and probe\<close>

definition create_body :: "string \<Rightarrow> string \<Rightarrow> string" where
  "create_body derived base =
     json_compact (JObj [(''from'', JStr base), (''model'', JStr derived),
       (''parameters'', JObj [(''num_ctx'', JNum (show_int ollama_ctx_tokens))]), (''stream'', JBool False)])"

definition ensure_ollama_ctx_model :: "cli \<Rightarrow> 'w ollama \<Rightarrow> string \<Rightarrow> fs \<Rightarrow> 'w \<Rightarrow> string \<times> 'w" where
  "ensure_ollama_ctx_model e srv base f w =
     (if ollama_ctx_broken e base f then (base, w)
      else let derived = ollama_derived_name base; (ms, w1) = detect_ollama e srv w
           in if derived \<in> set ms \<or> derived @ '':latest'' \<in> set ms then (derived, w1)
              else let (r, w2) = srv (OllPost (ollama_host e @ ''/api/create'') (create_body derived base)) w1
                   in (if ok_reply r then derived else base, w2))"

definition probe_body :: "string \<Rightarrow> string" where
  "probe_body m =
     json_compact (JObj [(''max_tokens'', JNum ''1''),
       (''messages'', JArr [JObj [(''content'', JStr ''hi''), (''role'', JStr ''user'')]]),
       (''model'', JStr m), (''stream'', JBool False)])"

definition ollama_model_responds :: "cli \<Rightarrow> 'w ollama \<Rightarrow> string \<Rightarrow> 'w \<Rightarrow> bool \<times> 'w" where
  "ollama_model_responds e srv m w =
     (let (r, w1) = srv (OllPost (ollama_host e @ ''/v1/chat/completions'') (probe_body m)) w
      in (ok_reply r, w1))"

definition remove_ollama_model :: "cli \<Rightarrow> 'w ollama \<Rightarrow> string \<Rightarrow> 'w \<Rightarrow> 'w" where
  "remove_ollama_model e srv m w =
     snd (srv (OllDelete (ollama_host e @ ''/api/delete'') (json_compact (JObj [(''model'', JStr m)]))) w)"

section \<open>The fallback\<close>

definition base_models :: "cli \<Rightarrow> string list \<Rightarrow> fs \<Rightarrow> string list" where
  "base_models e ms f = filter (\<lambda>m. \<not> has_prefix m ''aegis-'' \<and> \<not> ollama_model_unusable e m f) ms"

definition settle_model :: "cli \<Rightarrow> 'w ollama \<Rightarrow> string \<Rightarrow> fs \<Rightarrow> 'w \<Rightarrow> string \<times> fs \<times> 'w" where
  "settle_model e srv base f w =
     (let (m, w1) = ensure_ollama_ctx_model e srv base f w
      in if m = base then (m, f, w1)
         else let (ok, w2) = ollama_model_responds e srv m w1
              in if ok then (m, f, w2)
                 else (base, mark_ollama_ctx_broken e base f, remove_ollama_model e srv m w2))"

definition ollama_fallback ::
  "cli \<Rightarrow> 'w ollama \<Rightarrow> config \<Rightarrow> fs \<Rightarrow> 'w \<Rightarrow> (config \<times> string list option) \<times> fs \<times> 'w" where
  "ollama_fallback e srv cfg f w =
     (let (all, w1) = detect_ollama e srv w
      in case base_models e all f of
           [] \<Rightarrow> ((cfg, None), f, w1)
         | base # others \<Rightarrow>
             (let cfg1 = cfg\<lparr>cf_endpoint := ollama_host e\<rparr>;
                  (m, f1, w2) = settle_model e srv base f w1;
                  (ok, w3) = ollama_model_responds e srv m w2
              in if ok then ((cfg1\<lparr>cf_model_id := m\<rparr>, Some (base # others)), f1, w3)
                 else ((cfg1, None), mark_ollama_model_unusable e base f1, w3)))"

fun first_usable :: "cli \<Rightarrow> 'w ollama \<Rightarrow> string list \<Rightarrow> fs \<Rightarrow> 'w \<Rightarrow> string \<times> fs \<times> 'w" where
  "first_usable e srv [] f w = ([], f, w)"
| "first_usable e srv (m # ms) f w =
     (if has_prefix m ''aegis-'' \<or> ollama_model_unusable e m f then first_usable e srv ms f w
      else let (ok, w1) = ollama_model_responds e srv m w
           in if ok then (m, f, w1)
              else first_usable e srv ms (mark_ollama_model_unusable e m f) w1)"

definition usable_ollama_candidate :: "cli \<Rightarrow> 'w ollama \<Rightarrow> fs \<Rightarrow> 'w \<Rightarrow> string \<times> fs \<times> 'w" where
  "usable_ollama_candidate e srv f w =
     (let (ms, w1) = detect_ollama e srv w in first_usable e srv ms f w1)"

definition modelfile_blob :: "fs \<Rightarrow> string \<Rightarrow> string option" where
  "modelfile_blob f line0 =
     (let line = trim_space line0
      in if has_prefix line ''FROM '' then
           (let p = trim_space (drop 5 line) in if fs_files f p \<noteq> None then Some p else None)
         else None)"

definition ollama_model_gguf :: "cli \<Rightarrow> 'w ollama \<Rightarrow> string \<Rightarrow> fs \<Rightarrow> 'w \<Rightarrow> string \<times> 'w" where
  "ollama_model_gguf e srv m f w =
     (let (r, w1) = srv (OllPost (ollama_host e @ ''/api/show'') (json_compact (JObj [(''model'', JStr m)]))) w
      in case r of
           None \<Rightarrow> ([], w1)
         | Some (st, body) \<Rightarrow>
             if st \<noteq> 200 then ([], w1)
             else (case decode_first (dec_struct [(''modelfile'', dec_string)]) [] body of
                     None \<Rightarrow> ([], w1)
                   | Some mf \<Rightarrow>
                       (case List.map_filter (modelfile_blob f) (split_on CHR 0x0A mf) of
                          [] \<Rightarrow> ([], w1)
                        | p # ps \<Rightarrow> (p, w1))))"

section \<open>Facts\<close>

text \<open>A model handed over from a running Ollama has answered: its tag list gave a base model that is
  neither derived by aegis nor marked unusable, the endpoint is the Ollama server's, and the last
  request of the fallback is a generation probe of the very model it hands over, answered with 200.\<close>

theorem fallback_model_answers:
  assumes "ollama_fallback e srv cfg f w = ((cfg', Some ms), f', w')"
  shows "cf_endpoint cfg' = ollama_host e \<and> ms \<noteq> [] \<and>
    list_all (\<lambda>m. \<not> has_prefix m ''aegis-'' \<and> \<not> ollama_model_unusable e m f) ms \<and>
    (cf_model_id cfg' = hd ms \<or> cf_model_id cfg' = ollama_derived_name (hd ms)) \<and>
    (\<exists>w1. ollama_model_responds e srv (cf_model_id cfg') w1 = (True, w'))"
proof -
  obtain all w1 where 1: "detect_ollama e srv w = (all, w1)" by force
  obtain base others where b: "base_models e all f = base # others"
    using assms 1 by (cases "base_models e all f") (auto simp: ollama_fallback_def Let_def)
  obtain m f1 w2 where 2: "settle_model e srv base f w1 = (m, f1, w2)" by (metis prod_cases3)
  obtain ok w3 where 3: "ollama_model_responds e srv m w2 = (ok, w3)" by force
  have r: "ok" "cfg' = cfg\<lparr>cf_endpoint := ollama_host e, cf_model_id := m\<rparr>" "ms = base # others" "w' = w3"
    using assms 1 b 2 3 by (cases ok; simp add: ollama_fallback_def Let_def)+
  have "m = base \<or> m = ollama_derived_name base"
    using 2 by (auto simp: settle_model_def ensure_ollama_ctx_model_def Let_def split: prod.splits if_splits)
  moreover have "list_all (\<lambda>m. \<not> has_prefix m ''aegis-'' \<and> \<not> ollama_model_unusable e m f) (base # others)"
    unfolding b [symmetric] base_models_def by (simp add: list_all_iff)
  ultimately show ?thesis using r 3 by auto
qed

definition sample_ollama :: "unit ollama" where
  \<open>sample_ollama q w =
     (case q of OllGet u \<Rightarrow> (Some (200, ''{"models": [{"name": "llama3"}]}''), w) | _ \<Rightarrow> (Some (200, []), w))\<close>

definition ollama_env :: "string \<Rightarrow> cli" where
  "ollama_env host =
     \<lparr>en_host = \<lparr>ho_self = None, ho_cwd = Some ''/work'', ho_cache = None, ho_environ = [''OLLAMA_HOST='' @ host],
        ho_range = rev, ho_exec = (\<lambda>p. False), ho_look = (\<lambda>p. None)\<rparr>,
      en_embedded = (\<lambda>p. None),
      en_caps = \<lparr>hc_os = ''linux'', hc_arch = ''amd64'', hc_logical = 8, hc_physical = 4, hc_ram = 0, hc_accel = AccelNone\<rparr>,
      en_probe = zero_profile, en_ls = (\<lambda>p. None)\<rparr>"

definition ollama_fs :: fs where
  "ollama_fs = \<lparr>fs_files = Map.empty, fs_dirs = {''/''}, fs_deny_read = {}, fs_deny_write = {}, fs_deny_mkdir = {}\<rparr>"

lemma sample_fallback:
  "ollama_fallback (ollama_env h) sample_ollama cfg ollama_fs () =
     ((cfg\<lparr>cf_endpoint := ollama_host (ollama_env h), cf_model_id := ''aegis-llama3''\<rparr>, Some [''llama3'']), ollama_fs, ())"
proof -
  have t: \<open>tag_names ''{"models": [{"name": "llama3"}]}'' = Some [''llama3'']\<close> by code_simp
  have hm: "user_home (ollama_env h) = None"
    by (simp add: user_home_def getenv_def ho_env_def ollama_env_def env_value_def)
  have d: "detect_ollama (ollama_env h) sample_ollama () = ([''llama3''], ())"
    by (simp add: detect_ollama_def sample_ollama_def t)
  have p: "ollama_model_responds (ollama_env h) sample_ollama m () = (True, ())" for m
    by (simp add: ollama_model_responds_def sample_ollama_def ok_reply_def)
  have b: "base_models (ollama_env h) [''llama3''] ollama_fs = [''llama3'']"
    by (simp add: base_models_def ollama_model_unusable_def ollama_unusable_marker_def hm marked_def)
  have n: "ollama_derived_name ''llama3'' = ''aegis-llama3''" by code_simp
  have en: "ensure_ollama_ctx_model (ollama_env h) sample_ollama ''llama3'' ollama_fs () = (''aegis-llama3'', ())"
    by (simp add: ensure_ollama_ctx_model_def ollama_ctx_broken_def ollama_skip_ctx_marker_def hm marked_def d n Let_def
        sample_ollama_def ok_reply_def)
  show ?thesis by (simp add: ollama_fallback_def settle_model_def d b en p Let_def)
qed

theorem fallback_model_answers_witness:
  "\<exists>w1. ollama_model_responds (ollama_env []) sample_ollama ''aegis-llama3'' w1 = (True, ())"
  using fallback_model_answers [OF sample_fallback [of "[]" default_config]] by (auto simp del: split_paired_Ex)



end
