(* ===== verification/CliProvision.thy ===== *)
theory CliProvision
  imports CliOllama Sha256
begin

text \<open>
  Provisioning (\<open>cmd/aegis/provision.go\<close>): the download specification of a catalog model, the
  download with its verification and progress, the models already on the host and the scan for them.
  The download server is an argument; \<open>ffix n x\<close> is the text of \<open>x\<close> with \<open>n\<close> decimals.  The remaining
  time is computed without the wrap-around of \<open>time.Duration\<close>.
\<close>

section \<open>What to download\<close>

record provision_spec =
  ps_id :: string
  ps_file :: string
  ps_url :: string
  ps_sha256 :: string
  ps_size :: "64 word"

definition zero_provision :: provision_spec where
  "zero_provision = \<lparr>ps_id = [], ps_file = [], ps_url = [], ps_sha256 = [], ps_size = 0\<rparr>"

definition provision_fields :: "provision_spec json_field list" where
  "provision_fields =
     [(''id'', fld dec_string ps_id ps_id_update), (''file'', fld dec_string ps_file ps_file_update),
      (''url'', fld dec_string ps_url ps_url_update), (''sha256'', fld dec_string ps_sha256 ps_sha256_update),
      (''size'', fld dec_word ps_size ps_size_update)]"

datatype provision_err =
    NoRecommendation catalog_err
  | NothingFits
  | NoCatalog
  | BadCatalog
  | NoDownload string
  | UnknownModel string

definition model_garden_url :: "cli \<Rightarrow> string \<Rightarrow> string \<Rightarrow> string" where
  "model_garden_url e file url =
     (let g = getenv e ''AEGIS_MODEL_GARDEN''
      in if g \<noteq> [] then trim_right_char CHR ''/'' g @ ''/'' @ file else url)"

definition recommended_id :: "cli \<Rightarrow> fs \<Rightarrow> provision_err + string" where
  "recommended_id e f =
     (case compute_recommendation e 16384 f of
        Inl x \<Rightarrow> Inl (NoRecommendation x)
      | Inr r \<Rightarrow>
          if rc_interactive r \<noteq> [] then Inr (rc_interactive r)
          else if rc_unattended r \<noteq> [] then Inr (rc_unattended r) else Inl NothingFits)"

definition lookup_spec :: "cli \<Rightarrow> string \<Rightarrow> fs \<Rightarrow> provision_err + provision_spec" where
  "lookup_spec e i f =
     (case catalog_bytes e f of
        None \<Rightarrow> Inl NoCatalog
      | Some b \<Rightarrow>
          (case catalog_models zero_provision provision_fields b of
             None \<Rightarrow> Inl BadCatalog
           | Some ms \<Rightarrow>
               (case find (\<lambda>m. ps_id m = i) ms of
                  None \<Rightarrow> Inl (UnknownModel i)
                | Some m \<Rightarrow>
                    if ps_url m = [] \<or> ps_sha256 m = [] then Inl (NoDownload i)
                    else Inr (m\<lparr>ps_url := model_garden_url e (ps_file m) (ps_url m)\<rparr>))))"

definition resolve_provision_spec :: "cli \<Rightarrow> string \<Rightarrow> fs \<Rightarrow> provision_err + provision_spec" where
  "resolve_provision_spec e i f =
     (if i \<noteq> [] then lookup_spec e i f
      else case recommended_id e f of Inl x \<Rightarrow> Inl x | Inr j \<Rightarrow> lookup_spec e j f)"

section \<open>The download\<close>

text \<open>Status, the chunks of the body, and whether the body was read to its end.\<close>

type_synonym 'w fetcher = "string \<Rightarrow> 'w \<Rightarrow> (int \<times> string list \<times> bool) option \<times> 'w"

definition fs_rename :: "string \<Rightarrow> string \<Rightarrow> fs \<Rightarrow> bool \<times> fs" where
  "fs_rename p q f =
     (case fs_files f p of
        None \<Rightarrow> (False, f)
      | Some b \<Rightarrow>
          if fs_can_write q f \<and> p \<notin> fs_deny_write f
          then (True, f\<lparr>fs_files := ((fs_files f)(p := None))(q \<mapsto> b)\<rparr>) else (False, f))"

datatype download_err =
    DownloadMkdir
  | DownloadFailed string
  | DownloadStatus string int
  | DownloadCreate string
  | DownloadBroken
  | ShaMismatch string string
  | DownloadRename

definition download_model ::
  "'w fetcher \<Rightarrow> provision_spec \<Rightarrow> string \<Rightarrow> fs \<Rightarrow> 'w \<Rightarrow> download_err option \<times> fs \<times> 'w" where
  "download_model get spec dest f w =
     (case fs_mkdir_all (path_dir dest) f of
        (False, f1) \<Rightarrow> (Some DownloadMkdir, f1, w)
      | (True, f1) \<Rightarrow>
          (case get (ps_url spec) w of
             (None, w1) \<Rightarrow> (Some (DownloadFailed (ps_url spec)), f1, w1)
           | (Some (st, chunks, whole), w1) \<Rightarrow>
               if st \<noteq> 200 then (Some (DownloadStatus (ps_url spec) st), f1, w1)
               else (let tmp = dest @ ''.part''; body = concat chunks; got = sha256_hex body
                     in case fs_write tmp body f1 of
                          (False, f2) \<Rightarrow> (Some (DownloadCreate tmp), f2, w1)
                        | (True, f2) \<Rightarrow>
                            if \<not> whole then (Some DownloadBroken, snd (fs_remove tmp f2), w1)
                            else if got \<noteq> ps_sha256 spec then
                              (Some (ShaMismatch (ps_sha256 spec) got), snd (fs_remove tmp f2), w1)
                            else (case fs_rename tmp dest f2 of
                                    (False, f3) \<Rightarrow> (Some DownloadRename, f3, w1)
                                  | (True, f3) \<Rightarrow> (None, f3, w1)))))"

definition model_download_dir :: "cli \<Rightarrow> string" where
  "model_download_dir e =
     (let d = getenv e ''MODEL_DOWNLOAD_DIR''
      in if d \<noteq> [] then d
         else case user_home e of Some home \<Rightarrow> path_join [home, ''models''] | None \<Rightarrow> ''models'')"

datatype resolve_note =
    BrowseMissing string
  | Sourcing string
  | SpecFailed provision_err
  | AlreadyPresent string
  | Downloading string
  | DownloadFail download_err

text \<open>The path when there is one, and what is told to the operator.\<close>

definition resolve_or_download ::
  "cli \<Rightarrow> 'w fetcher \<Rightarrow> string \<Rightarrow> string \<Rightarrow> fs \<Rightarrow> 'w \<Rightarrow> (string option \<times> resolve_note list) \<times> fs \<times> 'w" where
  "resolve_or_download e get i browse f w =
     (if browse \<noteq> [] then
        (if fs_exists browse f then ((Some browse, [Sourcing (path_base browse)]), f, w)
         else ((None, [BrowseMissing browse]), f, w))
      else case resolve_provision_spec e i f of
        Inl x \<Rightarrow> ((None, [SpecFailed x]), f, w)
      | Inr spec \<Rightarrow>
          (let dest = path_join [model_download_dir e, ps_file spec]
           in case (case fs_files f dest of None \<Rightarrow> False
                    | Some b \<Rightarrow> unat (ps_size spec) < 2 ^ 63 \<and> length b = unat (ps_size spec)) of
                True \<Rightarrow> ((Some dest, [AlreadyPresent (ps_file spec)]), f, w)
              | False \<Rightarrow>
                  (case download_model get spec dest f w of
                     (Some x, f1, w1) \<Rightarrow> ((None, [Downloading (ps_id spec), DownloadFail x]), f1, w1)
                   | (None, f1, w1) \<Rightarrow> ((Some dest, [Downloading (ps_id spec)]), f1, w1))))"

section \<open>Progress\<close>

record tracker =
  tr_total :: "64 word"
  tr_done :: "64 word"
  tr_start :: "int option"
  tr_last :: "int option"

definition progress_bar :: "real \<Rightarrow> string" where
  "progress_bar pct =
     (let n = nat (min 20 (max 0 \<lfloor>pct / 100 * 20\<rfloor>))
      in ''['' @ concat (replicate n [CHR 0xE2, CHR 0x96, CHR 0x88]) @
         concat (replicate (20 - n) [CHR 0xE2, CHR 0x96, CHR 0x91]) @ '']'')"

text \<open>\<open>time.Duration\<close>'s text of a whole number of seconds.\<close>

definition show_seconds :: "nat \<Rightarrow> string" where
  "show_seconds s =
     (if s \<ge> 3600 then show_nat (s div 3600) @ ''h'' @ show_nat (s div 60 mod 60) @ ''m'' @ show_nat (s mod 60) @ ''s''
      else if s \<ge> 60 then show_nat (s div 60) @ ''m'' @ show_nat (s mod 60) @ ''s''
      else show_nat s @ ''s'')"

definition progress_line :: "(nat \<Rightarrow> real \<Rightarrow> string) \<Rightarrow> tracker \<Rightarrow> real \<Rightarrow> string" where
  "progress_line ffix p elapsed =
     (let done_b = of_u64 (tr_done p); total_b = of_u64 (tr_total p);
          pct = (if tr_total p > 0 then 100 * done_b / total_b else 0);
          mbps = (if elapsed > 0 then done_b / 10 ^ 6 / elapsed else 0);
          eta = (if elapsed > 0 \<and> mbps > 0 \<and> tr_total p > tr_done p
                 then '' ETA '' @ show_seconds (nat \<lfloor>of_u64 (tr_total p - tr_done p) / 10 ^ 6 / mbps\<rfloor>) else [])
      in ''aegis: provision: downloaded '' @ ffix 1 (done_b / 10 ^ 9) @ ''/'' @ ffix 1 (total_b / 10 ^ 9) @ '' GB ('' @
         ffix 0 pct @ ''%) '' @ progress_bar pct @ '' '' @ ffix 0 mbps @ '' MB/s'' @ eta)"

definition progress_write ::
  "(nat \<Rightarrow> real \<Rightarrow> string) \<Rightarrow> bool \<Rightarrow> int \<Rightarrow> string \<Rightarrow> tracker \<Rightarrow> string \<times> tracker" where
  "progress_write ffix tty now b p =
     (let p1 = p\<lparr>tr_done := tr_done p + word_of_nat (length b),
                 tr_start := Some (case tr_start p of None \<Rightarrow> now | Some t \<Rightarrow> t)\<rparr>;
          finished = (tr_total p1 > 0 \<and> tr_done p1 \<ge> tr_total p1);
          due = (case tr_last p1 of None \<Rightarrow> True | Some t \<Rightarrow> now - t > 1000000000)
      in if due \<or> finished then
           (let p2 = p1\<lparr>tr_last := Some now\<rparr>;
                line = progress_line ffix p2 (of_int (now - the (tr_start p2)) / 10 ^ 9)
            in (if tty then [CHR 0x0D, CHR 0x1B] @ ''[K'' @ line @ (if finished then [CHR 0x0A] else [])
                else line @ [CHR 0x0A], p2))
         else ([], p1))"

section \<open>Models on the host\<close>

datatype model_kind = KindGguf | KindOllama

record available_model =
  av_kind :: model_kind
  av_id :: string
  av_path :: string

definition best_fit_card :: "(nat \<Rightarrow> real \<Rightarrow> string) \<Rightarrow> cli \<Rightarrow> fs \<Rightarrow> string" where
  "best_fit_card ffix e f =
     (case resolve_provision_spec e [] f of
        Inl x \<Rightarrow> []
      | Inr s \<Rightarrow> ps_id s @ '' '' @ [CHR 0xC2, CHR 0xB7] @ '' US-origin '' @ [CHR 0xC2, CHR 0xB7] @ '' ~'' @
                 ffix 0 (of_u64 (ps_size s) / 10 ^ 9) @ '' GB'')"

definition best_fit_url :: "cli \<Rightarrow> fs \<Rightarrow> string" where
  "best_fit_url e f = (case resolve_provision_spec e [] f of Inl x \<Rightarrow> [] | Inr s \<Rightarrow> ps_url s)"

definition best_available_model :: "cli \<Rightarrow> 'w ollama \<Rightarrow> fs \<Rightarrow> 'w \<Rightarrow> available_model option \<times> fs \<times> 'w" where
  "best_available_model e srv f w =
     (let g = resolve_any_model_gguf e
      in if g \<noteq> [] then (Some \<lparr>av_kind = KindGguf, av_id = path_base g, av_path = g\<rparr>, f, w)
         else let (m, f1, w1) = usable_ollama_candidate e srv f w
              in if m = [] then (None, f1, w1)
                 else let (p, w2) = ollama_model_gguf e srv m f1 w1
                      in (Some \<lparr>av_kind = KindOllama, av_id = m, av_path = p\<rparr>, f1, w2))"

definition model_search_dirs :: "cli \<Rightarrow> string list" where
  "model_search_dirs e =
     (let d = getenv e ''MODEL_DOWNLOAD_DIR''; paths = getenv e ''AEGIS_MODEL_PATHS''
      in (if d \<noteq> [] then [d] else []) @
         (case user_home e of
            None \<Rightarrow> []
          | Some home \<Rightarrow>
              [path_join [home, ''models''], path_join [home, ''.cache'', ''huggingface''],
               path_join [home, ''.cache'', ''lm-studio'', ''models''], path_join [home, ''.lmstudio'', ''models''],
               path_join [home, ''.ollama'', ''models'']]) @
         (if paths = [] then [] else filter (\<lambda>p. p \<noteq> []) (split_on CHR '':'' paths)))"

definition matches_filter :: "string \<Rightarrow> string \<Rightarrow> bool" where
  "matches_filter nm filt \<longleftrightarrow> filt = [] \<or> contains_str (to_lower nm) (to_lower filt)"

text \<open>The files below a node, with the path and the name the walk hands over.\<close>

fun entry_name :: "node \<Rightarrow> string" where
  "entry_name (File nm c) = nm"
| "entry_name (Dir nm kids) = nm"

fun walk_files :: "string \<Rightarrow> node \<Rightarrow> (string \<times> string) list" where
  "walk_files p (File nm c) = [(p, nm)]"
| "walk_files p (Dir nm kids) = concat (map (\<lambda>k. walk_files (path_join [p, entry_name k]) k) kids)"

definition add_found :: "string \<Rightarrow> string \<times> string \<Rightarrow> available_model list \<Rightarrow> available_model list" where
  "add_found filt x out =
     (if has_suffix (snd x) ''.gguf'' \<and> matches_filter (snd x) filt \<and> fst x \<notin> set (map av_path out)
      then out @ [\<lparr>av_kind = KindGguf, av_id = snd x, av_path = fst x\<rparr>] else out)"

definition find_models ::
  "cli \<Rightarrow> (string \<Rightarrow> node option) \<Rightarrow> 'w ollama \<Rightarrow> string \<Rightarrow> 'w \<Rightarrow> available_model list \<times> 'w" where
  "find_models e tr srv filt w =
     (let files = concat (map (\<lambda>d. case tr d of None \<Rightarrow> [] | Some n \<Rightarrow> walk_files d n) (model_search_dirs e));
          found = fold (add_found filt) files [];
          (tags, w1) = detect_ollama e srv w
      in (found @ map (\<lambda>m. \<lparr>av_kind = KindOllama, av_id = m, av_path = []\<rparr>)
                    (filter (\<lambda>m. \<not> has_prefix m ''aegis-'' \<and> matches_filter m filt) tags), w1))"

definition pad_right :: "nat \<Rightarrow> string \<Rightarrow> string" where
  "pad_right n s = s @ replicate (n - length s) CHR '' ''"

definition kind_name :: "model_kind \<Rightarrow> string" where
  "kind_name k = (case k of KindGguf \<Rightarrow> ''gguf'' | KindOllama \<Rightarrow> ''ollama'')"

definition found_lines :: "available_model \<Rightarrow> string list" where
  "found_lines m =
     [''  '' @ pad_right 7 (kind_name (av_kind m)) @ '' '' @ av_id m,
      replicate 10 CHR '' '' @ (if av_kind m = KindOllama then ''ollama (loopback)'' else av_path m)]"

definition provision_find :: "string \<Rightarrow> available_model list \<Rightarrow> string" where
  "provision_find filt ms =
     (let note1 = (if filt \<noteq> [] then '' matching '' @ go_quote filt else [])
      in if ms = [] then
           ''aegis: no compatible models found'' @ note1 @ '' '' @ em_dash3 @
           '' run `aegis provision` to download the recommended one'' @ [CHR 0x0A]
         else text_lines
           ([''aegis: found '' @ show_nat (length ms) @ '' compatible model(s)'' @ note1 @ '':''] @
            concat (map found_lines ms) @
            [''use one with:  aegis provision --browse <path>   (or just launch aegis to pick on the screen)'', []]))"

section \<open>Facts\<close>

lemma part_not_dest: "dest @ ''.part'' \<noteq> dest"
  by simp

lemma fs_remove_other: "q \<noteq> p \<Longrightarrow> fs_files (snd (fs_remove p f)) q = fs_files f q"
  by (simp add: fs_remove_def)

lemma fs_rename_cases:
  assumes "fs_rename p q f = (b, g)"
  shows "if b then fs_files g q = fs_files f p \<and> fs_files f p \<noteq> None else g = f"
  using assms by (auto simp: fs_rename_def split: option.splits if_splits)

text \<open>C22: No unverified weights: a download that succeeds leaves at the destination bytes whose SHA-256
  is the catalog's; one that fails leaves the destination as it was.\<close>

theorem download_verified:
  assumes "download_model get spec dest f w = (r, f', w')"
  shows "case r of
      None \<Rightarrow> (\<exists>b. fs_files f' dest = Some b \<and> sha256_hex b = ps_sha256 spec)
    | Some x \<Rightarrow> fs_files f' dest = fs_files f dest"
proof -
  let ?tmp = "dest @ ''.part''"
  obtain b1 f1 where 1: "fs_mkdir_all (path_dir dest) f = (b1, f1)" by force
  have k1: "fs_files f1 = fs_files f" using fs_mkdir_all_props [OF 1] by simp
  obtain rep w1 where 2: "get (ps_url spec) w = (rep, w1)" by force
  show ?thesis
  proof (cases "b1 \<and> (\<exists>chunks whole. rep = Some (200, chunks, whole))")
    case False
    then have "r \<noteq> None \<and> f' = f1" using assms 1 2
      by (cases b1; cases rep) (auto simp: download_model_def split: if_splits)
    then show ?thesis using k1 by (cases r) simp_all
  next
    case True
    then obtain chunks whole where rep: "b1" "rep = Some (200, chunks, whole)" by blast
    let ?body = "concat chunks"
    obtain b2 f2 where 3: "fs_write ?tmp ?body f1 = (b2, f2)" by force
    have k2: "fs_files f2 dest = fs_files f dest"
      using fs_write_other [OF 3, of dest] part_not_dest k1 by fastforce
    obtain b3 f3 where 4: "fs_rename ?tmp dest f2 = (b3, f3)" by force
    consider (create) "\<not> b2" | (broken) "b2" "\<not> whole" | (sha) "b2" "whole" "sha256_hex ?body \<noteq> ps_sha256 spec"
      | (rename) "b2" "whole" "sha256_hex ?body = ps_sha256 spec" by blast
    then show ?thesis
    proof cases
      case create
      then have "r \<noteq> None \<and> f' = f2" using assms 1 2 3 rep by (auto simp: download_model_def Let_def)
      with k2 show ?thesis by (cases r) simp_all
    next
      case broken
      then have "r \<noteq> None \<and> f' = snd (fs_remove ?tmp f2)" using assms 1 2 3 rep by (auto simp: download_model_def Let_def)
      with k2 show ?thesis using fs_remove_other [of dest ?tmp f2] by (cases r) simp_all
    next
      case sha
      then have "r \<noteq> None \<and> f' = snd (fs_remove ?tmp f2)" using assms 1 2 3 rep by (auto simp: download_model_def Let_def)
      with k2 show ?thesis using fs_remove_other [of dest ?tmp f2] by (cases r) simp_all
    next
      case rename
      have body: "fs_files f2 ?tmp = Some ?body" using 3 rename(1) fs_write_ok [of ?tmp ?body f1 f2] by simp
      have "if b3 then r = None \<and> f' = f3 else r \<noteq> None \<and> f' = f3"
        using assms 1 2 3 4 rep rename by (auto simp: download_model_def Let_def)
      with fs_rename_cases [OF 4] body k2 rename(3) show ?thesis by (cases b3; cases r) simp_all
    qed
  qed
qed

definition sample_spec :: provision_spec where
  "sample_spec = \<lparr>ps_id = ''m'', ps_file = ''m.gguf'', ps_url = ''https://garden/m.gguf'',
     ps_sha256 = sha256_hex ''weights'', ps_size = 7\<rparr>"

theorem download_verified_witness:
  "\<exists>b. fs_files (fst (snd (download_model (\<lambda>u w. (Some (200, [''wei'', ''ghts''], True), w)) sample_spec ''/m.gguf'' ollama_fs ())))
       ''/m.gguf'' = Some b \<and> sha256_hex b = ps_sha256 sample_spec"
proof -
  let ?get = "\<lambda>u w. (Some (200, [''wei'', ''ghts''], True), w)"
  have d: "path_dir ''/m.gguf'' = ''/''" "path_dir ''/m.gguf.part'' = ''/''" "path_clean ''/'' = ''/''" by code_simp+
  have m: "fs_mkdir_all ''/'' ollama_fs = (True, ollama_fs)" by (simp add: fs_mkdir_all_def d ollama_fs_def)
  have w: "fs_write ''/m.gguf.part'' ''weights'' ollama_fs = (True, ollama_fs\<lparr>fs_files := [''/m.gguf.part'' \<mapsto> ''weights'']\<rparr>)"
    by (simp add: fs_write_def fs_can_write_def d ollama_fs_def)
  have r: "fst (fs_rename ''/m.gguf.part'' ''/m.gguf'' (ollama_fs\<lparr>fs_files := [''/m.gguf.part'' \<mapsto> ''weights'']\<rparr>))"
    by (simp add: fs_rename_def fs_can_write_def d ollama_fs_def)
  have e: "fst (download_model ?get sample_spec ''/m.gguf'' ollama_fs ()) = None"
    using r by (cases "fs_rename ''/m.gguf.part'' ''/m.gguf'' (ollama_fs\<lparr>fs_files := [''/m.gguf.part'' \<mapsto> ''weights'']\<rparr>)")
      (simp add: download_model_def d m w sample_spec_def Let_def)
  obtain r f' w' where p: "download_model ?get sample_spec ''/m.gguf'' ollama_fs () = (r, f', w')" by (metis prod_cases3)
  with e have "r = None" by simp
  from download_verified [OF p] show ?thesis unfolding p fst_conv snd_conv \<open>r = None\<close> option.case .
qed

end
