(* ===== verification/CliServe.thy ===== *)
theory CliServe
  imports CliProvision Polling
begin

text \<open>
  Bringing a model up (\<open>cmd/aegis/main.go\<close>, \<open>provision.go\<close>): the readiness check of an endpoint, the
  model server that is started before the TUI opens, and \<open>aegis provision\<close>.  Processes and the clock
  are functions on a world that the model endpoint shares; times are in nanoseconds.
\<close>

section \<open>Endpoint checks\<close>

definition serving_preflight ::
  "'w server \<Rightarrow> string \<Rightarrow> string \<Rightarrow> string \<Rightarrow> 'w \<Rightarrow> serv_err option \<times> 'w" where
  "serving_preflight srv endpoint want_id want_digest w =
     (case new_client endpoint of
        Inl x \<Rightarrow> (Some x, w)
      | Inr u \<Rightarrow>
          (case preflight_smoke srv u want_id w of
             (Some x, w1) \<Rightarrow> (Some x, w1)
           | (None, w1) \<Rightarrow>
               if want_id \<noteq> [] \<or> want_digest \<noteq> [] then check_model srv u want_id want_digest w1 else (None, w1)))"

definition endpoint_ready :: "'w server \<Rightarrow> string \<Rightarrow> 'w \<Rightarrow> bool \<times> 'w" where
  "endpoint_ready srv endpoint w =
     (let (r, w1) = serving_preflight srv endpoint [] [] w in (r = None, w1))"

section \<open>Processes\<close>

record 'w machine =
  mc_start :: "string list \<Rightarrow> 'w \<Rightarrow> nat option \<times> 'w"
  mc_kill :: "nat \<Rightarrow> 'w \<Rightarrow> 'w"
  mc_now :: "'w \<Rightarrow> int"
  mc_sleep :: "int \<Rightarrow> 'w \<Rightarrow> 'w"

definition second :: int where "second = 1000000000"

definition await_model :: "'w machine \<Rightarrow> 'w server \<Rightarrow> string \<Rightarrow> 'w \<Rightarrow> (bool \<times> 'w) option" where
  "await_model mc srv endpoint w =
     poll_until (mc_now mc) (endpoint_ready srv endpoint) (mc_sleep mc (2 * second)) (mc_now mc w + 180 * second) w"

section \<open>Before the TUI\<close>

datatype serving_err =
    NoModel
  | BadCalibration cal_err
  | ModelMissing string
  | BuildFailed serve_err
  | LaunchFailed
  | NotReady

text \<open>The calibration to launch: the resolved one, or one seeded for a local model.\<close>

definition find_calibration :: "cli \<Rightarrow> fs \<Rightarrow> string option \<times> fs" where
  "find_calibration e f =
     (let cp = resolve_calibration_path e f
      in if cp \<noteq> [] then (Some cp, f)
         else let gguf = resolve_any_model_gguf e
              in if gguf = [] then (None, f)
                 else case write_seed_calibration e gguf f of
                   (Inl x, f1) \<Rightarrow> (None, f1)
                 | (Inr p, f1) \<Rightarrow> (Some p, f1))"

text \<open>\<open>ensureModelServing\<close>: on success the process to stop, if one was started, and the model's id.\<close>

definition ensure_model_serving ::
  "cli \<Rightarrow> (string \<Rightarrow> bool) \<Rightarrow> 'w machine \<Rightarrow> 'w server \<Rightarrow> string \<Rightarrow> fs \<Rightarrow> 'w
     \<Rightarrow> ((serving_err + nat option \<times> string) \<times> fs \<times> 'w) option" where
  "ensure_model_serving e xbits mc srv endpoint f w =
     (let (up, w1) = endpoint_ready srv endpoint w
      in if up then Some (Inr (None, serving_model_id e f), f, w1)
         else case find_calibration e f of
           (None, f1) \<Rightarrow> Some (Inl NoModel, f1, w1)
         | (Some cp, f1) \<Rightarrow>
             (case load_calibration cp f1 of
                Inl x \<Rightarrow> Some (Inl (BadCalibration x), f1, w1)
              | Inr cal \<Rightarrow>
                  if cal_model cal = [] then Some (Inl NoModel, f1, w1)
                  else if \<not> fs_exists (cal_model cal) f1 then Some (Inl (ModelMissing (cal_model cal)), f1, w1)
                  else case build_serve_command e xbits cp f1 of
                    Inl x \<Rightarrow> Some (Inl (BuildFailed x), f1, w1)
                  | Inr argv \<Rightarrow>
                      (case mc_start mc argv w1 of
                         (None, w2) \<Rightarrow> Some (Inl LaunchFailed, f1, w2)
                       | (Some pid, w2) \<Rightarrow>
                           (case await_model mc srv endpoint w2 of
                              None \<Rightarrow> None
                            | Some (True, w3) \<Rightarrow> Some (Inr (Some pid, catalog_id_for_gguf e (cal_model cal) f1), f1, w3)
                            | Some (False, w3) \<Rightarrow> Some (Inl NotReady, f1, mc_kill mc pid w3)))))"

section \<open>Provision\<close>

datatype provision_note =
    ProvNote resolve_note
  | ProvSeedFailed seed_err
  | ProvBuildFailed serve_err
  | ProvStarting string
  | ProvLaunchFailed
  | ProvReady
  | ProvNotReady

definition provision_model ::
  "cli \<Rightarrow> (string \<Rightarrow> bool) \<Rightarrow> 'w machine \<Rightarrow> 'w server \<Rightarrow> 'w fetcher \<Rightarrow> string \<Rightarrow> string \<Rightarrow> string \<Rightarrow> fs \<Rightarrow> 'w
     \<Rightarrow> ((int \<times> provision_note list) \<times> fs \<times> 'w) option" where
  "provision_model e xbits mc srv get endpoint i browse f w =
     (case resolve_or_download e get i browse f w of
        ((None, notes), f1, w1) \<Rightarrow> Some ((1, map ProvNote notes), f1, w1)
      | ((Some gguf, notes), f1, w1) \<Rightarrow>
          (case write_seed_calibration e gguf f1 of
             (Inl x, f2) \<Rightarrow> Some ((1, map ProvNote notes @ [ProvSeedFailed x]), f2, w1)
           | (Inr seed, f2) \<Rightarrow>
               (let notes1 = map ProvNote notes @ [ProvStarting (path_base gguf)]
                in case build_serve_command e xbits seed f2 of
                     Inl x \<Rightarrow> Some ((1, notes1 @ [ProvBuildFailed x]), f2, w1)
                   | Inr argv \<Rightarrow>
                       (case mc_start mc argv w1 of
                          (None, w2) \<Rightarrow> Some ((1, notes1 @ [ProvLaunchFailed]), f2, w2)
                        | (Some pid, w2) \<Rightarrow>
                            (case await_model mc srv endpoint w2 of
                               None \<Rightarrow> None
                             | Some (True, w3) \<Rightarrow> Some ((0, notes1 @ [ProvReady]), f2, w3)
                             | Some (False, w3) \<Rightarrow> Some ((1, notes1 @ [ProvNotReady]), f2, w3))))))"

section \<open>Opening the TUI\<close>

text \<open>What the launch screen reads from the environment when there is no model.\<close>

definition no_model_env ::
  "(nat \<Rightarrow> real \<Rightarrow> string) \<Rightarrow> cli \<Rightarrow> available_model option \<Rightarrow> fs \<Rightarrow> (string \<times> string) list" where
  "no_model_env ffix e av f =
     [(''AEGIS_NO_MODEL'', ''1''), (''AEGIS_BEST_FIT'', best_fit_card ffix e f),
      (''AEGIS_MODEL_RATIONALE'', recommendation_rationale e f)] @
     (case av of
        None \<Rightarrow> []
      | Some m \<Rightarrow> [(''AEGIS_AVAILABLE_MODEL'', av_id m @ '' ('' @ kind_name (av_kind m) @ '')'')] @
                  (if av_path m \<noteq> [] then [(''AEGIS_AVAILABLE_PATH'', av_path m)] else [])) @
     [(''AEGIS_MODEL_URL'', best_fit_url e f)] @
     (case ho_self (en_host e) of None \<Rightarrow> [] | Some exe \<Rightarrow> [(''AEGIS_BIN'', exe)])"

datatype tui_note =
    TuiMissing
  | TuiServing serving_err
  | TuiOllama string "string list"
  | TuiNoModel
  | TuiHint string
  | TuiLaunchFailed

record tui_state =
  ts_config :: config
  ts_env :: "(string \<times> string) list"
  ts_notes :: "tui_note list"

text \<open>The model the picker shows: the served one, the configured one, or the target's default.\<close>

definition label_model :: "string \<Rightarrow> config \<Rightarrow> config" where
  "label_model served cfg =
     (if served \<noteq> [] then cfg\<lparr>cf_model_id := served\<rparr>
      else if cf_model_id cfg = [] then cfg\<lparr>cf_model_id := default_model_for_target (cf_target cfg)\<rparr>
      else cfg)"

text \<open>When no model could be brought up: Ollama's, or the environment of the provisioning screen.\<close>

definition without_model ::
  "(nat \<Rightarrow> real \<Rightarrow> string) \<Rightarrow> cli \<Rightarrow> 'w ollama \<Rightarrow> config \<Rightarrow> fs \<Rightarrow> 'w \<Rightarrow> tui_state \<times> fs \<times> 'w" where
  "without_model ffix e oll cfg f w =
     (case ollama_fallback e oll cfg f w of
        ((cfg1, Some ms), f1, w1) \<Rightarrow>
          (\<lparr>ts_config = cfg1, ts_env = [], ts_notes = [TuiOllama (hd ms) (tl ms)]\<rparr>, f1, w1)
      | ((cfg1, None), f1, w1) \<Rightarrow>
          (let (av, f2, w2) = best_available_model e oll f1 w1
           in (\<lparr>ts_config = cfg, ts_env = no_model_env ffix e av f2, ts_notes = [TuiNoModel]\<rparr>, f2, w2)))"

definition tui_launch ::
  "(real \<Rightarrow> string) \<Rightarrow> cli \<Rightarrow> 'w server \<Rightarrow> (config \<Rightarrow> (string \<times> string) list \<Rightarrow> 'w \<Rightarrow> bool \<times> 'w) \<Rightarrow> string
     \<Rightarrow> tui_state \<Rightarrow> fs \<Rightarrow> 'w \<Rightarrow> (int \<times> tui_note list) \<times> fs \<times> 'w" where
  "tui_launch ffmt e srv start served st f w =
     (let cfg1 = label_model served (ts_config st);
          f1 = auto_profile ffmt e f;
          hint = profile_hint e (cf_model_id cfg1) f1;
          notes = ts_notes st @ (if hint \<noteq> [] then [TuiHint hint] else []);
          (ctx, w1) = served_window e srv (cf_endpoint cfg1) f1 w;
          (ok, w2) = start (cfg1\<lparr>cf_ctx_size := ctx\<rparr>) (ts_env st) w1
      in ((if ok then 0 else 1, notes @ (if ok then [] else [TuiLaunchFailed])), f1, w2))"

definition no_model :: "serving_err \<Rightarrow> bool" where
  "no_model x = (case x of NoModel \<Rightarrow> True | ModelMissing p \<Rightarrow> True | _ \<Rightarrow> False)"

definition stop_model :: "'w machine \<Rightarrow> nat option \<Rightarrow> 'w \<Rightarrow> 'w" where
  "stop_model mc p w = (case p of None \<Rightarrow> w | Some pid \<Rightarrow> mc_kill mc pid w)"

text \<open>\<open>start\<close> is the launch of the TUI; its binary is resolved first.\<close>

definition cmd_tui ::
  "(real \<Rightarrow> string) \<Rightarrow> (nat \<Rightarrow> real \<Rightarrow> string) \<Rightarrow> cli \<Rightarrow> (string \<Rightarrow> bool) \<Rightarrow> 'w machine \<Rightarrow> 'w server \<Rightarrow> 'w ollama \<Rightarrow>
     (config \<Rightarrow> (string \<times> string) list \<Rightarrow> 'w \<Rightarrow> bool \<times> 'w) \<Rightarrow> string \<Rightarrow> fs \<Rightarrow> 'w
     \<Rightarrow> ((int \<times> tui_note list) \<times> fs \<times> 'w) option" where
  "cmd_tui ffmt ffix e xbits mc srv oll start0 version f w =
     (let cfg = (case load_config [] f of Inr c \<Rightarrow> c | Inl x \<Rightarrow> default_config);
          start = (\<lambda>c env. start0 c ((''AEGIS_VERSION'', version) # env))
      in case resolve_binary (en_host e) [] of
           Inl x \<Rightarrow> Some ((1, [TuiMissing]), f, w)
         | Inr bin \<Rightarrow>
             (case ensure_model_serving e xbits mc srv (cf_endpoint cfg) f w of
                None \<Rightarrow> None
              | Some (Inr (pid, m), f1, w1) \<Rightarrow>
                  (let (r, f2, w2) = tui_launch ffmt e srv start m
                         \<lparr>ts_config = cfg, ts_env = [], ts_notes = []\<rparr> f1 w1
                   in Some (r, f2, stop_model mc pid w2))
              | Some (Inl x, f1, w1) \<Rightarrow>
                  if \<not> no_model x then Some ((1, [TuiServing x]), f1, w1)
                  else let (st, f2, w2) = without_model ffix e oll cfg f1 w1
                       in Some (tui_launch ffmt e srv start [] st f2 w2)))"

end
