(* ===== verification/CliBakeoff.thy ===== *)
theory CliBakeoff
  imports GoFlag CliServe Bakeoff
begin

text \<open>
  \<open>aegis bakeoff\<close> (\<open>cmd/aegis/bakeoff.go\<close>): the task suite, the choice of candidates, a candidate's
  model server, the cells of the suite, the counting of edited files, the transcript statistics and
  the recorded comparison.  The host is a record of functions on the files and a world; the texts of
  its errors are the host's.  Printed progress is left out.
\<close>

section \<open>The suite\<close>

record bake_task =
  bt_name :: string
  bt_prompt :: string
  bt_files :: "(string \<times> string) list"
  bt_verify :: "string list"

definition go_mod :: string where
  "go_mod = ''module task'' @ [CHR 0x0A, CHR 0x0A] @ ''go 1.21'' @ [CHR 0x0A]"

definition task_source :: "string \<Rightarrow> string" where
  "task_source body = ''package task'' @ [CHR 0x0A, CHR 0x0A] @ body @ [CHR 0x0A]"

definition task_test :: "string \<Rightarrow> string" where
  \<open>task_test body = task_source (''import "testing"'' @ [CHR 0x0A, CHR 0x0A] @ body)\<close>

definition default_suite :: "bake_task list" where
  \<open>default_suite =
     [\<lparr>bt_name = ''go-add'',
       bt_prompt = ''Edit add.go so that Add(a, b) returns a + b instead of 0. Make the change with the edit tool.'',
       bt_files =
         [(''go.mod'', go_mod),
          (''add.go'', task_source ''func Add(a, b int) int { return 0 }''),
          (''add_test.go'', task_test ''func TestAdd(t *testing.T){ if Add(2,3)!=5 { t.Fatal("want 5") } }'')],
       bt_verify = [''go'', ''test'', ''./...'']\<rparr>,
      \<lparr>bt_name = ''go-max'',
       bt_prompt = ''Edit max.go so that Max(a, b) returns the larger of a and b (it currently returns 0). Use the edit tool.'',
       bt_files =
         [(''go.mod'', go_mod),
          (''max.go'', task_source ''func Max(a, b int) int { return 0 }''),
          (''max_test.go'',
           task_test ''func TestMax(t *testing.T){ if Max(2,7)!=7 || Max(9,4)!=9 { t.Fatal("wrong") } }'')],
       bt_verify = [''go'', ''test'', ''./...'']\<rparr>,
      \<lparr>bt_name = ''go-greet'',
       bt_prompt = ''Create a new file greet.go in package task with a function Greet(name string) string that returns "Hello, " + name + "!". Use the write tool to create the file.'',
       bt_files =
         [(''go.mod'', go_mod),
          (''greet_test.go'',
           task_test ''func TestGreet(t *testing.T){ if Greet("Ada")!="Hello, Ada!" { t.Fatal("wrong greeting") } }'')],
       bt_verify = [''go'', ''test'', ''./...'']\<rparr>]\<close>

section \<open>Candidates\<close>

definition split_list :: "string \<Rightarrow> string list" where
  "split_list s = filter (\<lambda>p. p \<noteq> []) (map trim_space (split_on CHR '','' s))"

record model_choice =
  mo_id :: string
  mo_tps :: real
  mo_interactive :: bool
  mo_present :: bool

definition model_present :: "cli \<Rightarrow> string \<Rightarrow> fs \<Rightarrow> bool" where
  "model_present e i f =
     (case resolve_provision_spec e i f of
        Inl x \<Rightarrow> False
      | Inr spec \<Rightarrow>
          (case fs_files f (path_join [model_download_dir e, ps_file spec]) of None \<Rightarrow> False | Some b \<Rightarrow> b \<noteq> []))"

definition suitable_models :: "cli \<Rightarrow> fs \<Rightarrow> catalog_err + model_choice list" where
  "suitable_models e f =
     (case compute_recommendation e 16384 f of
        Inl x \<Rightarrow> Inl x
      | Inr rec \<Rightarrow>
          Inr (map (\<lambda>m. \<lparr>mo_id = ft_id m, mo_tps = ft_tps m, mo_interactive = ft_interactive m,
                        mo_present = model_present e (ft_id m) f\<rparr>)
                 (filter (\<lambda>m. ft_capacity m \<and> ft_allowed m) (rc_fits rec))))"

text \<open>One token of a selection: a number from one, or an id in any case; an unknown one is the empty id.\<close>

definition choice_of :: "model_choice list \<Rightarrow> string \<Rightarrow> string" where
  "choice_of choices tok =
     (case (case atoi tok of
              None \<Rightarrow> None
            | Some n \<Rightarrow> if 1 \<le> n \<and> n \<le> int (length choices) then Some (choices ! nat (n - 1)) else None) of
        Some c \<Rightarrow> mo_id c
      | None \<Rightarrow> (case find (\<lambda>c. to_lower (mo_id c) = tok) choices of None \<Rightarrow> [] | Some c \<Rightarrow> mo_id c))"

definition add_choice :: "model_choice list \<Rightarrow> string \<Rightarrow> string list \<Rightarrow> string list" where
  "add_choice choices tok ids =
     (let i = choice_of choices tok in if i \<noteq> [] \<and> i \<notin> set ids then ids @ [i] else ids)"

definition parse_model_selection :: "string \<Rightarrow> model_choice list \<Rightarrow> string list" where
  "parse_model_selection input0 choices =
     (let input = trim_space (to_lower input0)
      in if input = [] then []
         else if input = ''all'' \<or> input = ''a'' then map mo_id choices
         else fold (add_choice choices) (fields_func (\<lambda>c. c = CHR '','' \<or> c = CHR '' '') input []) [])"

datatype bake_err =
    BakeAbsent string
  | BakeUnresolved string
  | BakeTemp string
  | BakeCalibration
  | BakeBuild serve_err
  | BakeLaunch
  | BakeOtherModel string string
  | BakeNotReady string

datatype bake_note =
    BakeFlags flag_err
  | BakeNoExecutable
  | BakeNeedsModels
  | BakeCatalog catalog_err
  | BakeNothingSuitable
  | BakeNotTty
  | BakeNoneSelected
  | BakeNoPort
  | BakeSkip string bake_err
  | BakeNoReports
  | BakeWrite string
  | BakeTable comparison
  | BakeRecorded string

text \<open>\<open>tty\<close> is whether the input is a terminal, \<open>line\<close> what is typed there.\<close>

definition resolve_bakeoff_models ::
  "cli \<Rightarrow> bool \<Rightarrow> string \<Rightarrow> string \<Rightarrow> bool \<Rightarrow> bool \<Rightarrow> fs \<Rightarrow> string list \<times> int \<times> bake_note list" where
  "resolve_bakeoff_models e tty line ms all no_serve f =
     (if ms \<noteq> [] then (split_list ms, 0, [])
      else if no_serve then ([], 2, [BakeNeedsModels])
      else case suitable_models e f of
        Inl x \<Rightarrow> ([], 1, [BakeCatalog x])
      | Inr choices \<Rightarrow>
          if choices = [] then ([], 1, [BakeNothingSuitable])
          else if all then (map mo_id choices, 0, [])
          else if \<not> tty then ([], 2, [BakeNotTty])
          else (parse_model_selection line choices, 0, []))"

section \<open>The host\<close>

text \<open>
  \<open>hb_mkdtemp\<close> is \<open>os.MkdirTemp\<close> (an error text or the new directory), \<open>hb_exec\<close> runs a command in a
  directory with additions to the environment (its output, and an error text unless it exits with 0), \<open>hb_errtext\<close> is the text of a
  refused file call and \<open>hb_port\<close> reserves a port.
\<close>

record 'w bench_host =
  hb_mkdtemp :: "string \<Rightarrow> fs \<Rightarrow> 'w \<Rightarrow> (string + string) \<times> fs \<times> 'w"
  hb_exec :: "string \<Rightarrow> string list \<Rightarrow> string list \<Rightarrow> fs \<Rightarrow> 'w \<Rightarrow> (string \<times> string option) \<times> fs \<times> 'w"
  hb_errtext :: "string \<Rightarrow> string"
  hb_port :: "'w \<Rightarrow> int option \<times> 'w"

text \<open>\<open>os.RemoveAll\<close> of a directory.\<close>

definition in_tree :: "string \<Rightarrow> string \<Rightarrow> bool" where
  "in_tree dir p \<longleftrightarrow> p = dir \<or> has_prefix p (dir @ ''/'')"

definition fs_remove_all :: "string \<Rightarrow> fs \<Rightarrow> fs" where
  "fs_remove_all dir f =
     f\<lparr>fs_files := (\<lambda>p. if in_tree dir p then None else fs_files f p),
       fs_dirs := {p \<in> fs_dirs f. \<not> in_tree dir p}\<rparr>"

section \<open>A candidate's server\<close>

definition probe_served_model :: "'w server \<Rightarrow> string \<Rightarrow> 'w \<Rightarrow> string \<times> 'w" where
  "probe_served_model srv endpoint w =
     (case new_client endpoint of
        Inl x \<Rightarrow> ([], w)
      | Inr u \<Rightarrow> (case first_model srv u w of (Inl x, w1) \<Rightarrow> ([], w1) | (Inr m, w1) \<Rightarrow> (mi_id m, w1)))"

definition url_port :: "url \<Rightarrow> string" where
  "url_port u =
     (let lf = last_from CHR '':'' (url_host u)
      in if lf \<noteq> [] \<and> valid_optional_port lf then tl lf else [])"

definition endpoint_port :: "string \<Rightarrow> int" where
  "endpoint_port endpoint =
     (case url_parse endpoint of
        None \<Rightarrow> 0
      | Some u \<Rightarrow> (case atoi (url_port u) of None \<Rightarrow> 0 | Some n \<Rightarrow> n))"

definition bakeoff_calibration :: "cli \<Rightarrow> string \<Rightarrow> int \<Rightarrow> fs \<Rightarrow> calibration" where
  "bakeoff_calibration e gguf port f =
     (let cal = seed_for e gguf f in if port > 0 then cal\<lparr>cal_port := port\<rparr> else cal)"

definition write_bakeoff_calibration :: "cli \<Rightarrow> string \<Rightarrow> string \<Rightarrow> int \<Rightarrow> fs \<Rightarrow> string option \<times> fs" where
  "write_bakeoff_calibration e gguf dir port f =
     (let p = path_join [dir, ''calibration.json'']
      in case fs_write p (json_indent 0 (calibration_json (bakeoff_calibration e gguf port f))) f of
           (False, f1) \<Rightarrow> (None, f1)
         | (True, f1) \<Rightarrow> (Some p, f1))"

definition wait_port_free :: "'w machine \<Rightarrow> 'w server \<Rightarrow> string \<Rightarrow> int \<Rightarrow> 'w \<Rightarrow> 'w option" where
  "wait_port_free mc srv endpoint timeout w =
     map_option snd (poll_until (mc_now mc)
       (\<lambda>w. case endpoint_ready srv endpoint w of (up, w1) \<Rightarrow> (\<not> up, w1))
       (mc_sleep mc (500 * 1000000)) (mc_now mc w + timeout) w)"

text \<open>On success the process, the directory of its calibration, and the model it serves.\<close>

definition stop_candidate :: "'w machine \<Rightarrow> nat \<times> string \<Rightarrow> fs \<Rightarrow> 'w \<Rightarrow> fs \<times> 'w" where
  "stop_candidate mc c f w = (fs_remove_all (snd c) f, mc_kill mc (fst c) w)"

text \<open>The launch with the wait for readiness, and the check that it is this candidate that answers.\<close>

definition launch_candidate ::
  "'w machine \<Rightarrow> 'w server \<Rightarrow> string \<Rightarrow> string \<Rightarrow> string \<Rightarrow> string list \<Rightarrow> string \<Rightarrow> fs \<Rightarrow> 'w
     \<Rightarrow> ((bake_err + (nat \<times> string) \<times> string) \<times> fs \<times> 'w) option" where
  "launch_candidate mc srv i endpoint gguf argv dir f w =
     (case mc_start mc argv w of
        (None, w1) \<Rightarrow> Some (Inl BakeLaunch, fs_remove_all dir f, w1)
      | (Some pid, w1) \<Rightarrow>
          (case await_model mc srv endpoint w1 of
             None \<Rightarrow> None
           | Some (False, w2) \<Rightarrow>
               (case stop_candidate mc (pid, dir) f w2 of (f1, w3) \<Rightarrow> Some (Inl (BakeNotReady i), f1, w3))
           | Some (True, w2) \<Rightarrow>
               (case probe_served_model srv endpoint w2 of
                  (served, w3) \<Rightarrow>
                    if served \<noteq> [] \<and> \<not> contains_str served (path_base gguf) then
                      (case stop_candidate mc (pid, dir) f w3 of
                         (f1, w4) \<Rightarrow> Some (Inl (BakeOtherModel endpoint (path_base served)), f1, w4))
                    else Some (Inr ((pid, dir), served), f, w3))))"

definition serve_model_for_bakeoff ::
  "cli \<Rightarrow> (string \<Rightarrow> bool) \<Rightarrow> 'w machine \<Rightarrow> 'w server \<Rightarrow> 'w fetcher \<Rightarrow> 'w bench_host \<Rightarrow> string \<Rightarrow> bool \<Rightarrow> string
     \<Rightarrow> fs \<Rightarrow> 'w \<Rightarrow> ((bake_err + (nat \<times> string) \<times> string) \<times> fs \<times> 'w) option" where
  "serve_model_for_bakeoff e xbits mc srv get hb i allow_download endpoint f w =
     (if \<not> allow_download \<and> \<not> model_present e i f then Some (Inl (BakeAbsent i), f, w)
      else case resolve_or_download e get i [] f w of
        ((None, notes), f1, w1) \<Rightarrow> Some (Inl (BakeUnresolved i), f1, w1)
      | ((Some gguf, notes), f1, w1) \<Rightarrow>
          (case hb_mkdtemp hb ''bakeoff-cal-'' f1 w1 of
             (Inl x, f2, w2) \<Rightarrow> Some (Inl (BakeTemp x), f2, w2)
           | (Inr dir, f2, w2) \<Rightarrow>
               (case write_bakeoff_calibration e gguf dir (endpoint_port endpoint) f2 of
                  (None, f3) \<Rightarrow> Some (Inl BakeCalibration, fs_remove_all dir f3, w2)
                | (Some cal, f3) \<Rightarrow>
                    (case build_serve_command e xbits cal f3 of
                       Inl x \<Rightarrow> Some (Inl (BakeBuild x), fs_remove_all dir f3, w2)
                     | Inr argv \<Rightarrow> launch_candidate mc srv i endpoint gguf argv dir f3 w2))))"

section \<open>A cell\<close>

text \<open>Seeding a workspace: files in the order the map is ranged over, then a commit.\<close>

fun seed_files :: "'w bench_host \<Rightarrow> string \<Rightarrow> (string \<times> string) list \<Rightarrow> fs \<Rightarrow> string option \<times> fs" where
  "seed_files hb ws [] f = (None, f)"
| "seed_files hb ws ((name, content) # rest) f =
     (let p = path_join [ws, name]
      in case fs_mkdir_all (path_dir p) f of
           (False, f1) \<Rightarrow> (Some (hb_errtext hb (path_dir p)), f1)
         | (True, f1) \<Rightarrow>
             (case fs_write p content f1 of
                (False, f2) \<Rightarrow> (Some (hb_errtext hb p), f2)
              | (True, f2) \<Rightarrow> seed_files hb ws rest f2))"

definition seed_commits :: "string list list" where
  "seed_commits =
     [[''init'', ''-q''], [''add'', ''-A''],
      [''-c'', ''user.email=b@a'', ''-c'', ''user.name=b'', ''commit'', ''-q'', ''-m'', ''seed'']]"

fun run_git :: "'w bench_host \<Rightarrow> string \<Rightarrow> string list list \<Rightarrow> fs \<Rightarrow> 'w \<Rightarrow> string option \<times> fs \<times> 'w" where
  "run_git hb ws [] f w = (None, f, w)"
| "run_git hb ws (argv # rest) f w =
     (case hb_exec hb ws [] (''git'' # argv) f w of
        ((out, Some x), f1, w1) \<Rightarrow> (Some (''git '' @ hd argv @ '': '' @ x), f1, w1)
      | ((out, None), f1, w1) \<Rightarrow> run_git hb ws rest f1 w1)"

definition seed_task :: "cli \<Rightarrow> 'w bench_host \<Rightarrow> string \<Rightarrow> bake_task \<Rightarrow> fs \<Rightarrow> 'w \<Rightarrow> string option \<times> fs \<times> 'w" where
  "seed_task e hb ws task f w =
     (case seed_files hb ws (ho_range (en_host e) (bt_files task)) f of
        (Some x, f1) \<Rightarrow> (Some x, f1, w)
      | (None, f1) \<Rightarrow> run_git hb ws seed_commits f1 w)"

definition run_verify :: "'w bench_host \<Rightarrow> string \<Rightarrow> string list \<Rightarrow> fs \<Rightarrow> 'w \<Rightarrow> bool \<times> fs \<times> 'w" where
  "run_verify hb ws argv f w =
     (if argv = [] then (False, f, w)
      else case hb_exec hb ws [''GOFLAGS=-mod=mod''] argv f w of ((out, err), f1, w1) \<Rightarrow> (err = None, f1, w1))"

definition edited_line :: "string \<Rightarrow> bool" where
  "edited_line line \<longleftrightarrow>
     4 \<le> length line \<and> trim_space (drop 3 line) \<noteq> [] \<and> \<not> has_prefix (trim_space (drop 3 line)) ''.''"

definition edited_count :: "string \<Rightarrow> nat" where
  "edited_count out = length (filter edited_line (split_on CHR 0x0A (trim_right_char CHR 0x0A out)))"

definition git_edited_count :: "'w bench_host \<Rightarrow> string \<Rightarrow> fs \<Rightarrow> 'w \<Rightarrow> int \<times> fs \<times> 'w" where
  "git_edited_count hb ws f w =
     (case hb_exec hb ws [] [''git'', ''status'', ''--porcelain''] f w of
        ((out, Some x), f1, w1) \<Rightarrow> (0, f1, w1)
      | ((out, None), f1, w1) \<Rightarrow> (int (edited_count out), f1, w1))"

record stats_line =
  sl_type :: string
  sl_turns :: int
  sl_in :: int
  sl_out :: int

definition stats_usage_fields :: "stats_line json_field list" where
  "stats_usage_fields =
     [(''input_tokens'', fld dec_int sl_in sl_in_update), (''output_tokens'', fld dec_int sl_out sl_out_update)]"

definition stats_fields :: "stats_line json_field list" where
  "stats_fields =
     [(''type'', fld dec_string sl_type sl_type_update), (''num_turns'', fld dec_int sl_turns sl_turns_update),
      (''usage'', dec_struct stats_usage_fields)]"

definition decode_stats :: "string \<Rightarrow> stats_line option" where
  "decode_stats line =
     unmarshal (dec_struct stats_fields) \<lparr>sl_type = [], sl_turns = 0, sl_in = 0, sl_out = 0\<rparr> line"

text \<open>Turns, all tokens and the output tokens of the first result line; other lines are skipped.\<close>

fun stats_of_lines :: "string list \<Rightarrow> int \<times> int \<times> int" where
  "stats_of_lines [] = (0, 0, 0)"
| "stats_of_lines (raw # rest) =
     (let line = trim_space raw
      in if line = [] then stats_of_lines rest
         else case decode_stats line of
           None \<Rightarrow> stats_of_lines rest
         | Some d \<Rightarrow> if sl_type d = ''result'' then (sl_turns d, sl_in d + sl_out d, sl_out d) else stats_of_lines rest)"

definition transcript_stats :: "string \<Rightarrow> fs \<Rightarrow> int \<times> int \<times> int" where
  "transcript_stats path f =
     (case fs_read path f of None \<Rightarrow> (0, 0, 0) | Some b \<Rightarrow> stats_of_lines (split_on CHR 0x0A b))"

definition cell_config :: "string \<Rightarrow> string \<Rightarrow> string" where
  \<open>cell_config endpoint model =
     ''{"endpoint":'' @ go_quote endpoint @ '',"harness":"opencode","model_id":'' @ go_quote model @
     '',"allow_egress":false}''\<close>

definition cell_command :: "string \<Rightarrow> string \<Rightarrow> string \<Rightarrow> string \<Rightarrow> string \<Rightarrow> int \<Rightarrow> string \<Rightarrow> string list" where
  "cell_command bin cfg ws model prompt timeout tpath =
     [bin, ''run'', ''--config'', cfg, ''--workdir'', ws, ''--model'', model, ''--prompt'', prompt,
      ''--timeout'', show_duration timeout, ''--out'', tpath]"

definition new_outcome :: "string \<Rightarrow> cell_outcome" where
  "new_outcome task =
     \<lparr>oc_task = task, oc_files_edited = 0, oc_closed = False, oc_first_pass = False, oc_escalated = False,
      oc_tool_calls = 0, oc_valid_calls = 0, oc_turns = 0, oc_tokens = 0, oc_out_tokens = 0, oc_wall_ms = 0,
      oc_error = []\<rparr>"

text \<open>The outcome from what was measured.\<close>

definition measured_outcome ::
  "string \<Rightarrow> int \<Rightarrow> string option \<Rightarrow> int \<Rightarrow> bool \<Rightarrow> int \<times> int \<times> int \<Rightarrow> cell_outcome" where
  "measured_outcome task wall err edited closed_now stats =
     (case stats of
        (turns, toks, out) \<Rightarrow>
          (new_outcome task)
            \<lparr>oc_wall_ms := wall, oc_files_edited := edited, oc_closed := closed_now, oc_first_pass := closed_now,
             oc_turns := turns, oc_tokens := toks, oc_out_tokens := out,
             oc_tool_calls := (if turns > 0 then turns else 0),
             oc_valid_calls := (if turns > 0 \<and> edited > 0 then turns else 0),
             oc_error := (case err of None \<Rightarrow> [] | Some x \<Rightarrow> if closed_now then [] else x)\<rparr>)"

definition drive_cell ::
  "'w machine \<Rightarrow> 'w bench_host \<Rightarrow> string \<Rightarrow> string \<Rightarrow> string \<Rightarrow> bake_task \<Rightarrow> int \<Rightarrow> string \<Rightarrow> string \<Rightarrow> fs \<Rightarrow> 'w
     \<Rightarrow> cell_outcome \<times> fs \<times> 'w" where
  "drive_cell mc hb bin endpoint model task timeout ws meta f w =
     (let cfg = path_join [meta, ''cfg.json''];
          f1 = snd (fs_write cfg (cell_config endpoint model) f);
          tpath = path_join [meta, ''transcript.jsonl'']
      in case hb_exec hb [] [] (cell_command bin cfg ws model (bt_prompt task) timeout tpath) f1 w of
           ((printed, err), f2, w1) \<Rightarrow>
             (case git_edited_count hb ws f2 w1 of
                (edited, f3, w2) \<Rightarrow>
                  (case run_verify hb ws (bt_verify task) f3 w2 of
                     (closed_now, f4, w3) \<Rightarrow>
                       (measured_outcome (bt_name task) (trunc_div (mc_now mc w1 - mc_now mc w) 1000000) err edited
                          closed_now (transcript_stats tpath f4), f4, w3))))"

definition run_bakeoff_cell ::
  "cli \<Rightarrow> 'w machine \<Rightarrow> 'w bench_host \<Rightarrow> string \<Rightarrow> string \<Rightarrow> string \<Rightarrow> bake_task \<Rightarrow> int \<Rightarrow> fs \<Rightarrow> 'w
     \<Rightarrow> cell_outcome \<times> fs \<times> 'w" where
  "run_bakeoff_cell e mc hb bin endpoint model task timeout f w =
     (let failed = (\<lambda>x. (new_outcome (bt_name task))\<lparr>oc_error := x\<rparr>)
      in case hb_mkdtemp hb (''bakeoff-'' @ bt_name task @ ''-'') f w of
           (Inl x, f1, w1) \<Rightarrow> (failed x, f1, w1)
         | (Inr ws, f1, w1) \<Rightarrow>
             (case seed_task e hb ws task f1 w1 of
                (Some x, f2, w2) \<Rightarrow> (failed (''seed: '' @ x), fs_remove_all ws f2, w2)
              | (None, f2, w2) \<Rightarrow>
                  (case run_verify hb ws (bt_verify task) f2 w2 of
                     (True, f3, w3) \<Rightarrow>
                       (failed ''precondition: task passed before the run'', fs_remove_all ws f3, w3)
                   | (False, f3, w3) \<Rightarrow>
                       (case hb_mkdtemp hb ''bakeoff-meta-'' f3 w3 of
                          (Inl x, f4, w4) \<Rightarrow> (failed x, fs_remove_all ws f4, w4)
                        | (Inr meta, f4, w4) \<Rightarrow>
                            (case drive_cell mc hb bin endpoint model task timeout ws meta f4 w4 of
                               (o1, f5, w5) \<Rightarrow> (o1, fs_remove_all ws (fs_remove_all meta f5), w5))))))"

end
