(* ===== verification/CliBakeCmd.thy ===== *)
theory CliBakeCmd
  imports CliBakeoff
begin

text \<open>
  The command \<open>aegis bakeoff\<close> (\<open>cmdBakeoff\<close>): its flags, the loop over the candidates, and the recorded
  comparison as JSON.  \<open>ffmt\<close> is the text of a float in JSON.
\<close>

section \<open>The recorded comparison\<close>

definition stages_json :: "stages \<Rightarrow> json" where
  "stages_json s =
     JObj [(''prefill'', jint (sg_prefill s)), (''decode'', jint (sg_decode s)), (''verify'', jint (sg_verify s)),
           (''harness_overhead'', jint (sg_overhead s))]"

definition report_json :: "(real \<Rightarrow> string) \<Rightarrow> report \<Rightarrow> json" where
  "report_json ffmt r =
     JObj [(''attempted'', jint (int (rp_attempted r))), (''closed'', jint (int (rp_closed r))),
           (''escalated'', jint (int (rp_escalated r))), (''acr'', JNum (ffmt (rp_acr r))),
           (''tcvr'', JNum (ffmt (rp_tcvr r))), (''fpvr'', JNum (ffmt (rp_fpvr r))), (''mtc'', JNum (ffmt (rp_mtc r))),
           (''wcr'', jint (rp_wcr r)), (''tcr'', JNum (ffmt (rp_tcr r))), (''esc'', JNum (ffmt (rp_esc r))),
           (''stages'', stages_json (rp_stages r))]"

definition cell_json :: "cell_outcome \<Rightarrow> json" where
  "cell_json o1 =
     JObj ([(''task'', JStr (oc_task o1)), (''files_edited'', jint (oc_files_edited o1)),
            (''closed'', JBool (oc_closed o1)), (''first_pass'', JBool (oc_first_pass o1)),
            (''escalated'', JBool (oc_escalated o1)), (''tool_calls'', jint (oc_tool_calls o1)),
            (''valid_tool_calls'', jint (oc_valid_calls o1)), (''turns'', jint (oc_turns o1)),
            (''tokens'', jint (oc_tokens o1)), (''out_tokens'', jint (oc_out_tokens o1)),
            (''wall_ms'', jint (oc_wall_ms o1))] @
           omit_if (oc_error o1 = []) ''error'' (JStr (oc_error o1)))"

definition contestant_json :: "(real \<Rightarrow> string) \<Rightarrow> contestant \<Rightarrow> json" where
  "contestant_json ffmt c =
     JObj [(''model'', JStr (cd_model c)), (''served_model'', JStr (cd_served c)),
           (''attempts'', jint (int (cd_attempts c))), (''edited'', jint (int (cd_edited c))),
           (''edit_rate'', JNum (ffmt (cd_edit_rate c))), (''tok_per_sec'', JNum (ffmt (cd_tps c))),
           (''report'', report_json ffmt (cd_report c)),
           (''outcomes'', if cd_outcomes c = [] then JNull else JArr (map cell_json (cd_outcomes c)))]"

definition long_dash :: string where "long_dash = [CHR 0xE2, CHR 0x80, CHR 0x94]"

definition basis_text :: "basis \<Rightarrow> string" where
  "basis_text b =
     (case b of
        SameModel m \<Rightarrow>
          ''INVALID: multiple candidates were served by the same model ('' @ m @ '') '' @ long_dash @
          '' the endpoint was not swapped between candidates, so this is one model measured twice. '' @
          ''Serve each candidate on its own endpoint (or use --serve) and re-run.''
      | NoAgency \<Rightarrow>
          ''no candidate edited a file on any task '' @ long_dash @
          '' the whole field failed the agency bar (check serving/template, not the models)''
      | AgencyFirst \<Rightarrow>
          ''agency first (edit-rate, then ACR), then throughput (tok/s), then wall-clock '' @ long_dash @
          '' a fast model that writes no code loses to a slower one that edits and closes'')"

definition comparison_json :: "(real \<Rightarrow> string) \<Rightarrow> comparison \<Rightarrow> json" where
  "comparison_json ffmt c =
     JObj [(''suite'', JStr (cm_suite c)), (''host'', JStr (cm_host c)),
           (''candidates'', if cm_candidates c = [] then JNull else JArr (map (contestant_json ffmt) (cm_candidates c))),
           (''winner'', JStr (cm_winner c)), (''basis'', JStr (basis_text (cm_basis c)))]"

definition write_comparison :: "(real \<Rightarrow> string) \<Rightarrow> string \<Rightarrow> comparison \<Rightarrow> fs \<Rightarrow> bool \<times> fs" where
  "write_comparison ffmt path c f =
     (case fs_mkdir_all (path_dir path) f of
        (False, f1) \<Rightarrow> (False, f1)
      | (True, f1) \<Rightarrow> fs_write path (json_indent 0 (comparison_json ffmt c) @ [CHR 0x0A]) f1)"

section \<open>The command\<close>

definition bakeoff_vars :: "(string \<times> flag_val) list" where
  "bakeoff_vars =
     [(''all'', FlagBool False), (''models'', FlagString []), (''no-serve'', FlagBool False),
      (''no-download'', FlagBool False), (''endpoint'', FlagString ''http://127.0.0.1:8080''),
      (''timeout'', FlagDuration (300 * 10 ^ 9)), (''out'', FlagString ''eval/bakeoff/comparison.json''),
      (''host'', FlagString []), (''quiet'', FlagBool False), (''verbose'', FlagBool False),
      (''no-color'', FlagBool False)]"

text \<open>Two flags have a short name.\<close>

definition bakeoff_flags :: flags where
  "bakeoff_flags =
     (new_flags bakeoff_vars)
       \<lparr>fg_formal := fg_formal (new_flags bakeoff_vars) @ [(''q'', ''quiet''), (''v'', ''verbose'')]\<rparr>"

definition bakeoff_host_label :: "cli \<Rightarrow> fs \<Rightarrow> string" where
  "bakeoff_host_label e f =
     (case compute_recommendation e 16384 f of
        Inl x \<Rightarrow> ''local''
      | Inr r \<Rightarrow> if hp_target (rc_profile r) \<noteq> [] then hp_target (rc_profile r) else ''local'')"

fun run_cells ::
  "cli \<Rightarrow> 'w machine \<Rightarrow> 'w bench_host \<Rightarrow> string \<Rightarrow> string \<Rightarrow> string \<Rightarrow> int \<Rightarrow> bake_task list \<Rightarrow> fs \<Rightarrow> 'w
     \<Rightarrow> cell_outcome list \<times> fs \<times> 'w" where
  "run_cells e mc hb self endpoint m timeout [] f w = ([], f, w)"
| "run_cells e mc hb self endpoint m timeout (task # rest) f w =
     (case run_bakeoff_cell e mc hb self endpoint m task timeout f w of
        (o1, f1, w1) \<Rightarrow>
          (case run_cells e mc hb self endpoint m timeout rest f1 w1 of (os, f2, w2) \<Rightarrow> (o1 # os, f2, w2)))"

text \<open>What the candidates are measured with.\<close>

record bake_plan =
  bp_self :: string
  bp_endpoint :: string
  bp_timeout :: int
  bp_serve :: bool
  bp_download :: bool

text \<open>One candidate: skipped when it cannot be served, else measured and stopped.\<close>

definition measure_candidate ::
  "cli \<Rightarrow> (string \<Rightarrow> bool) \<Rightarrow> 'w machine \<Rightarrow> 'w server \<Rightarrow> 'w fetcher \<Rightarrow> 'w bench_host \<Rightarrow> bake_plan \<Rightarrow> string \<Rightarrow> fs \<Rightarrow> 'w
     \<Rightarrow> ((bake_err + contestant) \<times> fs \<times> 'w) option" where
  "measure_candidate e xbits mc srv get hb pl m f w =
     (if \<not> bp_serve pl then
        (case probe_served_model srv (bp_endpoint pl) w of
           (served, w1) \<Rightarrow>
             (case run_cells e mc hb (bp_self pl) (bp_endpoint pl) m (bp_timeout pl) default_suite f w1 of
                (outs, f2, w2) \<Rightarrow> Some (Inr (aggregate m served outs), f2, w2)))
      else
        (case serve_model_for_bakeoff e xbits mc srv get hb m (bp_download pl) (bp_endpoint pl) f w of
           None \<Rightarrow> None
         | Some (Inl x, f1, w1) \<Rightarrow> Some (Inl x, f1, w1)
         | Some (Inr (c, served), f1, w1) \<Rightarrow>
             (case run_cells e mc hb (bp_self pl) (bp_endpoint pl) m (bp_timeout pl) default_suite f1 w1 of
                (outs, f2, w2) \<Rightarrow>
                  (case stop_candidate mc c f2 w2 of
                     (f3, w3) \<Rightarrow>
                       (case wait_port_free mc srv (bp_endpoint pl) (12 * second) w3 of
                          None \<Rightarrow> None
                        | Some w4 \<Rightarrow> Some (Inr (aggregate m served outs), f3, w4))))))"

fun measure_all ::
  "cli \<Rightarrow> (string \<Rightarrow> bool) \<Rightarrow> 'w machine \<Rightarrow> 'w server \<Rightarrow> 'w fetcher \<Rightarrow> 'w bench_host \<Rightarrow> bake_plan \<Rightarrow> string list \<Rightarrow> fs \<Rightarrow> 'w
     \<Rightarrow> ((contestant list \<times> bake_note list) \<times> fs \<times> 'w) option" where
  "measure_all e xbits mc srv get hb pl [] f w = Some (([], []), f, w)"
| "measure_all e xbits mc srv get hb pl (m # ms) f w =
     (case measure_candidate e xbits mc srv get hb pl m f w of
        None \<Rightarrow> None
      | Some (r, f1, w1) \<Rightarrow>
          (case measure_all e xbits mc srv get hb pl ms f1 w1 of
             None \<Rightarrow> None
           | Some ((rs, notes), f2, w2) \<Rightarrow>
               (case r of
                  Inl x \<Rightarrow> Some ((rs, BakeSkip m x # notes), f2, w2)
                | Inr c \<Rightarrow> Some ((c # rs, notes), f2, w2))))"

text \<open>The endpoint candidates are measured on: a port of its own, or the given one without serving.\<close>

definition bakeoff_endpoint :: "'w bench_host \<Rightarrow> bool \<Rightarrow> string \<Rightarrow> 'w \<Rightarrow> string option \<times> 'w" where
  "bakeoff_endpoint hb serve endpoint w =
     (if \<not> serve then (Some endpoint, w)
      else case hb_port hb w of
        (None, w1) \<Rightarrow> (None, w1)
      | (Some p, w1) \<Rightarrow> (Some (''http://127.0.0.1:'' @ show_int p), w1))"

definition report_bakeoff ::
  "(real \<Rightarrow> string) \<Rightarrow> string \<Rightarrow> string \<Rightarrow> contestant list \<Rightarrow> fs \<Rightarrow> (int \<times> bake_note list) \<times> fs" where
  "report_bakeoff ffmt label out reports f =
     (if reports = [] then ((1, [BakeNoReports]), f)
      else let c = compare ''default'' label reports
           in case write_comparison ffmt out c f of
                (False, f1) \<Rightarrow> ((1, [BakeTable c, BakeWrite out]), f1)
              | (True, f1) \<Rightarrow> ((0, [BakeTable c, BakeRecorded out]), f1))"

definition cmd_bakeoff ::
  "(real \<Rightarrow> string) \<Rightarrow> cli \<Rightarrow> (string \<Rightarrow> bool) \<Rightarrow> 'w machine \<Rightarrow> 'w server \<Rightarrow> 'w fetcher \<Rightarrow> 'w bench_host \<Rightarrow> bool \<Rightarrow> string \<Rightarrow>
     string list \<Rightarrow> fs \<Rightarrow> 'w \<Rightarrow> ((int \<times> bake_note list) \<times> fs \<times> 'w) option" where
  "cmd_bakeoff ffmt e xbits mc srv get hb tty line args f w =
     (case flag_parse bakeoff_flags args of
        Inl x \<Rightarrow> Some ((2, [BakeFlags x]), f, w)
      | Inr (fl, rest) \<Rightarrow>
          (case ho_self (en_host e) of
             None \<Rightarrow> Some ((1, [BakeNoExecutable]), f, w)
           | Some self \<Rightarrow>
               (let serve = (\<not> bool_of fl ''no-serve'');
                    (ids, rc, notes) = resolve_bakeoff_models e tty line (string_of fl ''models'') (bool_of fl ''all'')
                      (\<not> serve) f
                in if rc \<noteq> 0 then Some ((rc, notes), f, w)
                   else if ids = [] then Some ((2, [BakeNoneSelected]), f, w)
                   else
                     let label = (if string_of fl ''host'' = [] then bakeoff_host_label e f else string_of fl ''host'')
                     in case bakeoff_endpoint hb serve (string_of fl ''endpoint'') w of
                          (None, w1) \<Rightarrow> Some ((1, [BakeNoPort]), f, w1)
                        | (Some endpoint, w1) \<Rightarrow>
                            (case measure_all e xbits mc srv get hb
                                    \<lparr>bp_self = self, bp_endpoint = endpoint, bp_timeout = int_of_flag fl ''timeout'',
                                     bp_serve = serve, bp_download = (\<not> bool_of fl ''no-download'')\<rparr> ids f w1 of
                               None \<Rightarrow> None
                             | Some ((reports, ns), f2, w2) \<Rightarrow>
                                 (case report_bakeoff ffmt label (string_of fl ''out'') reports f2 of
                                    ((rc2, ns2), f3) \<Rightarrow> Some ((rc2, ns @ ns2), f3, w2))))))"

end
