(* ===== verification/CliRun.thy ===== *)
theory CliRun
  imports GoFlag OcSolve CliHostProps JsonCompact
begin

text \<open>
  \<open>aegis run\<close> (\<open>cmdRun\<close> of \<open>cmd/aegis/main.go\<close>): flags, prompt, configuration, the closed-environment
  gate, the defaults of a run, the headless run itself and its transcript.  The deadline of the run is
  the clock at its start plus the timeout; \<open>refuses k\<close> says that writing the k-th transcript record fails.
\<close>

section \<open>Flags and prompt\<close>

definition run_flags :: flags where
  "run_flags = new_flags
     [(''workdir'', FlagString ''.''), (''prompt-file'', FlagString []), (''prompt'', FlagString []),
      (''model'', FlagString []), (''out'', FlagString []), (''timeout'', FlagDuration (5 * 60 * 10 ^ 9)),
      (''no-intent'', FlagBool False), (''config'', FlagString [])]"

datatype run_note =
    RunFlags flag_err
  | RunNoPromptFile string
  | RunNoPrompt
  | RunConfig config_err
  | RunEgress
  | RunMissing
  | RunFailed solve_error
  | RunCreate string
  | RunTranscript
  | RunTimedOut int nat
  | RunMessages nat

definition run_prompt :: "flags \<Rightarrow> fs \<Rightarrow> run_note + string" where
  "run_prompt fl f =
     (let p = string_of fl ''prompt-file''
      in case (if p = [] then Some (string_of fl ''prompt'') else fs_read p f) of
           None \<Rightarrow> Inl (RunNoPromptFile p)
         | Some prompt \<Rightarrow> if trim_space prompt = [] then Inl RunNoPrompt else Inr prompt)"

section \<open>The configuration of a run\<close>

text \<open>Model, tuning and limits that neither the flags nor the configuration name.\<close>

definition run_config :: "cli \<Rightarrow> string \<Rightarrow> config \<Rightarrow> fs \<Rightarrow> config" where
  "run_config e model cfg f =
     (let eff0 = (if model = [] then cf_model_id cfg else model);
          eff = (if eff0 = [] then default_model_for_target (cf_target cfg) else eff0);
          c1 = (if eff0 = [] then cfg\<lparr>cf_model_id := eff\<rparr> else cfg);
          c2 = (if cf_tuning c1 = None then c1\<lparr>cf_tuning := load_catalog_tuning e eff f\<rparr> else c1);
          c3 = (if cf_max_steps c2 = 0 then c2\<lparr>cf_max_steps := default_max_steps\<rparr> else c2)
      in if cf_max_output_tokens c3 = 0 then c3\<lparr>cf_max_output_tokens := default_max_output_tokens\<rparr> else c3)"

definition deadline_ctx :: "'w proc_ops \<Rightarrow> int \<Rightarrow> 'w \<Rightarrow> ctx_end option" where
  "deadline_ctx os d w = (if d \<le> po_now os w then Some DeadlineExceeded else None)"

section \<open>The transcript\<close>

definition record_line :: "json \<Rightarrow> string" where
  "record_line j = json_compact j @ [CHR 0x0A]"

definition transcript_text :: "json list \<Rightarrow> string" where
  "transcript_text js = concat (map record_line js)"

text \<open>To a file when one is named, else to the standard output: what was printed, and the files.\<close>

definition run_transcript ::
  "(nat \<Rightarrow> bool) \<Rightarrow> string \<Rightarrow> int \<Rightarrow> solve_result \<Rightarrow> fs \<Rightarrow> (int \<times> run_note list \<times> string) \<times> fs" where
  "run_transcript refuses out timeout res f =
     (let ms = sr_messages res;
          (ok, js) = write_transcript refuses ms;
          (printed, f1) = (if out = [] then (transcript_text js, f) else ([], snd (fs_write out (transcript_text js) f)))
      in if out \<noteq> [] \<and> \<not> fst (fs_write out [] f) then ((1, [RunCreate out], []), f)
         else if \<not> ok then ((1, [RunTranscript], printed), f1)
         else if sr_timed_out res then ((124, [RunTimedOut timeout (length ms)], printed), f1)
         else ((0, [RunMessages (length ms)], printed), f1))"

section \<open>The command\<close>

definition cmd_run ::
  "(real \<Rightarrow> string) \<Rightarrow> cli \<Rightarrow> 'w proc_ops \<Rightarrow> 'w oc_server \<Rightarrow> (nat \<Rightarrow> bool) \<Rightarrow> string list \<Rightarrow> fs \<Rightarrow> 'w
     \<Rightarrow> ((int \<times> run_note list \<times> string) \<times> fs \<times> 'w) option" where
  "cmd_run ffmt e os srv refuses args f w =
     (case flag_parse run_flags args of
        Inl x \<Rightarrow> Some ((2, [RunFlags x], []), f, w)
      | Inr (fl, rest) \<Rightarrow>
          (case run_prompt fl f of
             Inl RunNoPrompt \<Rightarrow> Some ((2, [RunNoPrompt], []), f, w)
           | Inl n \<Rightarrow> Some ((1, [n], []), f, w)
           | Inr prompt \<Rightarrow>
               (let loaded = load_config (string_of fl ''config'') f;
                    notes = (case loaded of Inl x \<Rightarrow> [RunConfig x] | Inr c \<Rightarrow> []);
                    cfg0 = (case loaded of Inl x \<Rightarrow> default_config | Inr c \<Rightarrow> c);
                    model = string_of fl ''model'';
                    cfg = run_config e model cfg0 f;
                    timeout = int_of_flag fl ''timeout''
                in if cf_allow_egress cfg0 then Some ((1, notes @ [RunEgress], []), f, w)
                   else case solve ffmt os srv (deadline_ctx os (po_now os w + timeout)) (en_host e) cfg []
                               \<lparr>so_workdir = string_of fl ''workdir'', so_prompt = prompt, so_model = model,
                                so_port = 0, so_no_intent = bool_of fl ''no-intent''\<rparr> f w of
                          None \<Rightarrow> None
                        | Some (Inl (SolveBinary x), f1, w1) \<Rightarrow> Some ((1, notes @ [RunMissing], []), f1, w1)
                        | Some (Inl x, f1, w1) \<Rightarrow> Some ((1, notes @ [RunFailed x], []), f1, w1)
                        | Some (Inr res, f1, w1) \<Rightarrow>
                            (case run_transcript refuses (string_of fl ''out'') timeout res f1 of
                               ((rc, ns, printed), f2) \<Rightarrow> Some ((rc, notes @ ns, printed), f2, w1)))))"

section \<open>Facts\<close>

definition run_options :: "flags \<Rightarrow> string \<Rightarrow> solve_options" where
  "run_options fl prompt =
     \<lparr>so_workdir = string_of fl ''workdir'', so_prompt = prompt, so_model = string_of fl ''model'', so_port = 0,
      so_no_intent = bool_of fl ''no-intent''\<rparr>"

definition loaded_config :: "flags \<Rightarrow> fs \<Rightarrow> config" where
  "loaded_config fl f = (case load_config (string_of fl ''config'') f of Inl x \<Rightarrow> default_config | Inr c \<Rightarrow> c)"

text \<open>The headless run behind a command line.\<close>

definition run_solve ::
  "(real \<Rightarrow> string) \<Rightarrow> cli \<Rightarrow> 'w proc_ops \<Rightarrow> 'w oc_server \<Rightarrow> flags \<Rightarrow> string \<Rightarrow> fs \<Rightarrow> 'w
     \<Rightarrow> ((solve_error + solve_result) \<times> fs \<times> 'w) option" where
  "run_solve ffmt e os srv fl prompt f w =
     solve ffmt os srv (deadline_ctx os (po_now os w + int_of_flag fl ''timeout'')) (en_host e)
       (run_config e (string_of fl ''model'') (loaded_config fl f) f) [] (run_options fl prompt) f w"

text \<open>Every way the command ends.\<close>

lemma cmd_run_cases:
  "cmd_run ffmt e os srv refuses args f w =
     (case flag_parse run_flags args of
        Inl x \<Rightarrow> Some ((2, [RunFlags x], []), f, w)
      | Inr (fl, rest) \<Rightarrow>
          let notes = (case load_config (string_of fl ''config'') f of Inl x \<Rightarrow> [RunConfig x] | Inr c \<Rightarrow> [])
          in case run_prompt fl f of
            Inl n \<Rightarrow> Some ((if n = RunNoPrompt then 2 else 1, [n], []), f, w)
          | Inr prompt \<Rightarrow>
              if cf_allow_egress (loaded_config fl f) then Some ((1, notes @ [RunEgress], []), f, w)
              else case run_solve ffmt e os srv fl prompt f w of
                None \<Rightarrow> None
              | Some (Inl x, f1, w1) \<Rightarrow>
                  Some ((1, notes @ [case x of SolveBinary y \<Rightarrow> RunMissing | _ \<Rightarrow> RunFailed x], []), f1, w1)
              | Some (Inr res, f1, w1) \<Rightarrow>
                  (case run_transcript refuses (string_of fl ''out'') (int_of_flag fl ''timeout'') res f1 of
                     ((rc, ns, printed), f2) \<Rightarrow> Some ((rc, notes @ ns, printed), f2, w1)))"
  unfolding cmd_run_def run_solve_def loaded_config_def run_options_def Let_def
  by (auto split: sum.split prod.split option.split solve_error.split run_note.split)

lemma run_transcript_codes:
  assumes "run_transcript refuses out timeout res f = ((rc, ns, printed), f')"
  shows "rc \<in> {0, 1, 124}"
    and "rc \<noteq> 1 \<Longrightarrow> (rc = 124 \<longleftrightarrow> sr_timed_out res) \<and>
      (\<exists>js. write_transcript refuses (sr_messages res) = (True, js) \<and>
         (if out = [] then printed = transcript_text js \<and> f' = f
          else printed = [] \<and> fs_write out (transcript_text js) f = (True, f')))"
proof -
  obtain ok js where w: "write_transcript refuses (sr_messages res) = (ok, js)" by force
  show "rc \<in> {0, 1, 124}" using assms by (auto simp: run_transcript_def w Let_def split: if_splits prod.splits)
  show "rc \<noteq> 1 \<Longrightarrow> (rc = 124 \<longleftrightarrow> sr_timed_out res) \<and>
      (\<exists>js. write_transcript refuses (sr_messages res) = (True, js) \<and>
         (if out = [] then printed = transcript_text js \<and> f' = f
          else printed = [] \<and> fs_write out (transcript_text js) f = (True, f')))"
    using assms by (auto simp: run_transcript_def w Let_def fs_write_def split: if_splits)
qed

text \<open>The records of a whole transcript: one per message and the totals.\<close>

definition full_transcript :: "transcript_message list \<Rightarrow> json list" where
  "full_transcript ms =
     map message_record ms @
       [result_record (length ms) (\<Sum>m \<leftarrow> ms. to_int (tk_input (tm_tokens m)))
          (\<Sum>m \<leftarrow> ms. to_int (tk_output (tm_tokens m)))]"

lemma written_full: "write_transcript refuses ms = (True, js) \<Longrightarrow> js = full_transcript ms"
  using write_messages_prefix [of refuses "length ms" 0 0 ms "[]"]
  by (simp add: write_transcript_def full_transcript_def write_messages_ok)

lemma cmd_run_done:
  assumes "cmd_run ffmt e os srv refuses args f w = Some ((rc, notes, printed), f', w')"
    and "flag_parse run_flags args = Inr (fl, rest)" and "rc = 0 \<or> rc = 124"
  shows "\<not> cf_allow_egress (loaded_config fl f)"
    and "\<exists>prompt res f1. run_prompt fl f = Inr prompt \<and> run_solve ffmt e os srv fl prompt f w = Some (Inr res, f1, w') \<and>
      (rc = 124 \<longleftrightarrow> sr_timed_out res) \<and>
      (if string_of fl ''out'' = [] then printed = transcript_text (full_transcript (sr_messages res)) \<and> f' = f1
       else printed = [] \<and> fs_write (string_of fl ''out'') (transcript_text (full_transcript (sr_messages res))) f1 = (True, f'))"
proof -
  note c = assms(1) [unfolded cmd_run_cases assms(2) sum.case prod.case Let_def]
  obtain prompt where p: "run_prompt fl f = Inr prompt"
    using c assms(3) by (cases "run_prompt fl f") (auto split: if_splits)
  have eg: "\<not> cf_allow_egress (loaded_config fl f)" using c p assms(3) by (auto split: if_splits)
  obtain res f1 where s: "run_solve ffmt e os srv fl prompt f w = Some (Inr res, f1, w')"
    using c p eg assms(3) by (auto split: option.splits sum.splits prod.splits)
  then obtain ns where t: "run_transcript refuses (string_of fl ''out'') (int_of_flag fl ''timeout'') res f1 = ((rc, ns, printed), f')"
    using c p eg by (auto split: prod.splits)
  have "rc \<noteq> 1" using assms(3) by auto
  from run_transcript_codes(2) [OF t this] obtain js where
    "rc = 124 \<longleftrightarrow> sr_timed_out res" "write_transcript refuses (sr_messages res) = (True, js)"
    "if string_of fl ''out'' = [] then printed = transcript_text js \<and> f' = f1
     else printed = [] \<and> fs_write (string_of fl ''out'') (transcript_text js) f1 = (True, f')" by blast
  then have "(rc = 124 \<longleftrightarrow> sr_timed_out res) \<and>
      (if string_of fl ''out'' = [] then printed = transcript_text (full_transcript (sr_messages res)) \<and> f' = f1
       else printed = [] \<and> fs_write (string_of fl ''out'') (transcript_text (full_transcript (sr_messages res))) f1 = (True, f'))"
    using written_full by blast
  with p s show "\<exists>prompt res f1. run_prompt fl f = Inr prompt \<and> run_solve ffmt e os srv fl prompt f w = Some (Inr res, f1, w') \<and>
      (rc = 124 \<longleftrightarrow> sr_timed_out res) \<and>
      (if string_of fl ''out'' = [] then printed = transcript_text (full_transcript (sr_messages res)) \<and> f' = f1
       else printed = [] \<and> fs_write (string_of fl ''out'') (transcript_text (full_transcript (sr_messages res))) f1 = (True, f'))"
    by blast
  show "\<not> cf_allow_egress (loaded_config fl f)" by (rule eg)
qed

lemma cmd_run_written:
  assumes "cmd_run ffmt e os srv refuses args f w = Some ((rc, notes, printed), f', w')"
    and "flag_parse run_flags args = Inr (fl, rest)" and "rc = 0 \<or> rc = 124"
  shows "\<exists>prompt res f1. run_solve ffmt e os srv fl prompt f w = Some (Inr res, f1, w') \<and>
     (rc = 124 \<longleftrightarrow> sr_timed_out res) \<and>
     (let text = transcript_text (full_transcript (sr_messages res))
      in if string_of fl ''out'' = [] then printed = text else fs_files f' (string_of fl ''out'') = Some text)"
proof -
  obtain prompt res f1 where r: "run_solve ffmt e os srv fl prompt f w = Some (Inr res, f1, w')"
    "rc = 124 \<longleftrightarrow> sr_timed_out res"
    "if string_of fl ''out'' = [] then printed = transcript_text (full_transcript (sr_messages res)) \<and> f' = f1
     else printed = [] \<and> fs_write (string_of fl ''out'') (transcript_text (full_transcript (sr_messages res))) f1 = (True, f')"
    using cmd_run_done(2) [OF assms] by blast
  have "if string_of fl ''out'' = [] then printed = transcript_text (full_transcript (sr_messages res))
     else fs_files f' (string_of fl ''out'') = Some (transcript_text (full_transcript (sr_messages res)))"
    using r(3) by (auto dest: fs_write_ok split: if_splits)
  with r(1,2) show ?thesis unfolding Let_def by blast
qed

lemma cmd_run_codes:
  assumes "cmd_run ffmt e os srv refuses args f w = Some ((rc, notes, printed), f', w')"
  shows "rc \<in> {0, 1, 2, 124}"
proof (cases "flag_parse run_flags args")
  case (Inl x)
  with assms show ?thesis by (simp add: cmd_run_cases)
next
  case (Inr r)
  obtain fl rest where r: "r = (fl, rest)" by (cases r)
  note c = assms [unfolded cmd_run_cases Inr r sum.case prod.case Let_def]
  show ?thesis
  proof (cases "run_prompt fl f")
    case (Inl n)
    with c show ?thesis by (auto split: if_splits)
  next
    case (Inr prompt)
    show ?thesis
    proof (cases "cf_allow_egress (loaded_config fl f)")
      case True
      with c Inr show ?thesis by auto
    next
      case False
      with c Inr show ?thesis
        by (auto split: option.splits sum.splits prod.splits dest: run_transcript_codes(1))
    qed
  qed
qed

lemma cmd_run_stopped:
  assumes "cmd_run ffmt e os srv refuses args f w = Some ((rc, notes, printed), f', w')"
    and "flag_parse run_flags args = Inr (fl, rest)"
    and "(case run_prompt fl f of Inl n \<Rightarrow> True | Inr p \<Rightarrow> False) \<or> cf_allow_egress (loaded_config fl f)"
  shows "rc \<in> {1, 2} \<and> f' = f \<and> w' = w \<and> printed = []"
proof -
  note c = assms(1) [unfolded cmd_run_cases assms(2) sum.case prod.case Let_def]
  show ?thesis
  proof (cases "run_prompt fl f")
    case (Inl n)
    with c show ?thesis by (auto split: if_splits)
  next
    case (Inr prompt)
    with assms(3) have "cf_allow_egress (loaded_config fl f)" by simp
    with c Inr show ?thesis by auto
  qed
qed

text \<open>C30: \<open>aegis run\<close> never starts an agent outside the closed environment: for an unreadable command
  line, a missing prompt, or a configuration that allows egress, the exit code is not zero, no file is
  changed and nothing outside happens; an exit code of 0 or 124 means that the configuration did not
  allow egress, and that the transcript was written whole to where it was asked for, after a run that
  timed out exactly when the code is 124.\<close>

theorem run_exit_codes:
  assumes "cmd_run ffmt e os srv refuses args f w = Some ((rc, notes, printed), f', w')"
  shows "rc \<in> {0, 1, 2, 124} \<and>
    (case flag_parse run_flags args of
       Inl x \<Rightarrow> rc = 2 \<and> f' = f \<and> w' = w
     | Inr (fl, rest) \<Rightarrow>
         (if (case run_prompt fl f of Inl n \<Rightarrow> True | Inr p \<Rightarrow> False) \<or> cf_allow_egress (loaded_config fl f)
          then rc \<in> {1, 2} \<and> f' = f \<and> w' = w \<and> printed = []
          else rc = 0 \<or> rc = 124 \<longrightarrow>
            (\<exists>prompt res f1. run_solve ffmt e os srv fl prompt f w = Some (Inr res, f1, w') \<and>
               (rc = 124 \<longleftrightarrow> sr_timed_out res) \<and>
               (let text = transcript_text (full_transcript (sr_messages res))
                in if string_of fl ''out'' = [] then printed = text else fs_files f' (string_of fl ''out'') = Some text))))"
proof (cases "flag_parse run_flags args")
  case (Inl x)
  with assms show ?thesis by (simp add: cmd_run_cases)
next
  case (Inr r)
  obtain fl rest where r: "r = (fl, rest)" by (cases r)
  show ?thesis
    using cmd_run_codes [OF assms] cmd_run_stopped [OF assms Inr [unfolded r]] cmd_run_written [OF assms Inr [unfolded r]]
    unfolding Inr r sum.case prod.case by (simp only: if_split) blast
qed

definition egress_fs :: fs where
  \<open>egress_fs =
     \<lparr>fs_files = [''c'' \<mapsto> ''{"allow_egress":true}''], fs_dirs = {''.''}, fs_deny_read = {}, fs_deny_write = {}, fs_deny_mkdir = {}\<rparr>\<close>

definition egress_args :: "string list" where
  "egress_args = [''--prompt'', ''hi'', ''--config'', ''c'']"

lemma egress_allowed: "(case load_config ''c'' egress_fs of Inl x \<Rightarrow> False | Inr c \<Rightarrow> cf_allow_egress c)"
  unfolding egress_fs_def by code_simp

lemma egress_parsed:
  "case flag_parse run_flags egress_args of
     Inl x \<Rightarrow> False
   | Inr (fl, rest) \<Rightarrow> string_of fl ''config'' = ''c'' \<and> run_prompt fl egress_fs = Inr ''hi''"
  unfolding egress_args_def egress_fs_def by code_simp

lemma egress_run:
  "cmd_run (\<lambda>x. []) seed_env tick_os tick_srv (\<lambda>k. False) egress_args egress_fs (0, 0, []) =
     Some ((1, [RunEgress], []), egress_fs, (0, 0, []))"
proof -
  obtain fl rest where p: "flag_parse run_flags egress_args = Inr (fl, rest)" "string_of fl ''config'' = ''c''"
    "run_prompt fl egress_fs = Inr ''hi''"
    using egress_parsed by (auto split: sum.splits prod.splits)
  obtain c where c: "load_config ''c'' egress_fs = Inr c" "cf_allow_egress c"
    using egress_allowed by (auto split: sum.splits)
  show ?thesis by (simp add: cmd_run_cases p c loaded_config_def)
qed

theorem run_exit_codes_witness:
  "case flag_parse run_flags egress_args of
     Inl x \<Rightarrow> False
   | Inr (fl, rest) \<Rightarrow> cf_allow_egress (loaded_config fl egress_fs) \<and> (1 :: int) \<in> {1, 2}"
proof -
  obtain fl rest where p: "flag_parse run_flags egress_args = Inr (fl, rest)" "string_of fl ''config'' = ''c''"
    "run_prompt fl egress_fs = Inr ''hi''"
    using egress_parsed by (auto split: sum.splits prod.splits)
  have "cf_allow_egress (loaded_config fl egress_fs)"
    using egress_allowed p(2) by (auto simp: loaded_config_def split: sum.splits)
  with run_exit_codes [OF egress_run] p show ?thesis by simp
qed

end
