(* ===== verification/CliServeProps.thy ===== *)
theory CliServeProps
  imports CliServe CliHostProps
begin

text \<open>
  Processes of the command line: whatever a model server, an Ollama server and a download answer, the
  processes alive change only where the program starts or stops one.
\<close>

section \<open>What a call leaves alone\<close>

text \<open>
  \<open>leaves I g\<close>: the observation \<open>I\<close> of the world is the same after \<open>g\<close>; \<open>leavesF\<close> for calls that also
  return the files.  The rules follow the shape of the definitions.
\<close>

named_theorems leaves_rules

definition leaves :: "('w \<Rightarrow> 'i) \<Rightarrow> ('w \<Rightarrow> 'a \<times> 'w) \<Rightarrow> bool" where
  "leaves I g \<longleftrightarrow> (\<forall>w. I (snd (g w)) = I w)"

definition leavesF :: "('w \<Rightarrow> 'i) \<Rightarrow> ('w \<Rightarrow> 'a \<times> 'f \<times> 'w) \<Rightarrow> bool" where
  "leavesF I g \<longleftrightarrow> (\<forall>w. I (snd (snd (g w))) = I w)"

lemma leavesD: "leaves I g \<Longrightarrow> g w = (x, w') \<Longrightarrow> I w' = I w"
  unfolding leaves_def by (metis snd_conv)

lemma leavesFD: "leavesF I g \<Longrightarrow> g w = (x, f, w') \<Longrightarrow> I w' = I w"
  unfolding leavesF_def by (metis snd_conv)

lemma leaves_ret [leaves_rules]: "leaves I (\<lambda>w. (x, w))" "leavesF I (\<lambda>w. (x, f, w))"
  by (simp_all add: leaves_def leavesF_def)

lemma leaves_bind [leaves_rules]:
  "leaves I h \<Longrightarrow> (\<And>x. leaves I (k x)) \<Longrightarrow> leaves I (\<lambda>w. case h w of (x, w1) \<Rightarrow> k x w1)"
  "leaves I h \<Longrightarrow> (\<And>x. leavesF I (k' x)) \<Longrightarrow> leavesF I (\<lambda>w. case h w of (x, w1) \<Rightarrow> k' x w1)"
  by (simp_all add: leaves_def leavesF_def split: prod.split) (metis snd_conv)+

lemma leavesF_bind [leaves_rules]:
  "leavesF I h \<Longrightarrow> (\<And>x f. leavesF I (k x f)) \<Longrightarrow> leavesF I (\<lambda>w. case h w of (x, f, w1) \<Rightarrow> k x f w1)"
  by (simp add: leavesF_def split: prod.split) (metis snd_conv)

lemma leavesF_pair [leaves_rules]:
  "leavesF I h \<Longrightarrow> (\<And>x f. leavesF I (\<lambda>w. k x (f, w))) \<Longrightarrow> leavesF I (\<lambda>w. case h w of (x, b) \<Rightarrow> k x b)"
  "leavesF I (g f) \<Longrightarrow> leavesF I (\<lambda>w. case (f, w) of (a, b) \<Rightarrow> g a b)"
  by (simp_all add: leavesF_def split: prod.split) (metis prod.collapse snd_conv)

lemma leaves_cases [leaves_rules]:
  "(b \<Longrightarrow> leaves I g1) \<Longrightarrow> (\<not> b \<Longrightarrow> leaves I g2) \<Longrightarrow> leaves I (\<lambda>w. if b then g1 w else g2 w)"
  "leaves I g1 \<Longrightarrow> (\<And>x. leaves I (h x)) \<Longrightarrow> leaves I (\<lambda>w. case z of None \<Rightarrow> g1 w | Some x \<Rightarrow> h x w)"
  "(\<And>x. leaves I (h1 x)) \<Longrightarrow> (\<And>x. leaves I (h2 x)) \<Longrightarrow> leaves I (\<lambda>w. case s of Inl x \<Rightarrow> h1 x w | Inr x \<Rightarrow> h2 x w)"
  "(\<And>a b. leaves I (h3 a b)) \<Longrightarrow> leaves I (\<lambda>w. case p of (a, b) \<Rightarrow> h3 a b w)"
  by (simp_all add: leaves_def split: option.split sum.split prod.split)

lemma leavesF_cases [leaves_rules]:
  "(b \<Longrightarrow> leavesF I g1) \<Longrightarrow> (\<not> b \<Longrightarrow> leavesF I g2) \<Longrightarrow> leavesF I (\<lambda>w. if b then g1 w else g2 w)"
  "leavesF I g1 \<Longrightarrow> (\<And>x. leavesF I (h x)) \<Longrightarrow> leavesF I (\<lambda>w. case z of None \<Rightarrow> g1 w | Some x \<Rightarrow> h x w)"
  "(\<And>x. leavesF I (h1 x)) \<Longrightarrow> (\<And>x. leavesF I (h2 x)) \<Longrightarrow> leavesF I (\<lambda>w. case s of Inl x \<Rightarrow> h1 x w | Inr x \<Rightarrow> h2 x w)"
  "(\<And>a b. leavesF I (h3 a b)) \<Longrightarrow> leavesF I (\<lambda>w. case p of (a, b) \<Rightarrow> h3 a b w)"
  "leavesF I g1 \<Longrightarrow> (\<And>x xs. leavesF I (h4 x xs)) \<Longrightarrow> leavesF I (\<lambda>w. case l of [] \<Rightarrow> g1 w | x # xs \<Rightarrow> h4 x xs w)"
  "leavesF I g1 \<Longrightarrow> leavesF I g2 \<Longrightarrow> leavesF I (\<lambda>w. case t of True \<Rightarrow> g1 w | False \<Rightarrow> g2 w)"
  by (simp_all add: leavesF_def split: option.split sum.split prod.split list.split bool.split)

lemma leaves_list [leaves_rules]:
  "leaves I g1 \<Longrightarrow> (\<And>x xs. leaves I (h4 x xs)) \<Longrightarrow> leaves I (\<lambda>w. case l of [] \<Rightarrow> g1 w | x # xs \<Rightarrow> h4 x xs w)"
  by (simp add: leaves_def split: list.split)

section \<open>Model servers\<close>

lemma leaves_chat [leaves_rules]: "(\<And>q. leaves I (srv q)) \<Longrightarrow> leaves I (chat_completion srv u req)"
  unfolding chat_completion_def [abs_def] post_def [abs_def] by (intro leaves_rules)

lemma leaves_get [leaves_rules]: "(\<And>q. leaves I (srv q)) \<Longrightarrow> leaves I (get_decoded srv u p dec z)"
  unfolding get_decoded_def [abs_def] by (intro leaves_rules)

lemma leaves_models [leaves_rules]: "(\<And>q. leaves I (srv q)) \<Longrightarrow> leaves I (models srv u)"
  unfolding models_def by (intro leaves_rules)

lemma leaves_preflight [leaves_rules]: "(\<And>q. leaves I (srv q)) \<Longrightarrow> leaves I (serving_preflight srv endpoint i d)"
  unfolding serving_preflight_def [abs_def] preflight_smoke_def [abs_def] check_model_def [abs_def]
  by (intro leaves_rules)

lemma leaves_ready [leaves_rules]: "(\<And>q. leaves I (srv q)) \<Longrightarrow> leaves I (endpoint_ready srv endpoint)"
  unfolding endpoint_ready_def [abs_def] Let_def by (intro leaves_rules)

lemma leaves_window [leaves_rules]: "(\<And>q. leaves I (srv q)) \<Longrightarrow> leaves I (served_window e srv endpoint f)"
  unfolding served_window_def [abs_def] served_ctx_size_def [abs_def] Let_def by (intro leaves_rules)

section \<open>Ollama and downloads\<close>

lemma leaves_detect [leaves_rules]: "(\<And>q. leaves I (oll q)) \<Longrightarrow> leaves I (detect_ollama e oll)"
  unfolding detect_ollama_def [abs_def] by (intro leaves_rules)

lemma leaves_ctx_model [leaves_rules]: "(\<And>q. leaves I (oll q)) \<Longrightarrow> leaves I (ensure_ollama_ctx_model e oll base f)"
  unfolding ensure_ollama_ctx_model_def [abs_def] Let_def by (intro leaves_rules)

lemma leaves_responds [leaves_rules]: "(\<And>q. leaves I (oll q)) \<Longrightarrow> leaves I (ollama_model_responds e oll m)"
  unfolding ollama_model_responds_def [abs_def] Let_def by (intro leaves_rules)

lemma leaves_remove: "(\<And>q. leaves I (oll q)) \<Longrightarrow> I (remove_ollama_model e oll m w) = I w"
  unfolding remove_ollama_model_def leaves_def by blast

lemma leaves_settle [leaves_rules]:
  assumes oll: "\<And>q. leaves I (oll q)"
  shows "leavesF I (settle_model e oll base f)"
proof -
  have "leavesF I (\<lambda>w. (base, g, remove_ollama_model e oll m w))" for g m
    using leaves_remove [OF oll] by (simp add: leavesF_def)
  then show ?thesis unfolding settle_model_def [abs_def] Let_def by (intro leaves_rules oll)
qed

lemma leaves_fallback [leaves_rules]: "(\<And>q. leaves I (oll q)) \<Longrightarrow> leavesF I (ollama_fallback e oll cfg f)"
  unfolding ollama_fallback_def [abs_def] Let_def by (intro leaves_rules)

lemma leaves_first_usable [leaves_rules]:
  assumes oll: "\<And>q. leaves I (oll q)"
  shows "leavesF I (first_usable e oll ms f)"
proof (induction ms arbitrary: f)
  case Nil
  show ?case unfolding first_usable.simps(1) [abs_def] by (intro leaves_rules)
next
  case (Cons m ms)
  show ?case unfolding first_usable.simps(2) [abs_def] Let_def by (intro leaves_rules oll Cons.IH)
qed

lemma leaves_candidate [leaves_rules]: "(\<And>q. leaves I (oll q)) \<Longrightarrow> leavesF I (usable_ollama_candidate e oll f)"
  unfolding usable_ollama_candidate_def [abs_def] Let_def by (intro leaves_rules)

lemma leaves_gguf [leaves_rules]: "(\<And>q. leaves I (oll q)) \<Longrightarrow> leaves I (ollama_model_gguf e oll m f)"
  unfolding ollama_model_gguf_def [abs_def] Let_def by (intro leaves_rules)

lemma leaves_available [leaves_rules]: "(\<And>q. leaves I (oll q)) \<Longrightarrow> leavesF I (best_available_model e oll f)"
  unfolding best_available_model_def [abs_def] Let_def by (intro leaves_rules)

lemma leaves_download [leaves_rules]: "(\<And>q. leaves I (get q)) \<Longrightarrow> leavesF I (download_model get spec dest f)"
  unfolding download_model_def [abs_def] Let_def by (intro leaves_rules)

lemma leaves_resolve [leaves_rules]: "(\<And>q. leaves I (get q)) \<Longrightarrow> leavesF I (resolve_or_download e get i browse f)"
  unfolding resolve_or_download_def [abs_def] Let_def by (intro leaves_rules)

lemma leaves_without [leaves_rules]: "(\<And>q. leaves I (oll q)) \<Longrightarrow> leavesF I (without_model ffix e oll cfg f)"
  unfolding without_model_def [abs_def] Let_def by (intro leaves_rules)

lemma leaves_launch [leaves_rules]:
  "(\<And>q. leaves I (srv q)) \<Longrightarrow> (\<And>c v. leaves I (start c v)) \<Longrightarrow> leavesF I (tui_launch ffmt e srv start m st f)"
  unfolding tui_launch_def [abs_def] Let_def by (intro leaves_rules)

section \<open>Started and stopped\<close>

definition machine_laws :: "('w \<Rightarrow> nat set) \<Rightarrow> 'w machine \<Rightarrow> bool" where
  "machine_laws live mc \<longleftrightarrow>
     (\<forall>a w. case mc_start mc a w of
        (None, w1) \<Rightarrow> live w1 = live w
      | (Some p, w1) \<Rightarrow> p \<notin> live w \<and> live w1 = insert p (live w)) \<and>
     (\<forall>p w. live (mc_kill mc p w) = live w - {p}) \<and> (\<forall>t w. live (mc_sleep mc t w) = live w)"

lemma start_laws:
  assumes "machine_laws live mc" and "mc_start mc a w = (r, w')"
  shows "case r of None \<Rightarrow> live w' = live w | Some p \<Rightarrow> p \<notin> live w \<and> live w' = insert p (live w)"
  using assms unfolding machine_laws_def by (metis (no_types, lifting) case_prod_conv)

lemma await_lives:
  assumes "machine_laws live mc" and "\<And>q. leaves live (srv q)" and "await_model mc srv endpoint w = Some (b, w')"
  shows "live w' = live w"
  using poll_keeps [OF assms(3) [unfolded await_model_def], of live] leaves_ready [of live srv endpoint] assms(1,2)
  by (simp add: machine_laws_def leaves_def)

text \<open>What a started model leaves: the process, unless the wait failed and it was killed.\<close>

lemma ensure_lives:
  assumes laws: "machine_laws live mc" and srv: "\<And>q. leaves live (srv q)"
    and run: "ensure_model_serving e xbits mc srv endpoint f w = Some (r, f', w')"
  shows "case r of
      Inr (Some pid, m) \<Rightarrow> pid \<notin> live w \<and> live w' = insert pid (live w)
    | _ \<Rightarrow> live w' = live w"
proof -
  obtain up w1 where 1: "endpoint_ready srv endpoint w = (up, w1)" by force
  have l1: "live w1 = live w" using leavesD [OF leaves_ready [OF srv] 1] by simp
  show ?thesis
  proof (cases "\<exists>cp f1 cal argv. \<not> up \<and> find_calibration e f = (Some cp, f1) \<and> load_calibration cp f1 = Inr cal \<and>
      cal_model cal \<noteq> [] \<and> fs_exists (cal_model cal) f1 \<and> build_serve_command e xbits cp f1 = Inr argv")
    case False
    have "w' = w1 \<and> (\<forall>pid m. r \<noteq> Inr (Some pid, m))"
    proof (cases up)
      case True
      then show ?thesis using run 1 by (auto simp: ensure_model_serving_def)
    next
      case up: False
      obtain c f1 where c: "find_calibration e f = (c, f1)" by force
      show ?thesis
      proof (cases c)
        case None
        then show ?thesis using run 1 up c by (auto simp: ensure_model_serving_def)
      next
        case (Some cp)
        then show ?thesis using run 1 up c False
          by (cases "load_calibration cp f1"; cases "build_serve_command e xbits cp f1")
            (auto simp: ensure_model_serving_def split: if_splits)
      qed
    qed
    then show ?thesis using l1 by (auto split: sum.split option.split)
  next
    case True
    then obtain cp f1 cal argv where c: "\<not> up" "find_calibration e f = (Some cp, f1)" "load_calibration cp f1 = Inr cal"
      "cal_model cal \<noteq> []" "fs_exists (cal_model cal) f1" "build_serve_command e xbits cp f1 = Inr argv" by blast
    obtain sp w2 where 2: "mc_start mc argv w1 = (sp, w2)" by force
    note st = start_laws [OF laws 2]
    show ?thesis
    proof (cases sp)
      case None
      then have "r = Inl LaunchFailed \<and> w' = w2" using run 1 2 c by (simp add: ensure_model_serving_def)
      with st None l1 show ?thesis by simp
    next
      case (Some pid)
      obtain b w3 where 3: "await_model mc srv endpoint w2 = Some (b, w3)"
        using run 1 2 c Some by (cases "await_model mc srv endpoint w2") (auto simp: ensure_model_serving_def)
      have l3: "live w3 = live w2" by (rule await_lives [OF laws srv 3])
      have "if b then r = Inr (Some pid, catalog_id_for_gguf e (cal_model cal) f1) \<and> w' = w3
          else r = Inl NotReady \<and> w' = mc_kill mc pid w3"
        using run 1 2 3 c Some by (cases b) (auto simp: ensure_model_serving_def)
      with st Some l1 l3 laws show ?thesis by (cases b) (auto simp: machine_laws_def)
    qed
  qed
qed

section \<open>The commands return\<close>

definition model_clock :: "'w machine \<Rightarrow> 'w server \<Rightarrow> bool" where
  "model_clock mc srv \<longleftrightarrow> (\<forall>ep. clock_moves (mc_now mc) (endpoint_ready srv ep) (mc_sleep mc (2 * second)))"

lemma await_total: "model_clock mc srv \<Longrightarrow> \<exists>b w'. await_model mc srv endpoint w = Some (b, w')"
  using poll_total [of "mc_now mc" "endpoint_ready srv endpoint" "mc_sleep mc (2 * second)"]
  unfolding await_model_def model_clock_def by fast

lemma ensure_total:
  assumes "model_clock mc srv"
  shows "\<exists>x. ensure_model_serving e xbits mc srv endpoint f w = Some x"
proof -
  obtain up w1 where 1: "endpoint_ready srv endpoint w = (up, w1)" by force
  obtain c f1 where c: "find_calibration e f = (c, f1)" by force
  show ?thesis
  proof (cases "ensure_model_serving e xbits mc srv endpoint f w")
    case None
    then obtain cp cal argv where d: "\<not> up" "c = Some cp" "load_calibration cp f1 = Inr cal"
      "cal_model cal \<noteq> []" "fs_exists (cal_model cal) f1" "build_serve_command e xbits cp f1 = Inr argv"
      using 1 c by (auto simp: ensure_model_serving_def split: option.splits sum.splits if_splits)
    obtain sp w2 where 2: "mc_start mc argv w1 = (sp, w2)" by force
    obtain b w3 where "await_model mc srv endpoint w2 = Some (b, w3)" using await_total [OF assms] by blast
    with None 1 c d 2 show ?thesis by (cases sp; cases b) (simp_all add: ensure_model_serving_def)
  qed blast
qed

lemma cmd_tui_total:
  assumes "model_clock mc srv"
  shows "\<exists>x. cmd_tui ffmt ffix e xbits mc srv oll start version f w = Some x"
proof -
  let ?cfg = "case load_config [] f of Inr c \<Rightarrow> c | Inl x \<Rightarrow> default_config"
  obtain x where x: "ensure_model_serving e xbits mc srv (cf_endpoint ?cfg) f w = Some x"
    using ensure_total [OF assms] by blast
  obtain r1 f1 w1 where 1: "x = (r1, f1, w1)" by (metis prod_cases3)
  show ?thesis
  proof (cases "cmd_tui ffmt ffix e xbits mc srv oll start version f w")
    case None
    then show ?thesis using x 1
      by (auto simp: cmd_tui_def Let_def split: sum.splits prod.splits if_splits)
  qed blast
qed

text \<open>A host for the witnesses: the time, the number of processes started, those killed.\<close>

type_synonym tock_world = "int \<times> nat \<times> nat list"

definition tock_machine :: "tock_world machine" where
  "tock_machine =
     \<lparr>mc_start = (\<lambda>a (t, k, ks). (Some k, t, Suc k, filter (\<lambda>p. p \<noteq> k) ks)),
      mc_kill = (\<lambda>p (t, k, ks). (t, k, p # ks)), mc_now = fst, mc_sleep = (\<lambda>d (t, w). (t + d, w))\<rparr>"

definition silent_server :: "tock_world server" where
  "silent_server q w = (None, w)"

definition silent_ollama :: "tock_world ollama" where
  "silent_ollama q w = (None, w)"

definition tock_live :: "tock_world \<Rightarrow> nat set" where
  "tock_live w = {p. p < fst (snd w) \<and> p \<notin> set (snd (snd w))}"

lemma tock_laws: "machine_laws tock_live tock_machine"
  by (auto simp: machine_laws_def tock_live_def tock_machine_def less_Suc_eq)

lemma silent_keeps: "leaves I (silent_server q)" "leaves I (silent_ollama q')"
  by (simp_all add: leaves_def silent_server_def silent_ollama_def)

lemma tock_clock: "model_clock tock_machine silent_server"
proof -
  have "snd (endpoint_ready silent_server ep w) = w" for ep w
    by (auto simp: endpoint_ready_def serving_preflight_def preflight_smoke_def chat_completion_def post_def
        silent_server_def Let_def split: sum.split)
  then show ?thesis by (simp add: model_clock_def clock_moves_def tock_machine_def second_def split: prod.split)
qed

text \<open>Opening the TUI leaves no model server behind: when the command returns, the processes alive
  are those that were alive before, whatever the endpoint, Ollama and the TUI do.\<close>

lemma tui_stops_model:
  assumes "cmd_tui ffmt ffix e xbits mc srv oll start version f w = Some (r, f', w')"
    and "machine_laws live mc" and "\<forall>q. leaves live (srv q)" and "\<forall>q. leaves live (oll q)"
    and "\<forall>c v. leaves live (start c v)"
  shows "live w' = live w"
proof -
  have srv: "\<And>q. leaves live (srv q)" and oll: "\<And>q. leaves live (oll q)"
    and st: "\<And>c v. leaves live ((\<lambda>c env. start c ((''AEGIS_VERSION'', version) # env)) c v)"
    using assms(3-5) by auto
  let ?cfg = "case load_config [] f of Inr c \<Rightarrow> c | Inl x \<Rightarrow> default_config"
  let ?start = "\<lambda>c env. start c ((''AEGIS_VERSION'', version) # env)"
  show ?thesis
  proof (cases "resolve_binary (en_host e) []")
    case (Inl x)
    then show ?thesis using assms(1) by (simp add: cmd_tui_def Let_def)
  next
    case (Inr bin)
    obtain r1 f1 w1 where 1: "ensure_model_serving e xbits mc srv (cf_endpoint ?cfg) f w = Some (r1, f1, w1)"
      using assms(1) Inr
      by (cases "ensure_model_serving e xbits mc srv (cf_endpoint ?cfg) f w") (auto simp: cmd_tui_def Let_def)
    note lives = ensure_lives [OF assms(2) srv 1]
    show ?thesis
    proof (cases r1)
      case ok: (Inr pm)
      obtain pid m where pm: "pm = (pid, m)" by force
      obtain r2 f2 w2 where 2: "tui_launch ffmt e srv ?start m \<lparr>ts_config = ?cfg, ts_env = [], ts_notes = []\<rparr> f1 w1 =
          (r2, f2, w2)" by (metis prod_cases3)
      have "live w2 = live w1" by (rule leavesFD [OF leaves_launch [OF srv st] 2])
      moreover have "w' = stop_model mc pid w2" using assms(1) Inr 1 2 ok pm by (simp add: cmd_tui_def Let_def)
      ultimately show ?thesis using lives ok pm assms(2)
        by (cases pid) (auto simp: stop_model_def machine_laws_def)
    next
      case bad: (Inl x)
      show ?thesis
      proof (cases "no_model x")
        case False
        then show ?thesis using assms(1) Inr 1 bad lives by (simp add: cmd_tui_def Let_def)
      next
        case True
        obtain s2 f2 w2 where 2: "without_model ffix e oll ?cfg f1 w1 = (s2, f2, w2)" by (metis prod_cases3)
        have "live w2 = live w1" by (rule leavesFD [OF leaves_without [OF oll] 2])
        moreover have 3: "tui_launch ffmt e srv ?start [] s2 f2 w2 = (r, f', w')"
          using assms(1) Inr 1 2 bad True by (simp add: cmd_tui_def Let_def)
        have "live w' = live w2" by (rule leavesFD [OF leaves_launch [OF srv st] 3])
        ultimately show ?thesis using lives bad by simp
      qed
    qed
  qed
qed



text \<open>C25: What \<open>provision\<close> leaves running: exactly one new server when it reports the model ready, and also
  when it gives up waiting for it; in every other case no process is added.\<close>

theorem provision_leaves_server:
  assumes "provision_model e xbits mc srv get endpoint i browse f w = Some ((rc, notes), f', w')"
    and "machine_laws live mc" and "\<forall>q. leaves live (srv q)" and "\<forall>q. leaves live (get q)"
  shows "(rc = 0 \<longleftrightarrow> ProvReady \<in> set notes) \<and>
    (if ProvReady \<in> set notes \<or> ProvNotReady \<in> set notes
     then \<exists>pid. pid \<notin> live w \<and> live w' = insert pid (live w) else live w' = live w)"
proof -
  obtain g ns f1 w1 where 1: "resolve_or_download e get i browse f w = ((g, ns), f1, w1)" by (metis prod.collapse)
  have l1: "live w1 = live w" using leavesFD [OF leaves_resolve 1] assms(4) by blast
  have n: "ProvReady \<notin> set (map ProvNote ns)" "ProvNotReady \<notin> set (map ProvNote ns)" by auto
  show ?thesis
  proof (cases "\<exists>gguf seed f2 argv. g = Some gguf \<and> write_seed_calibration e gguf f1 = (Inr seed, f2) \<and>
      build_serve_command e xbits seed f2 = Inr argv")
    case False
    have "w' = w1 \<and> rc \<noteq> 0 \<and> ProvReady \<notin> set notes \<and> ProvNotReady \<notin> set notes"
    proof (cases g)
      case None
      then show ?thesis using assms(1) 1 n by (auto simp: provision_model_def)
    next
      case (Some gguf)
      obtain sd f2 where s: "write_seed_calibration e gguf f1 = (sd, f2)" by force
      show ?thesis
        using assms(1) 1 n Some s False
        by (cases sd; cases "build_serve_command e xbits (projr sd) f2") (auto simp: provision_model_def Let_def)
    qed
    then show ?thesis using l1 by simp
  next
    case True
    then obtain gguf seed f2 argv where c: "g = Some gguf" "write_seed_calibration e gguf f1 = (Inr seed, f2)"
      "build_serve_command e xbits seed f2 = Inr argv" by blast
    obtain sp w2 where 2: "mc_start mc argv w1 = (sp, w2)" by force
    note st = start_laws [OF assms(2) 2]
    show ?thesis
    proof (cases sp)
      case None
      then show ?thesis using assms(1) 1 2 n c st l1 by (auto simp: provision_model_def Let_def)
    next
      case (Some pid)
      obtain b w3 where 3: "await_model mc srv endpoint w2 = Some (b, w3)"
        using assms(1) 1 2 c Some by (cases "await_model mc srv endpoint w2") (auto simp: provision_model_def Let_def)
      have "live w3 = live w2" using await_lives [OF assms(2) _ 3] assms(3) by blast
      then show ?thesis using assms(1) 1 2 3 n c Some st l1 by (cases b) (auto simp: provision_model_def Let_def)
    qed
  qed
qed

lemma silent_await:
  assumes "await_model tock_machine silent_server endpoint w = Some (b, w')"
  shows "\<not> b"
proof
  assume "b"
  with assms have "await_model tock_machine silent_server endpoint w = Some (True, w')" by simp
  from poll_success [OF this [unfolded await_model_def]]
  obtain w1 where "endpoint_ready silent_server endpoint w1 = (True, w')" by blast
  then show False
    by (auto simp: endpoint_ready_def serving_preflight_def preflight_smoke_def chat_completion_def post_def
        silent_server_def Let_def split: sum.splits)
qed

theorem provision_leaves_server_witness:
  "\<exists>rc notes f' w'. provision_model seed_env (\<lambda>p. False) tock_machine silent_server (\<lambda>u w. (None, w)) ''http://127.0.0.1:8080'' []
     ''/m/a.gguf'' model_fs (0, 0, []) = Some ((rc, notes), f', w') \<and> rc \<noteq> 0 \<and> tock_live w' \<noteq> tock_live (0, 0, [])"
proof -
  let ?get = "\<lambda>u w. (None, w)" and ?ep = "''http://127.0.0.1:8080''" and ?x = "\<lambda>p. False"
  have x: "fs_exists ''/m/a.gguf'' model_fs" by (simp add: fs_exists_def model_fs_def)
  have g: "resolve_or_download seed_env ?get [] ''/m/a.gguf'' model_fs (0, 0, []) =
      ((Some ''/m/a.gguf'', [Sourcing (path_base ''/m/a.gguf'')]), model_fs, (0, 0, []))"
    using x by (simp add: resolve_or_download_def)
  obtain f2 where s: "write_seed_calibration seed_env ''/m/a.gguf'' model_fs =
      (Inr ''/home/op/.config/aegis/calibration.json'', f2)" using seed_env_written by (metis prod.collapse)
  obtain argv where a: "build_serve_command seed_env ?x ''/home/op/.config/aegis/calibration.json'' f2 = Inr argv"
    using seeded_build [OF s _ seed_env_plain] by (fastforce simp: model_fs_def bundle_fs_def)
  have st: "mc_start tock_machine argv (0, 0, []) = (Some 0, 0, Suc 0, [])" by (simp add: tock_machine_def)
  obtain b w3 where w: "await_model tock_machine silent_server ?ep (0, Suc 0, []) = Some (b, w3)"
    using await_total [OF tock_clock] by blast
  have p: "provision_model seed_env ?x tock_machine silent_server ?get ?ep [] ''/m/a.gguf'' model_fs (0, 0, []) =
      Some ((1, [ProvNote (Sourcing (path_base ''/m/a.gguf'')), ProvStarting (path_base ''/m/a.gguf''), ProvNotReady]), f2, w3)"
    using silent_await [OF w] by (simp add: provision_model_def g s a st w Let_def)
  from provision_leaves_server [OF p tock_laws]
  have "\<exists>pid. pid \<notin> tock_live (0, 0, []) \<and> tock_live w3 = insert pid (tock_live (0, 0, []))"
    by (simp add: silent_server_def leaves_def)
  with p show ?thesis by (intro exI conjI) auto
qed

end
