(* ===== verification/CliBakeProps.thy ===== *)
theory CliBakeProps
  imports CliBakeCmd CliRun CliServeProps
begin

text \<open>
  The bake-off measures what it says: the command line of a cell is read by \<open>aegis run\<close> as it was meant,
  the statistics taken from the transcript that \<open>aegis run\<close> wrote are the run's own, model servers are
  stopped, and the command returns.
\<close>

section \<open>The command line of a cell\<close>

lemma parse_set:
  assumes "plain_name n" and "flag_var fl n = Some (var, old)" and "\<not> is_bool_flag old"
    and "set_val old v = Some new"
  shows "flag_parse fl ((CHR ''-'' # CHR ''-'' # n) # v # rest) = flag_parse (put_val var new fl) rest"
  using flag_parse_pair [OF assms(1), of fl v rest] assms(2-4) by (simp add: takes_arg_def assign_def)

lemma cell_flags:
  assumes "n * 10 ^ 9 < 2 ^ 63"
  shows "\<exists>fl. flag_parse run_flags (drop 2 (cell_command bin cfg ws model prompt (int n * 10 ^ 9) tpath)) = Inr (fl, []) \<and>
    string_of fl ''config'' = cfg \<and> string_of fl ''workdir'' = ws \<and> string_of fl ''model'' = model \<and>
    string_of fl ''prompt'' = prompt \<and> string_of fl ''prompt-file'' = [] \<and> string_of fl ''out'' = tpath \<and>
    int_of_flag fl ''timeout'' = int n * 10 ^ 9 \<and> \<not> bool_of fl ''no-intent''"
proof -
  define f1 where "f1 = put_val ''config'' (FlagString cfg) run_flags"
  define f2 where "f2 = put_val ''workdir'' (FlagString ws) f1"
  define f3 where "f3 = put_val ''model'' (FlagString model) f2"
  define f4 where "f4 = put_val ''prompt'' (FlagString prompt) f3"
  define f5 where "f5 = put_val ''timeout'' (FlagDuration (int (n * 10 ^ 9))) f4"
  define f6 where "f6 = put_val ''out'' (FlagString tpath) f5"
  note fs = f6_def f5_def f4_def f3_def f2_def f1_def put_val_def run_flags_def new_flags_def flag_var_def
  let ?d = "show_duration (int n * 10 ^ 9)"
  have "flag_parse run_flags (drop 2 (cell_command bin cfg ws model prompt (int n * 10 ^ 9) tpath)) =
      flag_parse run_flags (''--config'' # cfg # ''--workdir'' # ws # ''--model'' # model # ''--prompt'' # prompt #
        ''--timeout'' # ?d # ''--out'' # tpath # [])"
    by (simp add: cell_command_def)
  also have "\<dots> = flag_parse f1 (''--workdir'' # ws # ''--model'' # model # ''--prompt'' # prompt #
        ''--timeout'' # ?d # ''--out'' # tpath # [])"
    unfolding f1_def by (rule parse_set [where old = "FlagString []"]) (simp_all add: plain_name_def fs is_bool_flag_def set_val_def)
  also have "\<dots> = flag_parse f2 (''--model'' # model # ''--prompt'' # prompt # ''--timeout'' # ?d # ''--out'' # tpath # [])"
    unfolding f2_def by (rule parse_set [where old = "FlagString ''.''"]) (simp_all add: plain_name_def fs is_bool_flag_def set_val_def)
  also have "\<dots> = flag_parse f3 (''--prompt'' # prompt # ''--timeout'' # ?d # ''--out'' # tpath # [])"
    unfolding f3_def by (rule parse_set [where old = "FlagString []"]) (simp_all add: plain_name_def fs is_bool_flag_def set_val_def)
  also have "\<dots> = flag_parse f4 (''--timeout'' # ?d # ''--out'' # tpath # [])"
    unfolding f4_def by (rule parse_set [where old = "FlagString []"]) (simp_all add: plain_name_def fs is_bool_flag_def set_val_def)
  also have "\<dots> = flag_parse f5 (''--out'' # tpath # [])"
    unfolding f5_def
    by (rule parse_set [where old = "FlagDuration (5 * 60 * 10 ^ 9)"]) (simp_all only: set_val_def parse_duration_seconds [OF assms], simp_all add: plain_name_def fs is_bool_flag_def)
  also have "\<dots> = flag_parse f6 []"
    unfolding f6_def by (rule parse_set [where old = "FlagString []"]) (simp_all add: plain_name_def fs is_bool_flag_def set_val_def)
  also have "\<dots> = Inr (f6, [])" by simp
  finally show ?thesis
    by (rule exI [of _ f6, OF conjI]) (simp add: fs string_of_def int_of_flag_def bool_of_def)
qed

section \<open>Lines of JSON\<close>

lemma utf8_tail:
  assumes "utf8_len s \<noteq> 0" and "\<not> byte_in 0 127 (hd s)" and "c \<in> set (take (utf8_len s) s)"
  shows "128 \<le> (of_char c :: nat)"
proof -
  obtain a t where s: "s = a # t" using assms(1) by (cases s) auto
  have a: "\<not> byte_in 0 127 a" "128 \<le> (of_char a :: nat)" using assms(2) by (auto simp: s byte_in_def)
  obtain b u where t: "t = b # u" using assms(1) a(1) by (cases t) (auto simp: s)
  have hi: "128 \<le> (of_char x :: nat)" if "byte_in lo 191 x \<or> byte_in lo 159 x \<or> byte_in lo 143 x" "128 \<le> lo" for lo x
    using that by (auto simp: byte_in_def)
  show ?thesis
  proof (cases "byte_in 194 223 a")
    case True
    then have "byte_in 128 191 b" "utf8_len s = 2" using assms(1) a(1) by (auto simp: s t split: if_splits)
    then show ?thesis using assms(3) a(2) hi [of 128 b] by (auto simp: s t)
  next
    case F2: False
    then obtain d v where u: "u = d # v" using assms(1) a(1) s t by (cases u) auto
    show ?thesis
    proof (cases "utf8_len s = 3")
      case True
      then have "byte_in 128 191 d" "byte_in 160 191 b \<or> byte_in 128 159 b \<or> byte_in 128 191 b"
        using a(1) F2 by (auto simp: s t u split: if_splits list.splits)
      then show ?thesis using assms(3) True a(2) hi [of 128 d] hi [of 128 b] hi [of 160 b] by (auto simp: s t u numeral_eq_Suc)
    next
      case F3: False
      then obtain x y where v: "v = x # y" using assms(1) a(1) F2 s t u by (cases v) (auto split: if_splits)
      then have "utf8_len s = 4" "byte_in 128 191 d" "byte_in 128 191 x"
          "byte_in 144 191 b \<or> byte_in 128 143 b \<or> byte_in 128 191 b"
        using assms(1) a(1) F2 F3 by (auto simp: s t u v split: if_splits)
      then show ?thesis
        using assms(3) a(2) hi [of 128 d] hi [of 128 x] hi [of 128 b] hi [of 144 b] by (auto simp: s t u v numeral_eq_Suc)
    qed
  qed
qed

lemma hex_low_bytes: "d < 16 \<Longrightarrow> 32 \<le> (of_char (hex_low d) :: nat)"
  by (simp add: hex_low_def)

lemma u_escape_bytes: "c \<in> set (u_escape n) \<Longrightarrow> 32 \<le> (of_char c :: nat)"
  by (auto simp: u_escape_def hex_low_bytes)

lemma enc_ascii_bytes: "c \<in> set (enc_ascii x) \<Longrightarrow> 32 \<le> (of_char c :: nat)"
  by (auto simp: enc_ascii_def html_safe_def byte_in_def u_escape_bytes split: if_splits)

lemma enc_unit_bytes:
  assumes "s \<noteq> []" and "c \<in> set (fst (enc_unit s))"
  shows "32 \<le> (of_char c :: nat)"
proof (cases "byte_in 0 127 (hd s)")
  case True
  then show ?thesis using assms(2) enc_ascii_bytes by (simp add: enc_unit_def)
next
  case False
  show ?thesis
  proof (cases "utf8_len s = 0 \<or> take 3 s \<in> set line_separators")
    case True
    then show ?thesis using assms(2) False u_escape_bytes by (auto simp: enc_unit_def split: if_splits)
  next
    case F: False
    then have "c \<in> set (take (utf8_len s) s)" using assms(2) False by (simp add: enc_unit_def)
    with utf8_tail [of s c] F False show ?thesis by simp
  qed
qed

lemma enc_body_bytes: "c \<in> set (enc_body n s) \<Longrightarrow> 32 \<le> (of_char c :: nat)"
proof (induction n arbitrary: s)
  case (Suc n)
  obtain out k where e: "enc_unit s = (out, k)" by force
  show ?case
  proof (cases "s = []")
    case False
    with Suc.prems e have "c \<in> set out \<or> c \<in> set (enc_body n (drop k s))" by simp
    with Suc.IH enc_unit_bytes [OF False, of c] e show ?thesis by auto
  qed (use Suc.prems in simp)
qed simp

lemma enc_string_line: "CHR 0x0A \<notin> set (enc_string s)"
  using enc_body_bytes [of "CHR 0x0A" "length s" s] by (auto simp: enc_string_def)

lemma show_int_line: "CHR 0x0A \<notin> set (show_int i)"
proof -
  have "\<not> is_digit CHR 0x0A" by (simp add: is_digit_def)
  then have "CHR 0x0A \<notin> set (show_nat n)" for n using show_nat_digits [of n] by (auto simp: list_all_iff)
  then show ?thesis by (auto simp: show_int_def)
qed

lemma compact_line:
  "plain_json v \<Longrightarrow> CHR 0x0A \<notin> set (json_compact v)"
  "list_all plain_json vs \<Longrightarrow> CHR 0x0A \<notin> set (compact_elems vs)"
  "list_all (\<lambda>m. utf8_text (fst m) \<and> plain_json (snd m)) ms \<Longrightarrow> CHR 0x0A \<notin> set (compact_members ms)"
  by (induction v and vs and ms rule: json_compact_compact_elems_compact_members.induct)
    (auto simp: enc_string_line show_int_line)

lemma object_trim: "trim_space (json_compact (JObj ms)) = json_compact (JObj ms)"
  by (rule trim_space_visible) (simp_all add: visible_def)

section \<open>The statistics of a transcript\<close>

definition plain_message :: "transcript_message \<Rightarrow> bool" where
  "plain_message m \<longleftrightarrow> utf8_text (tm_text m) \<and> utf8_text (tm_role m) \<and> tm_role m \<noteq> ''result''"

lemma stats_keys:
  "field_named stats_fields ''content'' = None"
  "field_named stats_fields ''type'' = Some (''type'', fld dec_string sl_type sl_type_update)"
  "field_named stats_fields ''num_turns'' = Some (''num_turns'', fld dec_int sl_turns sl_turns_update)"
  "field_named stats_fields ''usage'' = Some (''usage'', dec_struct stats_usage_fields)"
  "field_named stats_usage_fields ''input_tokens'' = Some (''input_tokens'', fld dec_int sl_in sl_in_update)"
  "field_named stats_usage_fields ''output_tokens'' = Some (''output_tokens'', fld dec_int sl_out sl_out_update)"
  by (simp_all add: field_named_def stats_fields_def stats_usage_fields_def to_lower_def to_lower_char_def)

lemma record_keys: "list_all utf8_text [''content'', ''type'', ''usage'', ''text'', ''num_turns'', ''result'', ''input_tokens'', ''output_tokens'']"
  by (simp add: byte_in_def)

lemma plain_usage: "plain_json (usage_json i o1)"
  using record_keys by (auto simp: usage_json_def)

lemma plain_record: "plain_message m \<Longrightarrow> plain_json (message_record m)"
  using record_keys plain_usage by (auto simp: message_record_def plain_message_def)

lemma plain_result: "plain_json (result_record n i o1)"
  using record_keys plain_usage by (auto simp: result_record_def)

lemma decode_message_line:
  assumes "plain_message m" and "decode_stats (json_compact (message_record m)) = Some d"
  shows "sl_type d \<noteq> ''result''"
proof -
  have "json_parse (json_compact (message_record m)) = Some (message_record m)"
    using json_compact_roundtrip(1) [OF plain_record [OF assms(1)], of "[]"] by simp
  with assms(2) have "dec_struct stats_fields \<lparr>sl_type = [], sl_turns = 0, sl_in = 0, sl_out = 0\<rparr> (message_record m) = Some d"
    by (simp add: decode_stats_def unmarshal_def)
  then have "sl_type d = tm_role m"
    by (auto simp: message_record_def dec_struct_def stats_keys usage_json_def fld_def dec_string_def split: option.splits)
  with assms(1) show ?thesis by (simp add: plain_message_def)
qed

lemma decode_result_line:
  assumes "int n < 2 ^ 63" and "- (2 ^ 63) \<le> i" "i < 2 ^ 63" and "- (2 ^ 63) \<le> o1" "o1 < 2 ^ 63"
  shows "decode_stats (json_compact (result_record n i o1)) =
     Some \<lparr>sl_type = ''result'', sl_turns = int n, sl_in = i, sl_out = o1\<rparr>"
proof -
  have "json_parse (json_compact (result_record n i o1)) = Some (result_record n i o1)"
    using json_compact_roundtrip(1) [OF plain_result, of "[]"] by simp
  moreover have "num_int (show_int (int n)) = Some (int n)" "num_int (show_int i) = Some i" "num_int (show_int o1) = Some o1"
    using assms by (auto intro!: num_int_show)
  ultimately show ?thesis
    by (simp add: decode_stats_def unmarshal_def result_record_def dec_struct_def stats_keys usage_json_def fld_def
        dec_string_def dec_int_def)
qed

lemma transcript_lines:
  "list_all plain_json js \<Longrightarrow> split_on CHR 0x0A (transcript_text js) = map json_compact js @ [[]]"
proof (induction js)
  case (Cons j js)
  then have "CHR 0x0A \<notin> set (json_compact j)" using compact_line(1) by simp
  then have "split_on CHR 0x0A (json_compact j @ CHR 0x0A # transcript_text js) = json_compact j # split_on CHR 0x0A (transcript_text js)"
    by (rule split_on_append_sep)
  then show ?case using Cons by (simp add: transcript_text_def record_line_def)
qed (simp add: transcript_text_def)

lemma record_object: "trim_space (json_compact (message_record m)) = json_compact (message_record m)"
    "trim_space (json_compact (result_record n i o1)) = json_compact (result_record n i o1)"
    "json_compact (message_record m) \<noteq> []" "json_compact (result_record n i o1) \<noteq> []"
  unfolding message_record_def result_record_def object_trim by simp_all

lemma stats_skip_messages:
  "list_all plain_message ms \<Longrightarrow>
     stats_of_lines (map json_compact (map message_record ms) @ rest) = stats_of_lines rest"
proof (induction ms)
  case (Cons m ms)
  then have "plain_message m" by simp
  note d = decode_message_line [OF this]
  show ?case using Cons by (auto simp: Let_def record_object dest: d split: option.split)
qed simp

lemma stats_full_transcript:
  assumes "list_all plain_message ms" and "int (length ms) < 2 ^ 63"
    and "i = (\<Sum>m \<leftarrow> ms. to_int (tk_input (tm_tokens m)))" and "o1 = (\<Sum>m \<leftarrow> ms. to_int (tk_output (tm_tokens m)))"
    and "- (2 ^ 63) \<le> i" "i < 2 ^ 63" "- (2 ^ 63) \<le> o1" "o1 < 2 ^ 63"
  shows "stats_of_lines (split_on CHR 0x0A (transcript_text (full_transcript ms))) = (int (length ms), i + o1, o1)"
proof -
  have "list_all plain_json (full_transcript ms)"
    using assms(1) plain_record plain_result by (auto simp: full_transcript_def list_all_iff)
  then have "split_on CHR 0x0A (transcript_text (full_transcript ms)) =
      map json_compact (map message_record ms) @ [json_compact (result_record (length ms) i o1), []]"
    by (simp add: transcript_lines, simp add: full_transcript_def assms(3,4))
  then show ?thesis
    using stats_skip_messages [OF assms(1)] decode_result_line [OF assms(2,5-8)]
    by (simp add: Let_def record_object)
qed

text \<open>What a cell records is what the run did: the command line a cell starts is read by \<open>aegis run\<close>
  with the workspace, the model, the prompt and the timeout of the cell, and when that run writes its
  transcript, the turns, tokens and output tokens the cell takes from it are the number of messages and
  the sums over the messages of the run.\<close>

theorem cell_reads_run:
  assumes "cmd_run ffmt e os srv refuses (drop 2 (cell_command bin cfg ws model prompt (int n * 10 ^ 9) tpath)) f w =
      Some ((rc, notes, printed), f', w')"
    and "rc = 0 \<or> rc = 124" and "n * 10 ^ 9 < 2 ^ 63" and "tpath \<noteq> []" and "tpath \<notin> fs_deny_read f'"
  shows "\<exists>res f1 c. solve ffmt os srv (deadline_ctx os (po_now os w + int n * 10 ^ 9)) (en_host e) (run_config e model c f) []
      \<lparr>so_workdir = ws, so_prompt = prompt, so_model = model, so_port = 0, so_no_intent = False\<rparr> f w = Some (Inr res, f1, w') \<and>
    c = (case load_config cfg f of Inl x \<Rightarrow> default_config | Inr c \<Rightarrow> c) \<and> \<not> cf_allow_egress c \<and>
    (let ms = sr_messages res; i = (\<Sum>m \<leftarrow> ms. to_int (tk_input (tm_tokens m)));
         o1 = (\<Sum>m \<leftarrow> ms. to_int (tk_output (tm_tokens m)))
     in list_all plain_message ms \<and> int (length ms) < 2 ^ 63 \<and> i \<in> {- (2 ^ 63)..<2 ^ 63} \<and> o1 \<in> {- (2 ^ 63)..<2 ^ 63} \<longrightarrow>
        transcript_stats tpath f' = (int (length ms), i + o1, o1))"
proof -
  obtain fl where fl: "flag_parse run_flags (drop 2 (cell_command bin cfg ws model prompt (int n * 10 ^ 9) tpath)) = Inr (fl, [])"
    "string_of fl ''config'' = cfg" "string_of fl ''workdir'' = ws" "string_of fl ''model'' = model"
    "string_of fl ''prompt'' = prompt" "string_of fl ''prompt-file'' = []" "string_of fl ''out'' = tpath"
    "int_of_flag fl ''timeout'' = int n * 10 ^ 9" "\<not> bool_of fl ''no-intent''"
    using cell_flags [OF assms(3)] by blast
  obtain p res f1 where r: "run_prompt fl f = Inr p" "run_solve ffmt e os srv fl p f w = Some (Inr res, f1, w')"
    "fs_write tpath (transcript_text (full_transcript (sr_messages res))) f1 = (True, f')"
    using cmd_run_done(2) [OF assms(1) fl(1) assms(2)] assms(4) fl(7) by auto
  have p: "p = prompt" using r(1) fl(5,6) by (auto simp: run_prompt_def split: if_splits)
  have read: "fs_read tpath f' = Some (transcript_text (full_transcript (sr_messages res)))"
    using fs_write_ok [OF r(3)] assms(5) by (simp add: fs_read_def)
  have t: "transcript_stats tpath f' = stats_of_lines (split_on CHR 0x0A (transcript_text (full_transcript (sr_messages res))))"
    by (simp only: transcript_stats_def read option.case)
  let ?c = "case load_config cfg f of Inl x \<Rightarrow> default_config | Inr c \<Rightarrow> c"
  have s: "solve ffmt os srv (deadline_ctx os (po_now os w + int n * 10 ^ 9)) (en_host e) (run_config e model ?c f) []
      \<lparr>so_workdir = ws, so_prompt = prompt, so_model = model, so_port = 0, so_no_intent = False\<rparr> f w = Some (Inr res, f1, w')"
    using r(2) fl(9) unfolding p run_solve_def run_options_def loaded_config_def fl(2-8) by simp
  have g: "\<not> cf_allow_egress ?c"
    using cmd_run_done(1) [OF assms(1) fl(1) assms(2)] unfolding loaded_config_def fl(2) .
  have st: "let ms = sr_messages res; i = (\<Sum>m \<leftarrow> ms. to_int (tk_input (tm_tokens m)));
         o1 = (\<Sum>m \<leftarrow> ms. to_int (tk_output (tm_tokens m)))
     in list_all plain_message ms \<and> int (length ms) < 2 ^ 63 \<and> i \<in> {- (2 ^ 63)..<2 ^ 63} \<and> o1 \<in> {- (2 ^ 63)..<2 ^ 63} \<longrightarrow>
        transcript_stats tpath f' = (int (length ms), i + o1, o1)"
    unfolding Let_def t by (intro impI stats_full_transcript) simp_all
  show ?thesis by (rule exI [of _ res], rule exI [of _ f1], rule exI [of _ ?c]) (intro conjI s g st refl)
qed

section \<open>Servers of the candidates\<close>

definition host_leaves :: "('w \<Rightarrow> 'i) \<Rightarrow> 'w bench_host \<Rightarrow> bool" where
  "host_leaves I hb \<longleftrightarrow>
     (\<forall>p f. leavesF I (hb_mkdtemp hb p f)) \<and> (\<forall>d env argv f. leavesF I (hb_exec hb d env argv f)) \<and> leaves I (hb_port hb)"

lemma host_rules [leaves_rules]:
  "host_leaves I hb \<Longrightarrow> leavesF I (hb_mkdtemp hb p f)" "host_leaves I hb \<Longrightarrow> leavesF I (hb_exec hb d env argv f)"
  "host_leaves I hb \<Longrightarrow> leaves I (hb_port hb)"
  by (simp_all add: host_leaves_def)

lemma leaves_git [leaves_rules]: "host_leaves I hb \<Longrightarrow> leavesF I (run_git hb ws argvs f)"
proof (induction argvs arbitrary: f)
  case Nil
  show ?case unfolding run_git.simps(1) [abs_def] by (intro leaves_rules)
next
  case (Cons a as)
  show ?case unfolding run_git.simps(2) [abs_def] by (intro leaves_rules Cons)
qed

lemma leaves_seed [leaves_rules]: "host_leaves I hb \<Longrightarrow> leavesF I (seed_task e hb ws task f)"
  unfolding seed_task_def [abs_def] by (intro leaves_rules)

lemma leaves_verify [leaves_rules]: "host_leaves I hb \<Longrightarrow> leavesF I (run_verify hb ws argv f)"
  unfolding run_verify_def [abs_def] by (intro leaves_rules)

lemma leaves_edited [leaves_rules]: "host_leaves I hb \<Longrightarrow> leavesF I (git_edited_count hb ws f)"
  unfolding git_edited_count_def [abs_def] by (intro leaves_rules)

lemma leaves_drive:
  assumes h: "host_leaves I hb"
  shows "leavesF I (drive_cell mc hb bin endpoint model task timeout ws meta f)"
  unfolding leavesF_def
proof
  fix w
  let ?cfg = "path_join [meta, ''cfg.json'']" and ?t = "path_join [meta, ''transcript.jsonl'']"
  obtain printed err f2 w1 where 1: "hb_exec hb [] [] (cell_command bin ?cfg ws model (bt_prompt task) timeout ?t)
      (snd (fs_write ?cfg (cell_config endpoint model) f)) w = ((printed, err), f2, w1)" by (metis prod.collapse)
  obtain ed f3 w2 where 2: "git_edited_count hb ws f2 w1 = (ed, f3, w2)" by (metis prod.collapse)
  obtain cl f4 w3 where 3: "run_verify hb ws (bt_verify task) f3 w2 = (cl, f4, w3)" by (metis prod.collapse)
  have "I w3 = I w"
    using leavesFD [OF host_rules(2) [OF h] 1] leavesFD [OF leaves_edited [OF h] 2] leavesFD [OF leaves_verify [OF h] 3] by simp
  then show "I (snd (snd (drive_cell mc hb bin endpoint model task timeout ws meta f w))) = I w"
    by (simp add: drive_cell_def Let_def 1 2 3)
qed

lemma leaves_cell [leaves_rules]:
  "host_leaves I hb \<Longrightarrow> leavesF I (run_bakeoff_cell e mc hb bin endpoint model task timeout f)"
  unfolding run_bakeoff_cell_def [abs_def] Let_def by (intro leaves_rules leaves_drive)

lemma leaves_cells [leaves_rules]:
  "host_leaves I hb \<Longrightarrow> leavesF I (run_cells e mc hb self endpoint m timeout tasks f)"
proof (induction tasks arbitrary: f)
  case Nil
  show ?case unfolding run_cells.simps(1) [abs_def] by (intro leaves_rules)
next
  case (Cons t ts)
  show ?case unfolding run_cells.simps(2) [abs_def] by (intro leaves_rules Cons)
qed

lemma leaves_probe [leaves_rules]: "(\<And>q. leaves I (srv q)) \<Longrightarrow> leaves I (probe_served_model srv endpoint)"
  unfolding probe_served_model_def [abs_def] first_model_def [abs_def] by (intro leaves_rules)

text \<open>Serving a candidate either ends before its server is started, or is the launch.\<close>

lemma serve_cases:
  assumes "\<forall>q. leaves I (get q)" and "host_leaves I hb"
  shows "(\<exists>x f1 w1. serve_model_for_bakeoff e xbits mc srv get hb i allow endpoint f w = Some (Inl x, f1, w1) \<and> I w1 = I w) \<or>
    (\<exists>gguf argv dir f1 w1. serve_model_for_bakeoff e xbits mc srv get hb i allow endpoint f w =
       launch_candidate mc srv i endpoint gguf argv dir f1 w1 \<and> I w1 = I w)"
proof (cases "\<not> allow \<and> \<not> model_present e i f")
  case True
  then show ?thesis by (simp add: serve_model_for_bakeoff_def)
next
  case present: False
  obtain g ns f1 w1 where 1: "resolve_or_download e get i [] f w = ((g, ns), f1, w1)" by (metis prod.collapse)
  have l1: "I w1 = I w" using leavesFD [OF leaves_resolve 1] assms(1) by blast
  show ?thesis
  proof (cases g)
    case None
    then show ?thesis using present 1 l1 by (simp add: serve_model_for_bakeoff_def)
  next
    case g: (Some gguf)
    obtain t f2 w2 where 2: "hb_mkdtemp hb ''bakeoff-cal-'' f1 w1 = (t, f2, w2)" by (metis prod.collapse)
    have l2: "I w2 = I w" using leavesFD [OF host_rules(1) [OF assms(2)] 2] l1 by simp
    show ?thesis
    proof (cases t)
      case (Inl x)
      then show ?thesis using present 1 2 g l2 by (simp add: serve_model_for_bakeoff_def)
    next
      case t: (Inr dir)
      obtain c f3 where 3: "write_bakeoff_calibration e gguf dir (endpoint_port endpoint) f2 = (c, f3)" by force
      have s: "serve_model_for_bakeoff e xbits mc srv get hb i allow endpoint f w =
          (case c of
             None \<Rightarrow> Some (Inl BakeCalibration, fs_remove_all dir f3, w2)
           | Some cal \<Rightarrow>
               (case build_serve_command e xbits cal f3 of
                  Inl x \<Rightarrow> Some (Inl (BakeBuild x), fs_remove_all dir f3, w2)
                | Inr argv \<Rightarrow> launch_candidate mc srv i endpoint gguf argv dir f3 w2))"
        using present 1 2 3 g t by (auto simp: serve_model_for_bakeoff_def split: option.split)
      show ?thesis
      proof (cases c)
        case None
        then show ?thesis using s l2 by simp
      next
        case (Some cal)
        then show ?thesis using s l2 by (cases "build_serve_command e xbits cal f3") auto
      qed
    qed
  qed
qed

lemma launch_lives:
  assumes laws: "machine_laws live mc" and srv: "\<forall>q. leaves live (srv q)"
    and run: "launch_candidate mc srv i endpoint gguf argv dir f w = Some (r, f', w')"
  shows "case r of
      Inr ((pid, d), served) \<Rightarrow> pid \<notin> live w \<and> live w' = insert pid (live w)
    | Inl x \<Rightarrow> live w' = live w"
proof -
  obtain sp w1 where 1: "mc_start mc argv w = (sp, w1)" by force
  note st = start_laws [OF laws 1]
  show ?thesis
  proof (cases sp)
    case None
    with run 1 st show ?thesis by (auto simp: launch_candidate_def)
  next
    case sp: (Some pid)
    obtain b w2 where 2: "await_model mc srv endpoint w1 = Some (b, w2)"
      using run 1 sp by (cases "await_model mc srv endpoint w1") (auto simp: launch_candidate_def)
    have l2: "live w2 = live w1" using await_lives [OF laws _ 2] srv by blast
    have k: "live (mc_kill mc p w) = live w - {p}" for p w using laws by (simp add: machine_laws_def)
    obtain served w3 where 3: "probe_served_model srv endpoint w2 = (served, w3)" by force
    have l3: "live w3 = live w2" using leavesD [OF leaves_probe 3] srv by blast
    show ?thesis
    proof (cases "b \<and> \<not> (served \<noteq> [] \<and> \<not> contains_str served (path_base gguf))")
      case True
      then have "r = Inr ((pid, dir), served) \<and> w' = w3" using run 1 sp 2 3 by (auto simp: launch_candidate_def)
      with st sp l2 l3 show ?thesis by simp
    next
      case False
      then have "\<exists>x. r = Inl x \<and> (w' = mc_kill mc pid w2 \<or> w' = mc_kill mc pid w3)"
        using run 1 sp 2 3 by (cases b) (auto simp: launch_candidate_def stop_candidate_def)
      with st sp l2 l3 k show ?thesis by auto
    qed
  qed
qed

lemma serve_lives:
  assumes "machine_laws live mc" and "\<forall>q. leaves live (srv q)" and "\<forall>q. leaves live (get q)" and "host_leaves live hb"
    and "serve_model_for_bakeoff e xbits mc srv get hb i allow endpoint f w = Some (r, f', w')"
  shows "case r of
      Inr ((pid, d), served) \<Rightarrow> pid \<notin> live w \<and> live w' = insert pid (live w)
    | Inl x \<Rightarrow> live w' = live w"
  using serve_cases [OF assms(3,4), of e xbits mc srv i allow endpoint f w]
proof (elim disjE exE conjE)
  fix x f1 w1
  assume "serve_model_for_bakeoff e xbits mc srv get hb i allow endpoint f w = Some (Inl x, f1, w1)" "live w1 = live w"
  with assms(5) show ?thesis by auto
next
  fix gguf argv dir f1 w1
  assume s: "serve_model_for_bakeoff e xbits mc srv get hb i allow endpoint f w =
      launch_candidate mc srv i endpoint gguf argv dir f1 w1" and l: "live w1 = live w"
  from launch_lives [OF assms(1,2) assms(5) [unfolded s]] show ?thesis unfolding l .
qed

lemma port_lives:
  assumes "machine_laws live mc" and "\<forall>q. leaves live (srv q)" and "wait_port_free mc srv endpoint t w = Some w'"
  shows "live w' = live w"
proof -
  obtain b where p: "poll_until (mc_now mc) (\<lambda>w. case endpoint_ready srv endpoint w of (up, w1) \<Rightarrow> (\<not> up, w1))
      (mc_sleep mc (500 * 1000000)) (mc_now mc w + t) w = Some (b, w')"
    using assms(3) by (auto simp: wait_port_free_def)
  have r: "live (snd (case endpoint_ready srv endpoint w of (up, w1) \<Rightarrow> (\<not> up, w1))) = live w" for w
    using leaves_ready [of live srv endpoint] assms(2) by (simp add: leaves_def case_prod_beta)
  from poll_keeps [OF p, of live] r assms(1) show ?thesis by (simp add: machine_laws_def)
qed

lemma candidate_lives:
  assumes laws: "machine_laws live mc" and srv: "\<forall>q. leaves live (srv q)" and get: "\<forall>q. leaves live (get q)"
    and hb: "host_leaves live hb"
    and run: "measure_candidate e xbits mc srv get hb pl m f w = Some (r, f', w')"
  shows "live w' = live w"
proof (cases "bp_serve pl")
  case False
  obtain served w1 where 1: "probe_served_model srv (bp_endpoint pl) w = (served, w1)" by force
  obtain outs f2 w2 where 2: "run_cells e mc hb (bp_self pl) (bp_endpoint pl) m (bp_timeout pl) default_suite f w1 = (outs, f2, w2)"
    by (metis prod.collapse)
  have "w' = w2" using run False 1 2 by (auto simp: measure_candidate_def)
  with leavesD [OF leaves_probe 1] leavesFD [OF leaves_cells [OF hb] 2] srv show ?thesis by metis
next
  case True
  obtain s f1 w1 where 1: "serve_model_for_bakeoff e xbits mc srv get hb m (bp_download pl) (bp_endpoint pl) f w = Some (s, f1, w1)"
    using run True
    by (cases "serve_model_for_bakeoff e xbits mc srv get hb m (bp_download pl) (bp_endpoint pl) f w")
      (auto simp: measure_candidate_def)
  note l1 = serve_lives [OF laws srv get hb 1]
  show ?thesis
  proof (cases s)
    case (Inl x)
    with run True 1 l1 show ?thesis by (auto simp: measure_candidate_def)
  next
    case (Inr c)
    obtain pid d served where c: "c = ((pid, d), served)" by (metis prod.collapse)
    obtain outs f2 w2 where 2: "run_cells e mc hb (bp_self pl) (bp_endpoint pl) m (bp_timeout pl) default_suite f1 w1 = (outs, f2, w2)"
      by (metis prod.collapse)
    have l2: "live w2 = live w1" by (rule leavesFD [OF leaves_cells [OF hb] 2])
    have "wait_port_free mc srv (bp_endpoint pl) (12 * second) (mc_kill mc pid w2) = Some w'"
      using run True 1 2 Inr c by (auto simp: measure_candidate_def stop_candidate_def split: option.splits)
    from port_lives [OF laws srv this] have "live w' = live w2 - {pid}" using laws by (simp add: machine_laws_def)
    with l1 l2 Inr c show ?thesis by auto
  qed
qed

lemma all_lives:
  assumes laws: "machine_laws live mc" and srv: "\<forall>q. leaves live (srv q)" and get: "\<forall>q. leaves live (get q)"
    and hb: "host_leaves live hb"
  shows "measure_all e xbits mc srv get hb pl ms f w = Some (r, f', w') \<Longrightarrow> live w' = live w"
proof (induction ms arbitrary: f w r f' w')
  case (Cons m ms)
  obtain x f1 w1 where 1: "measure_candidate e xbits mc srv get hb pl m f w = Some (x, f1, w1)"
    using Cons.prems by (cases "measure_candidate e xbits mc srv get hb pl m f w") auto
  obtain rs ns f2 w2 where 2: "measure_all e xbits mc srv get hb pl ms f1 w1 = Some ((rs, ns), f2, w2)"
    using Cons.prems 1 by (cases "measure_all e xbits mc srv get hb pl ms f1 w1") auto
  have "w' = w2" using Cons.prems 1 2 by (cases x) auto
  with Cons.IH [OF 2] candidate_lives [OF laws srv get hb 1] show ?case by simp
qed simp

lemma bakeoff_cases:
  "(\<exists>r f1 w1. cmd_bakeoff ffmt e xbits mc srv get hb tty line args f w = Some (r, f1, w1) \<and>
      (w1 = w \<or> (\<exists>p. hb_port hb w = (p, w1)))) \<or>
   (\<exists>fl pl ids w1. cmd_bakeoff ffmt e xbits mc srv get hb tty line args f w =
      (case measure_all e xbits mc srv get hb pl ids f w1 of
         None \<Rightarrow> None
       | Some ((reports, ns), f2, w2) \<Rightarrow>
           (case report_bakeoff ffmt (if string_of fl ''host'' = [] then bakeoff_host_label e f else string_of fl ''host'')
                   (string_of fl ''out'') reports f2 of
              ((rc2, ns2), f3) \<Rightarrow> Some ((rc2, ns @ ns2), f3, w2))) \<and>
      (w1 = w \<or> (\<exists>p. hb_port hb w = (p, w1))))"
proof (cases "flag_parse bakeoff_flags args")
  case (Inl x)
  then show ?thesis by (simp add: cmd_bakeoff_def)
next
  case fl: (Inr r)
  obtain fl rest where r: "r = (fl, rest)" by (cases r)
  show ?thesis
  proof (cases "ho_self (en_host e)")
    case None
    then show ?thesis using fl r by (simp add: cmd_bakeoff_def)
  next
    case self: (Some self)
    let ?serve = "\<not> bool_of fl ''no-serve''"
    obtain ids rc msgs where i: "resolve_bakeoff_models e tty line (string_of fl ''models'') (bool_of fl ''all'') (\<not> ?serve) f =
        (ids, rc, msgs)" by (metis prod.collapse)
    show ?thesis
    proof (cases "rc \<noteq> 0 \<or> ids = []")
      case True
      then show ?thesis using fl r self i by (auto simp: cmd_bakeoff_def Let_def)
    next
      case F: False
      obtain ep w1 where ep: "bakeoff_endpoint hb ?serve (string_of fl ''endpoint'') w = (ep, w1)" by force
      have w1: "w1 = w \<or> (\<exists>p. hb_port hb w = (p, w1))"
        using ep by (auto simp: bakeoff_endpoint_def split: if_splits prod.splits option.splits)
      show ?thesis
      proof (cases ep)
        case None
        have "cmd_bakeoff ffmt e xbits mc srv get hb tty line args f w = Some ((1, [BakeNoPort]), f, w1)"
          using fl r self i F ep None by (simp add: cmd_bakeoff_def Let_def)
        with w1 show ?thesis by blast
      next
        case (Some endpoint)
        have "cmd_bakeoff ffmt e xbits mc srv get hb tty line args f w =
          (case measure_all e xbits mc srv get hb
              \<lparr>bp_self = self, bp_endpoint = endpoint, bp_timeout = int_of_flag fl ''timeout'',
               bp_serve = ?serve, bp_download = (\<not> bool_of fl ''no-download'')\<rparr> ids f w1 of
             None \<Rightarrow> None
           | Some ((reports, ns), f2, w2) \<Rightarrow>
               (case report_bakeoff ffmt (if string_of fl ''host'' = [] then bakeoff_host_label e f else string_of fl ''host'')
                       (string_of fl ''out'') reports f2 of
                  ((rc2, ns2), f3) \<Rightarrow> Some ((rc2, ns @ ns2), f3, w2)))"
          using fl r self i F ep Some by (simp add: cmd_bakeoff_def Let_def)
        with w1 show ?thesis by blast
      qed
    qed
  qed
qed

lemma measured_run:
  assumes "(case M of None \<Rightarrow> None
      | Some ((reports, ns), f2, w2) \<Rightarrow>
          (case R reports f2 of ((rc2, ns2), f3) \<Rightarrow> Some ((rc2, ns @ ns2), f3, w2))) = Some (r, f', w')"
  shows "\<exists>x f2. M = Some (x, f2, w')"
  using assms by (auto split: option.splits prod.splits)

lemma bakeoff_run:
  assumes "cmd_bakeoff ffmt e xbits mc srv get hb tty line args f w = Some (r, f', w')"
  obtains "w' = w \<or> (\<exists>p. hb_port hb w = (p, w'))"
  | pl ids w1 x f2 where "measure_all e xbits mc srv get hb pl ids f w1 = Some (x, f2, w')"
      "w1 = w \<or> (\<exists>p. hb_port hb w = (p, w1))"
  using bakeoff_cases [of ffmt e xbits mc srv get hb tty line args f w]
proof (elim disjE exE conjE, goal_cases)
  case (1 r1 f1 w1)
  with assms show ?case by simp
next
  case (2 r1 f1 w1 p)
  with assms show ?case by simp
next
  case (3 fl pl ids w1)
  from measured_run [OF trans [OF sym [OF 3(3)] assms]] obtain x f2
    where "measure_all e xbits mc srv get hb pl ids f w1 = Some (x, f2, w')" by (elim exE)
  from 3(2) [OF this] 3(4) show ?case by simp
next
  case (4 fl pl ids w1 p)
  from measured_run [OF trans [OF sym [OF 4(3)] assms]] obtain x f2
    where "measure_all e xbits mc srv get hb pl ids f w1 = Some (x, f2, w')" by (elim exE)
  from 4(2) [OF this] 4(4) show ?case by simp
qed

text \<open>A bake-off leaves no model server behind: whatever candidates are selected, served, measured or
  skipped, the processes alive when \<open>aegis bakeoff\<close> returns are those that were alive before.\<close>

lemma bakeoff_stops_servers:
  assumes "cmd_bakeoff ffmt e xbits mc srv get hb tty line args f w = Some (r, f', w')"
    and "machine_laws live mc" and "\<forall>q. leaves live (srv q)" and "\<forall>q. leaves live (get q)" and "host_leaves live hb"
  shows "live w' = live w"
proof -
  have p: "live w1 = live w" if "w1 = w \<or> (\<exists>p. hb_port hb w = (p, w1))" for w1
    using that leavesD [OF host_rules(3) [OF assms(5)]] by blast
  from assms(1) show ?thesis
  proof (cases rule: bakeoff_run)
    case 1
    then show ?thesis by (rule p)
  next
    case (2 pl ids w1 x f2)
    from all_lives [OF assms(2-5) 2(1)] p [OF 2(2)] show ?thesis by simp
  qed
qed

end
