(* ===== verification/CliBakeRun.thy ===== *)
theory CliBakeRun
  imports CliBakeProps
begin

text \<open>
  The bake-off as a whole: the command line of a cell runs the agent as asked, its transcript is read
  back, the command returns, and the witnesses of its properties.
\<close>

section \<open>A cell and its run\<close>



text \<open>C33: A transcript that \<open>aegis run\<close> wrote whole is read back by the bake-off as what happened: as many
  turns as the run has messages, all their tokens, and their output tokens.\<close>

theorem transcript_read_back:
  assumes "run_transcript refuses out timeout res f = ((rc, ns, printed), f')" and "rc \<noteq> 1" and "out \<noteq> []"
    and "out \<notin> fs_deny_read f'" and "list_all plain_message (sr_messages res)" and "int (length (sr_messages res)) < 2 ^ 63"
    and "i = (\<Sum>m \<leftarrow> sr_messages res. to_int (tk_input (tm_tokens m)))"
    and "o1 = (\<Sum>m \<leftarrow> sr_messages res. to_int (tk_output (tm_tokens m)))"
    and "- (2 ^ 63) \<le> i" "i < 2 ^ 63" "- (2 ^ 63) \<le> o1" "o1 < 2 ^ 63"
  shows "transcript_stats out f' = (int (length (sr_messages res)), i + o1, o1)"
proof -
  from run_transcript_codes(2) [OF assms(1,2)] obtain js where js: "write_transcript refuses (sr_messages res) = (True, js)"
    "fs_write out (transcript_text js) f = (True, f')" using assms(3) by auto
  have "fs_read out f' = Some (transcript_text (full_transcript (sr_messages res)))"
    using fs_write_ok [OF js(2)] assms(4) written_full [OF js(1)] by (simp add: fs_read_def)
  with stats_full_transcript [OF assms(5-12)] show ?thesis by (simp add: transcript_stats_def)
qed

definition hi_result :: solve_result where
  "hi_result =
     \<lparr>sr_session = ''s'',
      sr_messages =
        [\<lparr>tm_role = ''assistant'', tm_tokens = zero_tokens\<lparr>tk_input := 7, tk_output := 2\<rparr>, tm_cost = 0, tm_finish = [],
          tm_text = ''hi''\<rparr>],
      sr_timed_out = False\<rparr>"

theorem transcript_read_back_witness:
  "transcript_stats ''t'' (snd (run_transcript (\<lambda>k. False) ''t'' 0 hi_result egress_fs)) = (1, 9, 2)"
proof -
  obtain rc ns printed f' where r: "run_transcript (\<lambda>k. False) ''t'' 0 hi_result egress_fs = ((rc, ns, printed), f')"
    by (metis prod.collapse)
  have w: "write_transcript (\<lambda>k. False) (sr_messages hi_result) = (True, full_transcript (sr_messages hi_result))"
    by (simp add: write_transcript_def full_transcript_def hi_result_def)
  have d: "fs_can_write ''t'' egress_fs" by code_simp
  have rc: "rc \<noteq> 1" "fs_deny_read f' = {}"
    using r [unfolded run_transcript_def w Let_def prod.case] d
    by (auto simp: fs_write_def hi_result_def egress_fs_def)
  have u: "list_all utf8_text [''hi'', ''assistant'']" by code_simp
  have "transcript_stats ''t'' f' = (int (length (sr_messages hi_result)), 7 + 2, 2)"
    by (rule transcript_read_back [OF r rc(1)])
      (use rc(2) u in \<open>simp_all add: hi_result_def plain_message_def zero_tokens_def to_int_def\<close>)
  moreover have "length (sr_messages hi_result) = 1" by (simp add: hi_result_def)
  ultimately show ?thesis by (simp add: r)
qed

section \<open>The command returns\<close>

definition bakeoff_clock :: "'w machine \<Rightarrow> 'w server \<Rightarrow> bool" where
  "bakeoff_clock mc srv \<longleftrightarrow> model_clock mc srv \<and>
     (\<forall>ep. clock_moves (mc_now mc) (endpoint_ready srv ep) (mc_sleep mc (500 * 1000000)))"

lemma port_total:
  assumes "bakeoff_clock mc srv"
  shows "\<exists>w'. wait_port_free mc srv endpoint t w = Some w'"
proof -
  have "clock_moves (mc_now mc) (\<lambda>w. case endpoint_ready srv endpoint w of (up, w1) \<Rightarrow> (\<not> up, w1))
      (mc_sleep mc (500 * 1000000))"
    using assms by (simp add: bakeoff_clock_def clock_moves_def case_prod_beta)
  from poll_total [OF this] obtain r where "poll_until (mc_now mc)
      (\<lambda>w. case endpoint_ready srv endpoint w of (up, w1) \<Rightarrow> (\<not> up, w1)) (mc_sleep mc (500 * 1000000)) (mc_now mc w + t) w = Some r"
    by blast
  then show ?thesis by (simp add: wait_port_free_def)
qed

lemma launch_total:
  assumes "bakeoff_clock mc srv"
  shows "launch_candidate mc srv i endpoint gguf argv dir f w \<noteq> None"
proof -
  obtain p w1 where 1: "mc_start mc argv w = (p, w1)" by force
  show ?thesis
  proof (cases p)
    case (Some pid)
    obtain b w2 where "await_model mc srv endpoint w1 = Some (b, w2)"
      using await_total [of mc srv endpoint w1] assms by (auto simp: bakeoff_clock_def)
    with 1 Some show ?thesis by (cases b) (auto simp: launch_candidate_def split: prod.splits)
  qed (simp add: launch_candidate_def 1)
qed

lemma serve_total:
  assumes "bakeoff_clock mc srv"
  shows "serve_model_for_bakeoff e xbits mc srv get hb i allow endpoint f w \<noteq> None"
  using launch_total [OF assms]
  by (auto simp: serve_model_for_bakeoff_def split: prod.splits option.splits sum.splits)

lemma candidate_total:
  assumes "bakeoff_clock mc srv"
  shows "measure_candidate e xbits mc srv get hb pl m f w \<noteq> None"
proof (cases "bp_serve pl")
  case True
  obtain x where "serve_model_for_bakeoff e xbits mc srv get hb m (bp_download pl) (bp_endpoint pl) f w = Some x"
    using serve_total [OF assms] by blast
  moreover have "wait_port_free mc srv (bp_endpoint pl) (12 * second) u \<noteq> None" for u
    using port_total [OF assms] by (simp add: not_None_eq)
  ultimately show ?thesis using True
    by (auto simp: measure_candidate_def simp del: not_None_eq split: prod.splits sum.splits option.splits)
qed (simp add: measure_candidate_def split: prod.split)

lemma all_total:
  assumes "bakeoff_clock mc srv"
  shows "measure_all e xbits mc srv get hb pl ms f w \<noteq> None"
proof (induction ms arbitrary: f w)
  case (Cons m ms)
  obtain x f1 w1 where 1: "measure_candidate e xbits mc srv get hb pl m f w = Some (x, f1, w1)"
    using candidate_total [OF assms, of e xbits get hb pl m f w] by (metis not_None_eq prod_cases3)
  obtain rs ns f2 w2 where 2: "measure_all e xbits mc srv get hb pl ms f1 w1 = Some ((rs, ns), f2, w2)"
    using Cons.IH [of f1 w1] by (metis not_None_eq prod.collapse)
  show ?case by (cases x) (simp_all add: 1 2)
qed simp

lemma measured_total:
  assumes "M \<noteq> None"
  shows "(case M of None \<Rightarrow> None
      | Some ((reports, ns), f2, w2) \<Rightarrow>
          (case R reports f2 of ((rc2, ns2), f3) \<Rightarrow> Some ((rc2, ns @ ns2), f3, w2))) \<noteq> None"
  using assms by (auto split: option.splits prod.splits)

lemma bakeoff_total:
  assumes "bakeoff_clock mc srv"
  shows "cmd_bakeoff ffmt e xbits mc srv get hb tty line args f w \<noteq> None"
  using bakeoff_cases [of ffmt e xbits mc srv get hb tty line args f w]
proof (elim disjE exE conjE, goal_cases)
  case (3 fl pl ids w1)
  from measured_total [OF all_total [OF assms]] show ?case unfolding 3(1) .
next
  case (4 fl pl ids w1 p)
  from measured_total [OF all_total [OF assms]] show ?case unfolding 4(1) .
qed simp_all

text \<open>A host for the witnesses, on which nothing outside succeeds.\<close>

definition idle_bench :: "tock_world bench_host" where
  "idle_bench =
     \<lparr>hb_mkdtemp = (\<lambda>p f w. (Inr (''/tmp/'' @ p), f, w)), hb_exec = (\<lambda>d env argv f w. (([], Some ''exit status 1''), f, w)),
      hb_errtext = (\<lambda>p. ''denied''), hb_port = (\<lambda>w. (Some 40000, w))\<rparr>"

lemma idle_leaves: "host_leaves I idle_bench"
  by (simp add: host_leaves_def leavesF_def leaves_def idle_bench_def)

lemma silent_ready: "snd (endpoint_ready silent_server ep w) = w"
  by (auto simp: endpoint_ready_def serving_preflight_def preflight_smoke_def chat_completion_def post_def
      silent_server_def Let_def split: sum.split)

lemma tock_bakeoff_clock: "bakeoff_clock tock_machine silent_server"
  unfolding bakeoff_clock_def using tock_clock
  by (auto simp: clock_moves_def silent_ready tock_machine_def split: prod.split)

definition pair_args :: "string list" where
  "pair_args = [''--models'', ''gemma4-qat,qwen3-coder'', ''--timeout'', ''60s'']"



end
