(* ===== verification/CliLoop.thy ===== *)
theory CliLoop
  imports GoFlag CliServe HarnessServing McpClient LoopProps
begin

text \<open>
  \<open>aegis loop\<close> (\<open>cmdLoop\<close>, \<open>liveRun\<close> of \<open>cmd/aegis/main.go\<close>): flags over the configuration, the
  closed-environment gate, the selected harness, the requirements client (the MCP server, or the CSV
  database without it), the audit log, the model check and the control loop.  The host outside is a
  record of functions; the new audit log holds the entries appended by this run.
\<close>

section \<open>The requirements client\<close>

datatype 'm backlog = CsvBacklog cli_client | McpBacklog "'m mcp_client"

datatype backlog_err = FromStore store_err | FromMcp mcp_err | FromVerify verify_err

definition backlog_store :: "'m backlog \<Rightarrow> store" where
  "backlog_store b = (case b of CsvBacklog c \<Rightarrow> cli_store c | McpBacklog c \<Rightarrow> mcp_store c)"

definition backlog_next ::
  "'m mcp_server \<Rightarrow> 'm backlog \<Rightarrow> (backlog_err + requirement option) \<times> 'm backlog" where
  "backlog_next srv b =
     (case b of
        CsvBacklog c \<Rightarrow> (case cli_next c of (r, c1) \<Rightarrow> (map_sum FromStore id r, CsvBacklog c1))
      | McpBacklog c \<Rightarrow> (case mcp_next srv c of (r, c1) \<Rightarrow> (map_sum FromMcp id r, McpBacklog c1)))"

definition backlog_claim :: "'m mcp_server \<Rightarrow> string \<Rightarrow> 'm backlog \<Rightarrow> backlog_err option \<times> 'm backlog" where
  "backlog_claim srv i b =
     (case b of
        CsvBacklog c \<Rightarrow> (case cli_claim i c of (r, c1) \<Rightarrow> (map_option FromStore r, CsvBacklog c1))
      | McpBacklog c \<Rightarrow> (case mcp_claim srv i c of (r, c1) \<Rightarrow> (map_option FromMcp r, McpBacklog c1)))"

definition backlog_release :: "'m mcp_server \<Rightarrow> string \<Rightarrow> 'm backlog \<Rightarrow> backlog_err option \<times> 'm backlog" where
  "backlog_release srv i b =
     (case b of
        CsvBacklog c \<Rightarrow> (case cli_release i c of (r, c1) \<Rightarrow> (map_option FromStore r, CsvBacklog c1))
      | McpBacklog c \<Rightarrow> (case mcp_release srv i c of (r, c1) \<Rightarrow> (map_option FromMcp r, McpBacklog c1)))"

definition backlog_write :: "string \<Rightarrow> status \<Rightarrow> 'm backlog \<Rightarrow> backlog_err option \<times> 'm backlog" where
  "backlog_write i st b =
     (case b of
        CsvBacklog c \<Rightarrow> (case cli_write_status i st c of (r, c1) \<Rightarrow> (map_option FromStore r, CsvBacklog c1))
      | McpBacklog c \<Rightarrow> (case mcp_write_status i st c of (r, c1) \<Rightarrow> (map_option FromStore r, McpBacklog c1)))"

section \<open>The host and its collaborators\<close>

text \<open>
  \<open>le_mcp\<close> is the MCP server with the state of its process, \<open>None\<close> when it cannot be started;
  \<open>le_test\<close> runs the acceptance test of the built-in harness, \<open>le_verify\<close> the tests of a requirement
  in a directory; \<open>le_clock\<close> and \<open>le_audit_fails\<close> are the clock and the refused writes of the audit log.
\<close>

record ('m, 'x) loop_env =
  le_server :: "'x server"
  le_mcp :: "('m mcp_server \<times> 'm) option"
  le_cwd :: string
  le_test :: "string \<Rightarrow> string list \<Rightarrow> fs \<Rightarrow> exec_result \<times> fs"
  le_verify :: "string \<Rightarrow> string list \<Rightarrow> 'x host \<Rightarrow> cmd_result \<times> 'x host"
  le_now :: "'x host \<Rightarrow> int \<times> 'x host"
  le_clock :: "nat \<Rightarrow> int"
  le_audit_fails :: "nat \<Rightarrow> bool"

definition default_rtmx_db :: string where "default_rtmx_db = ''.rtmx/database.csv''"

definition build_rtmx_client :: "('m, 'x) loop_env \<Rightarrow> store \<Rightarrow> 'm backlog" where
  "build_rtmx_client le s =
     (case le_mcp le of
        None \<Rightarrow> CsvBacklog (new_cli_client s)
      | Some (srv, m) \<Rightarrow>
          (case dial_mcp srv s m of Inl e \<Rightarrow> CsvBacklog (new_cli_client s) | Inr c \<Rightarrow> McpBacklog c))"

definition mcp_of :: "('m, 'x) loop_env \<Rightarrow> 'm mcp_server" where
  "mcp_of le = (case le_mcp le of None \<Rightarrow> (\<lambda>i p j w. (None, w)) | Some (srv, m) \<Rightarrow> srv)"

text \<open>The verification both clients share.\<close>

definition loop_verify ::
  "('m, 'x) loop_env \<Rightarrow> string \<Rightarrow> 'm backlog \<times> 'x host \<Rightarrow> (bool \<times> string \<times> backlog_err option) \<times> 'm backlog \<times> 'x host" where
  "loop_verify le i ch =
     (case ch of (b, h) \<Rightarrow>
        let root_dir = repo_root_of (le_cwd le) default_rtmx_db;
            h1 = (case store_by_id (backlog_store b) i of
                    Inl e \<Rightarrow> h
                  | Inr r \<Rightarrow> if rq_tests r = [] then h else snd (le_verify le root_dir (verify_args r) h))
        in case default_verify (\<lambda>d args. fst (le_verify le d args h)) root_dir (backlog_store b) i of
             (ok, out, e) \<Rightarrow> ((ok, out, map_option FromVerify e), b, h1))"

datatype chosen_harness = ChoseBuiltin serving_adapter | ChoseOpenCode | ChoseGoose

datatype harness_err = HarnessEndpoint serv_err | HarnessUnknown string

definition select_harness :: "('m, 'x) loop_env \<Rightarrow> config \<Rightarrow> harness_err + chosen_harness" where
  "select_harness le c =
     (if cf_harness c = harness_builtin then
        (case new_serving_adapter (cf_endpoint c) (default_test_runner (le_test le)) of
           Inl x \<Rightarrow> Inl (HarnessEndpoint x)
         | Inr a \<Rightarrow> Inr (ChoseBuiltin a))
      else if cf_harness c = harness_opencode then Inr ChoseOpenCode
      else if cf_harness c = harness_goose then Inr ChoseGoose
      else Inl (HarnessUnknown (cf_harness c)))"

definition harness_drive ::
  "'x server \<Rightarrow> chosen_harness \<Rightarrow> requirement \<Rightarrow> string \<Rightarrow> 'x host \<Rightarrow> (diff \<times> bool) \<times> 'x host" where
  "harness_drive srv ad r fb h =
     (case ad of
        ChoseBuiltin a \<Rightarrow>
          (case serving_call srv a r fb \<lparr>dv_world = hs_ext h, dv_fs = hs_fs h\<rparr> of
             (out, s) \<Rightarrow> (out, h\<lparr>hs_ext := dv_world s, hs_fs := dv_fs s\<rparr>))
      | ChoseOpenCode \<Rightarrow> opencode_drive r fb h
      | ChoseGoose \<Rightarrow> goose_drive r fb h)"

text \<open>The collaborators \<open>liveRun\<close> hands to the loop; what it does not set is off.\<close>

definition loop_deps :: "('m, 'x) loop_env \<Rightarrow> chosen_harness \<Rightarrow> ('m backlog, backlog_err, 'x) deps" where
  "loop_deps le ad =
     \<lparr>dp_next = backlog_next (mcp_of le), dp_claim = backlog_claim (mcp_of le),
      dp_release = backlog_release (mcp_of le), dp_write = backlog_write,
      dp_verify = loop_verify le,
      dp_drive = (\<lambda>r fb (b, h). case harness_drive (le_server le) ad r fb h of (out, h') \<Rightarrow> (out, b, h')),
      dp_now = le_now le, dp_cancelled = (\<lambda>h. False), dp_ledger_dir = [], dp_require_self_test = False,
      dp_memory_dir = [], dp_fallback = \<lparr>fp_after_failures = 0, fp_temperature = 0\<rparr>\<rparr>"

section \<open>The command\<close>

definition loop_flags :: flags where
  "loop_flags = new_flags
     [(''once'', FlagBool False), (''max'', FlagInt 0), (''break-after'', FlagInt 0), (''budget'', FlagDuration 0),
      (''config'', FlagString [])]"

text \<open>Positive numbers on the command line replace those of the configuration.\<close>

definition loop_overrides :: "flags \<Rightarrow> config \<Rightarrow> config" where
  "loop_overrides fl c0 =
     (let mx = int_of_flag fl ''max''; br = int_of_flag fl ''break-after''; bd = int_of_flag fl ''budget'';
          c1 = (if mx > 0 then c0\<lparr>cf_budget := (cf_budget c0)\<lparr>bg_max_requirements := mx\<rparr>\<rparr> else c0);
          c2 = (if br > 0 then c1\<lparr>cf_break_after := br\<rparr> else c1)
      in if bd > 0 then c2\<lparr>cf_budget := (cf_budget c2)\<lparr>bg_wall_clock := bd\<rparr>\<rparr> else c2)"

datatype loop_note =
    LoopFlags flag_err
  | LoopConfig config_err
  | LoopEgress
  | LoopHarness harness_err
  | LoopAudit string
  | LoopStarts bool string string string
  | LoopPreflight serv_err
  | LoopNew new_err
  | LoopSummary result
  | LoopEnded "backlog_err loop_err"

definition audit_open :: "string \<Rightarrow> fs \<Rightarrow> bool \<times> fs" where
  "audit_open p f = (if p = [] then (False, f) else fs_append True p [] f)"

definition live_run ::
  "('m, 'x) loop_env \<Rightarrow> config \<Rightarrow> chosen_harness \<Rightarrow> bool \<Rightarrow> ('m backlog, 'x) world
     \<Rightarrow> ((bool \<times> loop_note list) \<times> ('m backlog, 'x) world) option" where
  "live_run le c ad once w =
     (case serving_preflight (le_server le) (cf_endpoint c) (cf_model_id c) (cf_model_digest c) (hs_ext (wd_host w)) of
        (Some x, u) \<Rightarrow> Some ((False, [LoopPreflight x]), w\<lparr>wd_host := (wd_host w)\<lparr>hs_ext := u\<rparr>\<rparr>)
      | (None, u) \<Rightarrow>
          let w1 = w\<lparr>wd_host := (wd_host w)\<lparr>hs_ext := u\<rparr>, wd_metrics := Some new_collector\<rparr>
          in case loop_new True True (Some (le_now le)) (le_now le) (loop_deps le ad) of
               Inl x \<Rightarrow> Some ((False, [LoopNew x]), w1)
             | Inr d \<Rightarrow>
                 (case run d c once w1 of
                    None \<Rightarrow> None
                  | Some ((res, None), w2) \<Rightarrow> Some ((True, [LoopSummary res]), w2)
                  | Some ((res, Some x), w2) \<Rightarrow> Some ((False, [LoopSummary res, LoopEnded x]), w2)))"

text \<open>The world before the command: no client is connected and no log is open.\<close>

definition idle_world :: "store \<Rightarrow> 'x host \<Rightarrow> ('m backlog, 'x) world" where
  "idle_world s h = \<lparr>wd_client = CsvBacklog (new_cli_client s), wd_host = h, wd_audit = None, wd_metrics = None\<rparr>"

definition cmd_loop ::
  "('m, 'x) loop_env \<Rightarrow> string list \<Rightarrow> store \<Rightarrow> 'x host \<Rightarrow> ((int \<times> loop_note list) \<times> ('m backlog, 'x) world) option" where
  "cmd_loop le args s h =
     (let stop = (\<lambda>rc n. Some ((rc, [n]), idle_world s h))
      in case flag_parse loop_flags args of
           Inl x \<Rightarrow> stop 2 (LoopFlags x)
         | Inr (fl, rest) \<Rightarrow>
             (case load_config (string_of fl ''config'') (hs_fs h) of
                Inl x \<Rightarrow> stop 1 (LoopConfig x)
              | Inr c0 \<Rightarrow>
                  (let c = loop_overrides fl c0; once = bool_of fl ''once''
                   in case validate c of
                        Some x \<Rightarrow> stop 1 (LoopConfig x)
                      | None \<Rightarrow>
                          if cf_allow_egress c then stop 1 LoopEgress
                          else case select_harness le c of
                            Inl x \<Rightarrow> stop 1 (LoopHarness x)
                          | Inr ad \<Rightarrow>
                              (let f1 = (if cf_audit_path c \<noteq> [] then snd (fs_mkdir_all (path_dir (cf_audit_path c)) (hs_fs h))
                                         else hs_fs h);
                                   (opened, f2) = audit_open (cf_audit_path c) f1;
                                   w = \<lparr>wd_client = build_rtmx_client le s, wd_host = h\<lparr>hs_fs := f2\<rparr>, wd_audit = None,
                                        wd_metrics = None\<rparr>
                               in if \<not> opened then Some ((1, [LoopAudit (cf_audit_path c)]), w)
                                  else case live_run le c ad once
                                      (w\<lparr>wd_audit := Some (audit_new ''aegis-loop'' (le_clock le) (le_audit_fails le))\<rparr>) of
                                    None \<Rightarrow> None
                                  | Some ((ok, notes), w1) \<Rightarrow>
                                      Some ((if ok then 0 else 1,
                                             LoopStarts once (cf_harness c) (cf_target c) (cf_endpoint c) # notes), w1)))))"

end
