(* ===== verification/CliLoopProps.thy ===== *)
theory CliLoopProps
  imports CliLoop
begin

text \<open>
  \<open>aegis loop\<close> end to end: what it refuses, that it returns and keeps the limits of its command line,
  and what becomes of a run whose harness is one of the stubs.
\<close>

section \<open>The CSV database behind the backlog\<close>

definition csv_ok :: "'m backlog \<Rightarrow> bool" where
  "csv_ok b = (case b of CsvBacklog c \<Rightarrow> store_ok (cli_store c) | McpBacklog c \<Rightarrow> False)"

lemma csv_okE:
  assumes "csv_ok b"
  obtains c where "b = CsvBacklog c" "store_ok (cli_store c)"
  using assms by (auto simp: csv_ok_def split: backlog.splits)

lemma csv_simps:
  "csv_ok (CsvBacklog c) \<longleftrightarrow> store_ok (cli_store c)" "backlog_store (CsvBacklog c) = cli_store c"
  by (simp_all add: csv_ok_def backlog_store_def)

lemma csv_next:
  assumes "backlog_next srv (CsvBacklog c) = (n, b')"
  obtains c1 m where "cli_next c = (m, c1)" "b' = CsvBacklog c1" "n = map_sum FromStore id m"
  using assms by (cases "cli_next c") (auto simp: backlog_next_def)

lemma csv_claim:
  assumes "backlog_claim srv i (CsvBacklog c) = (n, b')"
  obtains c1 m where "cli_claim i c = (m, c1)" "b' = CsvBacklog c1" "n = map_option FromStore m"
  using assms by (cases "cli_claim i c") (auto simp: backlog_claim_def)

lemma csv_release:
  assumes "backlog_release srv i (CsvBacklog c) = (n, b')"
  obtains c1 m where "cli_release i c = (m, c1)" "b' = CsvBacklog c1" "n = map_option FromStore m"
  using assms by (cases "cli_release i c") (auto simp: backlog_release_def)

lemma csv_write:
  assumes "backlog_write i st (CsvBacklog c) = (n, b')"
  obtains c1 m where "cli_write_status i st c = (m, c1)" "b' = CsvBacklog c1" "n = map_option FromStore m"
  using assms by (cases "cli_write_status i st c") (auto simp: backlog_write_def)

interpretation csv_backlog: req_client "backlog_next srv" "backlog_claim srv" "backlog_release srv" backlog_write
  csv_ok "\<lambda>b. store_backlog (backlog_store b)" "\<lambda>b. is_claimed (backlog_store b)" for srv :: "'m mcp_server"
proof (unfold_locales, goal_cases)
  case (1 b)
  from 1 show ?case by (rule csv_okE) (simp add: csv_simps cli.finite_backlog)
next
  case (2 b n b')
  then obtain c where b: "b = CsvBacklog c" "store_ok (cli_store c)" by (elim csv_okE)
  from 2(2) [unfolded b] show ?case
    by (rule csv_next) (use cli.next_inv [OF b(2)] in \<open>simp add: b csv_simps\<close>)
next
  case (3 b r b')
  then obtain c where b: "b = CsvBacklog c" "store_ok (cli_store c)" by (elim csv_okE)
  from 3(2) [unfolded b] obtain c1 m where n: "cli_next c = (m, c1)" "Inr (Some r) = map_sum FromStore id m" by (rule csv_next)
  then have "cli_next c = (Inr (Some r), c1)" by (cases m) simp_all
  from cli.next_in_backlog [OF b(2) this] show ?case by (simp add: b csv_simps)
next
  case (4 b r b')
  then obtain c where b: "b = CsvBacklog c" "store_ok (cli_store c)" by (elim csv_okE)
  from 4(2) [unfolded b] obtain c1 m where n: "cli_next c = (m, c1)" "Inr (Some r) = map_sum FromStore id m" by (rule csv_next)
  then have "cli_next c = (Inr (Some r), c1)" by (cases m) simp_all
  from cli.next_not_held [OF b(2) this] show ?case by (simp add: b csv_simps)
next
  case (5 b i x b')
  then obtain c where b: "b = CsvBacklog c" "store_ok (cli_store c)" by (elim csv_okE)
  from 5(2) [unfolded b] show ?case
    by (rule csv_claim) (use cli.claim_inv [OF b(2)] in \<open>simp add: b csv_simps\<close>)
next
  case (6 b i)
  then obtain c where b: "b = CsvBacklog c" "store_ok (cli_store c)" by (elim csv_okE)
  have "fst (cli_claim i c) \<noteq> None" by (rule cli.claim_exclusive [OF b(2)]) (use 6(2) in \<open>simp add: b csv_simps\<close>)
  then show ?case by (simp add: b backlog_claim_def case_prod_beta)
next
  case (7 b i b')
  then obtain c where b: "b = CsvBacklog c" "store_ok (cli_store c)" by (elim csv_okE)
  from 7(2) [unfolded b] show ?case
    by (rule csv_claim) (use cli.claim_held [OF b(2)] in \<open>simp add: b csv_simps\<close>)
next
  case (8 b i x b')
  then obtain c where b: "b = CsvBacklog c" "store_ok (cli_store c)" by (elim csv_okE)
  from 8(2) [unfolded b] show ?case
    by (rule csv_release) (use cli.release_inv [OF b(2)] in \<open>simp add: b csv_simps\<close>)
next
  case (9 b i b')
  then obtain c where b: "b = CsvBacklog c" "store_ok (cli_store c)" by (elim csv_okE)
  from 9(2) [unfolded b] show ?case
    by (rule csv_release) (use cli.release_free [OF b(2)] in \<open>simp add: b csv_simps\<close>)
next
  case (10 b i st x b')
  then obtain c where b: "b = CsvBacklog c" "store_ok (cli_store c)" by (elim csv_okE)
  from 10(2) [unfolded b] show ?case
    by (rule csv_write) (use cli.write_inv [OF b(2)] in \<open>simp add: b csv_simps\<close>)
next
  case (11 b i st b')
  then obtain c where b: "b = CsvBacklog c" "store_ok (cli_store c)" by (elim csv_okE)
  from 11(2) [unfolded b] obtain c1 m where n: "cli_write_status i st c = (m, c1)" "b' = CsvBacklog c1"
    "None = map_option FromStore m" by (rule csv_write)
  then have "cli_write_status i st c = (None, c1)" by simp
  from cli.write_terminal [OF b(2) this 11(3)] show ?case by (simp add: b n csv_simps)
next
  case (12 b i st e b')
  then obtain c where b: "b = CsvBacklog c" "store_ok (cli_store c)" by (elim csv_okE)
  from 12(2) [unfolded b] obtain c1 m where n: "cli_write_status i st c = (m, c1)" "b' = CsvBacklog c1"
    "Some e = map_option FromStore m" by (rule csv_write)
  then obtain x where "cli_write_status i st c = (Some x, c1)" by (cases m) simp_all
  from cli.write_error [OF b(2) this] show ?case by (simp add: b n csv_simps)
qed

interpretation csv_loop: drain "loop_deps le ad" csv_ok "\<lambda>b. store_backlog (backlog_store b)"
  "\<lambda>b. is_claimed (backlog_store b)" for le :: "('m, 'x) loop_env" and ad
proof (intro drain.intro drain_axioms.intro)
  show "req_client (dp_next (loop_deps le ad)) (dp_claim (loop_deps le ad)) (dp_release (loop_deps le ad))
      (dp_write (loop_deps le ad)) csv_ok (\<lambda>b. store_backlog (backlog_store b)) (\<lambda>b. is_claimed (backlog_store b))"
    using csv_backlog.req_client_axioms by (simp add: loop_deps_def)
qed (auto simp: loop_deps_def loop_verify_def Let_def split: prod.splits)

section \<open>A run of the loop\<close>

lemma loop_run_drained:
  assumes "csv_ok (wd_client w)" and "audited w"
  shows "\<exists>res err w' hist. run (loop_deps le ad) cfg once w = Some ((res, err), w') \<and>
     accounts cfg hist zero_result res \<and> stopped_right (loop_deps le ad) cfg once 0 hist res err w'"
proof -
  obtain start w1 where s: "read_now (loop_deps le ad) w = (start, w1)" by (metis prod.exhaust)
  note f = read_now_frame [OF s]
  have pre: "csv_ok (wd_client w1)" "audited w1" "\<not> re_breaker zero_result" "\<not> re_budget zero_result"
    using f assms by (simp_all add: trail_cong [of w1 w] zero_result_def)
  from csv_loop.run_loop_drained [OF pre, of le ad cfg once start 0] show ?thesis
    unfolding run_def s prod.case drained_def by blast
qed

lemma loop_limits:
  assumes "accounts cfg hist zero_result res" and "stopped_right d cfg once 0 hist res err w'"
  shows "re_attempted res = re_closed res + re_parked res"
    and "once \<Longrightarrow> re_attempted res \<le> 1"
    and "bg_max_requirements (cf_budget cfg) > 0 \<Longrightarrow> int (re_attempted res) \<le> bg_max_requirements (cf_budget cfg)"
proof -
  have n: "re_attempted res = length hist" using accounts_sum [OF assms(1)] by simp
  show "re_attempted res = re_closed res + re_parked res" using accounts_sum [OF assms(1)] by simp
  show "once \<Longrightarrow> re_attempted res \<le> 1" using stopped_rightD(6) [OF assms(2)] n by simp
  show "bg_max_requirements (cf_budget cfg) > 0 \<Longrightarrow> int (re_attempted res) \<le> bg_max_requirements (cf_budget cfg)"
    using stopped_rightD(4) [OF assms(2)] n by (cases "hist = []") auto
qed

lemma loop_new_deps: "loop_new True True (Some (le_now le)) (le_now le) (loop_deps le ad) = Inr (loop_deps le ad)"
  by (simp add: loop_new_def loop_deps_def)

text \<open>What \<open>live_run\<close> returns on the CSV database.\<close>

lemma live_run_csv:
  assumes "csv_ok (wd_client w)" and "audited w"
  obtains x u where "live_run le c ad once w = Some ((False, [LoopPreflight x]), w\<lparr>wd_host := (wd_host w)\<lparr>hs_ext := u\<rparr>\<rparr>)"
      "fst (serving_preflight (le_server le) (cf_endpoint c) (cf_model_id c) (cf_model_digest c) (hs_ext (wd_host w))) \<noteq> None"
  | res err hist w' where "live_run le c ad once w = Some ((err = None, LoopSummary res # (case err of None \<Rightarrow> [] | Some x \<Rightarrow> [LoopEnded x])), w')"
      "accounts c hist zero_result res" "stopped_right (loop_deps le ad) c once 0 hist res err w'"
      "fst (serving_preflight (le_server le) (cf_endpoint c) (cf_model_id c) (cf_model_digest c) (hs_ext (wd_host w))) = None"
proof -
  obtain p u where p: "serving_preflight (le_server le) (cf_endpoint c) (cf_model_id c) (cf_model_digest c) (hs_ext (wd_host w)) = (p, u)"
    by force
  show thesis
  proof (cases p)
    case (Some x)
    with p show thesis by (intro that(1) [of x u]) (simp_all add: live_run_def)
  next
    case None
    let ?w1 = "w\<lparr>wd_host := (wd_host w)\<lparr>hs_ext := u\<rparr>, wd_metrics := Some new_collector\<rparr>"
    have "csv_ok (wd_client ?w1)" "audited ?w1" using assms by (simp_all add: audited_def)
    from loop_run_drained [OF this, of le ad c once] obtain res err w' hist where
      r: "run (loop_deps le ad) c once ?w1 = Some ((res, err), w')" "accounts c hist zero_result res"
      "stopped_right (loop_deps le ad) c once 0 hist res err w'" by blast
    have "live_run le c ad once w = Some ((err = None, LoopSummary res # (case err of None \<Rightarrow> [] | Some x \<Rightarrow> [LoopEnded x])), w')"
      by (cases err) (simp_all add: live_run_def p None loop_new_deps r(1))
    from that(2) [OF this r(2,3)] p None show thesis by simp
  qed
qed

section \<open>The command\<close>

text \<open>The world the loop starts in, once the log is open.\<close>

definition opened_world :: "('m, 'x) loop_env \<Rightarrow> store \<Rightarrow> 'x host \<Rightarrow> fs \<Rightarrow> ('m backlog, 'x) world" where
  "opened_world le s h f =
     \<lparr>wd_client = build_rtmx_client le s, wd_host = h\<lparr>hs_fs := f\<rparr>,
      wd_audit = Some (audit_new ''aegis-loop'' (le_clock le) (le_audit_fails le)), wd_metrics = None\<rparr>"

lemma opened_trail: "trail (opened_world le s h f\<lparr>wd_host := h'\<rparr>) = []" "trail (opened_world le s h f) = []"
  by (simp_all add: opened_world_def trail_def audit_new_def)

lemma idle_trail: "trail (idle_world s h) = []"
  by (simp add: idle_world_def trail_def)

lemma cmd_loop_stops:
  "flag_parse loop_flags args = Inl x \<Longrightarrow> cmd_loop le args s h = Some ((2, [LoopFlags x]), idle_world s h)"
  "flag_parse loop_flags args = Inr (fl, rest) \<Longrightarrow> load_config (string_of fl ''config'') (hs_fs h) = Inl y \<Longrightarrow>
     cmd_loop le args s h = Some ((1, [LoopConfig y]), idle_world s h)"
  "flag_parse loop_flags args = Inr (fl, rest) \<Longrightarrow> load_config (string_of fl ''config'') (hs_fs h) = Inr c0 \<Longrightarrow>
     validate (loop_overrides fl c0) = Some z \<Longrightarrow>
     cmd_loop le args s h = Some ((1, [LoopConfig z]), idle_world s h)"
  "flag_parse loop_flags args = Inr (fl, rest) \<Longrightarrow> load_config (string_of fl ''config'') (hs_fs h) = Inr c0 \<Longrightarrow>
     validate (loop_overrides fl c0) = None \<Longrightarrow> cf_allow_egress (loop_overrides fl c0) \<Longrightarrow>
     cmd_loop le args s h = Some ((1, [LoopEgress]), idle_world s h)"
  by (simp_all add: cmd_loop_def)

lemma cmd_loop_goes:
  assumes "flag_parse loop_flags args = Inr (fl, rest)" and "load_config (string_of fl ''config'') (hs_fs h) = Inr c0"
    and "validate (loop_overrides fl c0) = None" and "\<not> cf_allow_egress (loop_overrides fl c0)"
  obtains n w where "cmd_loop le args s h = Some ((1, [n]), w)" "trail w = []" "\<forall>res. n \<noteq> LoopSummary res"
  | ad f where "select_harness le (loop_overrides fl c0) = Inr ad"
      "cmd_loop le args s h =
        (case live_run le (loop_overrides fl c0) ad (bool_of fl ''once'') (opened_world le s h f) of
           None \<Rightarrow> None
         | Some ((ok, notes), w1) \<Rightarrow>
             Some ((if ok then 0 else 1, LoopStarts (bool_of fl ''once'') (cf_harness (loop_overrides fl c0))
               (cf_target (loop_overrides fl c0)) (cf_endpoint (loop_overrides fl c0)) # notes), w1))"
proof -
  let ?c = "loop_overrides fl c0"
  show thesis
  proof (cases "select_harness le ?c")
    case (Inl x)
    with assms have "cmd_loop le args s h = Some ((1, [LoopHarness x]), idle_world s h)" by (simp add: cmd_loop_def)
    from that(1) [OF this idle_trail] show thesis by simp
  next
    case (Inr ad)
    let ?f1 = "if cf_audit_path ?c \<noteq> [] then snd (fs_mkdir_all (path_dir (cf_audit_path ?c)) (hs_fs h)) else hs_fs h"
    obtain opened f2 where o1: "audit_open (cf_audit_path ?c) ?f1 = (opened, f2)" by force
    show thesis
    proof (cases opened)
      case True
      with assms Inr o1 show thesis by (intro that(2) [of ad f2]) (simp_all add: cmd_loop_def Let_def opened_world_def)
    next
      case False
      let ?w = "\<lparr>wd_client = build_rtmx_client le s, wd_host = h\<lparr>hs_fs := f2\<rparr>, wd_audit = None, wd_metrics = None\<rparr>"
      have "cmd_loop le args s h = Some ((1, [LoopAudit (cf_audit_path ?c)]), ?w)"
        using assms Inr o1 False by (simp add: cmd_loop_def Let_def)
      moreover have "trail ?w = []" by (simp add: trail_def)
      ultimately show thesis using that(1) by blast
    qed
  qed
qed

lemma preflight_first:
  assumes "live_run le c ad once w = Some ((ok, notes), w')"
    and "fst (serving_preflight (le_server le) (cf_endpoint c) (cf_model_id c) (cf_model_digest c) (hs_ext (wd_host w))) \<noteq> None"
  shows "\<not> ok" and "\<exists>x u. notes = [LoopPreflight x] \<and> w' = w\<lparr>wd_host := (wd_host w)\<lparr>hs_ext := u\<rparr>\<rparr>"
  using assms by (auto simp: live_run_def split: prod.splits option.splits)

text \<open>C36: \<open>aegis loop\<close> works nothing outside the closed environment: with an unreadable command line, a
  configuration that cannot be read or is not valid with the command line's limits, or one that allows
  egress, it changes nothing and says so; and before the first requirement is claimed, the model
  endpoint has passed its check.\<close>

theorem loop_refuses:
  assumes "cmd_loop le args s h = Some ((rc, notes), w')"
  shows "case flag_parse loop_flags args of
      Inl x \<Rightarrow> rc = 2 \<and> w' = idle_world s h
    | Inr (fl, rest) \<Rightarrow>
        (case load_config (string_of fl ''config'') (hs_fs h) of
           Inl y \<Rightarrow> rc = 1 \<and> w' = idle_world s h
         | Inr c0 \<Rightarrow>
             let c = loop_overrides fl c0
             in if validate c \<noteq> None \<or> cf_allow_egress c then rc = 1 \<and> w' = idle_world s h
                else rc = 0 \<or> trail w' \<noteq> [] \<longrightarrow>
                  fst (serving_preflight (le_server le) (cf_endpoint c) (cf_model_id c) (cf_model_digest c) (hs_ext h)) = None)"
proof (cases "flag_parse loop_flags args")
  case (Inl x)
  with assms show ?thesis by (simp add: cmd_loop_stops(1))
next
  case (Inr r)
  obtain fl rest where r: "flag_parse loop_flags args = Inr (fl, rest)" using Inr by (cases r) simp
  show ?thesis
  proof (cases "load_config (string_of fl ''config'') (hs_fs h)")
    case (Inl y)
    with assms r show ?thesis by (simp add: cmd_loop_stops(2))
  next
    case l: (Inr c0)
    let ?c = "loop_overrides fl c0"
    let ?p = "fst (serving_preflight (le_server le) (cf_endpoint ?c) (cf_model_id ?c) (cf_model_digest ?c) (hs_ext h))"
    show ?thesis
    proof (cases "validate ?c \<noteq> None \<or> cf_allow_egress ?c")
      case True
      with assms r l show ?thesis by (cases "validate ?c") (simp_all add: cmd_loop_stops(3,4) Let_def)
    next
      case F: False
      have "?p = None" if "rc = 0 \<or> trail w' \<noteq> []"
      proof (rule ccontr)
        assume np: "?p \<noteq> None"
        from F have v: "validate ?c = None" "\<not> cf_allow_egress ?c" by auto
        from r l v show False
        proof (cases rule: cmd_loop_goes [of args fl rest h c0 le s])
          case (1 n w)
          with assms that show False by simp
        next
          case (2 ad f)
          obtain ok ns where lr: "live_run le ?c ad (bool_of fl ''once'') (opened_world le s h f) = Some ((ok, ns), w')"
            "rc = (if ok then 0 else 1)"
            using assms unfolding 2(2) by (auto split: option.splits prod.splits)
          have h: "hs_ext (wd_host (opened_world le s h f)) = hs_ext h" by (simp add: opened_world_def)
          from preflight_first [OF lr(1)] np h have "\<not> ok"
            "\<exists>x u. ns = [LoopPreflight x] \<and> w' = (opened_world le s h f)\<lparr>wd_host := (wd_host (opened_world le s h f))\<lparr>hs_ext := u\<rparr>\<rparr>"
            by simp_all
          with that lr(2) show False by (auto simp: opened_trail)
        qed
      qed
      with F show ?thesis unfolding r by (simp add: l Let_def)
    qed
  qed
qed

lemma loop_ends:
  assumes "le_mcp le = None" and "store_ok s" and "le_audit_fails le = (\<lambda>_. False)"
  shows "\<exists>rc notes w'. cmd_loop le args s h = Some ((rc, notes), w') \<and>
    (\<forall>res. LoopSummary res \<in> set notes \<longrightarrow>
       re_attempted res = re_closed res + re_parked res \<and>
       (case flag_parse loop_flags args of
          Inl x \<Rightarrow> False
        | Inr (fl, rest) \<Rightarrow>
            (bool_of fl ''once'' \<longrightarrow> re_attempted res \<le> 1) \<and>
            (int_of_flag fl ''max'' > 0 \<longrightarrow> int (re_attempted res) \<le> int_of_flag fl ''max'')))"
proof (cases "flag_parse loop_flags args")
  case (Inl x)
  then show ?thesis by (simp add: cmd_loop_stops(1))
next
  case (Inr r)
  obtain fl rest where r: "flag_parse loop_flags args = Inr (fl, rest)" using Inr by (cases r) simp
  show ?thesis
  proof (cases "load_config (string_of fl ''config'') (hs_fs h)")
    case (Inl y)
    with r show ?thesis by (simp add: cmd_loop_stops(2))
  next
    case l: (Inr c0)
    let ?c = "loop_overrides fl c0"
    show ?thesis
    proof (cases "validate ?c \<noteq> None \<or> cf_allow_egress ?c")
      case True
      with r l show ?thesis by (cases "validate ?c") (simp_all add: cmd_loop_stops(3,4))
    next
      case F: False
      then have v: "validate ?c = None" "\<not> cf_allow_egress ?c" by auto
      from r l v show ?thesis
      proof (cases rule: cmd_loop_goes [of args fl rest h c0 le s])
        case (1 n w)
        then show ?thesis by auto
      next
        case (2 ad f)
        have w: "csv_ok (wd_client (opened_world le s h f))" "audited (opened_world le s h f)"
          using assms by (simp_all add: opened_world_def build_rtmx_client_def csv_ok_def new_cli_client_def audited_def audit_new_def)
        from w show ?thesis
        proof (cases rule: live_run_csv [of _ le ?c ad "bool_of fl ''once''"])
          case (1 x u)
          then show ?thesis unfolding 2(2) by simp
        next
          case L: (2 res err hist w')
          note lim = loop_limits [OF L(2,3)]
          have mx: "bg_max_requirements (cf_budget ?c) = int_of_flag fl ''max''" if "int_of_flag fl ''max'' > 0"
            using that by (simp add: loop_overrides_def Let_def)
          show ?thesis unfolding 2(2) L(1) r
            using lim mx by (cases err) auto
        qed
      qed
    qed
  qed
qed


section \<open>A harness that cannot drive\<close>

definition drives_fail :: "('c, 'e, 'x) deps \<Rightarrow> bool" where
  "drives_fail d \<longleftrightarrow> (\<forall>r fb ch. snd (fst (dp_drive d r fb ch)))"

lemma drives_failD: "drives_fail d \<Longrightarrow> on_both (dp_drive d r fb) w = ((df, derr), w') \<Longrightarrow> derr"
  by (auto simp: drives_fail_def on_both_def split: prod.splits) (metis fst_conv snd_conv)

lemma attempt_step_fail:
  assumes "drives_fail d" and "attempt_step d cfg req lg mem start i (st, w) = (brk, st', w')"
  shows "as_closed st' = as_closed st"
proof -
  obtain df derr w1 where 1: "on_both (dp_drive d req (drive_ctx d (rq_id req) lg mem st (hs_fs (wd_host w)))) w = ((df, derr), w1)"
    by (metis prod.collapse)
  have derr using drives_failD [OF assms(1) 1] .
  with assms(2) 1 show ?thesis by (auto simp: attempt_step_def Let_def split: if_splits)
qed

lemma attempt_loop_fail:
  assumes "drives_fail d"
  shows "attempt_loop d cfg req lg mem start i n (st, w) = (st', w') \<Longrightarrow> as_closed st' = as_closed st"
proof (induction n arbitrary: i st w)
  case (Suc n)
  obtain brk s1 w1 where 1: "attempt_step d cfg req lg mem start i (st, w) = (brk, s1, w1)" by (metis prod_cases3)
  with attempt_step_fail [OF assms 1] Suc show ?case by (auto split: if_splits)
qed simp

lemma work_fail:
  assumes "drives_fail d" and "work d cfg req w = ((oc, stuck, None), w')"
  shows "oc = OutcomeParked"
proof -
  obtain c w1 where 1: "on_client (dp_claim d (rq_id req)) w = (c, w1)" by force
  let ?w2 = "record_entry (entry ActionClaim (rq_id req) [] []) w1"
  obtain lg w3 where 3: "prepare_ledger d req ?w2 = (lg, w3)" by force
  obtain mem w4 where 4: "prepare_memory d req w3 = (mem, w4)" by force
  obtain start w5 where 5: "read_now d w4 = (start, w5)" by force
  obtain st w6 where 6: "attempt_loop d cfg req lg mem start 0 (nat (cf_retries cfg + 1)) (start_attempts (rq_id req), w5) = (st, w6)"
    by force
  obtain t w7 where 7: "read_now d w6 = (t, w7)" by force
  have "\<not> as_closed st" using attempt_loop_fail [OF assms(1) 6] by (simp add: start_attempts_def)
  with assms(2) 1 3 4 5 6 7 show ?thesis
    by (cases c) (auto simp: work_def park_requirement_def Let_def split: prod.splits option.splits)
qed

definition all_parked :: "result \<Rightarrow> bool" where
  "all_parked res \<longleftrightarrow> re_closed res = 0 \<and> re_parked res = re_attempted res"

lemma all_parked_flags:
  "all_parked (res\<lparr>re_breaker := b\<rparr>) \<longleftrightarrow> all_parked res" "all_parked (res\<lparr>re_budget := b\<rparr>) \<longleftrightarrow> all_parked res"
  by (simp_all add: all_parked_def)

lemma tally_parks:
  assumes "tally oc stuck (res, fails) = (res', fails')" and "work d cfg req w = ((oc, stuck, None), w')"
    and "drives_fail d" and "all_parked res"
  shows "all_parked res'"
  using assms(1,4) work_fail [OF assms(3,2)] by (auto simp: tally_def all_parked_def Let_def)

lemma run_step_fail:
  assumes "drives_fail d" and "all_parked res"
  shows "case run_step d cfg once start res fails w of
      Inl ((res', err), w') \<Rightarrow> all_parked res' | Inr (res', fails', w') \<Rightarrow> all_parked res'"
proof (cases "run_step d cfg once start res fails w")
  case 1: (Inl out)
  obtain res' err w' where out: "out = ((res', err), w')" by (metis prod.collapse)
  have "all_parked res'"
    using assms(2) 1 [unfolded out]
    by (auto simp: run_step_def all_parked_flags split: prod.splits if_splits sum.splits option.splits
        dest: tally_parks [OF _ _ assms(1)])
  with 1 out show ?thesis by simp
next
  case 2: (Inr out)
  obtain res' fails' w' where out: "out = (res', fails', w')" by (metis prod.collapse)
  have "all_parked res'"
    using assms(2) 2 [unfolded out]
    by (auto simp: run_step_def all_parked_flags split: prod.splits if_splits sum.splits option.splits
        dest: tally_parks [OF _ _ assms(1)])
  with 2 out show ?thesis by simp
qed

lemma run_loop_fail:
  assumes "run_loop d cfg once start res fails w = Some out" and "drives_fail d" and "all_parked res"
  shows "all_parked (fst (fst out))"
  using assms
proof (induction d cfg once start res fails w out rule: run_loop.raw_induct [rotated, consumes 1, case_names step])
  case (step rl d cfg once start res fails w out)
  note s = run_step_fail [OF step.prems, of cfg once start fails w]
  show ?case
  proof (cases "run_step d cfg once start res fails w")
    case (Inl o1)
    with s step.hyps show ?thesis by auto
  next
    case (Inr y)
    obtain r1 f1 w1 where y: "y = (r1, f1, w1)" by (metis prod.collapse)
    with s Inr step show ?thesis by auto
  qed
qed

lemma stub_drives_fail:
  assumes "ad = ChoseOpenCode \<or> ad = ChoseGoose"
  shows "drives_fail (loop_deps le ad)"
  using assms by (auto simp: drives_fail_def loop_deps_def harness_drive_def opencode_drive_def goose_drive_def split: prod.splits)

text \<open>C37: With the OpenCode or the Goose harness, and OpenCode is the default, \<open>aegis loop\<close> never closes a
  requirement: their Drive is a stub that fails, so every requirement the loop works is parked as blocked.\<close>

theorem stub_harness_parks_all:
  assumes "cmd_loop le args s h = Some ((rc, notes), w')"
    and "flag_parse loop_flags args = Inr (fl, rest)" and "load_config (string_of fl ''config'') (hs_fs h) = Inr c0"
    and "cf_harness c0 = harness_opencode \<or> cf_harness c0 = harness_goose"
  shows "\<forall>res. LoopSummary res \<in> set notes \<longrightarrow> re_closed res = 0 \<and> re_parked res = re_attempted res"
proof (cases "validate (loop_overrides fl c0) \<noteq> None \<or> cf_allow_egress (loop_overrides fl c0)")
  case True
  with assms(1-3) show ?thesis by (cases "validate (loop_overrides fl c0)") (auto simp: cmd_loop_stops(3,4))
next
  case F: False
  let ?c = "loop_overrides fl c0"
  from F have v: "validate ?c = None" "\<not> cf_allow_egress ?c" by auto
  from assms(2,3) v show ?thesis
  proof (cases rule: cmd_loop_goes [of args fl rest h c0 le s])
    case (1 n w)
    with assms(1) show ?thesis by auto
  next
    case (2 ad f)
    have "cf_harness ?c = cf_harness c0" by (simp add: loop_overrides_def Let_def)
    with 2(1) assms(4) have ad: "ad = ChoseOpenCode \<or> ad = ChoseGoose"
      by (auto simp: select_harness_def config_consts)
    obtain ok ns where lr: "live_run le ?c ad (bool_of fl ''once'') (opened_world le s h f) = Some ((ok, ns), w')"
      "set notes \<subseteq> insert (LoopStarts (bool_of fl ''once'') (cf_harness ?c) (cf_target ?c) (cf_endpoint ?c)) (set ns)"
      using assms(1) unfolding 2(2) by (auto split: option.splits prod.splits)
    have "all_parked res" if m: "LoopSummary res \<in> set ns" for res
    proof -
      obtain w1 err where "run (loop_deps le ad) ?c (bool_of fl ''once'') w1 = Some ((res, err), w')"
        using lr(1) m by (auto simp: live_run_def loop_new_deps Let_def split: prod.splits option.splits)
      then obtain start w2 where "run_loop (loop_deps le ad) ?c (bool_of fl ''once'') start zero_result 0 w2 = Some ((res, err), w')"
        by (auto simp: run_def split: prod.splits)
      from run_loop_fail [OF this stub_drives_fail [OF ad]] show ?thesis by (simp add: all_parked_def zero_result_def)
    qed
    with lr(2) show ?thesis by (auto simp: all_parked_def)
  qed
qed

section \<open>A host for the witnesses\<close>

text \<open>A model endpoint that answers, no MCP server, and an empty workspace.\<close>

definition sample_env :: "(unit, unit) loop_env" where
  "sample_env =
     \<lparr>le_server = reply_server, le_mcp = None, le_cwd = ''/w'', le_test = (\<lambda>d a f. (ExitNonZero, f)),
      le_verify = (\<lambda>d a h. (CmdExit ''boom'', h)), le_now = (\<lambda>h. (0, h)), le_clock = int, le_audit_fails = (\<lambda>_. False)\<rparr>"

lemma sample_env_ok: "le_mcp sample_env = None" "le_audit_fails sample_env = (\<lambda>_. False)"
  by (simp_all add: sample_env_def)

lemma sample_db_ok: "store_ok sample_store"
  using sample_store_ok by (simp add: sample_client)


definition no_flags :: flags where "no_flags = loop_flags"

lemma sample_default: "flag_parse loop_flags [] = Inr (no_flags, [])"
    "load_config (string_of no_flags ''config'') (hs_fs sample_host) = Inr default_config"
  using default_config_valid
  by (simp_all add: no_flags_def load_config_def loop_flags_def new_flags_def string_of_def validated_def)

lemma default_unchanged: "loop_overrides no_flags default_config = default_config"
  by (simp add: loop_overrides_def no_flags_def loop_flags_def new_flags_def int_of_flag_def)

theorem stub_harness_parks_all_witness:
  "\<exists>rc notes w'. cmd_loop sample_env [] sample_store sample_host = Some ((rc, notes), w') \<and>
     (\<forall>res. LoopSummary res \<in> set notes \<longrightarrow> re_closed res = 0 \<and> re_parked res = re_attempted res)"
proof -
  obtain rc ns w' where r: "cmd_loop sample_env [] sample_store sample_host = Some ((rc, ns), w')"
    using loop_ends [OF sample_env_ok(1) sample_db_ok sample_env_ok(2), of "[]" sample_host] by blast
  have "cf_harness default_config = harness_opencode \<or> cf_harness default_config = harness_goose"
    by (simp add: default_config_def)
  from stub_harness_parks_all [OF r sample_default this] r show ?thesis by blast
qed

theorem loop_refuses_witness:
  "case cmd_loop sample_env [''-=''] sample_store sample_host of
     Some ((rc, notes), w') \<Rightarrow> rc = 2 \<and> w' = idle_world sample_store sample_host
   | None \<Rightarrow> False"
proof -
  have f: "case flag_parse loop_flags [''-=''] of Inl x \<Rightarrow> True | Inr y \<Rightarrow> False" by simp
  then obtain x where x: "flag_parse loop_flags [''-=''] = Inl x" by (auto split: sum.splits)
  have r: "cmd_loop sample_env [''-=''] sample_store sample_host = Some ((2, [LoopFlags x]), idle_world sample_store sample_host)"
    by (rule cmd_loop_stops(1) [OF x])
  from loop_refuses [OF r] show ?thesis unfolding r x by simp
qed

end
