(* ===== verification/GoFmt.thy ===== *)
theory GoFmt
  imports JsonText
begin

text \<open>
  Columns of \<open>fmt\<close>: \<open>%-Ns\<close> and \<open>%Ns\<close> pad to \<open>N\<close> code points, where a byte that starts no valid UTF-8
  sequence counts as one.
\<close>

function text_width :: "string \<Rightarrow> nat" where
  "text_width s = (if s = [] then 0 else Suc (text_width (drop (max 1 (utf8_len s)) s)))"
  by pat_completeness auto
termination by (relation "measure length") auto

declare text_width.simps [simp del]

definition left_aligned :: "nat \<Rightarrow> string \<Rightarrow> string" where
  "left_aligned n s = s @ replicate (n - text_width s) CHR '' ''"

definition right_aligned :: "nat \<Rightarrow> string \<Rightarrow> string" where
  "right_aligned n s = replicate (n - text_width s) CHR '' '' @ s"

definition lines_text :: "string list \<Rightarrow> string" where
  "lines_text ls = concat (map (\<lambda>l. l @ [CHR 0x0A]) ls)"

section \<open>Widths\<close>

lemma text_width_Nil [simp]: "text_width [] = 0"
  by (simp add: text_width.simps)

lemma text_width_ascii [simp]: "byte_in 0 127 c \<Longrightarrow> text_width (c # s) = Suc (text_width s)"
  by (subst text_width.simps) simp

lemma text_width_le: "text_width s \<le> length s"
proof (induction s rule: length_induct)
  case (1 s)
  show ?case
  proof (cases "s = []")
    case False
    then have "length (drop (max 1 (utf8_len s)) s) < length s" by simp
    then have "text_width (drop (max 1 (utf8_len s)) s) < length s" using 1 le_less_trans by blast
    with False show ?thesis by (subst text_width.simps) simp
  qed simp
qed

text \<open>Whatever does not begin with a continuation byte is counted on its own after any text.\<close>

definition fresh :: "string \<Rightarrow> bool" where
  "fresh t \<longleftrightarrow> (case t of [] \<Rightarrow> True | c # _ \<Rightarrow> \<not> byte_in 128 191 c)"

lemma fresh_hd:
  assumes "fresh (c # t)"
  shows "\<not> byte_in 128 191 c" "\<not> byte_in 160 191 c" "\<not> byte_in 128 159 c" "\<not> byte_in 144 191 c" "\<not> byte_in 128 143 c"
  using assms by (auto simp: fresh_def byte_in_def)

lemma utf8_len_fresh: "s \<noteq> [] \<Longrightarrow> fresh t \<Longrightarrow> utf8_len (s @ t) = utf8_len s"
  by (cases t; cases s rule: utf8_len.cases) (auto simp: fresh_hd split: list.splits)

lemma utf8_len_bound: "utf8_len s \<le> length s"
  by (cases s rule: utf8_len.cases) (auto split: list.splits)

lemma text_width_append: "fresh t \<Longrightarrow> text_width (s @ t) = text_width s + text_width t"
proof (induction s rule: length_induct)
  case (1 s)
  show ?case
  proof (cases "s = []")
    case False
    let ?k = "max 1 (utf8_len s)"
    have "?k \<le> length s" using False utf8_len_bound [of s] by (cases s) auto
    then have "drop ?k (s @ t) = drop ?k s @ t" by simp
    moreover have "text_width (drop ?k s @ t) = text_width (drop ?k s) + text_width t"
      using 1 False by (simp add: max_def)
    ultimately have "text_width (s @ t) = Suc (text_width (drop ?k s) + text_width t)"
      using False 1(2) by (subst text_width.simps) (simp add: utf8_len_fresh)
    then show ?thesis using False by (subst (2) text_width.simps) simp
  qed simp
qed

lemma space_ascii [simp]: "byte_in 0 127 CHR '' ''"
  by (simp add: byte_in_def)

lemma text_width_spaces [simp]: "text_width (replicate n CHR '' '' @ s) = n + text_width s"
  by (induction n) simp_all

lemma fresh_spaces: "fresh (replicate n CHR '' '')"
  by (cases n) (simp_all add: fresh_def byte_in_def)

lemma text_width_padded: "text_width (s @ replicate n CHR '' '') = text_width s + n"
  using text_width_append [OF fresh_spaces, of s n] text_width_spaces [of n "[]"] by simp

lemma left_aligned_width: "text_width (left_aligned n s) = max n (text_width s)"
  by (simp add: left_aligned_def text_width_padded)

lemma right_aligned_width: "text_width (right_aligned n s) = max n (text_width s)"
  by (simp add: right_aligned_def)

end
