(* ===== verification/CliInit.thy ===== *)
theory CliInit
  imports GoFlag GoFmt CliServe InstallConfig CliHostProps
begin

text \<open>
  \<open>aegis init\<close> (\<open>cmdInit\<close>): the plan of the host is written as a configuration and summarised
  (\<open>WritePlan\<close> of \<open>internal/install/config.go\<close>).  The summary is its text; writing to the standard
  output succeeds.
\<close>

section \<open>The summary of a plan\<close>

definition tier_name :: "tier \<Rightarrow> string" where
  "tier_name t = (case t of TierSmall \<Rightarrow> ''26B-A4B'' | TierMid \<Rightarrow> ''35B-A3B'' | TierLarge \<Rightarrow> ''larger'')"

definition gpu_note :: "string \<Rightarrow> string \<Rightarrow> string" where
  "gpu_note gpu kit =
     gpu @ '' GPU detected; linux target serves CPU-only (-ngl 0) by design '' @ em_dash3 @ '' build a '' @ kit @
     '' llama.cpp deliberately if you want offload''"

definition note_text :: "plan_note \<Rightarrow> string" where
  "note_text n =
     (case n of
        UnrecognizedOS os \<Rightarrow> ''unrecognized OS '' @ go_quote os @ ''; defaulting to linux-cpu target''
      | NoRAMProbe \<Rightarrow> ''RAM probe returned 0; defaulting to the small (26B-A4B) tier''
      | NvidiaCpuOnly \<Rightarrow> gpu_note ''NVIDIA'' ''CUDA''
      | RocmCpuOnly \<Rightarrow> gpu_note ''AMD/ROCm'' ''ROCm'')"

definition host_summary :: "host_caps \<Rightarrow> string" where
  "host_summary h =
     ''os='' @ hc_os h @ '' arch='' @ hc_arch h @ '' cpu='' @ show_int (hc_physical h) @ ''/'' @
     show_int (hc_logical h) @ ''(physical) ram='' @ show_nat (unat (total_ram_gb h)) @ ''GiB accel='' @
     accel_name (hc_accel h)"

definition write_plan :: "install_plan \<Rightarrow> string \<Rightarrow> bool \<Rightarrow> string" where
  "write_plan p path dry_run =
     (let c = ip_caps p; cal = ip_calibration p
      in lines_text
        ([''aegis init '' @ em_dash3 @ '' host bootstrap plan'', [], ''detected host:'',
          ''  os/arch     : '' @ hc_os c @ ''/'' @ hc_arch c,
          ''  cpu         : '' @ show_int (hc_physical c) @ '' physical / '' @ show_int (hc_logical c) @ '' logical'',
          ''  ram         : '' @ show_nat (unat (total_ram_gb c)) @ '' GiB'',
          ''  accelerator : '' @ accel_name (hc_accel c), [], ''recommendation:'',
          ''  target      : '' @ ip_target p,
          ''  model tier  : '' @ tier_name (ip_tier p),
          ''  calibration : threads='' @ show_int (cal_threads cal) @ '' batch='' @ show_int (cal_batch cal) @ '' ngl='' @
            show_int (cal_ngl cal) @ '' port='' @ show_int (cal_port cal) @ '' (seed; bench.sh refines)'',
          ''  endpoint    : '' @ cf_endpoint (ip_config p) @ '' (loopback; egress off)'',
          ''  harness     : '' @ cf_harness (ip_config p)] @
         map (\<lambda>n. ''  note        : '' @ note_text n) (ip_notes p) @
         [[], if dry_run then ''dry-run: no files written (would write config to '' @ path @ '')''
              else ''wrote config: '' @ path, [], ''next steps:'',
          ''  1. calibrate serving to this host : scripts/bench.sh --model '' @ cal_model cal,
          ''  2. install git hooks (CI parity)  : make hooks-install'',
          ''  3. prove the enclave is closed    : scripts/verify-airgap.sh -- aegis run --once'']))"

section \<open>The command\<close>

definition init_flags :: flags where
  "init_flags = new_flags
     [(''dry-run'', FlagBool False), (''force'', FlagBool False), (''config'', FlagString ''aegis.json'')]"

datatype init_note = InitFlags flag_err | InitFailed install_err

definition cmd_init ::
  "(real \<Rightarrow> string) \<Rightarrow> cli \<Rightarrow> string list \<Rightarrow> fs \<Rightarrow> (int \<times> init_note list \<times> string) \<times> fs" where
  "cmd_init ffmt e args f =
     (case flag_parse init_flags args of
        Inl x \<Rightarrow> ((2, [InitFlags x], []), f)
      | Inr (fl, rest) \<Rightarrow>
          (let plan = install_plan_for (en_caps e); path = string_of fl ''config''; dry = bool_of fl ''dry-run''
           in case (if dry then (None, f) else write_config ffmt path (ip_config plan) (bool_of fl ''force'') f) of
                (Some x, f1) \<Rightarrow> ((1, [InitFailed x], []), f1)
              | (None, f1) \<Rightarrow> ((0, [], write_plan plan path dry), f1)))"

section \<open>What it writes is what the other commands load\<close>

lemma plan_plain: "config_plain (ip_config (install_plan_for caps))" "persisted (ip_config (install_plan_for caps)) = ip_config (install_plan_for caps)"
proof -
  obtain t ns where t: "plan_target caps = (t, ns)" by force
  have "t \<in> {target_linux_cpu, target_darwin_metal}" using plan_target_known [of caps] t by simp
  then have u: "utf8_text t" by (auto simp: config_consts byte_in_def)
  have d: "list_all utf8_text [cf_endpoint default_config, cf_harness default_config, cf_audit_path default_config,
      cf_calibration_path default_config]"
    by (simp add: default_config_def config_consts byte_in_def)
  show "config_plain (ip_config (install_plan_for caps))"
    using u d by (simp add: install_plan_for_def t Let_def config_plain_def default_config_def int64_ok_def hour_def)
  show "persisted (ip_config (install_plan_for caps)) = ip_config (install_plan_for caps)"
    by (simp add: install_plan_for_def t Let_def persisted_def default_config_def)
qed

lemma plan_is_closed: "\<not> cf_allow_egress (ip_config (install_plan_for caps))" "validate (ip_config (install_plan_for caps)) = None"
proof -
  obtain t ns where t: "plan_target caps = (t, ns)" by force
  have k: "t \<in> {target_linux_cpu, target_darwin_metal}" using plan_target_known [of caps] t by simp
  have "config_ok default_config" using default_config_valid by (simp only: validate_iff_ok)
  then have "config_ok (default_config\<lparr>cf_allow_egress := False, cf_target := t\<rparr>)"
    using k by (auto simp: config_ok_def default_config_def)
  then show "validate (ip_config (install_plan_for caps)) = None"
    by (simp add: install_plan_for_def t Let_def validate_iff_ok)
  show "\<not> cf_allow_egress (ip_config (install_plan_for caps))" by (simp add: install_plan_for_def t Let_def)
qed

text \<open>C38: After a successful \<open>aegis init\<close>, the file it was told to write holds the plan of this host: every
  command that is given the file loads exactly the planned configuration, which is valid and closed, and
  no other file has changed; with \<open>--dry-run\<close> nothing is written at all.\<close>

theorem init_then_load:
  assumes "cmd_init ffmt e args f = ((0, notes, printed), f')" and "flag_parse init_flags args = Inr (fl, rest)"
    and "string_of fl ''config'' \<notin> fs_deny_read f"
  shows "if bool_of fl ''dry-run'' then f' = f
    else load_config (string_of fl ''config'') f' = Inr (ip_config (install_plan_for (en_caps e))) \<and>
      \<not> cf_allow_egress (ip_config (install_plan_for (en_caps e))) \<and>
      validate (ip_config (install_plan_for (en_caps e))) = None \<and>
      (\<forall>q. q \<noteq> string_of fl ''config'' \<longrightarrow> fs_files f' q = fs_files f q)"
proof (cases "bool_of fl ''dry-run''")
  case True
  with assms(1,2) show ?thesis by (simp add: cmd_init_def)
next
  case False
  let ?c = "ip_config (install_plan_for (en_caps e))"
  have w: "write_config ffmt (string_of fl ''config'') ?c (bool_of fl ''force'') f = (None, f')"
    using assms(1,2) False by (auto simp: cmd_init_def Let_def split: option.splits prod.splits)
  from w obtain f1 where d: "\<not> cf_allow_egress ?c" "validate ?c = None" "fs_files f1 = fs_files f"
    "fs_write (string_of fl ''config'') (render_config ffmt ?c) f1 = (True, f')"
    by (rule write_config_done)
  have "fs_files f' q = fs_files f q" if "q \<noteq> string_of fl ''config''" for q
    using fs_write_ok [OF d(4)] d(3) that by simp
  with write_config_loads [OF w plan_plain(1) assms(3)] plan_plain(2) [of "en_caps e"] d(1,2) False show ?thesis by simp
qed

theorem init_then_load_witness:
  "load_config ''aegis.json'' (snd (cmd_init (\<lambda>x. []) seed_env [] empty_dir)) = Inr (ip_config (install_plan_for (en_caps seed_env)))"
proof -
  have p: "flag_parse init_flags [] = Inr (init_flags, [])" by simp
  have s: "string_of init_flags ''config'' = ''aegis.json''" "\<not> bool_of init_flags ''dry-run''"
    by (simp_all add: init_flags_def new_flags_def string_of_def bool_of_def)
  let ?c = "ip_config (install_plan_for (en_caps seed_env))"
  have v: "\<not> cf_allow_egress ?c" "validate ?c = None"
    using plan_is_closed by simp_all
  have d: "path_dir ''aegis.json'' = ''.''" "fs_can_write ''aegis.json'' empty_dir" "\<not> fs_exists ''aegis.json'' empty_dir" by code_simp+
  obtain f' where w: "write_config (\<lambda>x. []) ''aegis.json'' ?c (bool_of init_flags ''force'') empty_dir = (None, f')"
    using v d by (simp add: write_config_def fs_write_def)
  then have "cmd_init (\<lambda>x. []) seed_env [] empty_dir = ((0, [], write_plan (install_plan_for (en_caps seed_env)) ''aegis.json'' False), f')"
    using s by (simp add: cmd_init_def Let_def)
  from init_then_load [OF this p] s this show ?thesis by (simp add: empty_dir_def)
qed

end
