(* ===== verification/CliMain.thy ===== *)
theory CliMain
  imports CliInit CliRun Backlog RepoMap McpClient
begin

text \<open>
  The other subcommands of \<open>cmd/aegis/main.go\<close>, \<open>profile.go\<close> and \<open>map.go\<close>: the dispatch of the command
  line and the commands that report, list, pass through or start one program.  Every command gives its exit
  code, its notes on the error stream and its text on the standard output.  Started programs are
  arguments: the exit code, or \<open>None\<close> when the program cannot be run.
\<close>

section \<open>Dispatch\<close>

datatype command =
    CommandTui
  | CommandRun
  | CommandLoop
  | CommandPass string
  | CommandInit
  | CommandStatus
  | CommandModels
  | CommandServe
  | CommandProfile
  | CommandBakeoff
  | CommandProvision
  | CommandVerifyEnv
  | CommandPropose
  | CommandFrame
  | CommandMap
  | CommandVersion
  | CommandHelp
  | CommandUnknown string

definition command_names :: "(string \<times> command) list" where
  "command_names =
     [(''tui'', CommandTui), (''run'', CommandRun), (''solve'', CommandRun), (''loop'', CommandLoop),
      (''rtmx'', CommandPass ''rtmx''), (''code'', CommandPass ''code''), (''model'', CommandPass ''model''),
      (''init'', CommandInit), (''status'', CommandStatus), (''models'', CommandModels), (''serve'', CommandServe),
      (''profile'', CommandProfile), (''bakeoff'', CommandBakeoff), (''provision'', CommandProvision),
      (''verify-env'', CommandVerifyEnv), (''propose'', CommandPropose), (''frame'', CommandFrame),
      (''map'', CommandMap), (''version'', CommandVersion), (''-h'', CommandHelp), (''--help'', CommandHelp),
      (''help'', CommandHelp)]"

definition dispatch :: "string list \<Rightarrow> command \<times> string list" where
  "dispatch args =
     (case args of
        [] \<Rightarrow> (CommandTui, [])
      | c # rest \<Rightarrow> (case map_of command_names c of Some k \<Rightarrow> (k, rest) | None \<Rightarrow> (CommandUnknown c, rest)))"

definition equiv_sign :: string where "equiv_sign = [CHR 0xE2, CHR 0x89, CHR 0xA1]"

definition usage_text :: string where
  "usage_text = lines_text
    [''aegis '' @ em_dash3 @ '' air-gap-native agentic coding (OpenCode + local model + rtmx intent)'',
     [],
     ''usage: aegis [command] [flags]'',
     [],
     ''  (no command)  launch the hardened OpenCode TUI (the centerpiece experience)'',
     [],
     ''agent:'',
     ''  run <prompt>  run one agent task ('' @ equiv_sign @ '' opencode/ollama run); writes a transcript'',
     ''  tui           launch the OpenCode TUI explicitly'',
     [],
     ''orchestration (aegis's own):'',
     ''  loop [--once] [--max N] [--break-after M] [--budget DUR] [--config PATH]'',
     ''                drain the rtmx backlog (was: aegis run)'',
     ''  init [--dry-run] [--force] [--config PATH]'',
     ''                detect host capabilities + write an offline-safe config'',
     ''  status        unified: config + model endpoint + rtmx backlog'',
     ''  models        list the local model inventory (loopback endpoint)'',
     ''  serve         bring the local model server up (calibrated, loopback)'',
     ''  profile       probe the host + recommend the best-fitting US models (read-only)'',
     ''  provision [--id X|--browse PATH]   download/source the best-fitting model + serve it'',
     ''  frame         classify the backlog + surface reframe/unframed lists'',
     ''  propose <prefix>   emit atomic children of a requirement (human approves)'',
     ''  verify-env    report egress + traceability status before a run'',
     ''  version       print the build version'',
     [],
     ''pass-through (hardened; full inner surface):'',
     ''  rtmx  <args>  forward to rtmx (intent layer)'',
     ''  code  <args>  forward to opencode (harness)'',
     ''  model <args>  forward to ollama (local model)'']"

text \<open>The commands that only print: the version, the help, and the complaint about an unknown command.\<close>

definition plain_command :: "string \<Rightarrow> string \<Rightarrow> command \<Rightarrow> (int \<times> string \<times> string) option" where
  "plain_command version commit k =
     (case k of
        CommandVersion \<Rightarrow> Some (0, version @ '' ('' @ commit @ '')'' @ [CHR 0x0A], [])
      | CommandHelp \<Rightarrow> Some (0, usage_text, [])
      | CommandUnknown c \<Rightarrow> Some (2, [], ''aegis: unknown command '' @ go_quote c @ [CHR 0x0A] @ usage_text)
      | _ \<Rightarrow> None)"

datatype main_note =
    MainFlags flag_err
  | MainConfig config_err
  | MainMissing
  | MainNotOnPath string
  | MainNotRun string
  | MainStore store_err
  | MainClient serv_err
  | MainUnreachable serv_err
  | MainServe serve_err
  | MainLaunching string
  | MainNoPrefix
  | MainMap
  | MainProfile catalog_err
  | MainBenchIdle
  | MainBenchFailed

section \<open>Pass-through\<close>

definition pass_tool ::
  "(real \<Rightarrow> string) \<Rightarrow> cli \<Rightarrow> string \<Rightarrow> fs \<Rightarrow> (main_note + string \<times> string list option) \<times> fs" where
  "pass_tool ffmt e ns f =
     (let cfg = (case load_config [] f of Inl x \<Rightarrow> default_config | Inr c \<Rightarrow> c)
      in if ns = ''rtmx'' then (Inr (''rtmx'', None), f)
         else if ns = ''model'' then (Inr (''ollama'', None), f)
         else if ns = ''code'' then
           (case resolve_binary (en_host e) [] of
              Inl x \<Rightarrow> (Inl MainMissing, f)
            | Inr b \<Rightarrow> (case hardened_env ffmt (en_host e) cfg f of (env, f1) \<Rightarrow> (Inr (b, Some env), f1)))
         else (Inr ([], None), f))"

definition cmd_passthrough ::
  "(real \<Rightarrow> string) \<Rightarrow> cli \<Rightarrow> (string list \<Rightarrow> string list \<Rightarrow> fs \<Rightarrow> 'w \<Rightarrow> int option \<times> fs \<times> 'w) \<Rightarrow> string \<Rightarrow> string list
     \<Rightarrow> fs \<Rightarrow> 'w \<Rightarrow> (int \<times> main_note list) \<times> fs \<times> 'w" where
  "cmd_passthrough ffmt e start ns args f w =
     (case pass_tool ffmt e ns f of
        (Inl x, f1) \<Rightarrow> ((1, [x]), f1, w)
      | (Inr (bin, env), f1) \<Rightarrow>
          (case (if CHR ''/'' \<in> set bin then Some bin else ho_look (en_host e) bin) of
             None \<Rightarrow> ((1, [MainNotOnPath bin]), f1, w)
           | Some path \<Rightarrow>
               (let vars = ho_environ (en_host e) @ (case env of None \<Rightarrow> [] | Some v \<Rightarrow> v)
                in case start vars (path # args) f1 w of
                     (None, f2, w1) \<Rightarrow> ((1, [MainNotRun ns]), f2, w1)
                   | (Some code, f2, w1) \<Rightarrow> ((code, []), f2, w1))))"

section \<open>The backlog\<close>

definition no_vars :: flags where "no_vars = new_flags []"

definition frame_report :: "requirement list \<Rightarrow> string" where
  "frame_report rs =
     (let c = classify rs; n = (\<lambda>xs. show_nat (length xs)); commas = join '', ''
      in lines_text
        ([''backlog: delivered='' @ n (cl_delivered c) @ '' in-flight='' @ n (cl_in_flight c) @ '' parked='' @ n (cl_parked c) @
          '' proposed='' @ n (cl_proposed c) @ '' (unframed='' @ n (cl_unframed c) @ '')''] @
         (if cl_parked c \<noteq> [] then
            [''reframe backlog (parked '' @ em_dash3 @ '' discovery input): '' @ commas (cl_parked c)] else []) @
         (if cl_unframed c \<noteq> [] then
            [''unframed (needs a spec/outcome trace): '' @ commas (cl_unframed c)] else [])))"

definition cmd_frame :: "store \<Rightarrow> string list \<Rightarrow> int \<times> main_note list \<times> string" where
  "cmd_frame s args =
     (case flag_parse no_vars args of
        Inl x \<Rightarrow> (2, [MainFlags x], [])
      | Inr (fl, rest) \<Rightarrow>
          (case store_requirements s of
             Inl x \<Rightarrow> (1, [MainStore x], [])
           | Inr rs \<Rightarrow> (0, [], frame_report rs)))"

definition cmd_propose :: "string list \<Rightarrow> int \<times> main_note list \<times> string" where
  "cmd_propose args =
     (case flag_parse no_vars args of
        Inl x \<Rightarrow> (2, [MainFlags x], [])
      | Inr (fl, []) \<Rightarrow> (2, [MainNoPrefix], [])
      | Inr (fl, p # rest) \<Rightarrow>
          (0, [], ''aegis propose: prefix='' @ p @ '' (children land in 'proposed' state; a human approves)'' @ [CHR 0x0A]))"

text \<open>\<open>rtmxCounts\<close>: the rows of the database and those whose status cell is \<open>COMPLETE\<close>, \<open>None\<close> when it cannot
  be read; of several status columns the last one counts.\<close>

fun status_col :: "nat \<Rightarrow> string list \<Rightarrow> nat option \<Rightarrow> nat option" where
  "status_col i [] c = c"
| "status_col i (h # hs) c = status_col (Suc i) hs (if h = ''status'' then Some i else c)"

definition row_complete :: "nat option \<Rightarrow> string list \<Rightarrow> bool" where
  "row_complete c row = (case c of None \<Rightarrow> False | Some i \<Rightarrow> i < length row \<and> row ! i = ''COMPLETE'')"

definition rtmx_counts :: "csv_file \<Rightarrow> (nat \<times> nat) option" where
  "rtmx_counts db =
     (case db of
        CsvUnreadable \<Rightarrow> None
      | CsvMalformed \<Rightarrow> None
      | CsvRecords [] \<Rightarrow> Some (0, 0)
      | CsvRecords (h # rows) \<Rightarrow> Some (length rows, length (filter (row_complete (status_col 0 h None)) rows)))"

section \<open>Reports on the endpoint\<close>

definition config_flags :: flags where
  "config_flags = new_flags [(''config'', FlagString [])]"

definition model_line :: "'w server \<Rightarrow> string \<Rightarrow> 'w \<Rightarrow> string list \<times> 'w" where
  "model_line srv endpoint w =
     (case new_client endpoint of
        Inl x \<Rightarrow> ([], w)
      | Inr u \<Rightarrow>
          (case first_model srv u w of
             (Inr m, w1) \<Rightarrow> ([''model: '' @ mi_id m @ '' (endpoint reachable)''], w1)
           | (Inl x, w1) \<Rightarrow> ([''model: endpoint unreachable ('' @ endpoint @ '')''], w1)))"

definition cmd_status :: "'w server \<Rightarrow> csv_file \<Rightarrow> string list \<Rightarrow> fs \<Rightarrow> 'w \<Rightarrow> (int \<times> main_note list \<times> string) \<times> 'w" where
  "cmd_status srv db args f w =
     (case flag_parse config_flags args of
        Inl x \<Rightarrow> ((2, [MainFlags x], []), w)
      | Inr (fl, rest) \<Rightarrow>
          (case load_config (string_of fl ''config'') f of
             Inl x \<Rightarrow> ((1, [MainConfig x], []), w)
           | Inr c \<Rightarrow>
               (case model_line srv (cf_endpoint c) w of
                  (ms, w1) \<Rightarrow>
                    ((0, [],
                      lines_text
                        ([''endpoint='' @ cf_endpoint c @ '' harness='' @ cf_harness c @ '' target='' @ cf_target c @
                          '' audit='' @ cf_audit_path c] @ ms @
                         (case rtmx_counts db of
                            None \<Rightarrow> []
                          | Some (n, k) \<Rightarrow> [''rtmx: '' @ show_nat k @ ''/'' @ show_nat n @ '' requirements complete'']))), w1))))"

definition cmd_models :: "'w server \<Rightarrow> string list \<Rightarrow> fs \<Rightarrow> 'w \<Rightarrow> (int \<times> main_note list \<times> string) \<times> 'w" where
  "cmd_models srv args f w =
     (case flag_parse config_flags args of
        Inl x \<Rightarrow> ((2, [MainFlags x], []), w)
      | Inr (fl, rest) \<Rightarrow>
          (case load_config (string_of fl ''config'') f of
             Inl x \<Rightarrow> ((1, [MainConfig x], []), w)
           | Inr c \<Rightarrow>
               (case new_client (cf_endpoint c) of
                  Inl x \<Rightarrow> ((1, [MainClient x], []), w)
                | Inr u \<Rightarrow>
                    (case models srv u w of
                       (Inl x, w1) \<Rightarrow> ((1, [MainUnreachable x], []), w1)
                     | (Inr ms, w1) \<Rightarrow>
                         ((0, [], lines_text
                            (map (\<lambda>m. if mi_digest m \<noteq> [] then mi_id m @ [CHR 0x09] @ mi_digest m else mi_id m) ms)), w1)))))"

definition serve_flags :: flags where
  "serve_flags = new_flags [(''calibration'', FlagString ''deploy/llama-server/calibration.json'')]"

text \<open>\<open>start\<close> runs the server to its end and tells whether that went well.\<close>

definition cmd_serve ::
  "cli \<Rightarrow> (string \<Rightarrow> bool) \<Rightarrow> (string list \<Rightarrow> 'w \<Rightarrow> bool \<times> 'w) \<Rightarrow> string list \<Rightarrow> fs \<Rightarrow> 'w \<Rightarrow> (int \<times> main_note list) \<times> 'w" where
  "cmd_serve e xbits start args f w =
     (case flag_parse serve_flags args of
        Inl x \<Rightarrow> ((2, [MainFlags x]), w)
      | Inr (fl, rest) \<Rightarrow>
          (case build_serve_command e xbits (string_of fl ''calibration'') f of
             Inl x \<Rightarrow> ((1, [MainServe x]), w)
           | Inr argv \<Rightarrow>
               (case start argv w of
                  (ok, w1) \<Rightarrow>
                    if ok then ((0, [MainLaunching (hd argv)]), w1)
                    else ((1, [MainLaunching (hd argv), MainNotRun ''serve'']), w1))))"

end
