(* ===== verification/CliEnv.thy ===== *)
theory CliEnv
  imports CliMain GoFmt
begin

text \<open>
  The commands that look at the host: \<open>aegis verify-env\<close>, \<open>map\<close>, \<open>profile\<close> and \<open>provision\<close>.  \<open>ffix n\<close> is
  the text of a float with \<open>n\<close> digits after the point.
\<close>

section \<open>The environment check\<close>

definition verify_flags :: flags where
  "verify_flags = new_flags
     [(''config'', FlagString []), (''check-opencode'', FlagBool False), (''check-origin'', FlagBool False)]"

datatype env_line =
    EnvUnknown
  | EnvEgress bool string string
  | EnvOrigin origin_verdict
  | EnvNoOpenCode
  | EnvNoRipgrep
  | EnvLaunchFailed solve_error
  | EnvLaunched

text \<open>The launch under the hardened environment, skipped when the bundle is not complete.\<close>

definition check_opencode ::
  "(real \<Rightarrow> string) \<Rightarrow> cli \<Rightarrow> 'w proc_ops \<Rightarrow> 'w oc_server \<Rightarrow> config \<Rightarrow> fs \<Rightarrow> 'w
     \<Rightarrow> ((int \<times> env_line list) \<times> fs \<times> 'w) option" where
  "check_opencode ffmt e os srv c f w =
     (case resolve_binary (en_host e) [] of
        Inl x \<Rightarrow> Some ((0, [EnvNoOpenCode]), f, w)
      | Inr bin \<Rightarrow>
          if resolve_ripgrep (en_host e) = None \<and> ho_look (en_host e) ''rg'' = None then
            Some ((0, [EnvNoRipgrep]), f, w)
          else
            (case verify_launch ffmt os srv (en_host e) c f w of
               None \<Rightarrow> None
             | Some (Some x, f1, w1) \<Rightarrow> Some ((1, [EnvLaunchFailed x]), f1, w1)
             | Some (None, f1, w1) \<Rightarrow> Some ((0, [EnvLaunched]), f1, w1)))"

definition cmd_verify_env ::
  "(real \<Rightarrow> string) \<Rightarrow> cli \<Rightarrow> 'w proc_ops \<Rightarrow> 'w oc_server \<Rightarrow> string list \<Rightarrow> fs \<Rightarrow> 'w
     \<Rightarrow> ((int \<times> main_note list \<times> env_line list) \<times> fs \<times> 'w) option" where
  "cmd_verify_env ffmt e os srv args f w =
     (case flag_parse verify_flags args of
        Inl x \<Rightarrow> Some ((2, [MainFlags x], []), f, w)
      | Inr (fl, rest) \<Rightarrow>
          (case load_config (string_of fl ''config'') f of
             Inl x \<Rightarrow> Some ((1, [MainConfig x], [EnvUnknown]), f, w)
           | Inr c \<Rightarrow>
               (let egress = EnvEgress (\<not> cf_allow_egress c) (cf_endpoint c) (cf_harness c);
                    (verdict, rc) = verify_model_origin e f;
                    origin = (if bool_of fl ''check-origin'' then [EnvOrigin verdict] else [])
                in if cf_allow_egress c then Some ((1, [], [egress]), f, w)
                   else if bool_of fl ''check-origin'' \<and> rc \<noteq> 0 then Some ((rc, [], egress # origin), f, w)
                   else if bool_of fl ''check-opencode'' then
                     (case check_opencode ffmt e os srv c f w of
                        None \<Rightarrow> None
                      | Some ((rc1, ls), f1, w1) \<Rightarrow> Some ((rc1, [], egress # origin @ ls), f1, w1))
                   else Some ((0, [], egress # origin), f, w))))"

section \<open>The repo map\<close>

definition map_flags :: flags where
  "map_flags = new_flags [(''budget'', FlagInt 4000), (''root'', FlagString ''.'')]"

text \<open>\<open>tr\<close> is the directory tree at a root.\<close>

definition cmd_map ::
  "(string \<Rightarrow> go_file option) \<Rightarrow> (string \<Rightarrow> tree option) \<Rightarrow> string list \<Rightarrow> int \<times> main_note list \<times> string" where
  "cmd_map parse tr args =
     (case flag_parse map_flags args of
        Inl x \<Rightarrow> (2, [MainFlags x], [])
      | Inr (fl, rest) \<Rightarrow>
          (let rt = string_of fl ''root''
           in case build parse rt (tr rt) rest (int_of_flag fl ''budget'') of
                None \<Rightarrow> (1, [MainMap], [])
              | Some out \<Rightarrow>
                  if trim_space out = [] then (0, [], ''(no Go symbols found)'' @ [CHR 0x0A]) else (0, [], out)))"

section \<open>The profiler\<close>

definition yesno :: "bool \<Rightarrow> string" where "yesno b = (if b then ''yes'' else ''no'')"

definition dash_if_empty :: "string \<Rightarrow> string" where "dash_if_empty s = (if s = [] then em_dash3 else s)"

definition gib_text :: "64 word \<Rightarrow> string" where "gib_text x = show_nat (unat x div 2 ^ 30)"

definition at_least :: string where "at_least = [CHR 0xE2, CHR 0x89, CHR 0xA5]"
definition right_arrow :: string where "right_arrow = [CHR 0xE2, CHR 0x86, CHR 0x92]"

definition fit_row :: "(nat \<Rightarrow> real \<Rightarrow> string) \<Rightarrow> model_fit \<Rightarrow> string" where
  "fit_row ffix m =
     left_aligned 26 (ft_id m) @ '' '' @ right_aligned 4 (gib_text (ft_required m)) @ ''GB '' @
     right_aligned 6 (yesno (ft_capacity m)) @ '' '' @
     right_aligned 8 (ffix 1 (ft_tps m) @ (if ft_measured m then ''*'' else [])) @ ''  '' @
     left_aligned 11 (yesno (ft_interactive m)) @ '' '' @ left_aligned 10 (yesno (ft_unattended m))"

definition print_profile :: "(nat \<Rightarrow> real \<Rightarrow> string) \<Rightarrow> recommendation \<Rightarrow> string" where
  "print_profile ffix r =
     (let p = rc_profile r
      in lines_text
        ([''aegis profile '' @ em_dash3 @ '' '' @ hp_target p @ '' | RAM '' @ gib_text (hp_avail p) @ ''/'' @ gib_text (hp_total p) @
            '' GiB avail | '' @ show_int (hp_cpu p) @ '' cores | '' @
            ffix 1 (real (unat (hp_bandwidth p)) / 10 ^ 9) @ '' GB/s mem bandwidth | accel '' @
            dash_if_empty (accel_name (hp_accel p)),
          ''context '' @ show_int (rc_ctx r) @ '' tokens   floors: interactive '' @ at_least @
            ffix 0 (fl_interactive (rc_floors r)) @ '' tok/s, unattended '' @ at_least @
            ffix 0 (fl_unattended (rc_floors r)) @ '' tok/s'', [],
          left_aligned 26 ''model (origin-allowed)'' @ '' '' @ right_aligned 6 ''need'' @ '' '' @ right_aligned 6 ''fits'' @ '' '' @
            right_aligned 8 ''~tok/s'' @ ''  '' @ left_aligned 11 ''interactive'' @ '' '' @ left_aligned 10 ''unattended''] @
         map (fit_row ffix) (rc_fits r) @
         [[], ''recommendation: interactive '' @ right_arrow @ '' '' @ dash_if_empty (rc_interactive r) @ ''   unattended '' @
            right_arrow @ '' '' @ dash_if_empty (rc_unattended r)] @
         (if list_ex ft_measured (rc_fits r) then
            [''* measured (authoritative); other tok/s are roofline estimates (run --bench on each to confirm)'']
          else []) @
         [''(advisory '' @ em_dash3 @
            '' provision with scripts/fetch-model.sh <id> or scripts/pin-model.sh <gguf>; estimates, refined by bench.sh)'']))"

text \<open>The model that is served is measured, and the recommendation picked again with what was measured.\<close>

definition bench_running_model ::
  "(nat \<Rightarrow> real \<Rightarrow> string) \<Rightarrow> cli \<Rightarrow> 'w server \<Rightarrow> recommendation \<Rightarrow> fs \<Rightarrow> 'w
     \<Rightarrow> (main_note list \<times> string \<times> recommendation) \<times> 'w" where
  "bench_running_model ffix e srv r f w =
     (let cfg = (case load_config [] f of Inl x \<Rightarrow> default_config | Inr c \<Rightarrow> c)
      in case endpoint_ready srv (cf_endpoint cfg) w of
           (False, w1) \<Rightarrow> (([MainBenchIdle], [], r), w1)
         | (True, w1) \<Rightarrow>
             (let cp = resolve_calibration_path e f;
                  i = (if cp = [] then []
                       else case load_calibration cp f of Inl x \<Rightarrow> [] | Inr cal \<Rightarrow> catalog_id_for_gguf e (cal_model cal) f);
                  m = (if i = [] then cf_model_id cfg else i);
                  start = ''benchmarking the running model ('' @ dash_if_empty m @ '') '' @ em_dash3 @ '' generating '' @
                    [CHR 0xE2, CHR 0x80, CHR 0xA6, CHR 0x0A]
              in case measure_tok_per_sec srv (cf_endpoint cfg) m 96 w1 of
                   (Inl x, w2) \<Rightarrow> (([MainBenchFailed], start, r), w2)
                 | (Inr tps, w2) \<Rightarrow>
                     if tps \<le> 0 then (([MainBenchFailed], start, r), w2)
                     else (([], start @ ''measured '' @ dash_if_empty m @ '': '' @ ffix 1 tps @ '' tok/s (authoritative)'' @
                              [CHR 0x0A, CHR 0x0A],
                            if i = [] then r else apply_measurement i tps r), w2)))"

definition profile_flags :: flags where
  "profile_flags = new_flags [(''ctx'', FlagInt 16384), (''json'', FlagBool False), (''bench'', FlagBool False)]"

definition cmd_profile ::
  "(real \<Rightarrow> string) \<Rightarrow> (nat \<Rightarrow> real \<Rightarrow> string) \<Rightarrow> cli \<Rightarrow> 'w server \<Rightarrow> string list \<Rightarrow> fs \<Rightarrow> 'w
     \<Rightarrow> (int \<times> main_note list \<times> string) \<times> fs \<times> 'w" where
  "cmd_profile ffmt ffix e srv args f w =
     (case flag_parse profile_flags args of
        Inl x \<Rightarrow> ((2, [MainFlags x], []), f, w)
      | Inr (fl, rest) \<Rightarrow>
          (case compute_recommendation e (int_of_flag fl ''ctx'') f of
             Inl x \<Rightarrow> ((1, [MainProfile x], []), f, w)
           | Inr r0 \<Rightarrow>
               (case (if bool_of fl ''bench'' then bench_running_model ffix e srv r0 f w else (([], [], r0), w)) of
                  ((ns, printed, r), w1) \<Rightarrow>
                    ((0, ns,
                      printed @ (if bool_of fl ''json'' then json_indent 0 (recommendation_json ffmt r) @ [CHR 0x0A]
                                 else print_profile ffix r)),
                     snd (write_profile_cache ffmt e r f), w1))))"

section \<open>Provisioning\<close>

definition provision_flags :: flags where
  "provision_flags = new_flags [(''id'', FlagString []), (''browse'', FlagString []), (''find'', FlagBool False)]"

datatype provision_out = ProvFlags flag_err | ProvFound string | ProvNotes "provision_note list"

definition cmd_provision ::
  "cli \<Rightarrow> (string \<Rightarrow> bool) \<Rightarrow> 'w machine \<Rightarrow> 'w server \<Rightarrow> 'w fetcher \<Rightarrow> (string \<Rightarrow> node option) \<Rightarrow> 'w ollama \<Rightarrow>
     string list \<Rightarrow> fs \<Rightarrow> 'w \<Rightarrow> ((int \<times> provision_out) \<times> fs \<times> 'w) option" where
  "cmd_provision e xbits mc srv get tr oll args f w =
     (case flag_parse provision_flags args of
        Inl x \<Rightarrow> Some ((2, ProvFlags x), f, w)
      | Inr (fl, rest) \<Rightarrow>
          if bool_of fl ''find'' then
            (let filt = (case rest of [] \<Rightarrow> [] | a # as \<Rightarrow> a)
             in case find_models e tr oll filt w of
                  (ms, w1) \<Rightarrow> Some ((0, ProvFound (provision_find filt ms)), f, w1))
          else
            (let cfg = (case load_config [] f of Inl x \<Rightarrow> default_config | Inr c \<Rightarrow> c)
             in case provision_model e xbits mc srv get (cf_endpoint cfg) (string_of fl ''id'') (string_of fl ''browse'') f w of
                  None \<Rightarrow> None
                | Some ((rc, notes), f1, w1) \<Rightarrow> Some ((rc, ProvNotes notes), f1, w1)))"

end
