(* ===== verification/CliMainProps.thy ===== *)
theory CliMainProps
  imports CliEnv
begin

text \<open>
  What the reporting commands promise: the environment check passes only a closed configuration, the
  counts of \<open>status\<close> against the database the loop works on, and the profiler that only writes its cache.
\<close>

section \<open>The environment check\<close>

lemma verify_env_lines:
  assumes "cmd_verify_env ffmt e os srv args f w = Some ((0, ns, ls), f', w')"
  obtains fl rest c where "flag_parse verify_flags args = Inr (fl, rest)" "load_config (string_of fl ''config'') f = Inr c"
    "\<not> cf_allow_egress c" "bool_of fl ''check-origin'' \<Longrightarrow> snd (verify_model_origin e f) = 0"
    "\<not> bool_of fl ''check-opencode'' \<Longrightarrow> f' = f \<and> w' = w"
proof -
  obtain fl rest where fl: "flag_parse verify_flags args = Inr (fl, rest)"
    using assms by (cases "flag_parse verify_flags args") (auto simp: cmd_verify_env_def)
  obtain c where c: "load_config (string_of fl ''config'') f = Inr c"
    using assms fl by (cases "load_config (string_of fl ''config'') f") (auto simp: cmd_verify_env_def)
  obtain v rc where v: "verify_model_origin e f = (v, rc)" by force
  have 1: "\<not> cf_allow_egress c" using assms fl c v by (auto simp: cmd_verify_env_def Let_def)
  have 2: "rc = 0" if "bool_of fl ''check-origin''"
    using assms fl c v 1 that by (auto simp: cmd_verify_env_def Let_def split: if_splits)
  have 3: "f' = f \<and> w' = w" if "\<not> bool_of fl ''check-opencode''"
    using assms fl c v 1 2 that by (auto simp: cmd_verify_env_def Let_def split: if_splits)
  from that [OF fl c 1 _ 3] 2 v show thesis by simp
qed

lemma load_config_valid: "load_config p f = Inr c \<Longrightarrow> validate c = None"
  by (auto simp: load_config_def validated_def Let_def split: if_splits option.splits)


lemma default_env:
  "cmd_verify_env (\<lambda>x. []) seed_env tick_os tick_srv [''--check-origin''] model_fs (0, 0, []) =
     Some ((0, [], [EnvEgress True ''http://127.0.0.1:8080'' harness_opencode, EnvOrigin (OriginSkip ''no MODEL_REF pinned'')]),
       model_fs, (0, 0, []))"
proof -
  have f: "case flag_parse verify_flags [''--check-origin''] of
      Inl x \<Rightarrow> False
    | Inr (fl, rest) \<Rightarrow> string_of fl ''config'' = [] \<and> bool_of fl ''check-origin'' \<and> \<not> bool_of fl ''check-opencode''"
    by code_simp
  then obtain fl rest where fl: "flag_parse verify_flags [''--check-origin''] = Inr (fl, rest)"
    "string_of fl ''config'' = []" "bool_of fl ''check-origin''" "\<not> bool_of fl ''check-opencode''"
    by (auto split: sum.splits)
  have o1: "verify_model_origin seed_env model_fs = (OriginSkip ''no MODEL_REF pinned'', 0)"
  proof -
    have "deploy_file_bytes seed_env (path_join [''deploy'', ''models'', ''MODEL_REF'']) model_fs = None" by code_simp
    then show ?thesis by (simp add: verify_model_origin_def)
  qed
  have c: "load_config [] model_fs = Inr default_config" using default_config_valid by (simp add: load_config_def validated_def)
  show ?thesis unfolding cmd_verify_env_def fl(1,2) sum.case prod.case c o1 Let_def
    using fl(3,4) by (simp add: default_config_def)
qed


section \<open>The counts of status\<close>

lemma status_col_build: "build_col i hs col ''status'' = status_col i hs (col ''status'')"
proof (induction hs arbitrary: i col)
  case (Cons h hs)
  show ?case by (simp add: Cons.IH)
qed simp

lemma filter_le: "(\<And>x. P x \<Longrightarrow> Q x) \<Longrightarrow> length (filter P xs) \<le> length (filter Q xs)"
  by (induction xs) (auto intro: le_SucI)

text \<open>A database in which every cell that reads as complete is written as the program writes it.\<close>

definition canonical_cells :: "csv_file \<Rightarrow> bool" where
  "canonical_cells db =
     (case db of
        CsvRecords (h # rows) \<Rightarrow>
          list_all (\<lambda>row. case status_col 0 h None of
              None \<Rightarrow> True
            | Some i \<Rightarrow> i < length row \<and> status_from_csv (row ! i) = StatusClosed \<longrightarrow> row ! i = ''COMPLETE'') rows
      | _ \<Rightarrow> True)"

text \<open>C40: The counts \<open>aegis status\<close> prints against the database the loop drains: the total is the number of
  requirements, the complete ones are never more than the closed requirements, and equal to them when
  every status cell is written the way the program writes it.\<close>

theorem counts_match_store:
  assumes "store_requirements s = Inr rs"
  shows "\<exists>k. rtmx_counts (st_db s) = Some (length rs, k) \<and>
    k \<le> length (filter (\<lambda>r. rq_status r = StatusClosed) rs) \<and>
    (canonical_cells (st_db s) \<longrightarrow> k = length (filter (\<lambda>r. rq_status r = StatusClosed) rs))"
proof -
  obtain h rows where db: "st_db s = CsvRecords (h # rows)"
    using assms by (auto simp: store_requirements_def store_read_def split: csv_file.splits list.splits)
  let ?col = "build_col 0 h Map.empty"
  let ?db = "\<lparr>db_header = h, db_rows = rows, db_col = ?col\<rparr>"
  have rs: "rs = map (to_requirement ?db) rows"
    using assms by (auto simp: store_requirements_def store_read_def db Let_def split: option.splits)
  have "?col ''status'' = status_col 0 h None" by (simp add: status_col_build)
  then have st: "rq_status (to_requirement ?db row) = StatusClosed \<longleftrightarrow>
      (case status_col 0 h None of None \<Rightarrow> False | Some i \<Rightarrow> i < length row \<and> status_from_csv (row ! i) = StatusClosed)" for row
    by (simp add: to_requirement_def db_get_def Let_def status_from_csv_def trim_space_Nil to_upper_def split: option.split)
  have c: "status_from_csv ''COMPLETE'' = StatusClosed" by code_simp
  have sub: "rq_status (to_requirement ?db row) = StatusClosed" if "row_complete (status_col 0 h None) row" for row
    using that unfolding st by (auto simp: row_complete_def c split: option.splits)
  have n: "length (filter (\<lambda>r. rq_status r = StatusClosed) rs) =
      length (filter (\<lambda>row. rq_status (to_requirement ?db row) = StatusClosed) rows)"
    by (simp add: rs filter_map comp_def)
  have "length (filter (row_complete (status_col 0 h None)) rows) \<le>
      length (filter (\<lambda>row. rq_status (to_requirement ?db row) = StatusClosed) rows)"
    by (rule filter_le) (rule sub)
  moreover have "row_complete (status_col 0 h None) row = (rq_status (to_requirement ?db row) = StatusClosed)"
    if "canonical_cells (st_db s)" "row \<in> set rows" for row
    using that unfolding st by (auto simp: canonical_cells_def db row_complete_def c list_all_iff split: option.splits)
  then have "filter (row_complete (status_col 0 h None)) rows =
      filter (\<lambda>row. rq_status (to_requirement ?db row) = StatusClosed) rows" if "canonical_cells (st_db s)"
    using that by (intro filter_cong) simp_all
  ultimately show ?thesis unfolding n by (simp add: rtmx_counts_def db rs)
qed

text \<open>A cell the store reads as closed and \<open>status\<close> does not count.\<close>

definition lower_store :: store where
  "lower_store = \<lparr>st_db_path = ''db.csv'', st_claims_dir = ''claims'',
     st_db = CsvRecords [needed_columns, [''R-1'', ''t'', ''complete'', []], [''R-2'', ''t'', ''COMPLETE'', []]],
     st_dirs = {}, st_claims = Map.empty, st_can_mkdir = True, st_can_create = True, st_can_remove = True, st_can_replace = True\<rparr>"

theorem counts_match_store_witness:
  "case store_requirements lower_store of
     Inl x \<Rightarrow> False
   | Inr rs \<Rightarrow> (\<exists>k. rtmx_counts (st_db lower_store) = Some (length rs, k) \<and>
       k < length (filter (\<lambda>r. rq_status r = StatusClosed) rs))"
proof -
  have r: "case store_requirements lower_store of
      Inl x \<Rightarrow> False | Inr rs \<Rightarrow> length (filter (\<lambda>r. rq_status r = StatusClosed) rs) = 2"
    by code_simp
  then obtain rs where rs: "store_requirements lower_store = Inr rs"
    "length (filter (\<lambda>r. rq_status r = StatusClosed) rs) = 2" by (auto split: sum.splits)
  have k: "map_option snd (rtmx_counts (st_db lower_store)) = Some 1" by code_simp
  from counts_match_store [OF rs(1)] obtain k where "rtmx_counts (st_db lower_store) = Some (length rs, k)" by blast
  with k rs show ?thesis by simp
qed

section \<open>The profiler\<close>

lemma profile_only_cache:
  "q \<noteq> profile_cache_path e \<Longrightarrow>
     fs_files (fst (snd (cmd_profile ffmt ffix e srv args f w))) q = fs_files f q"
proof -
  assume q: "q \<noteq> profile_cache_path e"
  have "fs_files (snd (write_profile_cache ffmt e r f)) q = fs_files f q" for r
  proof -
    obtain b f1 where m: "fs_mkdir_all (path_dir (profile_cache_path e)) f = (b, f1)" by force
    have "fs_files f1 = fs_files f" using fs_mkdir_all_props [OF m] by simp
    then show ?thesis using q m by (cases b) (auto simp: write_profile_cache_def Let_def fs_write_def)
  qed
  then show ?thesis by (auto simp: cmd_profile_def Let_def split: sum.split prod.split)
qed

end
