(* ===== verification/Gates.thy ===== *)
theory Gates
  imports GoJson
begin

text \<open>
  The end-to-end gates, \<open>test/e2e\<close>: the sandboxed command (\<open>sandbox.go\<close>), the egress canary
  (\<open>egress.go\<close>) and the offline scanners (\<open>security.go\<close>).  What runs a command, and whether a tool is
  on the path, are arguments.
\<close>

section \<open>The sandbox\<close>

record sandbox_opts =
  sb_workdir :: string
  sb_no_network :: bool

definition sandbox_base :: "string list" where
  "sandbox_base =
     [''bwrap'', ''--unshare-pid'', ''--unshare-ipc'', ''--unshare-uts'', ''--die-with-parent'', ''--new-session'',
      ''--proc'', ''/proc'', ''--dev'', ''/dev'', ''--tmpfs'', ''/tmp'', ''--ro-bind'', ''/usr'', ''/usr'',
      ''--ro-bind-try'', ''/bin'', ''/bin'', ''--ro-bind-try'', ''/lib'', ''/lib'',
      ''--ro-bind-try'', ''/lib64'', ''/lib64'', ''--ro-bind-try'', ''/etc/ssl'', ''/etc/ssl'']"

definition sandbox_command :: "sandbox_opts \<Rightarrow> string list \<Rightarrow> string list" where
  "sandbox_command opts cmd =
     (let args = sandbox_base;
          args = (if sb_no_network opts then args @ [''--unshare-net''] else args);
          args = (if sb_workdir opts \<noteq> [] then
                    args @ [''--bind'', sb_workdir opts, sb_workdir opts, ''--chdir'', sb_workdir opts]
                  else args)
      in args @ ''--'' # cmd)"

definition sandbox_available :: "(string \<Rightarrow> bool) \<Rightarrow> bool" where
  "sandbox_available look = look ''bwrap''"

section \<open>Egress\<close>

definition egress_denied_command :: "string list \<Rightarrow> string list" where
  "egress_denied_command cmd = sandbox_command \<lparr>sb_workdir = [], sb_no_network = True\<rparr> cmd"

definition egress_canary :: "string list" where
  "egress_canary =
     [''sh'', ''-c'', ''getent hosts example.com >/dev/null 2>&1 && echo REACHED || echo BLOCKED'']"

text \<open>\<open>run1\<close> gives the combined output, or the error of the run.\<close>

definition run_egress_canary :: "(string list \<Rightarrow> 'w \<Rightarrow> ('x + string) \<times> 'w) \<Rightarrow> 'w \<Rightarrow> ('x + bool) \<times> 'w" where
  "run_egress_canary run1 w =
     (case run1 (egress_denied_command egress_canary) w of
        (Inl x, w1) \<Rightarrow> (Inl x, w1)
      | (Inr out, w1) \<Rightarrow> (Inr (contains_str ''BLOCKED'' out), w1))"

section \<open>The scanners\<close>

record scanner =
  sn_name :: string
  sn_bin :: string
  sn_args :: "string list"
  sn_role :: string

definition security_scanners :: "scanner list" where
  "security_scanners =
     [\<lparr>sn_name = ''gitleaks'', sn_bin = ''gitleaks'',
       sn_args = [''detect'', ''--no-git'', ''--no-banner'', ''--report-format'', ''json'', ''--report-path'', ''/dev/stdout''],
       sn_role = ''secrets''\<rparr>,
      \<lparr>sn_name = ''govulncheck'', sn_bin = ''govulncheck'', sn_args = [''-json'', ''./...''], sn_role = ''vuln''\<rparr>,
      \<lparr>sn_name = ''syft'', sn_bin = ''syft'', sn_args = [''dir:.'', ''-o'', ''json'', ''-q''], sn_role = ''sbom''\<rparr>,
      \<lparr>sn_name = ''gosec'', sn_bin = ''gosec'', sn_args = [''-quiet'', ''-fmt=json'', ''./...''], sn_role = ''sast''\<rparr>]"

record scanner_result =
  sr_name :: string
  sr_ran :: bool
  sr_findings :: int

text \<open>A \<open>map[string]any\<close> takes every object and \<open>null\<close>; only how many there are is read.\<close>

definition dec_any_map :: "unit \<Rightarrow> json \<Rightarrow> unit option" where
  "dec_any_map old j = (case j of JNull \<Rightarrow> Some () | JObj es \<Rightarrow> Some () | _ \<Rightarrow> None)"

definition parse_gitleaks :: "string \<Rightarrow> nat" where
  "parse_gitleaks out =
     (case unmarshal (dec_list () dec_any_map) [] (trim_space out) of None \<Rightarrow> 0 | Some xs \<Rightarrow> length xs)"

definition parse_gosec :: "string \<Rightarrow> nat" where
  "parse_gosec out =
     (case unmarshal (dec_struct [(''Issues'', dec_list () dec_any_map)]) [] out of None \<Rightarrow> 0 | Some xs \<Rightarrow> length xs)"

fun security_gate_passes :: "scanner_result list \<Rightarrow> bool" where
  "security_gate_passes [] = True"
| "security_gate_passes (r # rs) = (if sr_ran r \<and> sr_findings r > 0 then False else security_gate_passes rs)"

definition scanner_available :: "(string \<Rightarrow> bool) \<Rightarrow> scanner \<Rightarrow> bool" where
  "scanner_available look s = look (sn_bin s)"

section \<open>Facts\<close>

text \<open>
  The options stand before the first \<open>--\<close> unless the work directory is named so, and the command
  after it is the one that was asked for.
\<close>

lemma sandbox_splits:
  assumes "sb_workdir opts \<noteq> ''--''"
  shows "takeWhile (\<lambda>a. a \<noteq> ''--'') (sandbox_command opts cmd) =
           sandbox_base @ (if sb_no_network opts then [''--unshare-net''] else []) @
           (if sb_workdir opts \<noteq> [] then [''--bind'', sb_workdir opts, sb_workdir opts, ''--chdir'', sb_workdir opts] else [])"
    and "dropWhile (\<lambda>a. a \<noteq> ''--'') (sandbox_command opts cmd) = ''--'' # cmd"
  using assms by (simp_all add: sandbox_command_def sandbox_base_def Let_def)

lemma egress_denied_isolated:
  "''--unshare-net'' \<in> set (takeWhile (\<lambda>a. a \<noteq> ''--'') (egress_denied_command cmd))"
  "''--bind'' \<notin> set (takeWhile (\<lambda>a. a \<noteq> ''--'') (egress_denied_command cmd))"
  "dropWhile (\<lambda>a. a \<noteq> ''--'') (egress_denied_command cmd) = ''--'' # cmd"
  by (simp_all add: egress_denied_command_def sandbox_splits) (simp add: sandbox_base_def)

lemma security_gate_iff:
  "security_gate_passes rs \<longleftrightarrow> (\<forall>r \<in> set rs. sr_ran r \<longrightarrow> sr_findings r \<le> 0)"
  by (induction rs) auto

lemma dec_any_maps:
  "dec_elems () dec_any_map old js = (if \<forall>j \<in> set js. \<exists>es. j \<in> {JNull, JObj es} then Some (replicate (length js) ()) else None)"
  by (induction js arbitrary: old) (auto simp: dec_any_map_def split: json.splits)

text \<open>Output that is not a list of objects counts as no finding, so it passes the gate.\<close>

lemma parse_gitleaks_counts:
  "json_parse (trim_space out) = Some (JArr js) \<Longrightarrow> (\<And>j. j \<in> set js \<Longrightarrow> \<exists>es. j = JObj es) \<Longrightarrow>
     parse_gitleaks out = length js"
  by (auto simp: parse_gitleaks_def unmarshal_def dec_list_def dec_any_maps)

lemma parse_gitleaks_garbage: "json_parse (trim_space out) = None \<Longrightarrow> parse_gitleaks out = 0"
  by (simp add: parse_gitleaks_def unmarshal_def)

lemma garbage_passes:
  "json_parse (trim_space out) = None \<Longrightarrow>
     security_gate_passes [\<lparr>sr_name = n, sr_ran = True, sr_findings = int (parse_gitleaks out)\<rparr>]"
  by (simp add: parse_gitleaks_garbage)

lemma gate_examples:
  "parse_gitleaks (''[{'' @ [CHR 0x22, CHR ''a'', CHR 0x22] @ '':1}, {}]'') = 2"
  "parse_gosec (''{'' @ [CHR 0x22] @ ''issues'' @ [CHR 0x22] @ '': [{}]}'') = 1"
  by code_simp+

end
