(* ===== verification/CliText.thy ===== *)
theory CliText
  imports CliBakeCmd CliInit GoFmt
begin

text \<open>
  What the command line prints for a reader: the table of a bake-off (\<open>Table\<close> of
  \<open>internal/bakeoff/bakeoff.go\<close>) with its palette, the list of the models to select from, the banner of
  the launch and the guidance when no model is provisioned.  \<open>ffix n\<close> is the text of a float with \<open>n\<close>
  digits after the point.
\<close>

section \<open>The palette\<close>

abbreviation esc :: char where "esc \<equiv> CHR 0x1B"

definition paint :: "bool \<Rightarrow> string \<Rightarrow> string \<Rightarrow> string" where
  "paint on code s = (if \<not> on \<or> s = [] then s else esc # ''['' @ code @ ''m'' @ s @ esc # ''[0m'')"

definition bold :: "bool \<Rightarrow> string \<Rightarrow> string" where "bold on = paint on ''1''"
definition dim :: "bool \<Rightarrow> string \<Rightarrow> string" where "dim on = paint on ''2''"
definition green :: "bool \<Rightarrow> string \<Rightarrow> string" where "green on = paint on ''32''"
definition yellow :: "bool \<Rightarrow> string \<Rightarrow> string" where "yellow on = paint on ''33''"
definition red :: "bool \<Rightarrow> string \<Rightarrow> string" where "red on = paint on ''31''"
definition cyan :: "bool \<Rightarrow> string \<Rightarrow> string" where "cyan on = paint on ''1;36''"

section \<open>The table of a bake-off\<close>

definition ellipsis :: string where "ellipsis = [CHR 0xE2, CHR 0x80, CHR 0xA6]"
definition star_sign :: string where "star_sign = [CHR 0xE2, CHR 0x98, CHR 0x85, CHR '' '']"
definition rule_line :: string where "rule_line = concat (replicate 74 [CHR 0xE2, CHR 0x94, CHR 0x80])"
definition middle_dot :: string where "middle_dot = [CHR 0xC2, CHR 0xB7]"
definition check_sign :: string where "check_sign = [CHR 0xE2, CHR 0x9C, CHR 0x93]"
definition cross_sign :: string where "cross_sign = [CHR 0xE2, CHR 0x9C, CHR 0x97]"

definition trunc_to :: "nat \<Rightarrow> string \<Rightarrow> string" where
  "trunc_to n s = (if length s \<le> n then s else take (n - 1) s @ ellipsis)"

definition table_header :: string where
  "table_header =
     ''  '' @ left_aligned 22 ''model'' @ '' '' @ right_aligned 6 ''edited'' @ '' '' @ right_aligned 5 ''ACR'' @ '' '' @
     right_aligned 5 ''TCVR'' @ '' '' @ right_aligned 9 ''out-tok/s'' @ '' '' @ right_aligned 8 ''wall/req'' @ ''   '' @ ''served-as''"

definition edited_cell :: "bool \<Rightarrow> contestant \<Rightarrow> string" where
  "edited_cell on r =
     (let t = right_aligned 6 (show_nat (cd_edited r) @ ''/'' @ show_nat (cd_attempts r))
      in if cd_edited r = 0 then red on t else if cd_edited r < cd_attempts r then yellow on t else green on t)"

definition table_row :: "(nat \<Rightarrow> real \<Rightarrow> string) \<Rightarrow> bool \<Rightarrow> string \<Rightarrow> contestant \<Rightarrow> string" where
  "table_row ffix on winner r =
     (let name = left_aligned 22 (trunc_to 22 (cd_model r));
          served = (if cd_served r \<noteq> [] then trunc_to 26 (path_base (cd_served r)) else ''?'');
          rp = cd_report r
      in (if cd_model r = winner then green on star_sign else ''  '') @
         (if cd_model r = winner then green on name else name) @ '' '' @ edited_cell on r @ '' '' @
         right_aligned 4 (ffix 0 (rp_acr rp * 100)) @ ''% '' @ right_aligned 4 (ffix 0 (rp_tcvr rp * 100)) @ ''% '' @
         right_aligned 9 (ffix 1 (cd_tps r)) @ '' '' @ right_aligned 7 (ffix 0 (of_int (rp_wcr rp) / 10 ^ 9)) @ ''s   '' @
         dim on served @ [CHR 0x0A])"

definition comparison_table :: "(nat \<Rightarrow> real \<Rightarrow> string) \<Rightarrow> bool \<Rightarrow> comparison \<Rightarrow> string" where
  "comparison_table ffix on c =
     [CHR 0x0A] @ ''  '' @ cyan on ''BAKE-OFF'' @ ''  '' @ dim on (cm_suite c @ '' suite '' @ middle_dot @ '' '' @ cm_host c) @
     [CHR 0x0A, CHR 0x0A] @ bold on table_header @ [CHR 0x0A] @ ''  '' @ dim on rule_line @ [CHR 0x0A] @
     concat (map (table_row ffix on (cm_winner c)) (cm_candidates c)) @ [CHR 0x0A] @
     (if cm_winner c \<noteq> [] then
        ''  '' @ green on (check_sign @ '' winner:'') @ '' '' @ bold on (cm_winner c) @ [CHR 0x0A] @ ''  '' @
        dim on (basis_text (cm_basis c)) @ [CHR 0x0A, CHR 0x0A]
      else
        ''  '' @ red on (cross_sign @ '' no winner'') @ [CHR 0x0A] @ ''  '' @ dim on (basis_text (cm_basis c)) @ [CHR 0x0A, CHR 0x0A])"

section \<open>Other texts\<close>

definition choice_line :: "(nat \<Rightarrow> real \<Rightarrow> string) \<Rightarrow> nat \<Rightarrow> model_choice \<Rightarrow> string" where
  "choice_line ffix i c =
     ''  '' @ show_nat (Suc i) @ ''. '' @ left_aligned 22 (mo_id c) @ '' ~'' @ right_aligned 5 (ffix 1 (mo_tps c)) @ '' tok/s  '' @
     left_aligned 11 (if mo_interactive c then ''interactive'' else ''slow'') @ ''  ['' @
     (if mo_present c then ''present'' else ''download'') @ '']'' @ [CHR 0x0A]"

text \<open>What is printed before the answer \<open>line\<close> is read, and the ids it selects.\<close>

definition select_models_interactive ::
  "(nat \<Rightarrow> real \<Rightarrow> string) \<Rightarrow> model_choice list \<Rightarrow> string \<Rightarrow> string \<times> string list" where
  "select_models_interactive ffix choices line =
     (''Host-suitable models (from `aegis profile`):'' @ [CHR 0x0A] @
      concat (map (\<lambda>(i, c). choice_line ffix i c) (enumerate 0 choices)) @
      ''Select models to bake off (e.g. 1,3 or '' @ [CHR 0x27] @ ''all'' @ [CHR 0x27] @ ''): '',
      parse_model_selection line choices)"

definition launch_banner :: string where
  "launch_banner =
     [CHR 0x0A] @ ''  aegis '' @ em_dash3 @ '' air-gapped agentic coding'' @ [CHR 0x0A] @
     ''  Loading aegis'' @ ellipsis @ '' bringing up the local model (first launch loads the weights '' @ em_dash3 @
     '' one moment)'' @ [CHR 0x0A]"

definition bullet :: string where "bullet = [CHR 0xE2, CHR 0x80, CHR 0xA2]"

definition provision_guidance :: "cli \<Rightarrow> string" where
  "provision_guidance e =
     (let caps = en_caps e
      in join [CHR 0x0A]
        [''no local model is provisioned.'',
         ''  This host ('' @ show_nat (unat (total_ram_gb caps)) @ '' GiB RAM, '' @ show_int (hc_physical caps) @
           '' cores) best fits the '' @ tier_name (ip_tier (install_plan_for caps)) @ '' model envelope '' @ em_dash3 @ '' aegis serves the'',
         ''  largest model your system can hold responsively; not every model fits every system.'',
         ''  Provision a model in that envelope, then re-run aegis:'',
         ''    '' @ bullet @ '' download (connected host):  scripts/fetch-model.sh <catalog-id>'',
         ''    '' @ bullet @ '' or source a local GGUF:     scripts/pin-model.sh <path-to-model.gguf>'',
         ''    '' @ bullet @ '' then calibrate this host:    scripts/bench.sh'',
         ''  (US-origin gemma-4-26b-a4b is the default that fits the minimum envelope.)''])"

definition err_suffix :: "string \<Rightarrow> string" where
  "err_suffix x = (if x = [] then [] else '' ('' @ x @ '')'')"

section \<open>Facts\<close>

lemma palette_off [simp]:
  "bold False s = s" "dim False s = s" "green False s = s" "yellow False s = s" "red False s = s" "cyan False s = s"
  by (simp_all add: bold_def dim_def green_def yellow_def red_def cyan_def paint_def)

text \<open>A name is cut by bytes, so it never takes more than its column, and the column is always filled.\<close>

lemma trunc_width:
  assumes "0 < n"
  shows "text_width (trunc_to n s) \<le> n"
proof (cases "length s \<le> n")
  case True
  then show ?thesis using text_width_le [of s] by (simp add: trunc_to_def)
next
  case False
  have "fresh ellipsis" by (simp add: fresh_def ellipsis_def byte_in_def)
  moreover have "text_width ellipsis = 1" by code_simp
  ultimately have "text_width (take (n - 1) s @ ellipsis) = Suc (text_width (take (n - 1) s))"
    by (simp add: text_width_append)
  with False assms text_width_le [of "take (n - 1) s"] show ?thesis by (simp add: trunc_to_def)
qed

lemma name_column_width: "text_width (left_aligned 22 (trunc_to 22 m)) = 22"
  using trunc_width [of 22 m] by (simp add: left_aligned_width)

text \<open>Without colour the table is plain text: it holds an escape only where an argument does.\<close>

lemma esc_shows [simp]: "esc \<notin> set (show_nat n)"
  using show_nat_digits [of n] by (auto simp: is_digit_def list_all_iff)

lemma esc_columns [simp]:
  "esc \<in> set (left_aligned n s) \<longleftrightarrow> esc \<in> set s" "esc \<in> set (right_aligned n s) \<longleftrightarrow> esc \<in> set s"
  by (auto simp: left_aligned_def right_aligned_def)

lemma esc_trunc: "esc \<notin> set s \<Longrightarrow> esc \<notin> set (trunc_to n s)"
  by (auto simp: trunc_to_def ellipsis_def dest: in_set_takeD)

lemma esc_edited: "esc \<notin> set (edited_cell False r)"
  by (simp add: edited_cell_def Let_def)

lemma esc_row:
  assumes "\<And>n x. esc \<notin> set (ffix n x)" and "esc \<notin> set (cd_model r)" and "esc \<notin> set (path_base (cd_served r))"
  shows "esc \<notin> set (table_row ffix False winner r)"
  using assms esc_trunc [of "cd_model r" 22] esc_trunc [of "path_base (cd_served r)" 26] esc_edited [of r]
  by (auto simp: table_row_def Let_def star_sign_def)

lemma table_plain:
  assumes "\<And>n x. esc \<notin> set (ffix n x)" and "esc \<notin> set (cm_suite c)" and "esc \<notin> set (cm_host c)"
    and "esc \<notin> set (cm_winner c)" and "esc \<notin> set (basis_text (cm_basis c))"
    and "\<And>r. r \<in> set (cm_candidates c) \<Longrightarrow> esc \<notin> set (cd_model r) \<and> esc \<notin> set (path_base (cd_served r))"
  shows "esc \<notin> set (comparison_table ffix False c)"
proof -
  have "esc \<notin> set (concat (map (table_row ffix False (cm_winner c)) (cm_candidates c)))"
    using assms(1,6) esc_row by fastforce
  moreover have "esc \<notin> set table_header" and "esc \<notin> set rule_line"
    by (simp_all add: table_header_def rule_line_def)
  ultimately show ?thesis using assms(2-5)
    by (simp add: comparison_table_def middle_dot_def check_sign_def cross_sign_def)
qed

end
