(* ===== verification/Spec2Isabelle.thy ===== *)
theory Spec2Isabelle
  imports LoopProps HarnessServing McpClient Origin Backlog InstallConfig Profile RepoMapProps Bakeoff OcMemory OcServe MockModel OcLaunchProps OcSolve CliHostProps CliBakeRun CliLoopProps CliMainProps Gates CliText
begin

text \<open>
  A verification library for aegis, a command line tool that lets a local language model work through
  a backlog of requirements in an air-gapped workspace.

  \<^bold>\<open>The program.\<close>  The control loop (\<open>internal/loop\<close>) takes open requirements from the
  requirements database (\<open>internal/rtmx\<close>: a CSV file and one claim file per requirement, or an MCP
  server in front of it), lets a harness (\<open>internal/harness\<close>) drive the model that is served on the
  loopback interface (\<open>internal/serving\<close>), verifies the result, and closes or parks the requirement;
  it writes the audit log (\<open>internal/audit\<close>), the metrics (\<open>internal/metrics\<close>) and a working memory
  (\<open>internal/memory\<close>).  Around it are the configuration (\<open>internal/config\<close>), the origin policy
  (\<open>internal/origin\<close>), framing and proposals of requirements, the installation (\<open>internal/install\<close>),
  the model profiler (\<open>internal/profile\<close>), the repository index (\<open>internal/index\<close>), the bake-off
  scoring (\<open>internal/bakeoff\<close>), the launch of the OpenCode coding agent and its session server
  (\<open>internal/opencode\<close>), and the command line that puts them together (\<open>cmd/aegis\<close>).

  \<^bold>\<open>Prelude.\<close>
  \<^item> \<open>GoLib\<close>, \<open>GoPath\<close>, \<open>GoNet\<close>, \<open>GoJson\<close>, \<open>JsonText\<close>, \<open>JsonCompact\<close>, \<open>GoFmt\<close>, \<open>GoFlag\<close>, \<open>GoRegexp\<close>,
    \<open>Sha256\<close>: what the modelled packages use of Go's library (strings, filepath, net/url and net
    addresses, encoding/json in both directions, columns of fmt, flag and durations, regexp, sha256), as
    executable functions with the lemmas the components share.
  \<^item> \<open>FileSys\<close>: a flat file system with directories and refusals.  \<open>Polling\<close>: loops that wait for a
    clock, as partial functions, with the argument that they return.

  \<^bold>\<open>The loop and its packages\<close>, each theory named after what it models:
  \<^item> \<open>Rtmx\<close> (rtmx.go, store.go), \<open>ReqClient\<close> (client.go's CSV client and fake.go; the locale of the
    client contract with its interpretations), \<open>McpClient\<close> (the JSON-RPC client).
  \<^item> \<open>AuditLog\<close>, \<open>Metrics\<close>, \<open>Memory\<close>, \<open>Adapter\<close> (the locale of the harness contract), \<open>Stuck\<close>,
    \<open>Ledger\<close>, \<open>Policies\<close> (best of n, fallback, lead and worker, handoff, self check, research,
    checkpoint), \<open>Loop\<close> (loop.go, every helper), \<open>LoopSpec\<close> and \<open>LoopProps\<close> (what a run leaves behind).
  \<^item> \<open>Config\<close>, \<open>Serving\<close> (launch command, grammar, reasoning), \<open>ServClient\<close> (the HTTP client over a
    server that is an argument), \<open>MockModel\<close> (the scripted server of the tests as such an argument),
    \<open>HarnessServing\<close> (the built-in harness; its interpretation of the harness contract).
  \<^item> \<open>Origin\<close>, \<open>Backlog\<close> (framing.go and propose.go), \<open>Install\<close> (detect.go and plan.go),
    \<open>InstallConfig\<close> (config.go of install), \<open>Profile\<close> (profile.go and measure.go).
  \<^item> \<open>Index\<close> (language.go, ladder.go, doctrine.go, extract.go), \<open>Sources\<close> (the walk and incremental.go),
    \<open>RepoMap\<close> and \<open>RepoMapProps\<close> (repomap.go, contextassembly.go), \<open>Bakeoff\<close> (bakeoff.go).

  \<^bold>\<open>OpenCode\<close> (\<open>internal/opencode\<close>): \<open>OcMemory\<close> (guard, scratchpad, skills, tiers, plan phase), \<open>OcTexts\<close>
  (the seeded texts), \<open>OcServe\<close> (sessions of its server and a driven turn), \<open>OcLaunch\<close> and \<open>OcLaunchProps\<close>
  (binary, rendered configuration, hardened environment, staged seed), \<open>OcSolve\<close> (the headless run, with
  the server process it starts, polls and stops).

  \<^bold>\<open>The command line\<close> (\<open>cmd/aegis\<close>): \<open>CliHost\<close> and \<open>CliHostProps\<close> (host, catalog, calibration, context window),
  \<open>CliOllama\<close>, \<open>CliProvision\<close>, \<open>CliServe\<close> and \<open>CliServeProps\<close> (bringing a model up, the TUI), \<open>CliRun\<close> (run),
  \<open>CliLoop\<close> and \<open>CliLoopProps\<close> (loop, on the CSV or the MCP client), \<open>CliInit\<close> (init), \<open>CliBakeoff\<close>,
  \<open>CliBakeCmd\<close>, \<open>CliBakeProps\<close> and \<open>CliBakeRun\<close> (bakeoff), \<open>CliMain\<close> (dispatch, pass-through, frame, propose,
  status, models, serve), \<open>CliEnv\<close> (verify-env, map, profile, provision) with \<open>CliMainProps\<close>, and \<open>CliText\<close>
  (tables and other texts).  \<open>Gates\<close> is the sandbox, canary and scanner gate of \<open>test/e2e\<close>.

  \<^bold>\<open>What is proved.\<close>
  \<^item> A run of the loop over a well-formed database returns, accounts for every requirement, stops for a
    reason it reports, and its audit log and metrics agree with what it did; \<open>aegis loop\<close> inherits this,
    and refuses to start before it claims anything.  With the default configuration the harness is a stub,
    so every requirement is parked.
  \<^item> A failing drive restores every file and no drive leaves the workspace, whatever the model answers; no
    client call and no launch command leaves the loopback interface; the environment OpenCode starts in is
    the hardened one, whatever was inherited; \<open>verify-env\<close> succeeds only for a closed configuration.
  \<^item> Servers that are started are stopped, on every path of the headless run, the TUI and the bake-off, and
    each of them returns when the clock advances.
  \<^item> A written configuration, calibration and transcript is the one that is loaded; the command a bake-off
    cell builds is one that \<open>run\<close> accepts; JSON survives its round trips for every UTF-8 text, and so do
    grammar literals, edit blocks and durations.
  \<^item> A recommendation lists allowed models only and picks the largest that fits; a download is installed
    only with its checksum; an incremental index refines the full one, ranks are a probability
    distribution, and maps, bundles, memories and columns keep their budgets.

  \<^bold>\<open>Conventions.\<close>  Effects are explicit: an operation takes the state and returns it updated, an error
  is a value of a sum or an option.  Collaborators outside the repository (the model server, the MCP
  server, OpenCode, Ollama, git, the verification command, Go's parser, processes) are arguments:
  functions on a world of their own, with their documented laws as hypotheses of the theorems that need
  them and a concrete instance in each witness.  Clocks and failing writers are functions of a call
  number or of that world.  Lines printed to the operator are constructors of a note type, or the text
  itself where it is a report.  Integers are kept at their width where it matters (64-bit words in
  \<open>Install\<close> and \<open>Profile\<close>), floating point numbers are real numbers and their decimal text is an argument.
  Loops that are bounded by a list or a counter are structural; the drain of the backlog in \<open>Loop\<close>
  takes as many rounds of fuel as the database has requirements plus one, which \<open>LoopSpec\<close> proves to be
  enough because every round removes a requirement from the open ones; scanners of text take the length
  of the text as fuel, which every step shortens; waiting loops are \<open>partial_function\<close>s whose result
  exists by the theorems of \<open>Polling\<close>.

  \<^bold>\<open>Not modelled.\<close>  The system calls on process groups (proc_unix.go, proc_windows.go, proc_other.go);
  the spinner of splash.go; the goroutines of the memory bandwidth probe, which is an argument; timeouts,
  redirects and listeners of \<open>net/http\<close>; locks; and the progress lines of a bake-off.
\<close>

end
